(* ===== verification/PS2_Prelude.thy ===== *)
theory PS2_Prelude
  imports Main "HOL-Library.Word" "HOL-Library.Monad_Syntax"
begin

text \<open>
  The shared vocabulary of the development: the fixed-width integer types of the sources
  (\<^verbatim>\<open>UInt8\<close>, \<^verbatim>\<open>UInt16\<close>, \<^verbatim>\<open>UInt32\<close>, \<^verbatim>\<open>uint64_t\<close>), the reading of a C expression
  \<^verbatim>\<open>x & mask\<close> as a truth value, the theorem collections the components fill, and the lemmas on
  lists, words and the option monad that several components use.
\<close>

unbundle bit_operations_syntax

type_synonym u8 = "8 word"
type_synonym u16 = "16 word"
type_synonym u32 = "32 word"
type_synonym u64 = "64 word"

text \<open>Pointers that the code only stores, compares and passes on: objects and functions.\<close>

type_synonym objref = nat
type_synonym funref = nat

named_theorems ps2_const \<open>values of the constants of ApplePS2Device.h and VoodooPS2Controller.h\<close>
named_theorems ctl_frame \<open>fields of the system an operation leaves alone\<close>
named_theorems kbd_frame \<open>fields of the keyboard driver an operation leaves alone\<close>
named_theorems mouse_frame \<open>fields of the mouse driver an operation leaves alone\<close>

subsection \<open>C truth values of bit tests\<close>

text \<open>The C condition \<^verbatim>\<open>(x & m)\<close>: true when some bit of the mask is set.\<close>

definition tst :: "'a::len word \<Rightarrow> 'a word \<Rightarrow> bool" where
  "tst x m \<longleftrightarrow> x AND m \<noteq> 0"

lemma tst_zero [simp]: "\<not> tst 0 m" "\<not> tst x 0"
  by (simp_all add: tst_def)

lemma tst_bit: "tst x (push_bit n 1) \<longleftrightarrow> bit x n" for x :: "'a::len word"
proof -
  have "x AND push_bit n 1 = (if bit x n then push_bit n 1 else 0)"
    by (rule bit_word_eqI) (auto simp: bit_simps)
  moreover have "bit x n \<Longrightarrow> push_bit n (1 :: 'a word) \<noteq> 0"
  proof -
    assume "bit x n"
    then have "n < LENGTH('a)" by (rule bit_imp_le_length)
    then have "bit (push_bit n (1 :: 'a word)) n" by (simp add: bit_simps)
    then show "push_bit n (1 :: 'a word) \<noteq> 0" by (metis bit_0_eq bot_apply bot_bool_def)
  qed
  ultimately show ?thesis by (auto simp: tst_def)
qed

subsection \<open>Lists\<close>

text \<open>A window of a list, and what an update inside or outside of it does.\<close>

definition window :: "nat \<Rightarrow> nat \<Rightarrow> 'a list \<Rightarrow> 'a list" where
  "window k p xs = take k (drop p xs)"

lemma length_window: "p + k \<le> length xs \<Longrightarrow> length (window k p xs) = k"
  by (simp add: window_def)

lemma window_nth: "i < k \<Longrightarrow> p + k \<le> length xs \<Longrightarrow> window k p xs ! i = xs ! (p + i)"
  by (simp add: window_def)

lemma window_update_outside:
  "j < p \<or> p + k \<le> j \<Longrightarrow> window k p (xs[j := v]) = window k p xs"
  by (auto simp: window_def drop_update_swap)

lemma window_update_inside:
  "i < k \<Longrightarrow> window k p (xs[p + i := v]) = (window k p xs)[i := v]"
  by (simp add: window_def drop_update_swap take_update_swap)

subsection \<open>Partial operations\<close>

text \<open>\<open>wlp m Q\<close>: if the operation has a result, the result satisfies \<open>Q\<close>.\<close>

definition wlp :: "'a option \<Rightarrow> ('a \<Rightarrow> bool) \<Rightarrow> bool" where
  "wlp m Q \<longleftrightarrow> (\<forall>r. m = Some r \<longrightarrow> Q r)"

lemma wlpD: "wlp m Q \<Longrightarrow> m = Some r \<Longrightarrow> Q r"
  by (simp add: wlp_def)

lemma wlp_Some: "Q r \<Longrightarrow> wlp (Some r) Q"
  by (simp add: wlp_def)

lemma wlp_None: "wlp None Q"
  by (simp add: wlp_def)

lemma wlp_bind: "wlp m R \<Longrightarrow> (\<And>x. R x \<Longrightarrow> wlp (f x) Q) \<Longrightarrow> wlp (m \<bind> f) Q"
  by (auto simp: wlp_def bind_eq_Some_conv)

lemma wlp_if: "(b \<Longrightarrow> wlp m Q) \<Longrightarrow> (\<not> b \<Longrightarrow> wlp n Q) \<Longrightarrow> wlp (if b then m else n) Q"
  by simp

end
