(* ===== verification/PS2_Ring.thy ===== *)
theory PS2_Ring
  imports PS2_Prelude
begin

text \<open>
  The class template \<^verbatim>\<open>RingBuffer<T, N>\<close> of ApplePS2Device.h, which every driver uses to hand
  packets from its interrupt routine to its work loop. The array \<^verbatim>\<open>m_buffer[N]\<close> is a list of
  length \<open>N\<close>; the indices \<^verbatim>\<open>m_head\<close>, \<^verbatim>\<open>m_tail\<close> are natural numbers (they stay below
  \<open>N\<close>, so the \<^verbatim>\<open>unsigned\<close> arithmetic of the source never wraps). A driver writes a packet
  through the pointer \<^verbatim>\<open>head()\<close> and then calls \<^verbatim>\<open>advanceHead\<close>; it reads one through
  \<^verbatim>\<open>tail()\<close> and then calls \<^verbatim>\<open>advanceTail\<close>.

  The abstract specification is the locale \<open>packet_ring\<close>: a bounded first-in first-out queue of
  packets with one packet under construction. It is interpreted on the ring buffer, and the
  drivers' drain loops are verified once against it, in the locale \<open>packet_client\<close> of \<^verbatim>\<open>PS2_Loop\<close>.
\<close>

record 'a ring =
  m_buffer :: "'a list"
  m_head :: nat
  m_tail :: nat

definition ring_N :: "'a ring \<Rightarrow> nat" where
  "ring_N r = length (m_buffer r)"

text \<open>The private two-argument overload of \<^verbatim>\<open>count\<close>, and the public one.\<close>

definition ring_count_of :: "nat \<Rightarrow> nat \<Rightarrow> nat \<Rightarrow> nat" where
  "ring_count_of N head tail = (if head \<ge> tail then head - tail else N - tail + head)"

definition ring_count :: "'a ring \<Rightarrow> nat" where
  "ring_count r = ring_count_of (ring_N r) (m_head r) (m_tail r)"

definition ring_reset :: "'a ring \<Rightarrow> 'a ring" where
  "ring_reset r = r\<lparr>m_head := 0, m_tail := 0\<rparr>"

definition ring_push :: "'a \<Rightarrow> 'a ring \<Rightarrow> 'a ring" where
  "ring_push data r =
     (let new_head = m_head r + 1;
          new_head = (if new_head \<ge> ring_N r then 0 else new_head)
      in if new_head \<noteq> m_tail r
         then r\<lparr>m_buffer := (m_buffer r)[m_head r := data], m_head := new_head\<rparr>
         else r)"

definition ring_fetch :: "'a ring \<Rightarrow> 'a \<times> 'a ring" where
  "ring_fetch r =
     (let result = m_buffer r ! m_tail r;
          t = m_tail r + 1;
          t = (if t \<ge> ring_N r then 0 else t)
      in (result, r\<lparr>m_tail := t\<rparr>))"

text \<open>Access through the raw pointers: \<^verbatim>\<open>head()[i] = v\<close> and \<^verbatim>\<open>tail()[i]\<close>.\<close>

definition ring_head_write :: "nat \<Rightarrow> 'a \<Rightarrow> 'a ring \<Rightarrow> 'a ring" where
  "ring_head_write i v r = r\<lparr>m_buffer := (m_buffer r)[m_head r + i := v]\<rparr>"

definition ring_tail_read :: "nat \<Rightarrow> 'a ring \<Rightarrow> 'a" where
  "ring_tail_read i r = m_buffer r ! (m_tail r + i)"

definition ring_advanceHead :: "nat \<Rightarrow> 'a ring \<Rightarrow> 'a ring" where
  "ring_advanceHead move r =
     (let new_head = m_head r + move;
          new_head = (if new_head \<ge> ring_N r then new_head - ring_N r else new_head)
      in if ring_count_of (ring_N r) new_head (m_tail r) \<ge> ring_count r
         then r\<lparr>m_head := new_head\<rparr> else r)"

definition ring_advanceTail :: "nat \<Rightarrow> 'a ring \<Rightarrow> 'a ring" where
  "ring_advanceTail move r =
     (let t = m_tail r + move;
          t = (if t \<ge> ring_N r then t - ring_N r else t)
      in r\<lparr>m_tail := t\<rparr>)"

text \<open>A buffer as the constructor leaves it, over an array of \<open>N\<close> zeroed cells.\<close>

definition ring_init :: "nat \<Rightarrow> 'a::zero ring" where
  "ring_init N = ring_reset \<lparr>m_buffer = replicate N 0, m_head = 0, m_tail = 0\<rparr>"

lemmas ring_op_defs =
  ring_N_def ring_count_of_def ring_count_def ring_reset_def ring_push_def ring_fetch_def
  ring_head_write_def ring_tail_read_def ring_advanceHead_def ring_advanceTail_def Let_def

subsection \<open>Invariants and the abstraction to a queue\<close>

definition ring_ok :: "'a ring \<Rightarrow> bool" where
  "ring_ok r \<longleftrightarrow> m_head r < ring_N r \<and> m_tail r < ring_N r"

text \<open>The elements in the buffer, oldest first.\<close>

definition ring_list :: "'a ring \<Rightarrow> 'a list" where
  "ring_list r = map (\<lambda>i. m_buffer r ! ((m_tail r + i) mod ring_N r)) [0..<ring_count r]"

text \<open>
  The drivers use the buffer in packets of \<open>k\<close> bytes: the size is a multiple of \<open>k\<close> and both
  indices always are. The header asks for this because the raw pointers do not wrap around.
\<close>

definition ring_aligned :: "nat \<Rightarrow> 'a ring \<Rightarrow> bool" where
  "ring_aligned k r \<longleftrightarrow> 0 < k \<and> ring_ok r \<and> k dvd ring_N r \<and> k dvd m_head r \<and> k dvd m_tail r"

definition ring_packets :: "nat \<Rightarrow> 'a ring \<Rightarrow> 'a list list" where
  "ring_packets k r =
     map (\<lambda>j. window k ((m_tail r + j * k) mod ring_N r) (m_buffer r)) [0..<ring_count r div k]"

text \<open>The packet at the head pointer, not yet in the queue.\<close>

definition ring_pending :: "nat \<Rightarrow> 'a ring \<Rightarrow> 'a list" where
  "ring_pending k r = window k (m_head r) (m_buffer r)"

definition ring_front :: "nat \<Rightarrow> 'a ring \<Rightarrow> 'a list" where
  "ring_front k r = map (\<lambda>i. ring_tail_read i r) [0..<k]"

definition ring_full :: "nat \<Rightarrow> 'a ring \<Rightarrow> bool" where
  "ring_full k r \<longleftrightarrow> ring_count r + k = ring_N r"

subsection \<open>Arithmetic of the indices\<close>

lemma ring_count_less: "ring_ok r \<Longrightarrow> ring_count r < ring_N r"
  by (auto simp: ring_ok_def ring_count_def ring_count_of_def)

lemma ring_head_mod: "ring_ok r \<Longrightarrow> m_head r = (m_tail r + ring_count r) mod ring_N r"
  by (auto simp: ring_ok_def ring_count_def ring_count_of_def)

lemma ring_count_dvd: "ring_aligned k r \<Longrightarrow> k dvd ring_count r"
  by (auto simp: ring_aligned_def ring_count_def ring_count_of_def)

lemma ring_aligned_ok: "ring_aligned k r \<Longrightarrow> ring_ok r"
  by (simp add: ring_aligned_def)

text \<open>Two different multiples of \<open>k\<close> are at least \<open>k\<close> apart.\<close>

lemma multiples_apart:
  assumes "k dvd a" "k dvd b" "a \<noteq> b" "i < k"
  shows "a + i < b \<or> b + k \<le> (a + i :: nat)"
proof (cases "a < b")
  case True
  then have "k \<le> b - a" using assms by (simp add: dvd_imp_le)
  with True \<open>i < k\<close> show ?thesis by linarith
next
  case False
  then have "k \<le> a - b" using assms by (simp add: dvd_imp_le)
  with False \<open>a \<noteq> b\<close> show ?thesis by linarith
qed

lemma multiple_fits: "k dvd N \<Longrightarrow> k dvd a \<Longrightarrow> a < N \<Longrightarrow> a + k \<le> (N :: nat)"
  using dvd_imp_le [of k "N - a"] by simp

lemma aligned_room: "ring_aligned k r \<Longrightarrow> ring_count r + k \<le> ring_N r"
  by (rule multiple_fits) (auto simp: ring_count_dvd ring_count_less ring_aligned_def)

lemma mod_offset_inj:
  "t < N \<Longrightarrow> x < N \<Longrightarrow> y < N \<Longrightarrow> (t + x) mod N = (t + y) mod N \<Longrightarrow> x = (y :: nat)"
  by (auto simp: mod_if split: if_splits)

lemma slot_index: "0 < k \<Longrightarrow> j < c div k \<Longrightarrow> j * k + k \<le> (c :: nat)"
  using less_eq_div_iff_mult_less_eq [of k "Suc j" c] by simp

lemma slot_dvd: "ring_aligned k r \<Longrightarrow> k dvd (m_tail r + j * k) mod ring_N r"
  by (simp add: ring_aligned_def dvd_mod)

lemma slot_less: "ring_aligned k r \<Longrightarrow> (m_tail r + j * k) mod ring_N r < ring_N r"
  by (auto simp: ring_aligned_def ring_ok_def)

lemma slot_not_head:
  assumes al: "ring_aligned k r" and j: "j < ring_count r div k"
  shows "(m_tail r + j * k) mod ring_N r \<noteq> m_head r"
proof
  assume eq: "(m_tail r + j * k) mod ring_N r = m_head r"
  have k: "0 < k" and ok: "ring_ok r" using al by (auto simp: ring_aligned_def)
  have lt: "j * k < ring_count r" using slot_index [OF k j] k by linarith
  have "j * k = ring_count r"
  proof (rule mod_offset_inj)
    show "(m_tail r + j * k) mod ring_N r = (m_tail r + ring_count r) mod ring_N r"
      using eq ring_head_mod [OF ok] by simp
  qed (use ok lt ring_count_less [OF ok] in \<open>auto simp: ring_ok_def\<close>)
  with lt show False by simp
qed

subsection \<open>The operations on the packets\<close>

lemma length_ring_packets: "length (ring_packets k r) = ring_count r div k"
  by (simp add: ring_packets_def)

lemma ring_avail_iff: "ring_aligned k r \<Longrightarrow> k \<le> ring_count r \<longleftrightarrow> ring_packets k r \<noteq> []"
  by (auto simp: ring_packets_def ring_aligned_def div_greater_zero_iff)

lemma window_front:
  assumes al: "ring_aligned k r"
  shows "ring_front k r = window k (m_tail r) (m_buffer r)"
proof -
  have "m_tail r + k \<le> length (m_buffer r)"
    using al multiple_fits [of k "ring_N r" "m_tail r"]
    by (auto simp: ring_aligned_def ring_ok_def ring_N_def)
  then show ?thesis
    by (intro nth_equalityI) (auto simp: ring_front_def ring_tail_read_def length_window window_nth)
qed

lemma ring_packets_Cons:
  assumes al: "ring_aligned k r" and ne: "ring_packets k r \<noteq> []"
  shows "ring_packets k r = ring_front k r # ring_packets k (ring_advanceTail k r)"
    and "ring_aligned k (ring_advanceTail k r)"
proof -
  have k: "0 < k" and ok: "ring_ok r" and dN: "k dvd ring_N r" and dt: "k dvd m_tail r"
    using al by (auto simp: ring_aligned_def)
  have kc: "k \<le> ring_count r" using al ne ring_avail_iff by blast
  let ?r' = "ring_advanceTail k r"
  have N: "ring_N ?r' = ring_N r" and B: "m_buffer ?r' = m_buffer r" and H: "m_head ?r' = m_head r"
    by (simp_all add: ring_advanceTail_def ring_N_def Let_def)
  have T: "m_tail ?r' = (m_tail r + k) mod ring_N r"
    using ok aligned_room [OF al] by (auto simp: ring_advanceTail_def Let_def ring_ok_def mod_if)
  have C: "ring_count ?r' = ring_count r - k"
    using ok kc ring_count_less [OF ok] T
    by (auto simp: ring_count_def ring_count_of_def N H ring_ok_def mod_if split: if_splits)
  show "ring_aligned k ?r'"
    using al T by (auto simp: ring_aligned_def ring_ok_def N H dvd_mod)
  have *: "(m_tail ?r' + j * k) mod ring_N r = (m_tail r + Suc j * k) mod ring_N r" for j
    by (simp add: T mod_simps algebra_simps)
  have "ring_count r div k = Suc (ring_count ?r' div k)"
    using C k kc by (simp add: le_div_geq)
  then show "ring_packets k r = ring_front k r # ring_packets k ?r'"
    using ok unfolding ring_packets_def N B * window_front [OF al]
    by (simp add: upt_conv_Cons map_Suc_upt [symmetric] ring_ok_def comp_def del: upt_Suc)
qed

lemma ring_head_write_packets:
  assumes al: "ring_aligned k r" and i: "i < k"
  shows "ring_packets k (ring_head_write i v r) = ring_packets k r"
proof -
  have "window k ((m_tail r + j * k) mod ring_N r) ((m_buffer r)[m_head r + i := v])
      = window k ((m_tail r + j * k) mod ring_N r) (m_buffer r)"
    if j: "j < ring_count r div k" for j
  proof (rule window_update_outside)
    have "k dvd m_head r" using al by (simp add: ring_aligned_def)
    from multiples_apart [OF this slot_dvd [OF al, of j] _ i] slot_not_head [OF al j]
    show "m_head r + i < (m_tail r + j * k) mod ring_N r
        \<or> (m_tail r + j * k) mod ring_N r + k \<le> m_head r + i" by auto
  qed
  then show ?thesis
    by (auto simp: ring_packets_def ring_head_write_def ring_N_def ring_count_def)
qed

lemma ring_head_write_pending:
  "i < k \<Longrightarrow> ring_pending k (ring_head_write i v r) = (ring_pending k r)[i := v]"
  by (simp add: ring_pending_def ring_head_write_def window_update_inside)

lemma ring_head_write_count [simp]:
  "ring_count (ring_head_write i v r) = ring_count r" "ring_N (ring_head_write i v r) = ring_N r"
  "m_head (ring_head_write i v r) = m_head r" "m_tail (ring_head_write i v r) = m_tail r"
  by (simp_all add: ring_head_write_def ring_N_def ring_count_def)

lemma ring_head_write_aligned [simp]:
  "ring_aligned k (ring_head_write i v r) \<longleftrightarrow> ring_aligned k r"
  by (simp add: ring_aligned_def ring_ok_def)

lemma ring_advanceHead_cases:
  assumes al: "ring_aligned k r"
  shows "ring_full k r \<Longrightarrow> ring_advanceHead k r = r"
    and "\<not> ring_full k r \<Longrightarrow> ring_advanceHead k r = r\<lparr>m_head := (m_head r + k) mod ring_N r\<rparr>"
    and "\<not> ring_full k r \<Longrightarrow>
           ring_count (r\<lparr>m_head := (m_head r + k) mod ring_N r\<rparr>) = ring_count r + k"
proof -
  have k: "0 < k" and ok: "m_head r < ring_N r" "m_tail r < ring_N r"
    and fit: "m_head r + k \<le> ring_N r"
    using al multiple_fits [of k "ring_N r" "m_head r"] by (auto simp: ring_aligned_def ring_ok_def)
  have room: "ring_count r + k \<le> ring_N r" by (rule aligned_room [OF al])
  show "ring_full k r \<Longrightarrow> ring_advanceHead k r = r"
    using k ok fit
    by (auto simp: ring_advanceHead_def ring_full_def ring_count_def ring_count_of_def Let_def
        split: if_splits)
  assume nf: "\<not> ring_full k r"
  then have lt: "ring_count r + k < ring_N r" using room by (simp add: ring_full_def)
  show C: "ring_count (r\<lparr>m_head := (m_head r + k) mod ring_N r\<rparr>) = ring_count r + k"
    using k ok fit lt by (auto simp: ring_count_def ring_count_of_def ring_N_def mod_if split: if_splits)
  have "(if m_head r + k \<ge> ring_N r then m_head r + k - ring_N r else m_head r + k)
      = (m_head r + k) mod ring_N r"
    using ok fit by (auto simp: mod_if)
  then show "ring_advanceHead k r = r\<lparr>m_head := (m_head r + k) mod ring_N r\<rparr>"
    using C by (simp add: ring_advanceHead_def Let_def ring_count_def ring_N_def)
qed

lemma ring_advanceHead_packets:
  assumes al: "ring_aligned k r"
  shows "ring_packets k (ring_advanceHead k r)
       = (if ring_full k r then ring_packets k r else ring_packets k r @ [ring_pending k r])"
    and "ring_aligned k (ring_advanceHead k r)"
proof -
  have k: "0 < k" and ok: "ring_ok r" using al by (auto simp: ring_aligned_def)
  show "ring_aligned k (ring_advanceHead k r)"
    using ring_advanceHead_cases(1,2) [OF al] al
    by (cases "ring_full k r")
      (auto simp: ring_aligned_def ring_ok_def ring_N_def dvd_mod intro!: mod_less_divisor)
  show "ring_packets k (ring_advanceHead k r)
       = (if ring_full k r then ring_packets k r else ring_packets k r @ [ring_pending k r])"
  proof (cases "ring_full k r")
    case True
    then show ?thesis using ring_advanceHead_cases(1) [OF al] by simp
  next
    case False
    let ?r' = "r\<lparr>m_head := (m_head r + k) mod ring_N r\<rparr>"
    have "ring_count ?r' div k = Suc (ring_count r div k)"
      using ring_advanceHead_cases(3) [OF al False] k by (simp add: div_add_self2)
    moreover have "(m_tail r + ring_count r div k * k) mod ring_N r = m_head r"
      using ring_head_mod [OF ok] ring_count_dvd [OF al] by simp
    ultimately show ?thesis
      using False ring_advanceHead_cases(2) [OF al False]
      by (simp add: ring_packets_def ring_pending_def ring_N_def)
  qed
qed

subsection \<open>The interface to the drivers\<close>

text \<open>
  What a driver relies on: a bounded queue of packets with one packet under construction at the
  head. \<open>poke\<close> writes a byte of that packet, \<open>commit\<close> appends it unless the queue is full,
  \<open>front\<close> and \<open>pop\<close> take the oldest packet.
\<close>

locale packet_ring =
  fixes size :: nat
    and inv :: "'r \<Rightarrow> bool"
    and packets :: "'r \<Rightarrow> 'b list list"
    and pending :: "'r \<Rightarrow> 'b list"
    and full :: "'r \<Rightarrow> bool"
    and avail :: "'r \<Rightarrow> bool"
    and front :: "'r \<Rightarrow> 'b list"
    and pop :: "'r \<Rightarrow> 'r"
    and poke :: "nat \<Rightarrow> 'b \<Rightarrow> 'r \<Rightarrow> 'r"
    and commit :: "'r \<Rightarrow> 'r"
  assumes avail_iff: "inv r \<Longrightarrow> avail r \<longleftrightarrow> packets r \<noteq> []"
    and packets_Cons: "inv r \<Longrightarrow> packets r \<noteq> [] \<Longrightarrow> packets r = front r # packets (pop r)"
    and inv_pop: "inv r \<Longrightarrow> packets r \<noteq> [] \<Longrightarrow> inv (pop r)"
    and packets_poke: "inv r \<Longrightarrow> i < size \<Longrightarrow> packets (poke i v r) = packets r"
    and pending_poke: "inv r \<Longrightarrow> i < size \<Longrightarrow> pending (poke i v r) = (pending r)[i := v]"
    and full_poke: "full (poke i v r) \<longleftrightarrow> full r"
    and inv_poke: "inv r \<Longrightarrow> inv (poke i v r)"
    and packets_commit: "inv r \<Longrightarrow>
          packets (commit r) = (if full r then packets r else packets r @ [pending r])"
    and inv_commit: "inv r \<Longrightarrow> inv (commit r)"
interpretation byte_ring: packet_ring k "ring_aligned k" "ring_packets k" "ring_pending k"
  "ring_full k" "\<lambda>r. k \<le> ring_count r" "ring_front k" "ring_advanceTail k"
  ring_head_write "ring_advanceHead k"
  for k :: nat
proof unfold_locales
  fix r :: "'a ring" and i v
  assume al: "ring_aligned k r"
  show "k \<le> ring_count r \<longleftrightarrow> ring_packets k r \<noteq> []" by (rule ring_avail_iff [OF al])
  show "ring_aligned k (ring_head_write i v r)" using al by simp
  show "ring_packets k (ring_advanceHead k r)
      = (if ring_full k r then ring_packets k r else ring_packets k r @ [ring_pending k r])"
    by (rule ring_advanceHead_packets(1) [OF al])
  show "ring_aligned k (ring_advanceHead k r)" by (rule ring_advanceHead_packets(2) [OF al])
  assume "ring_packets k r \<noteq> []"
  with al show "ring_packets k r = ring_front k r # ring_packets k (ring_advanceTail k r)"
    and "ring_aligned k (ring_advanceTail k r)" by (rule ring_packets_Cons)+
next
  fix r :: "'a ring" and i v
  assume "ring_aligned k r" "i < k"
  then show "ring_packets k (ring_head_write i v r) = ring_packets k r"
    and "ring_pending k (ring_head_write i v r) = (ring_pending k r)[i := v]"
    by (rule ring_head_write_packets, simp_all add: ring_head_write_pending)
qed (simp add: ring_full_def)

text \<open>The size of the array never changes; so the buffer of a driver is a packet ring of fixed capacity.\<close>

lemma ring_N_ops [simp]:
  "ring_N (ring_advanceHead k r) = ring_N r" "ring_N (ring_advanceTail k r) = ring_N r" "ring_N (ring_reset r) = ring_N r"
  by (simp_all add: ring_advanceHead_def ring_advanceTail_def ring_reset_def ring_N_def Let_def)

interpretation sized_ring: packet_ring k "\<lambda>r. ring_aligned k r \<and> ring_N r = N" "ring_packets k" "ring_pending k"
  "ring_full k" "\<lambda>r. k \<le> ring_count r" "ring_front k" "ring_advanceTail k"
  ring_head_write "ring_advanceHead k"
  for k N :: nat
  by unfold_locales (auto simp: byte_ring.avail_iff byte_ring.packets_poke byte_ring.pending_poke ring_full_def
      byte_ring.packets_commit byte_ring.inv_commit byte_ring.inv_pop intro: byte_ring.packets_Cons)

subsection \<open>Properties of the ring buffer\<close>

lemma length_ring_pending:
  assumes "ring_aligned k r"
  shows "length (ring_pending k r) = k"
proof -
  have "m_head r + k \<le> length (m_buffer r)"
    using assms multiple_fits [of k "ring_N r" "m_head r"]
    by (auto simp: ring_aligned_def ring_ok_def ring_N_def)
  then show ?thesis by (simp add: ring_pending_def length_window)
qed

lemma ring_packets_lengths:
  assumes "ring_aligned k r" "p \<in> set (ring_packets k r)"
  shows "length p = k"
proof -
  have "(m_tail r + j * k) mod ring_N r + k \<le> length (m_buffer r)" for j
    using assms(1) multiple_fits [OF _ slot_dvd slot_less] by (metis ring_aligned_def ring_N_def)
  then show ?thesis using assms(2) by (auto simp: ring_packets_def length_window)
qed

lemma head_writes_pending:
  assumes "ring_aligned k r" "length p = k" "n \<le> k"
  shows "ring_pending k (fold (\<lambda>i. ring_head_write i (p ! i)) [0..<n] r)
           = take n p @ drop n (ring_pending k r)
       \<and> ring_packets k (fold (\<lambda>i. ring_head_write i (p ! i)) [0..<n] r) = ring_packets k r
       \<and> ring_aligned k (fold (\<lambda>i. ring_head_write i (p ! i)) [0..<n] r)
       \<and> ring_count (fold (\<lambda>i. ring_head_write i (p ! i)) [0..<n] r) = ring_count r
       \<and> ring_N (fold (\<lambda>i. ring_head_write i (p ! i)) [0..<n] r) = ring_N r"
  using assms(3)
proof (induction n)
  case 0
  then show ?case using assms by simp
next
  case (Suc n)
  have "(take n p @ drop n (ring_pending k r))[n := p ! n]
      = take (Suc n) p @ drop (Suc n) (ring_pending k r)"
    using Suc.prems assms(2) length_ring_pending [OF assms(1)]
    by (intro nth_equalityI) (auto simp: nth_append nth_list_update less_Suc_eq)
  with Suc show ?case
    by (simp add: byte_ring.pending_poke byte_ring.packets_poke)
qed

lemma enqueue_packet:
  assumes "ring_aligned k r" "length p = k"
  shows "ring_packets k (ring_advanceHead k (fold (\<lambda>i. ring_head_write i (p ! i)) [0..<k] r))
       = (if ring_full k r then ring_packets k r else ring_packets k r @ [p])"
  using head_writes_pending [OF assms, of k] assms(2) length_ring_pending [OF assms(1)]
  by (simp add: byte_ring.packets_commit ring_full_def)

text \<open>
  C9: the interrupt side of the ring buffer. A driver that writes the bytes of a packet through
  \<^verbatim>\<open>head()\<close> and then calls \<^verbatim>\<open>advanceHead\<close> appends exactly this packet to the queue; if the
  buffer has no room for one more packet, the packet is dropped and no queued packet changes.
\<close>

theorem ring_enqueue_packet:
  assumes "ring_aligned k r" "length p = k"
  shows "ring_packets k (ring_advanceHead k (fold (\<lambda>i. ring_head_write i (p ! i)) [0..<k] r))
       = (if ring_full k r then ring_packets k r else ring_packets k r @ [p])
     \<and> ring_aligned k (ring_advanceHead k (fold (\<lambda>i. ring_head_write i (p ! i)) [0..<k] r))"
  using enqueue_packet [OF assms] head_writes_pending [OF assms, of k]
  by (simp add: byte_ring.inv_commit)

definition demo_ring :: "nat ring" where
  "demo_ring = \<lparr>m_buffer = [10, 11, 12, 13, 14, 15], m_head = 4, m_tail = 2\<rparr>"

lemma demo_ring_aligned: "ring_aligned 2 demo_ring"
  by (simp add: ring_aligned_def ring_ok_def ring_N_def demo_ring_def)

theorem ring_enqueue_packet_witness:
  "ring_packets 2 (ring_advanceHead 2 (fold (\<lambda>i. ring_head_write i ([7, 8] ! i)) [0..<2] demo_ring))
     = [[12, 13], [7, 8]]"
  using ring_enqueue_packet [OF demo_ring_aligned, of "[7, 8]"]
  by (simp add: ring_full_def ring_packets_def ring_count_def ring_count_of_def ring_N_def
      demo_ring_def window_def)

text \<open>
  the work loop side. While the queue is not empty, the bytes behind \<^verbatim>\<open>tail()\<close> are those of
  the oldest packet, and \<^verbatim>\<open>advanceTail\<close> removes this packet and nothing else; the test
  \<^verbatim>\<open>count() >= size\<close> of the drivers' loops says exactly whether a packet is queued.
\<close>

lemma ring_dequeue_packet:
  assumes "ring_aligned k r"
  shows "(k \<le> ring_count r \<longleftrightarrow> ring_packets k r \<noteq> [])
       \<and> (ring_packets k r \<noteq> [] \<longrightarrow>
            ring_front k r = hd (ring_packets k r)
          \<and> ring_packets k (ring_advanceTail k r) = tl (ring_packets k r)
          \<and> ring_aligned k (ring_advanceTail k r))"
  using byte_ring.avail_iff [OF assms] byte_ring.packets_Cons [OF assms] byte_ring.inv_pop [OF assms]
  by (metis list.sel(1,3))

lemma ring_dequeue_packet_witness:
  "ring_front 2 demo_ring = hd (ring_packets 2 demo_ring)
   \<and> ring_packets 2 (ring_advanceTail 2 demo_ring) = tl (ring_packets 2 demo_ring)"
proof -
  have "ring_packets 2 demo_ring \<noteq> []"
    by (simp add: ring_packets_def ring_count_def ring_count_of_def demo_ring_def)
  then show ?thesis using ring_dequeue_packet [OF demo_ring_aligned] by simp
qed

text \<open>The byte-wise interface: \<^verbatim>\<open>push\<close> and \<^verbatim>\<open>fetch\<close> are those of a queue of \<open>N - 1\<close> cells.\<close>

lemma window_one: "p < length xs \<Longrightarrow> window 1 p xs = [xs ! p]"
  by (simp add: window_def Cons_nth_drop_Suc [symmetric])

lemma ring_list_singles: "ring_ok r \<Longrightarrow> map (\<lambda>x. [x]) (ring_list r) = ring_packets 1 r"
  by (auto simp: ring_list_def ring_packets_def ring_ok_def ring_N_def window_one [simplified]
      intro!: window_one [simplified, symmetric] mod_less_divisor)

lemma ring_ok_aligned: "ring_ok r \<Longrightarrow> ring_aligned 1 r"
  by (simp add: ring_aligned_def)

lemma ring_push_eq:
  "ring_ok r \<Longrightarrow> ring_push x r = (if ring_full 1 r then r else ring_advanceHead 1 (ring_head_write 0 x r))"
  using ring_advanceHead_cases(1,2) [OF ring_ok_aligned, of "ring_head_write 0 x r"]
  by (auto simp: ring_push_def ring_full_def ring_head_write_def ring_count_def ring_count_of_def
      ring_N_def ring_ok_def mod_if Let_def split: if_splits)

lemma ring_fetch_eq: "ring_ok r \<Longrightarrow> ring_fetch r = (hd (ring_front 1 r), ring_advanceTail 1 r)"
  by (auto simp: ring_fetch_def ring_front_def ring_tail_read_def ring_advanceTail_def Let_def
      ring_ok_def)

lemma singles_eq: "map (\<lambda>x. [x]) xs = map (\<lambda>x. [x]) ys \<longleftrightarrow> xs = ys"
  by (auto intro: map_injective simp: inj_def)

text \<open>
  the byte-wise interface \<^verbatim>\<open>push\<close>/\<^verbatim>\<open>fetch\<close> behaves as a bounded queue: \<^verbatim>\<open>push\<close> appends at
  the end unless \<open>N - 1\<close> elements are queued, in which case it changes nothing, and \<^verbatim>\<open>fetch\<close>
  on a non-empty buffer returns and removes the oldest element.
\<close>

lemma ring_push_fetch_fifo:
  assumes ok: "ring_ok r"
  shows "ring_list (ring_push x r)
           = (if length (ring_list r) + 1 = ring_N r then ring_list r else ring_list r @ [x])
       \<and> ring_ok (ring_push x r)
       \<and> (ring_list r \<noteq> [] \<longrightarrow>
            fst (ring_fetch r) = hd (ring_list r) \<and> ring_list (snd (ring_fetch r)) = tl (ring_list r))"
proof -
  have al: "ring_aligned 1 r" by (rule ring_ok_aligned [OF ok])
  let ?w = "ring_advanceHead 1 (ring_head_write 0 x r)"
  have full: "ring_full 1 r \<longleftrightarrow> length (ring_list r) + 1 = ring_N r"
    by (simp add: ring_full_def ring_list_def)
  have okw: "ring_ok ?w"
    by (rule ring_aligned_ok [OF byte_ring.inv_commit [OF byte_ring.inv_poke [OF al]]])
  have okp: "ring_ok (ring_push x r)" using ok okw by (simp add: ring_push_eq)
  have "map (\<lambda>x. [x]) (ring_list (ring_push x r))
      = map (\<lambda>x. [x]) (if ring_full 1 r then ring_list r else ring_list r @ [x])"
    using enqueue_packet [OF al, of "[x]"] okw ok
    by (simp add: ring_list_singles ring_push_eq)
  then have push: "ring_list (ring_push x r) = (if ring_full 1 r then ring_list r else ring_list r @ [x])"
    by (simp only: singles_eq)
  have fetch: "fst (ring_fetch r) = hd (ring_list r) \<and> ring_list (snd (ring_fetch r)) = tl (ring_list r)"
    if ne: "ring_list r \<noteq> []"
  proof -
    have pne: "ring_packets 1 r \<noteq> []" using ne ring_list_singles [OF ok] by (metis map_is_Nil_conv)
    have ok': "ring_ok (ring_advanceTail 1 r)"
      using byte_ring.inv_pop [OF al pne] by (simp add: ring_aligned_def)
    have "map (\<lambda>x. [x]) (ring_list r)
        = ring_front 1 r # map (\<lambda>x. [x]) (ring_list (ring_advanceTail 1 r))"
      using byte_ring.packets_Cons [OF al pne] ok ok' by (simp add: ring_list_singles)
    then show ?thesis using ok by (cases "ring_list r") (auto simp: ring_fetch_eq singles_eq, metis list.sel(1))
  qed
  from push okp fetch full show ?thesis by simp
qed

lemma ring_push_fetch_fifo_witness:
  "ring_list (ring_push 7 demo_ring) = ring_list demo_ring @ [7]
   \<and> fst (ring_fetch demo_ring) = hd (ring_list demo_ring)"
proof -
  have "ring_ok demo_ring" by (simp add: ring_ok_def ring_N_def demo_ring_def)
  moreover have "length (ring_list demo_ring) + 1 \<noteq> ring_N demo_ring" "ring_list demo_ring \<noteq> []"
    by (simp_all add: ring_list_def ring_count_def ring_count_of_def ring_N_def demo_ring_def)
  ultimately show ?thesis using ring_push_fetch_fifo [of demo_ring 7] by simp
qed

end
