(* ===== verification/PS2_Constants.thy ===== *)
theory PS2_Constants
  imports PS2_Prelude
begin

text \<open>
  The numeric constants of ApplePS2Device.h and VoodooPS2Controller.h under their own names:
  commands of the two ports of the 8042 controller, the bits of its status and command bytes,
  and the special bytes of the PS/2 protocol. Their values are in the collection
  \<open>ps2_const\<close>, so that a proof decides when to look at them.
\<close>

subsection \<open>Data port commands\<close>

definition kDP_SetMouseScaling1To1 :: u8 where [ps2_const]:
  "kDP_SetMouseScaling1To1 = 0xE6"

definition kDP_SetMouseScaling2To1 :: u8 where [ps2_const]:
  "kDP_SetMouseScaling2To1 = 0xE7"

definition kDP_SetMouseResolution :: u8 where [ps2_const]:
  "kDP_SetMouseResolution = 0xE8"

definition kDP_GetMouseInformation :: u8 where [ps2_const]:
  "kDP_GetMouseInformation = 0xE9"

definition kDP_SetMouseStreamMode :: u8 where [ps2_const]:
  "kDP_SetMouseStreamMode = 0xEA"

definition kDP_SetKeyboardLEDs :: u8 where [ps2_const]:
  "kDP_SetKeyboardLEDs = 0xED"

definition kDP_TestKeyboardEcho :: u8 where [ps2_const]:
  "kDP_TestKeyboardEcho = 0xEE"

definition kDP_GetSetKeyboardASCs :: u8 where [ps2_const]:
  "kDP_GetSetKeyboardASCs = 0xF0"

definition kDP_GetId :: u8 where [ps2_const]:
  "kDP_GetId = 0xF2"

definition kDP_SetKeyboardTypematic :: u8 where [ps2_const]:
  "kDP_SetKeyboardTypematic = 0xF3"

definition kDP_SetMouseSampleRate :: u8 where [ps2_const]:
  "kDP_SetMouseSampleRate = 0xF3"

definition kDP_Enable :: u8 where [ps2_const]:
  "kDP_Enable = 0xF4"

definition kDP_SetDefaultsAndDisable :: u8 where [ps2_const]:
  "kDP_SetDefaultsAndDisable = 0xF5"

definition kDP_SetDefaults :: u8 where [ps2_const]:
  "kDP_SetDefaults = 0xF6"

definition kDP_SetAllTypematic :: u8 where [ps2_const]:
  "kDP_SetAllTypematic = 0xF7"

definition kDP_SetAllMakeRelease :: u8 where [ps2_const]:
  "kDP_SetAllMakeRelease = 0xF8"

definition kDP_SetAllMakeOnly :: u8 where [ps2_const]:
  "kDP_SetAllMakeOnly = 0xF9"

definition kDP_SetAllTypematicMakeRelease :: u8 where [ps2_const]:
  "kDP_SetAllTypematicMakeRelease = 0xFA"

definition kDP_SetKeyMakeRelease :: u8 where [ps2_const]:
  "kDP_SetKeyMakeRelease = 0xFB"

definition kDP_SetKeyMakeOnly :: u8 where [ps2_const]:
  "kDP_SetKeyMakeOnly = 0xFC"

definition kDP_Reset :: u8 where [ps2_const]:
  "kDP_Reset = 0xFF"

subsection \<open>Command port commands\<close>

definition kCP_GetCommandByte :: u8 where [ps2_const]:
  "kCP_GetCommandByte = 0x20"

definition kCP_ReadControllerRAMBase :: u8 where [ps2_const]:
  "kCP_ReadControllerRAMBase = 0x21"

definition kCP_SetCommandByte :: u8 where [ps2_const]:
  "kCP_SetCommandByte = 0x60"

definition kCP_WriteControllerRAMBase :: u8 where [ps2_const]:
  "kCP_WriteControllerRAMBase = 0x61"

definition kCP_TestPassword :: u8 where [ps2_const]:
  "kCP_TestPassword = 0xA4"

definition kCP_GetPassword :: u8 where [ps2_const]:
  "kCP_GetPassword = 0xA5"

definition kCP_VerifyPassword :: u8 where [ps2_const]:
  "kCP_VerifyPassword = 0xA6"

definition kCP_DisableMouseClock :: u8 where [ps2_const]:
  "kCP_DisableMouseClock = 0xA7"

definition kCP_EnableMouseClock :: u8 where [ps2_const]:
  "kCP_EnableMouseClock = 0xA8"

definition kCP_TestMousePort :: u8 where [ps2_const]:
  "kCP_TestMousePort = 0xA9"

definition kCP_TestController :: u8 where [ps2_const]:
  "kCP_TestController = 0xAA"

definition kCP_TestKeyboardPort :: u8 where [ps2_const]:
  "kCP_TestKeyboardPort = 0xAB"

definition kCP_GetControllerDiagnostic :: u8 where [ps2_const]:
  "kCP_GetControllerDiagnostic = 0xAC"

definition kCP_DisableKeyboardClock :: u8 where [ps2_const]:
  "kCP_DisableKeyboardClock = 0xAD"

definition kCP_EnableKeyboardClock :: u8 where [ps2_const]:
  "kCP_EnableKeyboardClock = 0xAE"

definition kCP_ReadInputPort :: u8 where [ps2_const]:
  "kCP_ReadInputPort = 0xC0"

definition kCP_PollInputPortLow :: u8 where [ps2_const]:
  "kCP_PollInputPortLow = 0xC1"

definition kCP_PollInputPortHigh :: u8 where [ps2_const]:
  "kCP_PollInputPortHigh = 0xC2"

definition kCP_ReadOutputPort :: u8 where [ps2_const]:
  "kCP_ReadOutputPort = 0xD0"

definition kCP_WriteOutputPort :: u8 where [ps2_const]:
  "kCP_WriteOutputPort = 0xD1"

definition kCP_WriteKeyboardOutputBuffer :: u8 where [ps2_const]:
  "kCP_WriteKeyboardOutputBuffer = 0xD2"

definition kCP_WriteMouseOutputBuffer :: u8 where [ps2_const]:
  "kCP_WriteMouseOutputBuffer = 0xD3"

definition kCP_TransmitToMouse :: u8 where [ps2_const]:
  "kCP_TransmitToMouse = 0xD4"

definition kCP_ReadTestInputs :: u8 where [ps2_const]:
  "kCP_ReadTestInputs = 0xE0"

definition kCP_PulseOutputBitBase :: u8 where [ps2_const]:
  "kCP_PulseOutputBitBase = 0xF0"

subsection \<open>Bits of the command byte, of the LED register, and special scan codes\<close>

definition kCB_EnableKeyboardIRQ :: u8 where [ps2_const]:
  "kCB_EnableKeyboardIRQ = 0x01"

definition kCB_EnableMouseIRQ :: u8 where [ps2_const]:
  "kCB_EnableMouseIRQ = 0x02"

definition kCB_SystemFlag :: u8 where [ps2_const]:
  "kCB_SystemFlag = 0x04"

definition kCB_InhibitOverride :: u8 where [ps2_const]:
  "kCB_InhibitOverride = 0x08"

definition kCB_DisableKeyboardClock :: u8 where [ps2_const]:
  "kCB_DisableKeyboardClock = 0x10"

definition kCB_DisableMouseClock :: u8 where [ps2_const]:
  "kCB_DisableMouseClock = 0x20"

definition kCB_TranslateMode :: u8 where [ps2_const]:
  "kCB_TranslateMode = 0x40"

definition kLED_ScrollLock :: u8 where [ps2_const]:
  "kLED_ScrollLock = 0x01"

definition kLED_NumLock :: u8 where [ps2_const]:
  "kLED_NumLock = 0x02"

definition kLED_CapsLock :: u8 where [ps2_const]:
  "kLED_CapsLock = 0x04"

definition kSC_Acknowledge :: u8 where [ps2_const]:
  "kSC_Acknowledge = 0xFA"

definition kSC_Extend :: u8 where [ps2_const]:
  "kSC_Extend = 0xE0"

definition kSC_Pause :: u8 where [ps2_const]:
  "kSC_Pause = 0xE1"

definition kSC_Resend :: u8 where [ps2_const]:
  "kSC_Resend = 0xFE"

definition kSC_Reset :: u8 where [ps2_const]:
  "kSC_Reset = 0xAA"

definition kSC_UpBit :: u8 where [ps2_const]:
  "kSC_UpBit = 0x80"

definition kSC_Alt :: u8 where [ps2_const]:
  "kSC_Alt = 0x38"

definition kSC_Ctrl :: u8 where [ps2_const]:
  "kSC_Ctrl = 0x1D"

definition kSC_ShiftLeft :: u8 where [ps2_const]:
  "kSC_ShiftLeft = 0x2A"

definition kSC_ShiftRight :: u8 where [ps2_const]:
  "kSC_ShiftRight = 0x36"

definition kSC_WindowsLeft :: u8 where [ps2_const]:
  "kSC_WindowsLeft = 0x5B"

definition kSC_WindowsRight :: u8 where [ps2_const]:
  "kSC_WindowsRight = 0x5C"

definition kSC_Delete :: u8 where [ps2_const]:
  "kSC_Delete = 0x53"

definition kSC_NumLock :: u8 where [ps2_const]:
  "kSC_NumLock = 0x45"

subsection \<open>Ports and status bits\<close>

definition kDataPort :: u16 where [ps2_const]:
  "kDataPort = 0x60"

definition kCommandPort :: u16 where [ps2_const]:
  "kCommandPort = 0x64"

definition kOutputReady :: u8 where [ps2_const]:
  "kOutputReady = 0x01"

definition kInputBusy :: u8 where [ps2_const]:
  "kInputBusy = 0x02"

definition kSystemFlag :: u8 where [ps2_const]:
  "kSystemFlag = 0x04"

definition kCommandLastSent :: u8 where [ps2_const]:
  "kCommandLastSent = 0x08"

definition kKeyboardInhibited :: u8 where [ps2_const]:
  "kKeyboardInhibited = 0x10"

definition kMouseData :: u8 where [ps2_const]:
  "kMouseData = 0x20"

definition kIRQ_Keyboard :: nat where [ps2_const]:
  "kIRQ_Keyboard = 1"

definition kIRQ_Mouse :: nat where [ps2_const]:
  "kIRQ_Mouse = 12"

definition kMaxCommands :: nat where [ps2_const]:
  "kMaxCommands = 30"

subsection \<open>Power states\<close>

definition kPS2PowerStateSleep :: u32 where [ps2_const]:
  "kPS2PowerStateSleep = 0"

definition kPS2PowerStateDoze :: u32 where [ps2_const]:
  "kPS2PowerStateDoze = 1"

definition kPS2PowerStateNormal :: u32 where [ps2_const]:
  "kPS2PowerStateNormal = 2"

end
