(* ===== verification/PS2_Request.thy ===== *)
theory PS2_Request
  imports PS2_Constants
begin

text \<open>
  The data that the client drivers and the controller exchange (ApplePS2Device.h): device types,
  command primitives, requests, results of interrupt routines and inter-driver messages.

  A \<^verbatim>\<open>PS2Command\<close> holds a union of one byte (\<^verbatim>\<open>inOrOut\<close>), one 32-bit word (\<^verbatim>\<open>inOrOut32\<close>)
  and three bytes (\<^verbatim>\<open>setBits\<close>, \<^verbatim>\<open>clearBits\<close>, \<^verbatim>\<open>oldBits\<close>) over the same memory. The model keeps
  the four bytes of that memory, lowest address first; the members are views of them, as on the
  little-endian machines the driver runs on. Bytes that the sources leave uninitialised are zero.
\<close>

datatype PS2DeviceType = kDT_Keyboard | kDT_Mouse

datatype PS2InterruptResult = kPS2IR_packetReady | kPS2IR_packetBuffering

datatype PS2PowerAction = kPS2C_DisableDevice | kPS2C_EnableDevice

text \<open>The expression \<^verbatim>\<open>(deviceType==kDT_Keyboard)?kDT_Mouse:kDT_Keyboard\<close>.\<close>

definition otherDevice :: "PS2DeviceType \<Rightarrow> PS2DeviceType" where
  "otherDevice d = (if d = kDT_Keyboard then kDT_Mouse else kDT_Keyboard)"

subsection \<open>Command primitives\<close>

datatype PS2CommandEnum =
    kPS2C_ReadDataPort
  | kPS2C_ReadDataPortAndCompare
  | kPS2C_WriteDataPort
  | kPS2C_WriteCommandPort
  | kPS2C_SendMouseCommandAndCompareAck
  | kPS2C_ReadMouseDataPort
  | kPS2C_ReadMouseDataPortAndCompare
  | kPS2C_FlushDataPort
  | kPS2C_SleepMS
  | kPS2C_ModifyCommandByte

record PS2Command =
  command :: PS2CommandEnum
  cb0 :: u8
  cb1 :: u8
  cb2 :: u8
  cb3 :: u8

definition inOrOut :: "PS2Command \<Rightarrow> u8" where
  "inOrOut c = cb0 c"

definition set_inOrOut :: "u8 \<Rightarrow> PS2Command \<Rightarrow> PS2Command" where
  "set_inOrOut v c = c\<lparr>cb0 := v\<rparr>"

definition inOrOut32 :: "PS2Command \<Rightarrow> u32" where
  "inOrOut32 c = ucast (cb0 c) OR push_bit 8 (ucast (cb1 c)) OR push_bit 16 (ucast (cb2 c))
     OR push_bit 24 (ucast (cb3 c))"

definition set_inOrOut32 :: "u32 \<Rightarrow> PS2Command \<Rightarrow> PS2Command" where
  "set_inOrOut32 v c = c\<lparr>cb0 := ucast v, cb1 := ucast (drop_bit 8 v), cb2 := ucast (drop_bit 16 v),
     cb3 := ucast (drop_bit 24 v)\<rparr>"

definition setBits :: "PS2Command \<Rightarrow> u8" where
  "setBits c = cb0 c"

definition clearBits :: "PS2Command \<Rightarrow> u8" where
  "clearBits c = cb1 c"

definition oldBits :: "PS2Command \<Rightarrow> u8" where
  "oldBits c = cb2 c"

definition set_oldBits :: "u8 \<Rightarrow> PS2Command \<Rightarrow> PS2Command" where
  "set_oldBits v c = c\<lparr>cb2 := v\<rparr>"

text \<open>A command whose \<^verbatim>\<open>inOrOut\<close> member was assigned, and one for \<^verbatim>\<open>kPS2C_ModifyCommandByte\<close>.\<close>

definition cmd :: "PS2CommandEnum \<Rightarrow> u8 \<Rightarrow> PS2Command" where
  "cmd c v = \<lparr>command = c, cb0 = v, cb1 = 0, cb2 = 0, cb3 = 0\<rparr>"

definition cmd32 :: "PS2CommandEnum \<Rightarrow> u32 \<Rightarrow> PS2Command" where
  "cmd32 c v = set_inOrOut32 v (cmd c 0)"

definition cmdBits :: "PS2CommandEnum \<Rightarrow> u8 \<Rightarrow> u8 \<Rightarrow> PS2Command" where
  "cmdBits c s r = \<lparr>command = c, cb0 = s, cb1 = r, cb2 = 0, cb3 = 0\<rparr>"

subsection \<open>Requests\<close>

text \<open>
  \<open>rq_addr\<close> is the address of the structure. A null \<^verbatim>\<open>completionTarget\<close> or
  \<^verbatim>\<open>completionAction\<close> is 0.
\<close>

record PS2Request =
  rq_addr :: nat
  commandsCount :: u8
  completionTarget :: objref
  completionAction :: funref
  completionParam :: nat
  commands :: "PS2Command list"

definition kStackCompletionTarget :: objref where
  "kStackCompletionTarget = 1"

text \<open>A request allocated on the heap by \<^verbatim>\<open>allocateRequest(max)\<close> and its constructor.\<close>

definition new_PS2Request :: "nat \<Rightarrow> nat \<Rightarrow> PS2Request" where
  "new_PS2Request addr n = \<lparr>rq_addr = addr, commandsCount = 0, completionTarget = 0,
     completionAction = 0, completionParam = 0, commands = replicate n (cmd kPS2C_ReadDataPort 0)\<rparr>"

text \<open>
  A \<^verbatim>\<open>TPS2Request<max>\<close> on the stack, with all \<open>max\<close> commands filled in and \<^verbatim>\<open>commandsCount\<close>
  set to their number, as every use in the drivers does.
\<close>

definition TPS2Request :: "PS2Command list \<Rightarrow> PS2Request" where
  "TPS2Request cs = \<lparr>rq_addr = 0, commandsCount = word_of_nat (length cs),
     completionTarget = kStackCompletionTarget, completionAction = 0, completionParam = 0,
     commands = cs\<rparr>"

text \<open>A request the drivers may submit: the count does not exceed the array.\<close>

definition request_ok :: "PS2Request \<Rightarrow> bool" where
  "request_ok rq \<longleftrightarrow> unat (commandsCount rq) \<le> length (commands rq)"

subsection \<open>Messages between the drivers\<close>

record PS2KeyInfo =
  ki_time :: u64
  adbKeyCode :: u16
  goingDown :: bool
  eatKey :: bool

datatype PS2Message =
    kPS2M_setDisableTouchpad bool
  | kPS2M_getDisableTouchpad bool
  | kPS2M_notifyKeyPressed PS2KeyInfo
  | kPS2M_swipeDown
  | kPS2M_swipeUp
  | kPS2M_swipeLeft
  | kPS2M_swipeRight
  | kPS2M_notifyKeyTime u64

subsection \<open>Lemmas\<close>

lemma inOrOut32_set [simp]: "inOrOut32 (set_inOrOut32 v c) = v"
proof (rule bit_word_eqI)
  fix n
  assume "n < LENGTH(32)"
  then show "bit (inOrOut32 (set_inOrOut32 v c)) n = bit v n"
    by (cases "n < 16"; cases "n < 24") (auto simp: inOrOut32_def set_inOrOut32_def bit_simps)
qed

lemma inOrOut_set [simp]: "inOrOut (set_inOrOut v c) = v"
  by (simp add: inOrOut_def set_inOrOut_def)

lemma command_set [simp]:
  "command (set_inOrOut v c) = command c" "command (set_inOrOut32 w c) = command c"
  "command (set_oldBits v c) = command c"
  by (simp_all add: set_inOrOut_def set_inOrOut32_def set_oldBits_def)

lemma oldBits_set [simp]:
  "oldBits (set_oldBits v c) = v" "setBits (set_oldBits v c) = setBits c"
  "clearBits (set_oldBits v c) = clearBits c"
  by (simp_all add: oldBits_def set_oldBits_def setBits_def clearBits_def)

lemma command_cmd [simp]: "command (cmd c v) = c" "inOrOut (cmd c v) = v"
  "command (cmdBits c a b) = c" "setBits (cmdBits c a b) = a" "clearBits (cmdBits c a b) = b"
  by (simp_all add: cmd_def inOrOut_def cmdBits_def setBits_def clearBits_def)

lemma otherDevice_simps [simp]:
  "otherDevice kDT_Keyboard = kDT_Mouse" "otherDevice kDT_Mouse = kDT_Keyboard"
  by (simp_all add: otherDevice_def)

lemma otherDevice_neq [simp]: "otherDevice d \<noteq> d" "otherDevice (otherDevice d) = d"
  by (cases d; simp)+

lemma TPS2Request_ok: "length cs < 256 \<Longrightarrow> request_ok (TPS2Request cs)"
  by (simp add: request_ok_def TPS2Request_def unat_of_nat)

end
