(* ===== verification/PS2_Controller.thy ===== *)
theory PS2_Controller
  imports PS2_Request
begin

text \<open>
  The port level of \<^verbatim>\<open>ApplePS2Controller\<close> (VoodooPS2Controller.cpp): its state, the routines that
  read and write the two ports of the 8042, the delivery of bytes to the client drivers, and the
  processing of requests.

  What is not code of this repository is a parameter, the record \<open>env\<close>: the x86 port
  instructions \<^verbatim>\<open>inb\<close>/\<^verbatim>\<open>outb\<close> over a hardware state of type \<open>'h\<close>, and what the
  function pointers that clients install do when called, over a driver state of type \<open>'d\<close>.
  \<^verbatim>\<open>IODelay\<close> only lets time pass; the hardware state may change arbitrarily at every port access.

  A result \<open>None\<close> means that the call has no defined result: it polls the status port forever,
  calls or dereferences a null pointer, or reads past the end of a command array.
\<close>

subsection \<open>State\<close>

record controller =
  interruptSourceKeyboard :: bool \<comment> \<open>the pointer is not null\<close>
  interruptSourceMouse :: bool
  requestQueue :: "PS2Request list"
  interruptTargetKeyboard :: "objref option"
  interruptTargetMouse :: "objref option"
  interruptActionKeyboard :: "funref option"
  interruptActionMouse :: "funref option"
  packetActionKeyboard :: "funref option"
  packetActionMouse :: "funref option"
  interruptInstalledKeyboard :: bool
  interruptInstalledMouse :: bool
  powerControlTargetKeyboard :: "objref option"
  powerControlTargetMouse :: "objref option"
  powerControlActionKeyboard :: "funref option"
  powerControlActionMouse :: "funref option"
  powerControlInstalledKeyboard :: bool
  powerControlInstalledMouse :: bool
  ignoreInterrupts :: int
  ignoreOutOfOrder :: int
  notificationServices :: "objref list"
  currentPowerState :: u32
  hardwareOffline :: bool
  suppressTimeout :: bool
  wakedelay :: u32 \<comment> \<open>an \<^verbatim>\<open>int\<close>, only passed to \<^verbatim>\<open>IOSleep(unsigned)\<close>\<close>
  mouseWakeFirst :: bool
  workLoop :: bool \<comment> \<open>the pointer is not null, as for the fields below\<close>
  requestQueueLock :: bool
  interruptSourceQueue :: bool
  cmdGate :: bool
  powerChangeThreadCall :: bool
  keyboardDevice :: bool
  mouseDevice :: bool

text \<open>The state that \<^verbatim>\<open>init\<close> leaves; fields it does not set are zero in a new object.\<close>

definition init_controller :: controller where
  "init_controller = \<lparr>interruptSourceKeyboard = False, interruptSourceMouse = False, requestQueue = [],
     interruptTargetKeyboard = None, interruptTargetMouse = None,
     interruptActionKeyboard = None, interruptActionMouse = None,
     packetActionKeyboard = None, packetActionMouse = None,
     interruptInstalledKeyboard = False, interruptInstalledMouse = False,
     powerControlTargetKeyboard = None, powerControlTargetMouse = None,
     powerControlActionKeyboard = None, powerControlActionMouse = None,
     powerControlInstalledKeyboard = False, powerControlInstalledMouse = False,
     ignoreInterrupts = 0, ignoreOutOfOrder = 0, notificationServices = [],
     currentPowerState = kPS2PowerStateNormal, hardwareOffline = False, suppressTimeout = False,
     wakedelay = 10, mouseWakeFirst = False, workLoop = False, requestQueueLock = False,
     interruptSourceQueue = False, cmdGate = False, powerChangeThreadCall = False,
     keyboardDevice = False, mouseDevice = False\<rparr>"

text \<open>
  The whole system: hardware, client drivers, controller, and what the controller does to the
  kernel objects around it: event sources it signalled (\<open>sig\<dots>\<close>) or added to the work loop
  (\<open>ev\<dots>\<close>), interrupt lines it registered and enabled, reference counts it changed, requests
  it freed, and the lengths of its \<^verbatim>\<open>IOSleep\<close> calls.
\<close>

record ('h, 'd) sys =
  hw :: 'h
  drv :: 'd
  ctl :: controller
  sigKeyboard :: bool
  sigMouse :: bool
  sigQueue :: bool
  evKeyboard :: bool
  evMouse :: bool
  irqEnabled :: "nat \<Rightarrow> bool"
  refs :: "objref \<Rightarrow> int"
  freed :: "nat list"
  sleeps :: "u32 list"
  powerAcks :: nat

record ('h, 'd) env =
  inb :: "u16 \<Rightarrow> 'h \<Rightarrow> u8 \<times> 'h"
  outb :: "u16 \<Rightarrow> u8 \<Rightarrow> 'h \<Rightarrow> 'h"
  callInterrupt :: "funref \<Rightarrow> objref \<Rightarrow> u8 \<Rightarrow> 'd \<Rightarrow> PS2InterruptResult \<times> 'd"
  callPacket :: "funref \<Rightarrow> objref \<Rightarrow> ('h, 'd) sys \<Rightarrow> ('h, 'd) sys option"
  callCompletion :: "funref \<Rightarrow> objref \<Rightarrow> nat \<Rightarrow> ('h, 'd) sys \<Rightarrow> ('h, 'd) sys option"
  callPower :: "funref \<Rightarrow> objref \<Rightarrow> PS2PowerAction \<Rightarrow> ('h, 'd) sys \<Rightarrow> ('h, 'd) sys option"
  callMessage :: "objref \<Rightarrow> PS2Message \<Rightarrow> ('h, 'd) sys \<Rightarrow> (PS2Message \<times> ('h, 'd) sys) option"

subsection \<open>Port access\<close>

definition sys_inb :: "('h, 'd) env \<Rightarrow> u16 \<Rightarrow> ('h, 'd) sys \<Rightarrow> u8 \<times> ('h, 'd) sys" where
  "sys_inb e port s = (let (v, h) = inb e port (hw s) in (v, s\<lparr>hw := h\<rparr>))"

definition sys_outb :: "('h, 'd) env \<Rightarrow> u16 \<Rightarrow> u8 \<Rightarrow> ('h, 'd) sys \<Rightarrow> ('h, 'd) sys" where
  "sys_outb e port v s = s\<lparr>hw := outb e port v (hw s)\<rparr>"

text \<open>\<^verbatim>\<open>while (inb(kCommandPort) & kInputBusy) IODelay(kDataDelay);\<close>\<close>

partial_function (option) waitInput :: "('h, 'd) env \<Rightarrow> ('h, 'd) sys \<Rightarrow> ('h, 'd) sys option" where
  "waitInput e s = (let (status, s1) = sys_inb e kCommandPort s
     in if tst status kInputBusy then waitInput e s1 else Some s1)"

definition writeDataPort :: "('h, 'd) env \<Rightarrow> u8 \<Rightarrow> ('h, 'd) sys \<Rightarrow> ('h, 'd) sys option" where
  "writeDataPort e byte s = do { s \<leftarrow> waitInput e s; Some (sys_outb e kDataPort byte s) }"

definition writeCommandPort :: "('h, 'd) env \<Rightarrow> u8 \<Rightarrow> ('h, 'd) sys \<Rightarrow> ('h, 'd) sys option" where
  "writeCommandPort e byte s = do { s \<leftarrow> waitInput e s; Some (sys_outb e kCommandPort byte s) }"

subsection \<open>Delivery to the client drivers\<close>

text \<open>The private \<^verbatim>\<open>_dispatchDriverInterrupt\<close>: calls the installed interrupt routine.\<close>

definition callInterruptAction ::
  "('h, 'd) env \<Rightarrow> PS2DeviceType \<Rightarrow> u8 \<Rightarrow> ('h, 'd) sys \<Rightarrow> (PS2InterruptResult \<times> ('h, 'd) sys) option" where
  "callInterruptAction e deviceType data s =
     (if deviceType = kDT_Mouse \<and> interruptInstalledMouse (ctl s) then
        do { action \<leftarrow> interruptActionMouse (ctl s);
             target \<leftarrow> interruptTargetMouse (ctl s);
             (let (result, d) = callInterrupt e action target data (drv s)
              in Some (result, s\<lparr>drv := d\<rparr>)) }
      else if deviceType = kDT_Keyboard \<and> interruptInstalledKeyboard (ctl s) then
        do { action \<leftarrow> interruptActionKeyboard (ctl s);
             target \<leftarrow> interruptTargetKeyboard (ctl s);
             (let (result, d) = callInterrupt e action target data (drv s)
              in Some (result, s\<lparr>drv := d\<rparr>)) }
      else Some (kPS2IR_packetBuffering, s))"

definition signalMouse :: "('h, 'd) sys \<Rightarrow> ('h, 'd) sys option" where
  "signalMouse s = (if interruptSourceMouse (ctl s) then Some (s\<lparr>sigMouse := True\<rparr>) else None)"

definition signalKeyboard :: "('h, 'd) sys \<Rightarrow> ('h, 'd) sys option" where
  "signalKeyboard s = (if interruptSourceKeyboard (ctl s) then Some (s\<lparr>sigKeyboard := True\<rparr>) else None)"

definition dispatchDriverInterrupt ::
  "('h, 'd) env \<Rightarrow> PS2DeviceType \<Rightarrow> u8 \<Rightarrow> ('h, 'd) sys \<Rightarrow> ('h, 'd) sys option" where
  "dispatchDriverInterrupt e deviceType data s =
     do { (result, s) \<leftarrow> callInterruptAction e deviceType data s;
          if result = kPS2IR_packetReady then
            (if deviceType = kDT_Mouse then signalMouse s else signalKeyboard s)
          else Some s }"

subsection \<open>Reading the data port\<close>

text \<open>
  \<^verbatim>\<open>while (timeoutCounter && !((status = inb(kCommandPort)) & kOutputReady)) timeoutCounter--;\<close>
  The result is the counter and the last status read.
\<close>

fun waitOutput :: "('h, 'd) env \<Rightarrow> nat \<Rightarrow> u8 \<Rightarrow> ('h, 'd) sys \<Rightarrow> nat \<times> u8 \<times> ('h, 'd) sys" where
  "waitOutput e 0 status s = (0, status, s)"
| "waitOutput e (Suc t) status s =
     (let (status, s) = sys_inb e kCommandPort s
      in if tst status kOutputReady then (Suc t, status, s) else waitOutput e t status s)"

definition dataFor :: "u8 \<Rightarrow> PS2DeviceType" where
  "dataFor status = (if tst status kMouseData then kDT_Mouse else kDT_Keyboard)"

partial_function (option) readDataPort_loop ::
  "('h, 'd) env \<Rightarrow> PS2DeviceType \<Rightarrow> nat \<Rightarrow> ('h, 'd) sys \<Rightarrow> (u8 \<times> ('h, 'd) sys) option" where
  "readDataPort_loop e deviceType timeoutCounter s =
     (let (timeoutCounter, status, s) = waitOutput e timeoutCounter 0 s
      in if timeoutCounter = 0 then Some (0, s)
         else let (readByte, s) = sys_inb e kDataPort s
              in if suppressTimeout (ctl s) then Some (readByte, s)
                 else if dataFor status = deviceType then Some (readByte, s)
                 else do { s \<leftarrow> dispatchDriverInterrupt e (otherDevice deviceType) readByte s;
                           readDataPort_loop e deviceType timeoutCounter s })"

definition readTimeout :: nat where
  "readTimeout = 10000"

definition readDataPort ::
  "('h, 'd) env \<Rightarrow> PS2DeviceType \<Rightarrow> ('h, 'd) sys \<Rightarrow> (u8 \<times> ('h, 'd) sys) option" where
  "readDataPort e deviceType s = readDataPort_loop e deviceType readTimeout s"

text \<open>
  The variant with an expected byte (out of order data correction). \<open>held\<close> is
  \<open>Some firstByte\<close> when \<^verbatim>\<open>firstByteHeld\<close> is true.
\<close>

definition dispatchUnlessIgnored ::
  "('h, 'd) env \<Rightarrow> PS2DeviceType \<Rightarrow> u8 \<Rightarrow> ('h, 'd) sys \<Rightarrow> ('h, 'd) sys option" where
  "dispatchUnlessIgnored e deviceType data s =
     (if ignoreOutOfOrder (ctl s) = 0 then dispatchDriverInterrupt e deviceType data s else Some s)"

partial_function (option) readExpected_loop ::
  "('h, 'd) env \<Rightarrow> PS2DeviceType \<Rightarrow> u8 \<Rightarrow> u8 option \<Rightarrow> nat \<Rightarrow> ('h, 'd) sys \<Rightarrow>
     (u8 \<times> ('h, 'd) sys) option" where
  "readExpected_loop e deviceType expectedByte held timeoutCounter s =
     (let (timeoutCounter, status, s) = waitOutput e timeoutCounter 0 s
      in if timeoutCounter = 0 then
           (case held of Some firstByte \<Rightarrow> Some (firstByte, s) | None \<Rightarrow> Some (0, s))
         else let (readByte, s) = sys_inb e kDataPort s
              in if dataFor status = deviceType then
                   (if readByte = expectedByte then
                      (case held of
                         None \<Rightarrow> Some (readByte, s)
                       | Some firstByte \<Rightarrow>
                           do { s \<leftarrow> dispatchUnlessIgnored e deviceType firstByte s;
                                Some (readByte, s) })
                    else
                      (case held of
                         None \<Rightarrow> readExpected_loop e deviceType expectedByte (Some readByte) timeoutCounter s
                       | Some firstByte \<Rightarrow>
                           do { s \<leftarrow> dispatchUnlessIgnored e deviceType readByte s;
                                Some (firstByte, s) }))
                 else do { s \<leftarrow> dispatchUnlessIgnored e (otherDevice deviceType) readByte s;
                           readExpected_loop e deviceType expectedByte held timeoutCounter s })"

definition readDataPortExpecting ::
  "('h, 'd) env \<Rightarrow> PS2DeviceType \<Rightarrow> u8 \<Rightarrow> ('h, 'd) sys \<Rightarrow> (u8 \<times> ('h, 'd) sys) option" where
  "readDataPortExpecting e deviceType expectedByte s =
     readExpected_loop e deviceType expectedByte None readTimeout s"

text \<open>
  \<^verbatim>\<open>while (inb(kCommandPort) & kOutputReady) { ++n; inb(kDataPort); }\<close>: discards what is in the
  output buffer and counts the bytes, as \<^verbatim>\<open>kPS2C_FlushDataPort\<close> and \<^verbatim>\<open>resetController\<close> do.
\<close>

partial_function (option) flushDataPort ::
  "('h, 'd) env \<Rightarrow> u32 \<Rightarrow> ('h, 'd) sys \<Rightarrow> (u32 \<times> ('h, 'd) sys) option" where
  "flushDataPort e n s =
     (let (status, s) = sys_inb e kCommandPort s
      in if tst status kOutputReady
         then flushDataPort e (n + 1) (snd (sys_inb e kDataPort s))
         else Some (n, s))"

subsection \<open>Requests\<close>

text \<open>One iteration of the loop of \<^verbatim>\<open>processRequest\<close>: the result is the command as the switch leaves
  it, whether it failed, and the new values of \<^verbatim>\<open>deviceMode\<close> and \<^verbatim>\<open>transmitToMouse\<close>.\<close>

definition processCommand ::
  "('h, 'd) env \<Rightarrow> PS2Command \<Rightarrow> PS2DeviceType \<Rightarrow> bool \<Rightarrow> ('h, 'd) sys \<Rightarrow>
     (PS2Command \<times> bool \<times> PS2DeviceType \<times> bool \<times> ('h, 'd) sys) option" where
  "processCommand e c deviceMode transmitToMouse s =
     (case command c of
        kPS2C_ReadDataPort \<Rightarrow>
          do { (byte, s) \<leftarrow> readDataPort e deviceMode s;
               Some (set_inOrOut byte c, False, deviceMode, transmitToMouse, s) }
      | kPS2C_ReadDataPortAndCompare \<Rightarrow>
          do { (byte, s) \<leftarrow> readDataPortExpecting e deviceMode (inOrOut c) s;
               Some (set_inOrOut byte c, byte \<noteq> inOrOut c, deviceMode, transmitToMouse, s) }
      | kPS2C_WriteDataPort \<Rightarrow>
          do { s \<leftarrow> writeDataPort e (inOrOut c) s;
               Some (c, False, (if transmitToMouse then kDT_Mouse else kDT_Keyboard), False, s) }
      | kPS2C_WriteCommandPort \<Rightarrow>
          do { s \<leftarrow> writeCommandPort e (inOrOut c) s;
               Some (c, False, deviceMode, transmitToMouse \<or> inOrOut c = kCP_TransmitToMouse, s) }
      | kPS2C_SendMouseCommandAndCompareAck \<Rightarrow>
          do { s \<leftarrow> writeCommandPort e kCP_TransmitToMouse s;
               s \<leftarrow> writeDataPort e (inOrOut c) s;
               (byte, s) \<leftarrow> readDataPortExpecting e kDT_Mouse kSC_Acknowledge s;
               Some (c, byte \<noteq> kSC_Acknowledge, kDT_Mouse, transmitToMouse, s) }
      | kPS2C_ReadMouseDataPort \<Rightarrow>
          do { (byte, s) \<leftarrow> readDataPort e kDT_Mouse s;
               Some (set_inOrOut byte c, False, kDT_Mouse, transmitToMouse, s) }
      | kPS2C_ReadMouseDataPortAndCompare \<Rightarrow>
          do { (byte, s) \<leftarrow> readDataPortExpecting e kDT_Mouse (inOrOut c) s;
               Some (c, byte \<noteq> inOrOut c, kDT_Mouse, transmitToMouse, s) }
      | kPS2C_FlushDataPort \<Rightarrow>
          do { (n, s) \<leftarrow> flushDataPort e 0 s;
               Some (set_inOrOut32 n c, False, deviceMode, transmitToMouse, s) }
      | kPS2C_SleepMS \<Rightarrow>
          Some (c, False, deviceMode, transmitToMouse, s\<lparr>sleeps := sleeps s @ [inOrOut32 c]\<rparr>)
      | kPS2C_ModifyCommandByte \<Rightarrow>
          do { s \<leftarrow> writeCommandPort e kCP_GetCommandByte s;
               (commandByte, s) \<leftarrow> readDataPort e kDT_Keyboard s;
               s \<leftarrow> writeCommandPort e kCP_SetCommandByte s;
               s \<leftarrow> writeDataPort e ((commandByte OR setBits c) AND NOT (clearBits c)) s;
               Some (set_oldBits commandByte c, False, deviceMode, transmitToMouse, s) })"

text \<open>The loop over the commands: the commands as it leaves them, the index of the failing command
  if there is one, and the system.\<close>

fun processCommands ::
  "('h, 'd) env \<Rightarrow> nat \<Rightarrow> PS2Command list \<Rightarrow> PS2DeviceType \<Rightarrow> bool \<Rightarrow> ('h, 'd) sys \<Rightarrow>
     (PS2Command list \<times> nat option \<times> ('h, 'd) sys) option" where
  "processCommands e index [] deviceMode transmitToMouse s = Some ([], None, s)"
| "processCommands e index (c # cs) deviceMode transmitToMouse s =
     do { (c, failed, deviceMode, transmitToMouse, s) \<leftarrow> processCommand e c deviceMode transmitToMouse s;
          if failed then Some (c # cs, Some index, s)
          else do { (cs, failedAt, s) \<leftarrow> processCommands e (Suc index) cs deviceMode transmitToMouse s;
                    Some (c # cs, failedAt, s) } }"

definition ignoreInterrupts_add :: "int \<Rightarrow> ('h, 'd) sys \<Rightarrow> ('h, 'd) sys" where
  "ignoreInterrupts_add n s = s\<lparr>ctl := (ctl s)\<lparr>ignoreInterrupts := ignoreInterrupts (ctl s) + n\<rparr>\<rparr>"

definition freeRequest :: "PS2Request \<Rightarrow> ('h, 'd) sys \<Rightarrow> ('h, 'd) sys" where
  "freeRequest rq s = s\<lparr>freed := rq_addr rq # freed s\<rparr>"

text \<open>The part of \<^verbatim>\<open>processRequest\<close> before the completion routine, and the completion.\<close>

definition runRequest :: "('h, 'd) env \<Rightarrow> PS2Request \<Rightarrow> ('h, 'd) sys \<Rightarrow> (PS2Request \<times> ('h, 'd) sys) option" where
  "runRequest e rq s =
     (if hardwareOffline (ctl s) then Some (rq\<lparr>commandsCount := 0\<rparr>, s)
      else if \<not> request_ok rq then None
      else let n = unat (commandsCount rq); s = ignoreInterrupts_add 1 s
           in do { (cs, failedAt, s) \<leftarrow>
                      processCommands e 0 (take n (commands rq)) kDT_Keyboard False s;
                   let rq = rq\<lparr>commands := cs @ drop n (commands rq)\<rparr>;
                       s = ignoreInterrupts_add (- 1) s
                   in Some (case failedAt of
                              None \<Rightarrow> (rq, s)
                            | Some index \<Rightarrow> (rq\<lparr>commandsCount := word_of_nat index\<rparr>, s)) })"

definition completeRequest :: "('h, 'd) env \<Rightarrow> PS2Request \<Rightarrow> ('h, 'd) sys \<Rightarrow> ('h, 'd) sys option" where
  "completeRequest e rq s =
     (if completionTarget rq \<noteq> kStackCompletionTarget \<and> completionTarget rq \<noteq> 0
         \<and> completionAction rq \<noteq> 0
      then callCompletion e (completionAction rq) (completionTarget rq) (completionParam rq) s
      else Some (if completionTarget rq \<noteq> kStackCompletionTarget then freeRequest rq s else s))"

definition processRequest ::
  "('h, 'd) env \<Rightarrow> PS2Request \<Rightarrow> ('h, 'd) sys \<Rightarrow> (PS2Request \<times> ('h, 'd) sys) option" where
  "processRequest e rq s =
     do { (rq, s) \<leftarrow> runRequest e rq s; s \<leftarrow> completeRequest e rq s; Some (rq, s) }"

text \<open>The asynchronous queue.\<close>

definition submitRequest :: "PS2Request \<Rightarrow> ('h, 'd) sys \<Rightarrow> ('h, 'd) sys" where
  "submitRequest rq s =
     s\<lparr>ctl := (ctl s)\<lparr>requestQueue := requestQueue (ctl s) @ [rq]\<rparr>, sigQueue := True\<rparr>"

fun processAll :: "('h, 'd) env \<Rightarrow> PS2Request list \<Rightarrow> ('h, 'd) sys \<Rightarrow> ('h, 'd) sys option" where
  "processAll e [] s = Some s"
| "processAll e (rq # rqs) s = do { (rq, s) \<leftarrow> processRequest e rq s; processAll e rqs s }"

definition processRequestQueue :: "('h, 'd) env \<Rightarrow> ('h, 'd) sys \<Rightarrow> ('h, 'd) sys option" where
  "processRequestQueue e s =
     (let localQueue = requestQueue (ctl s)
      in processAll e localQueue (s\<lparr>ctl := (ctl s)\<lparr>requestQueue := []\<rparr>\<rparr>))"

definition submitRequestAndBlock ::
  "('h, 'd) env \<Rightarrow> PS2Request \<Rightarrow> ('h, 'd) sys \<Rightarrow> (PS2Request \<times> ('h, 'd) sys) option" where
  "submitRequestAndBlock e rq s = do { s \<leftarrow> processRequestQueue e s; processRequest e rq s }"

text \<open>The command byte.\<close>

definition setCommandByteGated ::
  "('h, 'd) env \<Rightarrow> PS2Request \<Rightarrow> ('h, 'd) sys \<Rightarrow> (PS2Request \<times> ('h, 'd) sys) option" where
  "setCommandByteGated e rq s =
     (let c = commands rq ! 0; s = ignoreInterrupts_add 1 s
      in do { s \<leftarrow> writeCommandPort e kCP_GetCommandByte s;
              (oldCommandByte, s) \<leftarrow> readDataPort e kDT_Keyboard s;
              let s = ignoreInterrupts_add (- 1) s;
                  newCommandByte = (oldCommandByte OR setBits c) AND NOT (clearBits c);
                  rq = rq\<lparr>commands := (commands rq)[0 := set_oldBits oldCommandByte c]\<rparr>
              in if oldCommandByte \<noteq> newCommandByte then
                   do { s \<leftarrow> writeCommandPort e kCP_SetCommandByte s;
                        s \<leftarrow> writeDataPort e newCommandByte s;
                        Some (rq, s) }
                 else Some (rq, s) })"

definition setCommandByte ::
  "('h, 'd) env \<Rightarrow> u8 \<Rightarrow> u8 \<Rightarrow> ('h, 'd) sys \<Rightarrow> (u8 \<times> ('h, 'd) sys) option" where
  "setCommandByte e sets clears s =
     do { (rq, s) \<leftarrow> setCommandByteGated e (TPS2Request [cmdBits kPS2C_ModifyCommandByte sets clears]) s;
          Some (oldBits (commands rq ! 0), s) }"

subsection \<open>What the operations leave alone\<close>

text \<open>
  \<open>hw_only\<close>: at most the hardware changed. \<open>io_frame\<close>: at most the hardware, the drivers'
  state (their interrupt routines ran) and the two packet signals changed.
\<close>

definition hw_only :: "('h, 'd) sys \<Rightarrow> ('h, 'd) sys \<Rightarrow> bool" where
  "hw_only s s' \<longleftrightarrow> s' = s\<lparr>hw := hw s'\<rparr>"

definition io_frame :: "('h, 'd) sys \<Rightarrow> ('h, 'd) sys \<Rightarrow> bool" where
  "io_frame s s' \<longleftrightarrow>
     s' = s\<lparr>hw := hw s', drv := drv s', sigKeyboard := sigKeyboard s', sigMouse := sigMouse s'\<rparr>"

lemma hw_only_refl [simp]: "hw_only s s"
  by (simp add: hw_only_def)

lemma hw_only_trans: "hw_only s t \<Longrightarrow> hw_only t u \<Longrightarrow> hw_only s u"
  unfolding hw_only_def by (metis (no_types, lifting) sys.surjective sys.update_convs(1))

lemma hw_only_inb [simp]: "sys_inb e p s = (v, s') \<Longrightarrow> hw_only s s'"
  by (auto simp: sys_inb_def hw_only_def split: prod.splits)

lemma hw_only_outb [simp]: "hw_only s (sys_outb e p v s)"
  by (simp add: sys_outb_def hw_only_def)

lemma hw_only_frame: "hw_only s s' \<Longrightarrow> io_frame s s'"
  by (cases s; cases s') (simp add: hw_only_def io_frame_def)

lemma io_frame_refl [simp]: "io_frame s s"
  by (simp add: io_frame_def)

lemma io_frame_iff: "io_frame s s' \<longleftrightarrow>
  ctl s' = ctl s \<and> sigQueue s' = sigQueue s \<and> evKeyboard s' = evKeyboard s \<and> evMouse s' = evMouse s
  \<and> irqEnabled s' = irqEnabled s \<and> refs s' = refs s \<and> freed s' = freed s \<and> sleeps s' = sleeps s
  \<and> powerAcks s' = powerAcks s"
  by (cases s; cases s') (auto simp: io_frame_def)

lemma hw_only_iff: "hw_only s s' \<longleftrightarrow> io_frame s s' \<and> drv s' = drv s
  \<and> sigKeyboard s' = sigKeyboard s \<and> sigMouse s' = sigMouse s"
  by (cases s; cases s') (auto simp: io_frame_def hw_only_def)

lemma io_frame_trans: "io_frame s t \<Longrightarrow> io_frame t u \<Longrightarrow> io_frame s u"
  by (simp add: io_frame_iff)

lemma waitInput_hw_only: "waitInput e s = Some s' \<Longrightarrow> hw_only s s'"
  by (erule waitInput.raw_induct [where P = "\<lambda>e s s'. hw_only s s'", rotated])
    (auto split: prod.splits if_splits intro: hw_only_trans hw_only_inb)

lemma writeDataPort_hw_only: "writeDataPort e b s = Some s' \<Longrightarrow> hw_only s s'"
  by (auto simp: writeDataPort_def dest!: waitInput_hw_only split: bind_splits intro: hw_only_trans)

lemma writeCommandPort_hw_only: "writeCommandPort e b s = Some s' \<Longrightarrow> hw_only s s'"
  by (auto simp: writeCommandPort_def dest!: waitInput_hw_only split: bind_splits intro: hw_only_trans)

lemma flushDataPort_hw_only: "flushDataPort e n s = Some r \<Longrightarrow> hw_only s (snd r)"
  by (erule flushDataPort.raw_induct [where P = "\<lambda>e n s r. hw_only s (snd r)", rotated])
    (auto split: prod.splits if_splits intro: hw_only_trans hw_only_inb,
      metis hw_only_trans hw_only_inb prod.collapse)

lemma waitOutput_hw_only: "waitOutput e t st s = (t', st', s') \<Longrightarrow> hw_only s s'"
  by (induction e t st s arbitrary: t' st' s' rule: waitOutput.induct)
    (auto split: prod.splits if_splits intro: hw_only_trans hw_only_inb)

lemma callInterruptAction_frame:
  "callInterruptAction e d b s = Some (r, s') \<Longrightarrow> io_frame s s'"
  by (auto simp: callInterruptAction_def io_frame_iff split: bind_splits if_splits prod.splits)

lemma dispatchDriverInterrupt_frame:
  "dispatchDriverInterrupt e d b s = Some s' \<Longrightarrow> io_frame s s'"
  by (auto simp: dispatchDriverInterrupt_def signalMouse_def signalKeyboard_def io_frame_iff
      dest!: callInterruptAction_frame split: bind_splits if_splits prod.splits)

lemma dispatchUnlessIgnored_frame:
  "dispatchUnlessIgnored e d b s = Some s' \<Longrightarrow> io_frame s s'"
  by (auto simp: dispatchUnlessIgnored_def dest: dispatchDriverInterrupt_frame split: if_splits)

lemmas io_frame_intros = io_frame_trans hw_only_frame waitOutput_hw_only hw_only_inb
  dispatchDriverInterrupt_frame dispatchUnlessIgnored_frame

lemma readDataPort_loop_frame: "readDataPort_loop e d t s = Some r \<Longrightarrow> io_frame s (snd r)"
  by (erule readDataPort_loop.raw_induct [where P = "\<lambda>e d t s r. io_frame s (snd r)", rotated])
    (auto split: prod.splits if_splits bind_splits; meson io_frame_intros)

lemma readExpected_loop_frame: "readExpected_loop e d x held t s = Some r \<Longrightarrow> io_frame s (snd r)"
  by (erule readExpected_loop.raw_induct [where P = "\<lambda>e d x held t s r. io_frame s (snd r)", rotated])
    (auto split: prod.splits if_splits bind_splits option.splits; meson io_frame_intros)


lemma readDataPort_frame: "readDataPort e d s = Some (b, s') \<Longrightarrow> io_frame s s'"
  using readDataPort_loop_frame [of e d readTimeout s "(b, s')"] by (simp add: readDataPort_def)

lemma readDataPortExpecting_frame: "readDataPortExpecting e d x s = Some (b, s') \<Longrightarrow> io_frame s s'"
  using readExpected_loop_frame [of e d x None readTimeout s "(b, s')"]
  by (simp add: readDataPortExpecting_def)

lemma write_frame:
  "writeDataPort e b s = Some s' \<Longrightarrow> io_frame s s'"
  "writeCommandPort e b s = Some s' \<Longrightarrow> io_frame s s'"
  "flushDataPort e n s = Some (m, s') \<Longrightarrow> io_frame s s'"
  using flushDataPort_hw_only [of e n s "(m, s')"]
  by (auto intro: hw_only_frame writeDataPort_hw_only writeCommandPort_hw_only)

lemmas io_frames = readDataPort_frame readDataPortExpecting_frame write_frame

lemma processCommand_frame:
  assumes "processCommand e c m tx s = Some (c', f, m', tx', s')"
  shows "io_frame (s\<lparr>sleeps := sleeps s'\<rparr>) s'" and "command c' = command c"
proof -
  show "io_frame (s\<lparr>sleeps := sleeps s'\<rparr>) s'"
    using assms
    by (cases "command c")
      (auto simp: processCommand_def io_frame_iff split: bind_splits prod.splits dest!: io_frames)
  show "command c' = command c"
    using assms
    by (cases "command c") (auto simp: processCommand_def split: bind_splits prod.splits)
qed

lemma processCommands_frame:
  "processCommands e i cs m tx s = Some (cs', f, s') \<Longrightarrow> io_frame (s\<lparr>sleeps := sleeps s'\<rparr>) s'"
  by (induction e i cs m tx s arbitrary: cs' f s' rule: processCommands.induct)
    (auto simp: io_frame_iff split: bind_splits if_splits dest!: processCommand_frame(1))

end
