(* ===== verification/PS2_Sim.thy ===== *)
theory PS2_Sim
  imports PS2_Controller
begin

text \<open>
  A concrete instance of the parameters, used to show that the hypotheses of the theorems can hold:
  an 8042 whose output buffer is a queue, which accepts every write at once, keeps a command byte,
  and answers for a keyboard and a mouse that acknowledge every command; and drivers that log the
  bytes they get and report a packet when a byte is 0xFF.
\<close>

datatype await = AwaitDevice | AwaitCommandByte | AwaitMouse

record i8042 =
  outq :: "(PS2DeviceType \<times> u8) list"
  cbyte :: u8
  awaiting :: await

definition i8042_status :: "i8042 \<Rightarrow> u8" where
  "i8042_status h = (case outq h of [] \<Rightarrow> 0
     | (d, _) # _ \<Rightarrow> if d = kDT_Mouse then kOutputReady OR kMouseData else kOutputReady)"

definition i8042_inb :: "u16 \<Rightarrow> i8042 \<Rightarrow> u8 \<times> i8042" where
  "i8042_inb port h =
     (if port = kCommandPort then (i8042_status h, h)
      else case outq h of [] \<Rightarrow> (0, h) | (_, b) # q \<Rightarrow> (b, h\<lparr>outq := q\<rparr>))"

definition i8042_outb :: "u16 \<Rightarrow> u8 \<Rightarrow> i8042 \<Rightarrow> i8042" where
  "i8042_outb port v h =
     (if port = kCommandPort then
        (if v = kCP_GetCommandByte then h\<lparr>outq := outq h @ [(kDT_Keyboard, cbyte h)]\<rparr>
         else if v = kCP_SetCommandByte then h\<lparr>awaiting := AwaitCommandByte\<rparr>
         else if v = kCP_TransmitToMouse then h\<lparr>awaiting := AwaitMouse\<rparr>
         else if v = kCP_TestController then h\<lparr>outq := outq h @ [(kDT_Keyboard, 0x55)]\<rparr>
         else if v = kCP_TestKeyboardPort \<or> v = kCP_TestMousePort
         then h\<lparr>outq := outq h @ [(kDT_Keyboard, 0)]\<rparr>
         else h)
      else case awaiting h of
             AwaitDevice \<Rightarrow> h\<lparr>outq := outq h @ [(kDT_Keyboard, kSC_Acknowledge)]\<rparr>
           | AwaitCommandByte \<Rightarrow> h\<lparr>cbyte := v, awaiting := AwaitDevice\<rparr>
           | AwaitMouse \<Rightarrow> h\<lparr>outq := outq h @ [(kDT_Mouse, kSC_Acknowledge)], awaiting := AwaitDevice\<rparr>)"

type_synonym log = "(objref \<times> u8) list"

definition log_interrupt :: "funref \<Rightarrow> objref \<Rightarrow> u8 \<Rightarrow> log \<Rightarrow> PS2InterruptResult \<times> log" where
  "log_interrupt action target b d =
     (if b = 0xFF then kPS2IR_packetReady else kPS2IR_packetBuffering, d @ [(target, b)])"

definition sim_env :: "(i8042, log) env" where
  "sim_env = \<lparr>inb = i8042_inb, outb = i8042_outb, callInterrupt = log_interrupt,
     callPacket = (\<lambda>_ _ s. Some s), callCompletion = (\<lambda>_ _ _ s. Some s),
     callPower = (\<lambda>_ _ _ s. Some s), callMessage = (\<lambda>_ m s. Some (m, s))\<rparr>"

text \<open>A controller with both drivers installed, on hardware with the given output buffer.\<close>

definition sim_ctl :: controller where
  "sim_ctl = init_controller\<lparr>interruptSourceKeyboard := True, interruptSourceMouse := True,
     interruptTargetKeyboard := Some 10, interruptTargetMouse := Some 11,
     interruptActionKeyboard := Some 20, interruptActionMouse := Some 21,
     packetActionKeyboard := Some 30, packetActionMouse := Some 31,
     interruptInstalledKeyboard := True, interruptInstalledMouse := True,
     workLoop := True, requestQueueLock := True, interruptSourceQueue := True, cmdGate := True,
     powerChangeThreadCall := True, keyboardDevice := True, mouseDevice := True\<rparr>"

definition sim_sys :: "(PS2DeviceType \<times> u8) list \<Rightarrow> (i8042, log) sys" where
  "sim_sys q = \<lparr>hw = \<lparr>outq = q, cbyte = 0x47, awaiting = AwaitDevice\<rparr>, drv = [], ctl = sim_ctl,
     sigKeyboard = False, sigMouse = False, sigQueue = False, evKeyboard = True, evMouse = True,
     irqEnabled = (\<lambda>i. i = kIRQ_Keyboard \<or> i = kIRQ_Mouse), refs = (\<lambda>_. 1), freed = [], sleeps = [],
     powerAcks = 0\<rparr>"

subsection \<open>Evaluation\<close>

lemma sim_env_simps [simp]:
  "inb sim_env = i8042_inb" "outb sim_env = i8042_outb" "callInterrupt sim_env = log_interrupt"
  "callPacket sim_env = (\<lambda>_ _ s. Some s)" "callCompletion sim_env = (\<lambda>_ _ _ s. Some s)"
  "callPower sim_env = (\<lambda>_ _ _ s. Some s)" "callMessage sim_env = (\<lambda>_ m s. Some (m, s))"
  by (simp_all add: sim_env_def)

lemma status_bits:
  "tst kOutputReady kOutputReady" "\<not> tst kOutputReady kInputBusy" "\<not> tst kOutputReady kMouseData"
  "tst (kOutputReady OR kMouseData) kOutputReady" "\<not> tst (kOutputReady OR kMouseData) kInputBusy"
  "tst (kOutputReady OR kMouseData) kMouseData"
  by (simp_all add: tst_def ps2_const)

lemma sim_ready [simp]: "tst (i8042_status h) kOutputReady \<longleftrightarrow> outq h \<noteq> []"
  by (auto simp: i8042_status_def status_bits split: list.splits)

lemma sim_busy [simp]: "\<not> tst (i8042_status h) kInputBusy"
  by (auto simp: i8042_status_def status_bits split: list.splits)

lemma sim_dataFor [simp]: "outq h = (d, b) # q \<Longrightarrow> dataFor (i8042_status h) = d"
  by (cases d) (simp_all add: i8042_status_def dataFor_def status_bits)

lemma sim_inb [simp]:
  "i8042_inb kCommandPort h = (i8042_status h, h)"
  "i8042_inb kDataPort h = (case outq h of [] \<Rightarrow> (0, h) | (_, b) # q \<Rightarrow> (b, h\<lparr>outq := q\<rparr>))"
  by (simp_all add: i8042_inb_def ps2_const)

lemma sim_waitInput [simp]: "waitInput sim_env s = Some s"
  by (subst waitInput.simps) (simp add: sys_inb_def)

lemma sim_write [simp]:
  "writeDataPort sim_env b s = Some (s\<lparr>hw := i8042_outb kDataPort b (hw s)\<rparr>)"
  "writeCommandPort sim_env b s = Some (s\<lparr>hw := i8042_outb kCommandPort b (hw s)\<rparr>)"
  by (simp_all add: writeDataPort_def writeCommandPort_def sys_outb_def)

end
