(* ===== verification/PS2_Port_Spec.thy ===== *)
theory PS2_Port_Spec
  imports PS2_Sim "HOL-Library.Multiset"
begin

text \<open>
  What the polling loops of the controller do, said without loops: which bytes the hardware offers
  (\<open>arrivals\<close>), which of them a read returns and which it hands to the drivers. The loops are
  shown to have exactly these results, so that they return precisely when the hardware ends the
  wait, and the out of order correction of \<^verbatim>\<open>readDataPort(deviceType, expectedByte)\<close> loses no byte.
\<close>

subsection \<open>The specification\<close>

text \<open>
  \<^verbatim>\<open>pollHw\<close> is the hardware's part of a bounded wait for the output buffer; \<open>nextByte\<close> the next
  byte it has, with the stream it arrived on and what is left of the time out counter; and
  \<open>arrivals\<close> the bytes of successive reads. They do not depend on the drivers.
\<close>

fun pollHw :: "('h, 'd) env \<Rightarrow> nat \<Rightarrow> u8 \<Rightarrow> 'h \<Rightarrow> nat \<times> u8 \<times> 'h" where
  "pollHw e 0 status h = (0, status, h)"
| "pollHw e (Suc t) status h =
     (let (status, h) = inb e kCommandPort h
      in if tst status kOutputReady then (Suc t, status, h) else pollHw e t status h)"

definition nextByte :: "('h, 'd) env \<Rightarrow> nat \<Rightarrow> 'h \<Rightarrow> (nat \<times> PS2DeviceType \<times> u8) option \<times> 'h" where
  "nextByte e t h =
     (let (t', status, h) = pollHw e t 0 h
      in if t' = 0 then (None, h)
         else let (b, h) = inb e kDataPort h in (Some (t', dataFor status, b), h))"

inductive arrivals ::
  "('h, 'd) env \<Rightarrow> nat \<Rightarrow> 'h \<Rightarrow> (PS2DeviceType \<times> u8) list \<Rightarrow> nat \<Rightarrow> 'h \<Rightarrow> bool" for e where
  none: "arrivals e t h [] t h"
| more: "nextByte e t h = (Some (t1, d, b), h1) \<Longrightarrow> arrivals e t1 h1 evs t2 h2 \<Longrightarrow>
     arrivals e t h ((d, b) # evs) t2 h2"

text \<open>Delivering a list of bytes, in order.\<close>

fun deliverAll ::
  "('h, 'd) env \<Rightarrow> (PS2DeviceType \<times> u8) list \<Rightarrow> ('h, 'd) sys \<Rightarrow> ('h, 'd) sys option" where
  "deliverAll e [] s = Some s"
| "deliverAll e ((d, b) # evs) s = do { s \<leftarrow> dispatchDriverInterrupt e d b s; deliverAll e evs s }"

definition foreign :: "PS2DeviceType \<Rightarrow> (PS2DeviceType \<times> u8) list \<Rightarrow> (PS2DeviceType \<times> u8) list" where
  "foreign d evs = filter (\<lambda>ev. fst ev \<noteq> d) evs"

definition own :: "PS2DeviceType \<Rightarrow> (PS2DeviceType \<times> u8) list \<Rightarrow> u8 list" where
  "own d evs = map snd (filter (\<lambda>ev. fst ev = d) evs)"

text \<open>What a read of stream \<open>d\<close> returns and what it does with the bytes of the other stream.\<close>

definition readOutcome ::
  "('h, 'd) env \<Rightarrow> PS2DeviceType \<Rightarrow> nat \<Rightarrow> ('h, 'd) sys \<Rightarrow> u8 \<Rightarrow> ('h, 'd) sys \<Rightarrow> bool" where
  "readOutcome e d t s b s' \<longleftrightarrow>
     (\<exists>evs t1 h1 h2. arrivals e t (hw s) evs t1 h1 \<and> own d evs = []
        \<and> ((\<exists>t2. nextByte e t1 h1 = (Some (t2, d, b), h2)) \<or> nextByte e t1 h1 = (None, h2) \<and> b = 0)
        \<and> deliverAll e evs (s\<lparr>hw := h2\<rparr>) = Some s')"

text \<open>
  What a read that expects \<open>x\<close> returns, and which byte of its own stream it hands to the driver
  late, when \<open>mine\<close> are the bytes of that stream it has read and the last wait timed out or not.
\<close>

definition expectOutcome ::
  "PS2DeviceType \<Rightarrow> u8 \<Rightarrow> u8 list \<Rightarrow> bool \<Rightarrow> (u8 \<times> (PS2DeviceType \<times> u8) list) option" where
  "expectOutcome d x mine timedOut =
     (if timedOut then
        (case mine of [] \<Rightarrow> Some (0, []) | [a] \<Rightarrow> if a = x then None else Some (a, []) | _ \<Rightarrow> None)
      else
        (case mine of
           [a] \<Rightarrow> if a = x then Some (x, []) else None
         | [a, b] \<Rightarrow> if a = x then None else if b = x then Some (x, [(d, a)]) else Some (a, [(d, b)])
         | _ \<Rightarrow> None))"

definition heldList :: "u8 option \<Rightarrow> u8 list" where
  "heldList held = (case held of None \<Rightarrow> [] | Some a \<Rightarrow> [a])"

definition deliverUnlessIgnored ::
  "('h, 'd) env \<Rightarrow> (PS2DeviceType \<times> u8) list \<Rightarrow> ('h, 'd) sys \<Rightarrow> ('h, 'd) sys option" where
  "deliverUnlessIgnored e evs s = (if ignoreOutOfOrder (ctl s) = 0 then deliverAll e evs s else Some s)"

definition expectedOutcome ::
  "('h, 'd) env \<Rightarrow> PS2DeviceType \<Rightarrow> u8 \<Rightarrow> u8 list \<Rightarrow> nat \<Rightarrow> ('h, 'd) sys \<Rightarrow> u8 \<Rightarrow> ('h, 'd) sys \<Rightarrow> bool" where
  "expectedOutcome e d x mine t s b s' \<longleftrightarrow>
     (\<exists>evs t1 h1 h2 timedOut late. arrivals e t (hw s) evs t1 h1
        \<and> (if timedOut then nextByte e t1 h1 = (None, h2) else evs \<noteq> [] \<and> fst (last evs) = d \<and> h2 = h1)
        \<and> expectOutcome d x (mine @ own d evs) timedOut = Some (b, late)
        \<and> deliverUnlessIgnored e (foreign d evs @ late) (s\<lparr>hw := h2\<rparr>) = Some s')"

text \<open>The input buffer is busy for \<open>n\<close> polls and then free; the output buffer holds \<open>n\<close> bytes.\<close>

fun idleAfter :: "('h, 'd) env \<Rightarrow> nat \<Rightarrow> 'h \<Rightarrow> 'h \<Rightarrow> bool" where
  "idleAfter e 0 h h' \<longleftrightarrow> (let (status, h) = inb e kCommandPort h in \<not> tst status kInputBusy \<and> h' = h)"
| "idleAfter e (Suc n) h h' \<longleftrightarrow>
     (let (status, h) = inb e kCommandPort h in tst status kInputBusy \<and> idleAfter e n h h')"

fun drainedAfter :: "('h, 'd) env \<Rightarrow> nat \<Rightarrow> 'h \<Rightarrow> 'h \<Rightarrow> bool" where
  "drainedAfter e 0 h h' \<longleftrightarrow> (let (status, h) = inb e kCommandPort h in \<not> tst status kOutputReady \<and> h' = h)"
| "drainedAfter e (Suc n) h h' \<longleftrightarrow>
     (let (status, h) = inb e kCommandPort h
      in tst status kOutputReady \<and> drainedAfter e n (snd (inb e kDataPort h)) h')"

subsection \<open>The loops against the specification\<close>

lemma waitOutput_hw: "waitOutput e t st s = (case pollHw e t st (hw s) of (t', st', h) \<Rightarrow> (t', st', s\<lparr>hw := h\<rparr>))"
  by (induction e t st s rule: waitOutput.induct) (auto simp: sys_inb_def split: prod.splits)

lemma readDataPort_loop_next: "readDataPort_loop e d t s =
  (case nextByte e t (hw s) of
     (None, h) \<Rightarrow> Some (0, s\<lparr>hw := h\<rparr>)
   | (Some (t, d', b), h) \<Rightarrow>
       if suppressTimeout (ctl s) \<or> d' = d then Some (b, s\<lparr>hw := h\<rparr>)
       else dispatchDriverInterrupt e d' b (s\<lparr>hw := h\<rparr>) \<bind> readDataPort_loop e d t)"
  by (subst readDataPort_loop.simps, cases d)
    (auto simp: waitOutput_hw nextByte_def sys_inb_def dataFor_def split: prod.splits)

lemma readExpected_loop_next: "readExpected_loop e d x held t s =
  (case nextByte e t (hw s) of
     (None, h) \<Rightarrow> Some ((case held of None \<Rightarrow> 0 | Some a \<Rightarrow> a), s\<lparr>hw := h\<rparr>)
   | (Some (t, d', b), h) \<Rightarrow>
       if d' = d then
         (case held of
            None \<Rightarrow> if b = x then Some (b, s\<lparr>hw := h\<rparr>) else readExpected_loop e d x (Some b) t (s\<lparr>hw := h\<rparr>)
          | Some a \<Rightarrow>
              if b = x then dispatchUnlessIgnored e d a (s\<lparr>hw := h\<rparr>) \<bind> (\<lambda>s. Some (b, s))
              else dispatchUnlessIgnored e d b (s\<lparr>hw := h\<rparr>) \<bind> (\<lambda>s. Some (a, s)))
       else dispatchUnlessIgnored e d' b (s\<lparr>hw := h\<rparr>) \<bind> readExpected_loop e d x held t)"
  by (subst readExpected_loop.simps, cases d)
    (auto simp: waitOutput_hw nextByte_def sys_inb_def dataFor_def split: prod.splits option.splits)

lemma callInterruptAction_hw:
  "callInterruptAction e d b (s\<lparr>hw := h\<rparr>) =
     map_option (map_prod id (hw_update (\<lambda>_. h))) (callInterruptAction e d b s)"
  by (cases d; cases "interruptActionMouse (ctl s)"; cases "interruptTargetMouse (ctl s)";
      cases "interruptActionKeyboard (ctl s)"; cases "interruptTargetKeyboard (ctl s)")
    (simp_all add: callInterruptAction_def split: prod.splits)

lemma dispatchDriverInterrupt_hw:
  "dispatchDriverInterrupt e d b (s\<lparr>hw := h\<rparr>) = map_option (hw_update (\<lambda>_. h)) (dispatchDriverInterrupt e d b s)"
  unfolding dispatchDriverInterrupt_def callInterruptAction_hw
  by (cases "callInterruptAction e d b s") (auto simp: signalMouse_def signalKeyboard_def)


lemma dispatchDriverInterrupt_hw_same: "dispatchDriverInterrupt e d b s = Some s' \<Longrightarrow> hw s' = hw s"
  by (auto simp: dispatchDriverInterrupt_def callInterruptAction_def signalMouse_def signalKeyboard_def
      split: bind_splits prod.splits if_splits)

lemma deliverAll_append: "deliverAll e (xs @ ys) s = deliverAll e xs s \<bind> deliverAll e ys"
  by (induction e xs s rule: deliverAll.induct) (auto split: bind_splits)

lemma own_simps [simp]: "own d [] = []" "own d ((d', b) # evs) = (if d' = d then b # own d evs else own d evs)"
  by (simp_all add: own_def)

lemma foreign_simps [simp]: "foreign d [] = []"
  "foreign d ((d', b) # evs) = (if d' = d then foreign d evs else (d', b) # foreign d evs)"
  by (simp_all add: foreign_def)

inductive_cases arrivals_NilE: "arrivals e t h [] t' h'"

inductive_cases arrivals_ConsE: "arrivals e t h (ev # evs) t' h'"

lemma readOutcome_done: "nextByte e t (hw s) = (Some (t2, d, b), h) \<Longrightarrow> readOutcome e d t s b (s\<lparr>hw := h\<rparr>)"
  unfolding readOutcome_def by (rule exI [of _ "[]"]) (auto intro: arrivals.none)

lemma readOutcome_timeout: "nextByte e t (hw s) = (None, h) \<Longrightarrow> readOutcome e d t s 0 (s\<lparr>hw := h\<rparr>)"
  unfolding readOutcome_def by (rule exI [of _ "[]"]) (auto intro: arrivals.none)

lemma readOutcome_more:
  assumes n: "nextByte e t (hw s) = (Some (t1, d', b'), h)" and d': "d' \<noteq> d"
    and del: "dispatchDriverInterrupt e d' b' (s\<lparr>hw := h\<rparr>) = Some s1"
    and out: "readOutcome e d t1 s1 b s'"
  shows "readOutcome e d t s b s'"
proof -
  obtain s0 where s0: "dispatchDriverInterrupt e d' b' s = Some s0" "s1 = s0\<lparr>hw := h\<rparr>"
    using del by (auto simp: dispatchDriverInterrupt_hw)
  obtain evs t2 h1 h2 where a: "arrivals e t1 (hw s1) evs t2 h1" "own d evs = []"
    and b: "(\<exists>t3. nextByte e t2 h1 = (Some (t3, d, b), h2)) \<or> nextByte e t2 h1 = (None, h2) \<and> b = 0"
    and c: "deliverAll e evs (s1\<lparr>hw := h2\<rparr>) = Some s'"
    using out unfolding readOutcome_def by blast
  have "arrivals e t (hw s) ((d', b') # evs) t2 h1"
    using a(1) s0(2) by (auto intro: arrivals.more [OF n])
  moreover have "own d ((d', b') # evs) = []" using a(2) d' by simp
  moreover have "deliverAll e ((d', b') # evs) (s\<lparr>hw := h2\<rparr>) = Some s'"
    using c s0 by (simp add: dispatchDriverInterrupt_hw)
  ultimately show ?thesis unfolding readOutcome_def using b by blast
qed

lemma readDataPort_loop_sound:
  "readDataPort_loop e d t s = Some r \<Longrightarrow> \<not> suppressTimeout (ctl s) \<longrightarrow> readOutcome e d t s (fst r) (snd r)"
proof (erule readDataPort_loop.raw_induct [where P = "\<lambda>e d t s r. \<not> suppressTimeout (ctl s) \<longrightarrow> readOutcome e d t s (fst r) (snd r)", rotated])
  fix f :: "('h, 'd) env \<Rightarrow> PS2DeviceType \<Rightarrow> nat \<Rightarrow> ('h, 'd) sys \<Rightarrow> (u8 \<times> ('h, 'd) sys) option"
    and e d t s r
  assume IH: "\<And>e d t s r. f e d t s = Some r \<Longrightarrow> \<not> suppressTimeout (ctl s) \<longrightarrow> readOutcome e d t s (fst r) (snd r)"
    and body: "(let (timeoutCounter, status, s) = waitOutput e t 0 s
      in if timeoutCounter = 0 then Some (0, s)
         else let (readByte, s) = sys_inb e kDataPort s
              in if suppressTimeout (ctl s) then Some (readByte, s)
                 else if dataFor status = d then Some (readByte, s)
                 else do { s \<leftarrow> dispatchDriverInterrupt e (otherDevice d) readByte s;
                           f e d timeoutCounter s }) = Some r"
  show "\<not> suppressTimeout (ctl s) \<longrightarrow> readOutcome e d t s (fst r) (snd r)"
  proof
    assume ns: "\<not> suppressTimeout (ctl s)"
    obtain n h where nb: "nextByte e t (hw s) = (n, h)" by fastforce
    show "readOutcome e d t s (fst r) (snd r)"
    proof (cases n)
      case None
      then show ?thesis using body nb readOutcome_timeout [of e t s h d]
        by (auto simp: waitOutput_hw nextByte_def split: prod.splits if_splits)
    next
      case (Some q)
      obtain t1 d' b' where q: "n = Some (t1, d', b')" using Some by (cases q) auto
      show ?thesis
      proof (cases "d' = d")
        case True
        then show ?thesis using body nb q ns readOutcome_done [of e t s t1 d b' h]
          by (auto simp: waitOutput_hw nextByte_def sys_inb_def split: prod.splits if_splits)
      next
        case False
        then obtain s1 where s1: "dispatchDriverInterrupt e d' b' (s\<lparr>hw := h\<rparr>) = Some s1" "f e d t1 s1 = Some r"
          using body nb q ns
          by (cases d; cases d') (auto simp: waitOutput_hw nextByte_def sys_inb_def split: prod.splits if_splits bind_splits)
        have "\<not> suppressTimeout (ctl s1)"
          using dispatchDriverInterrupt_frame [OF s1(1)] ns by (simp add: io_frame_iff)
        then show ?thesis
          using IH [OF s1(2)] by (intro readOutcome_more [OF nb [unfolded q] False s1(1)]) simp
      qed
    qed
  qed
qed

lemma readDataPort_loop_complete:
  assumes "arrivals e t (hw s) evs t1 h1" and "own d evs = []"
    and "(\<exists>t2. nextByte e t1 h1 = (Some (t2, d, b), h2)) \<or> nextByte e t1 h1 = (None, h2) \<and> b = 0"
    and "deliverAll e evs (s\<lparr>hw := h2\<rparr>) = Some s'" and "\<not> suppressTimeout (ctl s)"
  shows "readDataPort_loop e d t s = Some (b, s')"
  using assms
proof (induction t "hw s" evs t1 h1 arbitrary: s rule: arrivals.induct)
  case (none t)
  then show ?case by (subst readDataPort_loop_next) auto
next
  case (more t t1 d' b' h1 evs t2 h2')
  note prems = more.prems
  from more have d': "d' \<noteq> d" by (auto split: if_splits)
  obtain s0 where s0: "dispatchDriverInterrupt e d' b' s = Some s0"
    using more.prems by (auto simp: dispatchDriverInterrupt_hw split: bind_splits)
  let ?s1 = "s0\<lparr>hw := h1\<rparr>"
  have "\<not> suppressTimeout (ctl ?s1)"
    using dispatchDriverInterrupt_frame [OF s0] more.prems by (simp add: io_frame_iff)
  moreover have "deliverAll e evs (?s1\<lparr>hw := h2\<rparr>) = Some s'"
    using more.prems s0 by (simp add: dispatchDriverInterrupt_hw)
  ultimately have "readDataPort_loop e d t1 ?s1 = Some (b, s')"
    using more.prems d' by (intro more.hyps) auto
  then show ?case using more.hyps(1) more.prems(4) d' s0
    by (subst readDataPort_loop_next) (auto simp: dispatchDriverInterrupt_hw)
qed

lemma own_last: "evs \<noteq> [] \<Longrightarrow> fst (last evs) = d \<Longrightarrow> own d evs \<noteq> []"
  by (auto simp: own_def filter_empty_conv dest: last_in_set)

lemma deliverUnlessIgnored_Cons:
  "deliverUnlessIgnored e ((d, b) # evs) s = dispatchUnlessIgnored e d b s \<bind> deliverUnlessIgnored e evs"
  by (auto simp: deliverUnlessIgnored_def dispatchUnlessIgnored_def io_frame_iff
      dest!: dispatchDriverInterrupt_frame split: bind_splits)

lemma deliverUnlessIgnored_Nil [simp]: "deliverUnlessIgnored e [] s = Some s"
  by (simp add: deliverUnlessIgnored_def)

lemma dispatchUnlessIgnored_hw:
  "dispatchUnlessIgnored e d b (s\<lparr>hw := h\<rparr>) = map_option (hw_update (\<lambda>_. h)) (dispatchUnlessIgnored e d b s)"
  by (simp add: dispatchUnlessIgnored_def dispatchDriverInterrupt_hw)

lemma expectedOutcome_intro:
  assumes "arrivals e t (hw s) evs t1 h1"
    and "if timedOut then nextByte e t1 h1 = (None, h2) else evs \<noteq> [] \<and> fst (last evs) = d \<and> h2 = h1"
    and "expectOutcome d x (mine @ own d evs) timedOut = Some (b, late)"
    and "deliverUnlessIgnored e (foreign d evs @ late) (s\<lparr>hw := h2\<rparr>) = Some s'"
  shows "expectedOutcome e d x mine t s b s'"
  using assms unfolding expectedOutcome_def by blast

lemma expectedOutcome_timeout:
  assumes "nextByte e t (hw s) = (None, h)" and "x \<notin> set (heldList held)"
  shows "expectedOutcome e d x (heldList held) t s (case held of None \<Rightarrow> 0 | Some a \<Rightarrow> a) (s\<lparr>hw := h\<rparr>)"
  using assms
  by (intro expectedOutcome_intro [where evs = "[]" and timedOut = True and late = "[]"])
    (auto intro: arrivals.none simp: expectOutcome_def heldList_def split: option.splits)

lemma expectedOutcome_last:
  assumes "nextByte e t (hw s) = (Some (t1, d, b'), h)"
    and "expectOutcome d x (mine @ [b']) False = Some (b, late)"
    and "deliverUnlessIgnored e late (s\<lparr>hw := h\<rparr>) = Some s'"
  shows "expectedOutcome e d x mine t s b s'"
  using assms
  by (intro expectedOutcome_intro [where evs = "[(d, b')]" and timedOut = False and late = late])
    (auto intro: arrivals.intros)

lemma expectedOutcome_hold:
  assumes n: "nextByte e t (hw s) = (Some (t1, d, a), h)"
    and "expectedOutcome e d x [a] t1 (s\<lparr>hw := h\<rparr>) b s'"
  shows "expectedOutcome e d x [] t s b s'"
proof -
  obtain evs t2 h1 h2 timedOut late where "arrivals e t1 h evs t2 h1"
    and "if timedOut then nextByte e t2 h1 = (None, h2) else evs \<noteq> [] \<and> fst (last evs) = d \<and> h2 = h1"
    and "expectOutcome d x ([a] @ own d evs) timedOut = Some (b, late)"
    and "deliverUnlessIgnored e (foreign d evs @ late) (s\<lparr>hw := h2\<rparr>) = Some s'"
    using assms(2) unfolding expectedOutcome_def by auto
  then show ?thesis
    by (intro expectedOutcome_intro [where evs = "(d, a) # evs" and timedOut = timedOut and late = late])
      (auto intro: arrivals.more [OF n])
qed

lemma expectedOutcome_foreign:
  assumes n: "nextByte e t (hw s) = (Some (t1, d', b'), h)" and d': "d' \<noteq> d"
    and del: "dispatchUnlessIgnored e d' b' (s\<lparr>hw := h\<rparr>) = Some s1"
    and out: "expectedOutcome e d x mine t1 s1 b s'"
  shows "expectedOutcome e d x mine t s b s'"
proof -
  obtain s0 where s0: "dispatchUnlessIgnored e d' b' s = Some s0" "s1 = s0\<lparr>hw := h\<rparr>"
    using del by (auto simp: dispatchUnlessIgnored_hw)
  obtain evs t2 h1 h2 timedOut late where "arrivals e t1 h evs t2 h1"
    and "if timedOut then nextByte e t2 h1 = (None, h2) else evs \<noteq> [] \<and> fst (last evs) = d \<and> h2 = h1"
    and "expectOutcome d x (mine @ own d evs) timedOut = Some (b, late)"
    and "deliverUnlessIgnored e (foreign d evs @ late) (s1\<lparr>hw := h2\<rparr>) = Some s'"
    using out s0 unfolding expectedOutcome_def by auto
  then show ?thesis using d' s0
    by (intro expectedOutcome_intro [where evs = "(d', b') # evs" and timedOut = timedOut and late = late])
      (auto intro: arrivals.more [OF n] simp: deliverUnlessIgnored_Cons dispatchUnlessIgnored_hw)
qed

lemma expectOutcome_simps [simp]:
  "expectOutcome d x [b] False = (if b = x then Some (x, []) else None)"
  "a \<noteq> x \<Longrightarrow> expectOutcome d x [a, b] False = Some (if b = x then (x, [(d, a)]) else (a, [(d, b)]))"
  by (auto simp: expectOutcome_def)

lemma readExpected_loop_sound:
  "readExpected_loop e d x held t s = Some r \<Longrightarrow> x \<notin> set (heldList held) \<longrightarrow>
     expectedOutcome e d x (heldList held) t s (fst r) (snd r)"
proof (erule readExpected_loop.raw_induct [where P = "\<lambda>e d x held t s r. x \<notin> set (heldList held) \<longrightarrow>
     expectedOutcome e d x (heldList held) t s (fst r) (snd r)", rotated])
  fix f :: "('h, 'd) env \<Rightarrow> PS2DeviceType \<Rightarrow> u8 \<Rightarrow> u8 option \<Rightarrow> nat \<Rightarrow> ('h, 'd) sys \<Rightarrow> (u8 \<times> ('h, 'd) sys) option"
    and e d x held t s r
  assume IH: "\<And>e d x held t s r. f e d x held t s = Some r \<Longrightarrow> x \<notin> set (heldList held) \<longrightarrow>
        expectedOutcome e d x (heldList held) t s (fst r) (snd r)"
    and body: "(let (timeoutCounter, status, s) = waitOutput e t 0 s
      in if timeoutCounter = 0 then
           (case held of Some firstByte \<Rightarrow> Some (firstByte, s) | None \<Rightarrow> Some (0, s))
         else let (readByte, s) = sys_inb e kDataPort s
              in if dataFor status = d then
                   (if readByte = x then
                      (case held of
                         None \<Rightarrow> Some (readByte, s)
                       | Some firstByte \<Rightarrow>
                           do { s \<leftarrow> dispatchUnlessIgnored e d firstByte s;
                                Some (readByte, s) })
                    else
                      (case held of
                         None \<Rightarrow> f e d x (Some readByte) timeoutCounter s
                       | Some firstByte \<Rightarrow>
                           do { s \<leftarrow> dispatchUnlessIgnored e d readByte s;
                                Some (firstByte, s) }))
                 else do { s \<leftarrow> dispatchUnlessIgnored e (otherDevice d) readByte s;
                           f e d x held timeoutCounter s }) = Some r"
  show "x \<notin> set (heldList held) \<longrightarrow> expectedOutcome e d x (heldList held) t s (fst r) (snd r)"
  proof
    assume x: "x \<notin> set (heldList held)"
    obtain n h where nb: "nextByte e t (hw s) = (n, h)" by fastforce
    show "expectedOutcome e d x (heldList held) t s (fst r) (snd r)"
    proof (cases n)
      case None
      then show ?thesis using body nb expectedOutcome_timeout [OF _ x, of e t s h d]
        by (auto simp: waitOutput_hw nextByte_def split: prod.splits if_splits option.splits)
    next
      case (Some q)
      then obtain t1 d' b' where q: "n = Some (t1, d', b')" by (cases q) auto
      have body': "(if d' = d then
                   (if b' = x then
                      (case held of
                         None \<Rightarrow> Some (b', s\<lparr>hw := h\<rparr>)
                       | Some a \<Rightarrow> dispatchUnlessIgnored e d a (s\<lparr>hw := h\<rparr>) \<bind> (\<lambda>s. Some (b', s)))
                    else
                      (case held of
                         None \<Rightarrow> f e d x (Some b') t1 (s\<lparr>hw := h\<rparr>)
                       | Some a \<Rightarrow> dispatchUnlessIgnored e d b' (s\<lparr>hw := h\<rparr>) \<bind> (\<lambda>s. Some (a, s))))
                 else dispatchUnlessIgnored e d' b' (s\<lparr>hw := h\<rparr>) \<bind> f e d x held t1) = Some r"
        using body nb q
        by (cases d; cases d'; cases held)
          (auto simp: waitOutput_hw nextByte_def sys_inb_def split: prod.splits if_splits)
      show ?thesis
      proof (cases "d' = d")
        case True
        then show ?thesis
        proof (cases held)
          case None
          then show ?thesis
            using True body' nb q IH [of e d x "Some b'" t1 "s\<lparr>hw := h\<rparr>" r]
            by (cases "b' = x")
              (auto intro: expectedOutcome_last expectedOutcome_hold simp: heldList_def)
        next
          case (Some a)
          then have "a \<noteq> x" using x by (auto simp: heldList_def)
          then show ?thesis using Some True body' nb q
            by (cases "b' = x")
              (auto intro!: expectedOutcome_last simp: heldList_def deliverUnlessIgnored_Cons split: bind_splits)
        qed
      next
        case False
        then show ?thesis using body' nb q x IH
          by (auto intro: expectedOutcome_foreign split: bind_splits)
      qed
    qed
  qed
qed

lemma expectOutcome_last: "evs \<noteq> [] \<Longrightarrow> fst (last evs) = d \<Longrightarrow> expectOutcome d x (x # own d evs) False = None"
  using own_last [of evs d] by (auto simp: expectOutcome_def split: list.splits)

lemma expectOutcome_last2: "evs \<noteq> [] \<Longrightarrow> fst (last evs) = d \<Longrightarrow> expectOutcome d x (a # b # own d evs) False = None"
  using own_last [of evs d] by (auto simp: expectOutcome_def split: list.splits)

lemma expectOutcome_timedOut: "expectOutcome d x (x # mine) True = None" "expectOutcome d x (a # b # mine) True = None"
  by (auto simp: expectOutcome_def split: list.splits)

lemma readExpected_loop_complete:
  assumes "arrivals e t (hw s) evs t1 h1"
    and "if timedOut then nextByte e t1 h1 = (None, h2) else evs \<noteq> [] \<and> fst (last evs) = d \<and> h2 = h1"
    and "expectOutcome d x (heldList held @ own d evs) timedOut = Some (b, late)"
    and "deliverUnlessIgnored e (foreign d evs @ late) (s\<lparr>hw := h2\<rparr>) = Some s'"
  shows "readExpected_loop e d x held t s = Some (b, s')"
  using assms
proof (induction t "hw s" evs t1 h1 arbitrary: s held rule: arrivals.induct)
  case (none t)
  then show ?case
    by (subst readExpected_loop_next)
      (auto simp: expectOutcome_def heldList_def split: if_splits option.splits)
next
  case (more t t1 d' b' h1 evs t2 h2')
  note prems = more.prems and n = more.hyps(1)
  show ?case
  proof (cases "d' = d")
    case True
    show ?thesis
    proof (cases "held = None \<and> b' \<noteq> x")
      case True
      have "readExpected_loop e d x (Some b') t1 (s\<lparr>hw := h1\<rparr>) = Some (b, s')"
        using prems True \<open>d' = d\<close> more.hyps(2)
        by (intro more.hyps(3)) (auto simp: heldList_def expectOutcome_def split: if_splits)
      then show ?thesis using n \<open>d' = d\<close> True by (subst readExpected_loop_next) auto
    next
      case False
      then have "evs = [] \<and> \<not> timedOut"
        using prems \<open>d' = d\<close> expectOutcome_last [of evs d x] expectOutcome_last2 [of evs d x]
        by (cases held; cases timedOut) (auto simp: heldList_def expectOutcome_timedOut split: if_splits)
      then show ?thesis using False prems n \<open>d' = d\<close> more.hyps(2)
        by (subst readExpected_loop_next)
          (auto simp: heldList_def deliverUnlessIgnored_Cons expectOutcome_def elim!: arrivals_NilE
            split: if_splits option.splits bind_splits)
    qed
  next
    case False
    then obtain s0 where s0: "dispatchUnlessIgnored e d' b' s = Some s0"
      using prems by (auto simp: deliverUnlessIgnored_Cons dispatchUnlessIgnored_hw split: bind_splits)
    let ?s1 = "s0\<lparr>hw := h1\<rparr>"
    have "readExpected_loop e d x held t1 ?s1 = Some (b, s')"
      using prems False s0
      by (intro more.hyps(3)) (auto simp: deliverUnlessIgnored_Cons dispatchUnlessIgnored_hw split: if_splits)
    then show ?thesis using n False s0
      by (subst readExpected_loop_next) (auto simp: dispatchUnlessIgnored_hw)
  qed
qed

lemma waitInput_sound: "waitInput e s = Some s' \<Longrightarrow> \<exists>n. idleAfter e n (hw s) (hw s')"
proof (erule waitInput.raw_induct [where P = "\<lambda>e s s'. \<exists>n. idleAfter e n (hw s) (hw s')", rotated])
  fix f :: "('h, 'd) env \<Rightarrow> ('h, 'd) sys \<Rightarrow> ('h, 'd) sys option" and e s s'
  assume IH: "\<And>e s s'. f e s = Some s' \<Longrightarrow> \<exists>n. idleAfter e n (hw s) (hw s')"
    and body: "(let (status, s1) = sys_inb e kCommandPort s
      in if tst status kInputBusy then f e s1 else Some s1) = Some s'"
  obtain st h1 where i: "inb e kCommandPort (hw s) = (st, h1)" by fastforce
  show "\<exists>n. idleAfter e n (hw s) (hw s')"
  proof (cases "tst st kInputBusy")
    case True
    then obtain n where "idleAfter e n h1 (hw s')"
      using body i IH [of e "s\<lparr>hw := h1\<rparr>" s'] by (auto simp: sys_inb_def)
    then show ?thesis using True i by (intro exI [of _ "Suc n"]) auto
  next
    case False
    then show ?thesis using body i by (intro exI [of _ 0]) (auto simp: sys_inb_def)
  qed
qed

lemma waitInput_complete: "idleAfter e n (hw s) h \<Longrightarrow> waitInput e s = Some (s\<lparr>hw := h\<rparr>)"
proof (induction e n "hw s" h arbitrary: s rule: idleAfter.induct)
  case (1 e h')
  then show ?case by (subst waitInput.simps) (auto simp: sys_inb_def split: prod.splits)
next
  case (2 e n h')
  obtain st h1 where i: "inb e kCommandPort (hw s) = (st, h1)" by fastforce
  have "waitInput e (s\<lparr>hw := h1\<rparr>) = Some (s\<lparr>hw := h1, hw := h'\<rparr>)"
    using 2 i by (intro "2.hyps") auto
  then show ?case using 2(2) i by (subst waitInput.simps) (auto simp: sys_inb_def)
qed

lemma flushDataPort_sound:
  "flushDataPort e n s = Some r \<Longrightarrow> \<exists>k. drainedAfter e k (hw s) (hw (snd r)) \<and> fst r = n + of_nat k"
proof (erule flushDataPort.raw_induct [where P = "\<lambda>e n s r. \<exists>k. drainedAfter e k (hw s) (hw (snd r)) \<and> fst r = n + of_nat k", rotated])
  fix f :: "('h, 'd) env \<Rightarrow> u32 \<Rightarrow> ('h, 'd) sys \<Rightarrow> (u32 \<times> ('h, 'd) sys) option" and e n s r
  assume IH: "\<And>e n s r. f e n s = Some r \<Longrightarrow> \<exists>k. drainedAfter e k (hw s) (hw (snd r)) \<and> fst r = n + of_nat k"
    and body: "(let (status, s) = sys_inb e kCommandPort s
      in if tst status kOutputReady then f e (n + 1) (snd (sys_inb e kDataPort s)) else Some (n, s)) = Some r"
  obtain st h1 where i: "inb e kCommandPort (hw s) = (st, h1)" by fastforce
  show "\<exists>k. drainedAfter e k (hw s) (hw (snd r)) \<and> fst r = n + of_nat k"
  proof (cases "tst st kOutputReady")
    case True
    then have "f e (n + 1) (s\<lparr>hw := snd (inb e kDataPort h1)\<rparr>) = Some r"
      using body i by (simp add: sys_inb_def split: prod.splits)
    from IH [OF this] obtain k where
      "drainedAfter e k (snd (inb e kDataPort h1)) (hw (snd r))" "fst r = n + 1 + of_nat k" by auto
    then show ?thesis using True i by (intro exI [of _ "Suc k"]) auto
  next
    case False
    then show ?thesis using body i by (intro exI [of _ 0]) (auto simp: sys_inb_def)
  qed
qed

lemma flushDataPort_complete:
  "drainedAfter e k (hw s) h \<Longrightarrow> flushDataPort e n s = Some (n + of_nat k, s\<lparr>hw := h\<rparr>)"
proof (induction e k "hw s" h arbitrary: s n rule: drainedAfter.induct)
  case (1 e h')
  then show ?case by (subst flushDataPort.simps) (auto simp: sys_inb_def split: prod.splits)
next
  case (2 e k h')
  obtain st h1 where i: "inb e kCommandPort (hw s) = (st, h1)" by fastforce
  let ?h2 = "snd (inb e kDataPort h1)"
  have "flushDataPort e (n + 1) (s\<lparr>hw := ?h2\<rparr>) = Some (n + 1 + of_nat k, s\<lparr>hw := ?h2, hw := h'\<rparr>)"
    using 2 i by (intro "2.hyps") auto
  then show ?case using 2(2) i
    by (subst flushDataPort.simps) (auto simp: sys_inb_def split: prod.splits)
qed

subsection \<open>Properties of the port routines\<close>


lemma nextByte_ready:
  "0 < t \<Longrightarrow> inb e kCommandPort h = (st, h1) \<Longrightarrow> tst st kOutputReady \<Longrightarrow>
   inb e kDataPort h1 = (b, h2) \<Longrightarrow> nextByte e t h = (Some (t, dataFor st, b), h2)"
  by (cases t) (simp_all add: nextByte_def)

lemma sim_nextByte: "0 < t \<Longrightarrow> outq h = (d, b) # q \<Longrightarrow> nextByte sim_env t h = (Some (t, d, b), h\<lparr>outq := q\<rparr>)"
  using nextByte_ready [of t sim_env h "i8042_status h" h b "h\<lparr>outq := q\<rparr>"] by simp

lemma sim_arrivals: "0 < t \<Longrightarrow> outq h = evs @ q \<Longrightarrow> arrivals sim_env t h evs t (h\<lparr>outq := q\<rparr>)"
proof (induction evs arbitrary: h)
  case Nil
  then have "h = h\<lparr>outq := q\<rparr>" by simp
  then show ?case by (metis arrivals.none)
next
  case (Cons ev evs)
  obtain d b where "ev = (d, b)" by fastforce
  have "arrivals sim_env t (h\<lparr>outq := evs @ q\<rparr>) evs t (h\<lparr>outq := evs @ q, outq := q\<rparr>)"
    using Cons.prems by (intro Cons.IH) auto
  then show ?case
    using Cons.prems \<open>ev = (d, b)\<close> by (auto intro: arrivals.more simp: sim_nextByte)
qed

lemmas sim_defs = sim_sys_def sim_ctl_def init_controller_def dispatchDriverInterrupt_def
  callInterruptAction_def log_interrupt_def signalMouse_def signalKeyboard_def

text \<open>
  \<^verbatim>\<open>readDataPort(deviceType)\<close> outside of start up returns exactly when the hardware ends the wait.
  It returns the first byte of the requested stream, or 0 after a time out, and every byte of the
  other stream that arrives before is delivered to that stream's driver, in the order of arrival.
\<close>

lemma readDataPort_outcome:
  assumes "\<not> suppressTimeout (ctl s)"
  shows "readDataPort e d s = Some (b, s') \<longleftrightarrow> readOutcome e d 10000 s b s'"
proof
  assume "readDataPort e d s = Some (b, s')"
  then show "readOutcome e d 10000 s b s'"
    using readDataPort_loop_sound [of e d readTimeout s "(b, s')"] assms
    by (simp add: readDataPort_def readTimeout_def)
next
  assume "readOutcome e d 10000 s b s'"
  then show "readDataPort e d s = Some (b, s')"
    unfolding readOutcome_def readDataPort_def readTimeout_def
    by (elim exE conjE) (rule readDataPort_loop_complete [OF _ _ _ _ assms])
qed

lemma readDataPort_outcome_witness:
  "\<exists>s'. readDataPort sim_env kDT_Keyboard (sim_sys [(kDT_Mouse, 8), (kDT_Mouse, 9), (kDT_Keyboard, 0xFA)])
     = Some (0xFA, s') \<and> drv s' = [(11, 8), (11, 9)]"
proof -
  let ?s = "sim_sys [(kDT_Mouse, 8), (kDT_Mouse, 9), (kDT_Keyboard, 0xFA)]"
  let ?s' = "(sim_sys [])\<lparr>drv := [(11, 8), (11, 9)]\<rparr>"
  let ?h = "hw (sim_sys [(kDT_Keyboard, 0xFA)])"
  have "arrivals sim_env 10000 (hw ?s) [(kDT_Mouse, 8), (kDT_Mouse, 9)] 10000 ?h"
    using sim_arrivals [of 10000 "hw ?s" "[(kDT_Mouse, 8), (kDT_Mouse, 9)]" "[(kDT_Keyboard, 0xFA)]"]
    by (simp add: sim_sys_def)
  moreover have "nextByte sim_env 10000 ?h = (Some (10000, kDT_Keyboard, 0xFA), hw (sim_sys []))"
    by (simp add: sim_nextByte sim_sys_def)
  moreover have "deliverAll sim_env [(kDT_Mouse, 8), (kDT_Mouse, 9)] (?s\<lparr>hw := hw (sim_sys [])\<rparr>) = Some ?s'"
    by (simp add: sim_defs)
  ultimately have "readOutcome sim_env kDT_Keyboard 10000 ?s 0xFA ?s'"
    unfolding readOutcome_def by fastforce
  then have "readDataPort sim_env kDT_Keyboard ?s = Some (0xFA, ?s')"
    by (subst readDataPort_outcome) (simp_all add: sim_defs)
  then show ?thesis by simp
qed

text \<open>
  C23: \<^verbatim>\<open>readDataPort(deviceType, expectedByte)\<close> returns exactly when the hardware ends the wait, with
  the outcome of the out of order correction: the expected byte if it is the first or the second
  byte of the requested stream, otherwise the first one; the other byte of the two goes to the
  driver after the bytes of the other stream, which are delivered in order of arrival.
\<close>

theorem readDataPortExpecting_outcome:
  "readDataPortExpecting e d x s = Some (b, s') \<longleftrightarrow> expectedOutcome e d x [] 10000 s b s'"
proof
  assume "readDataPortExpecting e d x s = Some (b, s')"
  then show "expectedOutcome e d x [] 10000 s b s'"
    using readExpected_loop_sound [of e d x None readTimeout s "(b, s')"]
    by (simp add: readDataPortExpecting_def readTimeout_def heldList_def)
next
  assume "expectedOutcome e d x [] 10000 s b s'"
  then show "readDataPortExpecting e d x s = Some (b, s')"
    unfolding expectedOutcome_def readDataPortExpecting_def readTimeout_def
    by (elim exE conjE) (rule readExpected_loop_complete, auto simp: heldList_def)
qed



text \<open>
  The unbounded waits. A write to a port returns exactly when the controller's input buffer is
  free after some number of polls, and then writes the byte once; a flush returns exactly when the
  output buffer runs empty, and counts the bytes it discarded modulo \<open>2 ^ 32\<close>.
\<close>

lemma port_waits:
  "(writeDataPort e b s = Some s' \<longleftrightarrow>
      (\<exists>n h. idleAfter e n (hw s) h \<and> s' = s\<lparr>hw := outb e kDataPort b h\<rparr>))
   \<and> (writeCommandPort e b s = Some s' \<longleftrightarrow>
      (\<exists>n h. idleAfter e n (hw s) h \<and> s' = s\<lparr>hw := outb e kCommandPort b h\<rparr>))
   \<and> (flushDataPort e 0 s = Some (m, s') \<longleftrightarrow>
      (\<exists>n h. drainedAfter e n (hw s) h \<and> s' = s\<lparr>hw := h\<rparr> \<and> m = of_nat n))"
proof -
  have w: "waitInput e s = Some s1 \<longleftrightarrow> (\<exists>n h. idleAfter e n (hw s) h \<and> s1 = s\<lparr>hw := h\<rparr>)" for s1
    using waitInput_sound [of e s s1] waitInput_complete [of e _ s] waitInput_hw_only [of e s s1]
    by (auto simp: hw_only_def)
  have ex: "(\<exists>s1. (\<exists>n h. P n h \<and> s1 = f h) \<and> g s1 = s') \<longleftrightarrow> (\<exists>n h. P n h \<and> s' = g (f h))"
    for P :: "nat \<Rightarrow> 'a \<Rightarrow> bool" and f and g :: "('a, 'b) sys \<Rightarrow> ('a, 'b) sys" by blast
  have "writeDataPort e b s = Some s' \<longleftrightarrow>
      (\<exists>n h. idleAfter e n (hw s) h \<and> s' = s\<lparr>hw := outb e kDataPort b h\<rparr>)"
    by (simp add: writeDataPort_def bind_eq_Some_conv w sys_outb_def ex)
  moreover have "writeCommandPort e b s = Some s' \<longleftrightarrow>
      (\<exists>n h. idleAfter e n (hw s) h \<and> s' = s\<lparr>hw := outb e kCommandPort b h\<rparr>)"
    by (simp add: writeCommandPort_def bind_eq_Some_conv w sys_outb_def ex)
  moreover have "flushDataPort e 0 s = Some (m, s') \<longleftrightarrow>
     (\<exists>n h. drainedAfter e n (hw s) h \<and> s' = s\<lparr>hw := h\<rparr> \<and> m = of_nat n)"
    using flushDataPort_sound [of e 0 s "(m, s')"] flushDataPort_complete [of e _ s _ 0]
      flushDataPort_hw_only [of e 0 s "(m, s')"]
    by (auto simp: hw_only_def)
  ultimately show ?thesis by simp
qed

end
