(* ===== verification/PS2_Request_Spec.thy ===== *)
theory PS2_Request_Spec
  imports PS2_Port_Spec
begin

text \<open>
What processing a request does: the result a driver sees in \<^verbatim>\<open>commandsCount\<close>, the composite mouse
  command against the sequence it abbreviates, the ownership of queued requests, and the command
  byte under the documented behaviour of the 8042.
\<close>


definition compositeMouseCommand :: "u8 \<Rightarrow> PS2Command list" where
  "compositeMouseCommand v = [cmd kPS2C_WriteCommandPort kCP_TransmitToMouse, cmd kPS2C_WriteDataPort v,
     cmd kPS2C_ReadDataPortAndCompare kSC_Acknowledge]"

text \<open>A request nobody is told about: the controller frees it.\<close>

definition fireAndForget :: "PS2Request \<Rightarrow> bool" where
  "fireAndForget rq \<longleftrightarrow> completionTarget rq \<noteq> kStackCompletionTarget
     \<and> (completionTarget rq = 0 \<or> completionAction rq = 0)"

definition noCompletion :: "PS2Request \<Rightarrow> bool" where
  "noCompletion rq \<longleftrightarrow> fireAndForget rq \<or> completionTarget rq = kStackCompletionTarget"


text \<open>
  What the code relies on of the 8042: while \<open>quiet\<close> holds the input buffer becomes free after some
  polls; the answer to \<^verbatim>\<open>kCP_GetCommandByte\<close> is the next byte of the output buffer, on the keyboard
  stream, in time; and the byte after \<^verbatim>\<open>kCP_SetCommandByte\<close> becomes the command byte \<open>cb\<close>.
\<close>

definition commandByteLaw :: "('h, 'd) env \<Rightarrow> ('h \<Rightarrow> bool) \<Rightarrow> ('h \<Rightarrow> u8) \<Rightarrow> bool" where
  "commandByteLaw e quiet cb \<longleftrightarrow>
     (\<forall>h. quiet h \<longrightarrow> (\<exists>n h'. idleAfter e n h h' \<and> quiet h' \<and> cb h' = cb h))
     \<and> (\<forall>h. quiet h \<longrightarrow> (\<exists>t h'. nextByte e 10000 (outb e kCommandPort kCP_GetCommandByte h)
            = (Some (t, kDT_Keyboard, cb h), h') \<and> quiet h' \<and> cb h' = cb h))
     \<and> (\<forall>h v. quiet h \<longrightarrow> (\<exists>n h'. idleAfter e n (outb e kCommandPort kCP_SetCommandByte h) h'
            \<and> quiet (outb e kDataPort v h') \<and> cb (outb e kDataPort v h') = v))"

subsection \<open>Requests\<close>

lemma runRequest_frame:
  assumes "runRequest e rq s = Some (rq', s')"
  shows "io_frame (s\<lparr>sleeps := sleeps s'\<rparr>) s'"
  using assms
  by (auto simp: runRequest_def ignoreInterrupts_add_def io_frame_iff Let_def split: if_splits bind_splits option.splits
      dest!: processCommands_frame)







lemma processCommands_index:
  "processCommands e (n + i) cs m tx s =
     map_option (\<lambda>(cs, f, s). (cs, map_option ((+) n) f, s)) (processCommands e i cs m tx s)"
proof (induction cs arbitrary: i m tx s)
  case (Cons c cs)
  show ?case
  proof (cases "processCommand e c m tx s")
    case (Some r)
    then show ?thesis using Cons.IH [of "Suc i"]
      by (cases r, cases "processCommands e (Suc i) cs (fst (snd (snd r))) (fst (snd (snd (snd r)))) (snd (snd (snd (snd r))))")
        auto
  qed simp
qed simp






text \<open>
  The composite mouse command is what its comment says: in any request and with any commands
  behind it, \<^verbatim>\<open>kPS2C_SendMouseCommandAndCompareAck\<close> acts as the three commands it stands for, on the
  ports, on the drivers and on the commands that follow, and stops the request in the same cases.
  (The loop must not be in the middle of a transmit to the mouse, which no driver sends.)
\<close>

lemma composite_command_equiv:
  "map_option (\<lambda>(cs, failedAt, s). (drop 1 cs, failedAt = None, s))
     (processCommands e i (cmd kPS2C_SendMouseCommandAndCompareAck v # rest) m False s) =
   map_option (\<lambda>(cs, failedAt, s). (drop 3 cs, failedAt = None, s))
     (processCommands e j (compositeMouseCommand v @ rest) m False s)"
proof -
  have sh: "processCommands e (Suc i) rest m' tx s' =
      map_option (\<lambda>(cs, f, s). (cs, map_option ((+) (Suc i)) f, s)) (processCommands e 0 rest m' tx s')"
    "processCommands e (Suc (Suc (Suc j))) rest m' tx s' =
      map_option (\<lambda>(cs, f, s). (cs, map_option ((+) (Suc (Suc (Suc j)))) f, s)) (processCommands e 0 rest m' tx s')"
    for m' tx s'
    using processCommands_index [of e "Suc i" 0] processCommands_index [of e "Suc (Suc (Suc j))" 0] by auto
  show ?thesis
  proof (cases "writeCommandPort e kCP_TransmitToMouse s \<bind> writeDataPort e v")
    case None
    then show ?thesis
      by (auto simp: compositeMouseCommand_def processCommand_def split: bind_splits)
  next
    case (Some s1)
    then obtain s0 where s0: "writeCommandPort e kCP_TransmitToMouse s = Some s0" "writeDataPort e v s0 = Some s1"
      by (auto split: bind_splits)
    show ?thesis
    proof (cases "readDataPortExpecting e kDT_Mouse kSC_Acknowledge s1")
      case None
      then show ?thesis using s0 by (simp add: compositeMouseCommand_def processCommand_def)
    next
      case (Some r)
      obtain b s2 where "r = (b, s2)" by fastforce
      then show ?thesis using s0 Some
        by (cases "processCommands e 0 rest kDT_Mouse False s2")
          (auto simp: compositeMouseCommand_def processCommand_def sh)
    qed
  qed
qed

lemma completeRequest_noCompletion:
  "noCompletion rq \<Longrightarrow> completeRequest e rq s = Some (if fireAndForget rq then freeRequest rq s else s)"
  by (auto simp: noCompletion_def fireAndForget_def completeRequest_def)

lemma runRequest_keeps:
  "runRequest e rq s = Some (rq', s') \<Longrightarrow> rq_addr rq' = rq_addr rq \<and> completionTarget rq' = completionTarget rq
     \<and> completionAction rq' = completionAction rq"
  by (auto simp: runRequest_def Let_def split: if_splits bind_splits option.splits)

lemma processRequest_noCompletion:
  assumes "noCompletion rq" and "processRequest e rq s = Some (rq', s')"
  shows "ctl s' = ctl s" and "freed s' = (if fireAndForget rq then rq_addr rq # freed s else freed s)"
proof -
  obtain s1 where r: "runRequest e rq s = Some (rq', s1)" and c: "completeRequest e rq' s1 = Some s'"
    using assms(2) by (auto simp: processRequest_def split: bind_splits)
  have k: "noCompletion rq'" "fireAndForget rq' = fireAndForget rq" "rq_addr rq' = rq_addr rq"
    using runRequest_keeps [OF r] assms(1) by (simp_all add: noCompletion_def fireAndForget_def)
  show "ctl s' = ctl s" "freed s' = (if fireAndForget rq then rq_addr rq # freed s else freed s)"
    using completeRequest_noCompletion [OF k(1), of e s1] c runRequest_frame [OF r] k
    by (auto simp: io_frame_iff freeRequest_def split: if_splits)
qed

lemma processAll_noCompletion:
  "(\<forall>rq\<in>set rqs. noCompletion rq) \<Longrightarrow> processAll e rqs s = Some s' \<Longrightarrow>
     ctl s' = ctl s \<and> freed s' = rev (map rq_addr (filter fireAndForget rqs)) @ freed s"
  by (induction e rqs s rule: processAll.induct)
    (auto split: bind_splits dest: processRequest_noCompletion)

text \<open>
  C7: Ownership of queued requests. When the queue is processed it is empty afterwards, nothing else
  of the controller's state changes (in particular the count of ignored interrupts is balanced),
  and exactly the fire and forget requests of the queue are freed, each once and in queue order;
  requests on a caller's stack are never freed.
\<close>

theorem processRequestQueue_ownership:
  assumes "\<forall>rq\<in>set (requestQueue (ctl s)). noCompletion rq" and "processRequestQueue e s = Some s'"
  shows "ctl s' = (ctl s)\<lparr>requestQueue := []\<rparr>
    \<and> freed s' = rev (map rq_addr (filter fireAndForget (requestQueue (ctl s)))) @ freed s"
  using processAll_noCompletion [OF assms(1), of e "s\<lparr>ctl := (ctl s)\<lparr>requestQueue := []\<rparr>\<rparr>" s'] assms(2) by (auto simp: processRequestQueue_def Let_def)

theorem processRequestQueue_ownership_witness:
  "\<exists>s'. processRequestQueue sim_env (submitRequest (TPS2Request []) (submitRequest (new_PS2Request 6 0)
       (submitRequest (new_PS2Request 5 0) (sim_sys [])))) = Some s'
     \<and> requestQueue (ctl s') = [] \<and> ignoreInterrupts (ctl s') = 0 \<and> freed s' = [6, 5]"
proof -
  let ?s = "submitRequest (TPS2Request []) (submitRequest (new_PS2Request 6 0)
       (submitRequest (new_PS2Request 5 0) (sim_sys [])))"
  have "\<exists>s'. processRequestQueue sim_env ?s = Some s'"
    by (simp add: processRequestQueue_def submitRequest_def processRequest_def runRequest_def request_ok_def
        TPS2Request_def new_PS2Request_def completeRequest_def ignoreInterrupts_add_def sim_defs)
  then obtain s' where s': "processRequestQueue sim_env ?s = Some s'" by blast
  have q: "\<forall>rq\<in>set (requestQueue (ctl ?s)). noCompletion rq"
    by (simp add: submitRequest_def TPS2Request_def new_PS2Request_def noCompletion_def fireAndForget_def
        kStackCompletionTarget_def sim_defs)
  show ?thesis using processRequestQueue_ownership [OF q s'] s'
    by (simp add: submitRequest_def TPS2Request_def new_PS2Request_def fireAndForget_def
        kStackCompletionTarget_def sim_defs)
qed

lemma processAll_offline:
  "hardwareOffline (ctl s) \<Longrightarrow> (\<forall>rq\<in>set rqs. noCompletion rq) \<Longrightarrow>
     processAll e rqs s = Some (s\<lparr>freed := rev (map rq_addr (filter fireAndForget rqs)) @ freed s\<rparr>)"
proof (induction rqs arbitrary: s)
  case (Cons rq rqs)
  have "noCompletion (rq\<lparr>commandsCount := 0\<rparr>)" "fireAndForget (rq\<lparr>commandsCount := 0\<rparr>) = fireAndForget rq"
    using Cons.prems by (auto simp: noCompletion_def fireAndForget_def)
  then have "processRequest e rq s = Some (rq\<lparr>commandsCount := 0\<rparr>,
      if fireAndForget rq then s\<lparr>freed := rq_addr rq # freed s\<rparr> else s)"
    using Cons.prems completeRequest_noCompletion [of "rq\<lparr>commandsCount := 0\<rparr>" e s]
    by (simp add: processRequest_def runRequest_def freeRequest_def)
  then show ?case using Cons.prems Cons.IH by simp
qed simp


subsection \<open>The command byte\<close>

lemma law_write: "commandByteLaw e quiet cb \<Longrightarrow> quiet (hw s) \<Longrightarrow>
  \<exists>h. quiet h \<and> cb h = cb (hw s) \<and> writeCommandPort e b s = Some (s\<lparr>hw := outb e kCommandPort b h\<rparr>)"
proof -
  assume "commandByteLaw e quiet cb" and "quiet (hw s)"
  then obtain n h where "idleAfter e n (hw s) h" "quiet h" "cb h = cb (hw s)"
    unfolding commandByteLaw_def by blast
  then show ?thesis using waitInput_complete [of e n s h]
    by (intro exI [of _ h]) (simp add: writeCommandPort_def sys_outb_def)
qed

lemma law_get:
  assumes "commandByteLaw e quiet cb" and "quiet (hw s)"
  shows "\<exists>h. (do { s \<leftarrow> writeCommandPort e kCP_GetCommandByte s; readDataPort e kDT_Keyboard s })
      = Some (cb (hw s), s\<lparr>hw := h\<rparr>) \<and> quiet h \<and> cb h = cb (hw s)"
proof -
  obtain h where h: "quiet h" "cb h = cb (hw s)"
    "writeCommandPort e kCP_GetCommandByte s = Some (s\<lparr>hw := outb e kCommandPort kCP_GetCommandByte h\<rparr>)"
    using law_write [OF assms] by blast
  obtain t h' where "nextByte e 10000 (outb e kCommandPort kCP_GetCommandByte h) = (Some (t, kDT_Keyboard, cb h), h')"
    "quiet h'" "cb h' = cb h"
    using assms(1) h(1) unfolding commandByteLaw_def by blast
  then show ?thesis using h
    by (intro exI [of _ h']) (simp add: readDataPort_def readTimeout_def readDataPort_loop_next)
qed

lemma law_set:
  assumes "commandByteLaw e quiet cb" and "quiet (hw s)"
  shows "\<exists>h. (do { s \<leftarrow> writeCommandPort e kCP_SetCommandByte s; writeDataPort e v s })
      = Some (s\<lparr>hw := h\<rparr>) \<and> quiet h \<and> cb h = v"
proof -
  obtain h where h: "quiet h" "cb h = cb (hw s)"
    "writeCommandPort e kCP_SetCommandByte s = Some (s\<lparr>hw := outb e kCommandPort kCP_SetCommandByte h\<rparr>)"
    using law_write [OF assms] by blast
  obtain n h' where "idleAfter e n (outb e kCommandPort kCP_SetCommandByte h) h'"
    "quiet (outb e kDataPort v h')" "cb (outb e kDataPort v h') = v"
    using assms(1) h(1) unfolding commandByteLaw_def by blast
  then show ?thesis using h waitInput_complete [of e n "s\<lparr>hw := outb e kCommandPort kCP_SetCommandByte h\<rparr>" h']
    by (intro exI [of _ "outb e kDataPort v h'"]) (simp add: writeDataPort_def sys_outb_def)
qed

lemma setCommandByte_law:
  assumes "commandByteLaw e quiet cb" and "quiet (hw s)"
  shows "\<exists>h. setCommandByte e sets clears s = Some (cb (hw s), s\<lparr>hw := h\<rparr>) \<and> quiet h
    \<and> cb h = (cb (hw s) OR sets) AND NOT clears"
proof -
  let ?s1 = "ignoreInterrupts_add 1 s"
  obtain h where g: "(do { s \<leftarrow> writeCommandPort e kCP_GetCommandByte ?s1; readDataPort e kDT_Keyboard s })
      = Some (cb (hw s), ?s1\<lparr>hw := h\<rparr>)" "quiet h" "cb h = cb (hw s)"
    using law_get [OF assms(1), of ?s1] assms(2) by (auto simp: ignoreInterrupts_add_def)
  have s2: "ignoreInterrupts_add (- 1) (?s1\<lparr>hw := h\<rparr>) = s\<lparr>hw := h\<rparr>"
    by (simp add: ignoreInterrupts_add_def)
  obtain h2 where w: "writeCommandPort e kCP_SetCommandByte (s\<lparr>hw := h\<rparr>)
        \<bind> writeDataPort e ((cb (hw s) OR sets) AND NOT clears) = Some (s\<lparr>hw := h2\<rparr>)"
      "quiet h2" "cb h2 = (cb (hw s) OR sets) AND NOT clears"
    using law_set [OF assms(1), of "s\<lparr>hw := h\<rparr>"] g(2) by auto
  obtain y where y: "writeCommandPort e kCP_GetCommandByte ?s1 = Some y"
    "readDataPort e kDT_Keyboard y = Some (cb (hw s), ?s1\<lparr>hw := h\<rparr>)"
    using g(1) by (auto simp: bind_eq_Some_conv)
  obtain z where z: "writeCommandPort e kCP_SetCommandByte (s\<lparr>hw := h\<rparr>) = Some z"
    "writeDataPort e ((cb (hw s) OR sets) AND NOT clears) z = Some (s\<lparr>hw := h2\<rparr>)"
    using w(1) by (auto simp: bind_eq_Some_conv)
  let ?h = "if cb (hw s) \<noteq> (cb (hw s) OR sets) AND NOT clears then h2 else h"
  have "setCommandByte e sets clears s = Some (cb (hw s), s\<lparr>hw := ?h\<rparr>)"
    using y z by (simp add: setCommandByte_def setCommandByteGated_def TPS2Request_def Let_def s2)
  then show ?thesis using g(2,3) w(2,3) by (intro exI [of _ ?h]) simp
qed

lemma sim_commandByteLaw: "commandByteLaw sim_env (\<lambda>h. outq h = [] \<and> awaiting h = AwaitDevice) cbyte"
proof -
  have idle: "idleAfter sim_env 0 h h" for h by simp
  show ?thesis unfolding commandByteLaw_def
    by (intro conjI allI impI; (rule exI)+; rule conjI, (rule idle | rule sim_nextByte))
      (auto simp: i8042_outb_def ps2_const)
qed

text \<open>
  \<^verbatim>\<open>setCommandByte\<close> on an 8042 that keeps the documented behaviour returns, reports the old command
  byte, and leaves in the controller the old byte with the bits \<open>sets\<close> set and then the bits
  \<open>clears\<close> cleared; the rest of the system is as before, and interrupts are again taken as before.
  The primitive \<^verbatim>\<open>kPS2C_ModifyCommandByte\<close> has the same effect as part of a request.
\<close>

lemma setCommandByte_effect:
  assumes "commandByteLaw e quiet cb" and "quiet (hw s)"
  shows "(\<exists>h. setCommandByte e sets clears s = Some (cb (hw s), s\<lparr>hw := h\<rparr>) \<and> quiet h
      \<and> cb h = (cb (hw s) OR sets) AND NOT clears)
    \<and> (\<exists>h. processCommand e (cmdBits kPS2C_ModifyCommandByte sets clears) m tx s =
        Some (set_oldBits (cb (hw s)) (cmdBits kPS2C_ModifyCommandByte sets clears), False, m, tx, s\<lparr>hw := h\<rparr>)
      \<and> quiet h \<and> cb h = (cb (hw s) OR sets) AND NOT clears)"
proof -
  obtain h where g: "writeCommandPort e kCP_GetCommandByte s \<bind> readDataPort e kDT_Keyboard
      = Some (cb (hw s), s\<lparr>hw := h\<rparr>)" "quiet h"
    using law_get [OF assms] by blast
  obtain h2 where w: "writeCommandPort e kCP_SetCommandByte (s\<lparr>hw := h\<rparr>)
        \<bind> writeDataPort e ((cb (hw s) OR sets) AND NOT clears) = Some (s\<lparr>hw := h2\<rparr>)"
      "quiet h2" "cb h2 = (cb (hw s) OR sets) AND NOT clears"
    using law_set [OF assms(1), of "s\<lparr>hw := h\<rparr>"] g(2) by auto
  have "processCommand e (cmdBits kPS2C_ModifyCommandByte sets clears) m tx s =
        Some (set_oldBits (cb (hw s)) (cmdBits kPS2C_ModifyCommandByte sets clears), False, m, tx, s\<lparr>hw := h2\<rparr>)"
    using g(1) w(1) by (auto simp: processCommand_def bind_eq_Some_conv)
  then show ?thesis using w(2,3) setCommandByte_law [OF assms] by blast
qed

lemma setCommandByte_effect_witness:
  "\<exists>h. setCommandByte sim_env kCB_EnableMouseIRQ kCB_EnableKeyboardIRQ (sim_sys []) =
     Some (0x47, (sim_sys [])\<lparr>hw := h\<rparr>) \<and> cbyte h = 0x46"
  using setCommandByte_effect [OF sim_commandByteLaw, of "sim_sys []" kCB_EnableMouseIRQ kCB_EnableKeyboardIRQ]
  by (auto simp: sim_sys_def ps2_const)

end
