(* ===== verification/PS2_Interrupt.thy ===== *)
theory PS2_Interrupt
  imports PS2_Request_Spec
begin

text \<open>
  The interrupt side of the controller: the handlers that run at interrupt time and hand each byte
  to the driver it belongs to, the work loop actions that process complete packets, and the
  installation and removal of a driver's routines.
\<close>

subsection \<open>Interrupt time\<close>

partial_function (option) handleInterrupt_loop ::
  "('h, 'd) env \<Rightarrow> bool \<Rightarrow> bool \<Rightarrow> ('h, 'd) sys \<Rightarrow> (bool \<times> bool \<times> ('h, 'd) sys) option" where
  "handleInterrupt_loop e wakeMouse wakeKeyboard s =
     (let (status, s) = sys_inb e kCommandPort s
      in if \<not> tst status kOutputReady then Some (wakeMouse, wakeKeyboard, s)
         else let (data, s) = sys_inb e kDataPort s
              in if tst status kMouseData
                 then do { (result, s) \<leftarrow> callInterruptAction e kDT_Mouse data s;
                           handleInterrupt_loop e (wakeMouse \<or> result = kPS2IR_packetReady) wakeKeyboard s }
                 else do { (result, s) \<leftarrow> callInterruptAction e kDT_Keyboard data s;
                           handleInterrupt_loop e wakeMouse (wakeKeyboard \<or> result = kPS2IR_packetReady) s })"

definition handleInterrupt :: "('h, 'd) env \<Rightarrow> ('h, 'd) sys \<Rightarrow> ('h, 'd) sys option" where
  "handleInterrupt e s =
     do { (wakeMouse, wakeKeyboard, s) \<leftarrow> handleInterrupt_loop e False False s;
          s \<leftarrow> (if wakeMouse then signalMouse s else Some s);
          (if wakeKeyboard then signalKeyboard s else Some s) }"

definition interruptHandlerMouse :: "('h, 'd) env \<Rightarrow> ('h, 'd) sys \<Rightarrow> ('h, 'd) sys option" where
  "interruptHandlerMouse e s = (if ignoreInterrupts (ctl s) \<noteq> 0 then Some s else handleInterrupt e s)"

definition interruptHandlerKeyboard :: "('h, 'd) env \<Rightarrow> ('h, 'd) sys \<Rightarrow> ('h, 'd) sys option" where
  "interruptHandlerKeyboard e s = (if ignoreInterrupts (ctl s) \<noteq> 0 then Some s else handleInterrupt e s)"

text \<open>The work loop runs these when the event source of the device was signalled.\<close>

definition packetReadyKeyboard :: "('h, 'd) env \<Rightarrow> ('h, 'd) sys \<Rightarrow> ('h, 'd) sys option" where
  "packetReadyKeyboard e s =
     (if interruptInstalledKeyboard (ctl s) then
        do { action \<leftarrow> packetActionKeyboard (ctl s);
             target \<leftarrow> interruptTargetKeyboard (ctl s);
             callPacket e action target s }
      else Some s)"

definition packetReadyMouse :: "('h, 'd) env \<Rightarrow> ('h, 'd) sys \<Rightarrow> ('h, 'd) sys option" where
  "packetReadyMouse e s =
     (if interruptInstalledMouse (ctl s) then
        do { action \<leftarrow> packetActionMouse (ctl s);
             target \<leftarrow> interruptTargetMouse (ctl s);
             callPacket e action target s }
      else Some s)"

subsection \<open>Installing and removing a driver's routines\<close>

definition retain :: "objref \<Rightarrow> ('h, 'd) sys \<Rightarrow> ('h, 'd) sys" where
  "retain target s = s\<lparr>refs := (refs s)(target := refs s target + 1)\<rparr>"

definition release :: "objref \<Rightarrow> ('h, 'd) sys \<Rightarrow> ('h, 'd) sys" where
  "release target s = s\<lparr>refs := (refs s)(target := refs s target - 1)\<rparr>"

definition enableInterrupt :: "nat \<Rightarrow> bool \<Rightarrow> ('h, 'd) sys \<Rightarrow> ('h, 'd) sys" where
  "enableInterrupt irq on s = s\<lparr>irqEnabled := (irqEnabled s)(irq := on)\<rparr>"

definition installInterruptAction ::
  "('h, 'd) env \<Rightarrow> PS2DeviceType \<Rightarrow> objref \<Rightarrow> funref \<Rightarrow> funref \<Rightarrow> ('h, 'd) sys \<Rightarrow> ('h, 'd) sys option" where
  "installInterruptAction e deviceType target interruptAction packetAction s =
     (if deviceType = kDT_Keyboard \<and> \<not> interruptInstalledKeyboard (ctl s) \<and> interruptSourceKeyboard (ctl s) then
        do { let s = retain target s;
             let s = s\<lparr>ctl := (ctl s)\<lparr>interruptTargetKeyboard := Some target,
                         interruptActionKeyboard := Some interruptAction,
                         packetActionKeyboard := Some packetAction\<rparr>, evKeyboard := True\<rparr>;
             (_, s) \<leftarrow> setCommandByte e kCB_EnableKeyboardIRQ 0 s;
             let s = enableInterrupt kIRQ_Keyboard True s;
             Some (s\<lparr>ctl := (ctl s)\<lparr>interruptInstalledKeyboard := True\<rparr>\<rparr>) }
      else if deviceType = kDT_Mouse \<and> \<not> interruptInstalledMouse (ctl s) \<and> interruptSourceMouse (ctl s) then
        do { let s = retain target s;
             let s = s\<lparr>ctl := (ctl s)\<lparr>interruptTargetMouse := Some target,
                         interruptActionMouse := Some interruptAction,
                         packetActionMouse := Some packetAction\<rparr>, evMouse := True\<rparr>;
             (_, s) \<leftarrow> setCommandByte e kCB_EnableMouseIRQ 0 s;
             let s = enableInterrupt kIRQ_Mouse True s;
             Some (s\<lparr>ctl := (ctl s)\<lparr>interruptInstalledMouse := True\<rparr>\<rparr>) }
      else Some s)"

definition uninstallInterruptAction ::
  "('h, 'd) env \<Rightarrow> PS2DeviceType \<Rightarrow> ('h, 'd) sys \<Rightarrow> ('h, 'd) sys option" where
  "uninstallInterruptAction e deviceType s =
     (if deviceType = kDT_Keyboard \<and> interruptInstalledKeyboard (ctl s) then
        do { (_, s) \<leftarrow> setCommandByte e 0 kCB_EnableKeyboardIRQ s;
             let s = enableInterrupt kIRQ_Keyboard False s;
             let s = s\<lparr>evKeyboard := False,
                       ctl := (ctl s)\<lparr>interruptInstalledKeyboard := False,
                         interruptActionKeyboard := None, packetActionKeyboard := None\<rparr>\<rparr>;
             target \<leftarrow> interruptTargetKeyboard (ctl s);
             let s = release target s;
             Some (s\<lparr>ctl := (ctl s)\<lparr>interruptTargetKeyboard := None\<rparr>\<rparr>) }
      else if deviceType = kDT_Mouse \<and> interruptInstalledMouse (ctl s) then
        do { (_, s) \<leftarrow> setCommandByte e 0 kCB_EnableMouseIRQ s;
             let s = enableInterrupt kIRQ_Mouse False s;
             let s = s\<lparr>evMouse := False,
                       ctl := (ctl s)\<lparr>interruptInstalledMouse := False,
                         interruptActionMouse := None, packetActionMouse := None\<rparr>\<rparr>;
             target \<leftarrow> interruptTargetMouse (ctl s);
             let s = release target s;
             Some (s\<lparr>ctl := (ctl s)\<lparr>interruptTargetMouse := None\<rparr>\<rparr>) }
      else Some s)"

subsection \<open>What the handlers do\<close>

text \<open>The bytes in the output buffer when an interrupt is handled, up to the point where it is empty.\<close>

fun drains :: "('h, 'd) env \<Rightarrow> 'h \<Rightarrow> (PS2DeviceType \<times> u8) list \<Rightarrow> 'h \<Rightarrow> bool" where
  "drains e h [] h' \<longleftrightarrow> (let (status, h) = inb e kCommandPort h in \<not> tst status kOutputReady \<and> h' = h)"
| "drains e h ((d, b) # evs) h' \<longleftrightarrow>
     (let (status, h) = inb e kCommandPort h; (v, h) = inb e kDataPort h
      in tst status kOutputReady \<and> d = dataFor status \<and> b = v \<and> drains e h evs h')"

text \<open>The interrupt routines called for a list of bytes, and who of them reported a packet.\<close>

fun callAll ::
  "('h, 'd) env \<Rightarrow> (PS2DeviceType \<times> u8) list \<Rightarrow> ('h, 'd) sys \<Rightarrow> (bool \<times> bool \<times> ('h, 'd) sys) option" where
  "callAll e [] s = Some (False, False, s)"
| "callAll e ((d, b) # evs) s =
     do { (r, s) \<leftarrow> callInterruptAction e d b s;
          (m, k, s) \<leftarrow> callAll e evs s;
          Some (m \<or> d = kDT_Mouse \<and> r = kPS2IR_packetReady, k \<or> d = kDT_Keyboard \<and> r = kPS2IR_packetReady, s) }"

definition wake :: "bool \<Rightarrow> bool \<Rightarrow> ('h, 'd) sys \<Rightarrow> ('h, 'd) sys option" where
  "wake m k s = do { s \<leftarrow> (if m then signalMouse s else Some s); (if k then signalKeyboard s else Some s) }"

lemma dataFor_cases: "tst status kMouseData \<Longrightarrow> dataFor status = kDT_Mouse"
  "\<not> tst status kMouseData \<Longrightarrow> dataFor status = kDT_Keyboard"
  by (simp_all add: dataFor_def)

lemma callInterruptAction_sig:
  "callInterruptAction e d b (s\<lparr>sigMouse := x\<rparr>) = map_option (map_prod id (sigMouse_update (\<lambda>_. x))) (callInterruptAction e d b s)"
  "callInterruptAction e d b (s\<lparr>sigKeyboard := x\<rparr>) = map_option (map_prod id (sigKeyboard_update (\<lambda>_. x))) (callInterruptAction e d b s)"
  by (cases d; cases "interruptActionMouse (ctl s)"; cases "interruptTargetMouse (ctl s)";
      cases "interruptActionKeyboard (ctl s)"; cases "interruptTargetKeyboard (ctl s)";
      simp add: callInterruptAction_def split: prod.splits)+

lemma callAll_sig:
  "callAll e evs (s\<lparr>sigMouse := x\<rparr>) = map_option (map_prod id (map_prod id (sigMouse_update (\<lambda>_. x)))) (callAll e evs s)"
  "callAll e evs (s\<lparr>sigKeyboard := x\<rparr>) = map_option (map_prod id (map_prod id (sigKeyboard_update (\<lambda>_. x)))) (callAll e evs s)"
proof (induction evs arbitrary: s)
  case (Cons ev evs)
  obtain d b where ev: "ev = (d, b)" by fastforce
  {
    case 1
    show ?case
    proof (cases "callInterruptAction e d b s")
      case (Some r)
      then show ?thesis using Cons.IH(1) [of "snd r"] ev
        by (cases r; cases "callAll e evs (snd r)") (auto simp: callInterruptAction_sig)
    qed (simp add: ev callInterruptAction_sig)
  next
    case 2
    show ?case
    proof (cases "callInterruptAction e d b s")
      case (Some r)
      then show ?thesis using Cons.IH(2) [of "snd r"] ev
        by (cases r; cases "callAll e evs (snd r)") (auto simp: callInterruptAction_sig)
    qed (simp add: ev callInterruptAction_sig)
  }
qed simp_all

lemma callInterruptAction_ctl: "callInterruptAction e d b s = Some (r, s') \<Longrightarrow> ctl s' = ctl s"
  by (drule callInterruptAction_frame) (simp add: io_frame_iff)

lemma callAll_ctl: "callAll e evs s = Some (m, k, s') \<Longrightarrow> ctl s' = ctl s"
  by (induction e evs s arbitrary: m k s' rule: callAll.induct)
    (auto simp: bind_eq_Some_conv dest: callInterruptAction_ctl)

lemma deliverAll_callAll: "deliverAll e evs s = do { (m, k, s) \<leftarrow> callAll e evs s; wake m k s }"
proof (induction evs arbitrary: s)
  case (Cons ev evs)
  obtain d b where ev: "ev = (d, b)" by fastforce
  show ?case
  proof (cases "callInterruptAction e d b s")
    case (Some r)
    obtain res s1 where r: "r = (res, s1)" by fastforce
    show ?thesis
    proof (cases "callAll e evs s1")
      case None
      then show ?thesis using Some r ev
        by (cases d; cases res) (auto simp: dispatchDriverInterrupt_def Cons.IH signalMouse_def
            signalKeyboard_def callAll_sig split: bind_splits)
    next
      case (Some q)
      obtain m k s2 where q: "q = (m, k, s2)" by (cases q) auto
      have "ctl s2 = ctl s1" using callAll_ctl Some q by blast
      then show ?thesis using Some q \<open>callInterruptAction e d b s = Some r\<close> r ev
        by (cases d; cases res) (auto simp: dispatchDriverInterrupt_def Cons.IH signalMouse_def
            signalKeyboard_def callAll_sig wake_def)
    qed
  qed (simp add: ev dispatchDriverInterrupt_def)
qed (simp add: wake_def)

lemma handleInterrupt_loop_step: "handleInterrupt_loop e m k s =
  (let (status, h) = inb e kCommandPort (hw s)
   in if \<not> tst status kOutputReady then Some (m, k, s\<lparr>hw := h\<rparr>)
      else let (b, h) = inb e kDataPort h
           in do { (r, s) \<leftarrow> callInterruptAction e (dataFor status) b (s\<lparr>hw := h\<rparr>);
                   handleInterrupt_loop e (m \<or> dataFor status = kDT_Mouse \<and> r = kPS2IR_packetReady)
                     (k \<or> dataFor status = kDT_Keyboard \<and> r = kPS2IR_packetReady) s })"
  by (subst handleInterrupt_loop.simps) (auto simp: sys_inb_def dataFor_def split: prod.splits)


lemma callAll_hw:
  "callAll e evs (s\<lparr>hw := h\<rparr>) = map_option (map_prod id (map_prod id (hw_update (\<lambda>_. h)))) (callAll e evs s)"
proof (induction evs arbitrary: s)
  case (Cons ev evs)
  obtain d b where ev: "ev = (d, b)" by fastforce
  show ?case
  proof (cases "callInterruptAction e d b s")
    case (Some r)
    then show ?thesis using Cons.IH [of "snd r"] ev
      by (cases r; cases "callAll e evs (snd r)") (auto simp: callInterruptAction_hw)
  qed (simp add: ev callInterruptAction_hw)
qed simp

definition handled :: "('h, 'd) env \<Rightarrow> bool \<Rightarrow> bool \<Rightarrow> ('h, 'd) sys \<Rightarrow> bool \<Rightarrow> bool \<Rightarrow> ('h, 'd) sys \<Rightarrow> bool" where
  "handled e m k s m' k' s' \<longleftrightarrow> (\<exists>evs h rm rk. drains e (hw s) evs h
     \<and> callAll e evs (s\<lparr>hw := h\<rparr>) = Some (rm, rk, s') \<and> m' = (m \<or> rm) \<and> k' = (k \<or> rk))"

lemma handled_empty:
  "inb e kCommandPort (hw s) = (status, h) \<Longrightarrow> \<not> tst status kOutputReady \<Longrightarrow> handled e m k s m k (s\<lparr>hw := h\<rparr>)"
  unfolding handled_def by (rule exI [of _ "[]"]) auto

lemma handled_more:
  assumes "inb e kCommandPort (hw s) = (status, h0)" and "tst status kOutputReady"
    and "inb e kDataPort h0 = (b, h1)"
    and call: "callInterruptAction e (dataFor status) b (s\<lparr>hw := h1\<rparr>) = Some (r, s1)"
    and "handled e (m \<or> dataFor status = kDT_Mouse \<and> r = kPS2IR_packetReady)
      (k \<or> dataFor status = kDT_Keyboard \<and> r = kPS2IR_packetReady) s1 m' k' s'"
  shows "handled e m k s m' k' s'"
proof -
  let ?d = "dataFor status"
  obtain s0 where s0: "callInterruptAction e ?d b s = Some (r, s0)" "s1 = s0\<lparr>hw := h1\<rparr>"
    using call by (auto simp: callInterruptAction_hw)
  obtain evs h rm rk where o: "drains e h1 evs h" "callAll e evs (s0\<lparr>hw := h\<rparr>) = Some (rm, rk, s')"
    "m' = ((m \<or> ?d = kDT_Mouse \<and> r = kPS2IR_packetReady) \<or> rm)"
    "k' = ((k \<or> ?d = kDT_Keyboard \<and> r = kPS2IR_packetReady) \<or> rk)"
    using assms(5) s0 by (auto simp: handled_def)
  have "drains e (hw s) ((?d, b) # evs) h" using o(1) assms(1,2,3) by simp
  moreover have "callAll e ((?d, b) # evs) (s\<lparr>hw := h\<rparr>) = Some (rm \<or> ?d = kDT_Mouse \<and> r = kPS2IR_packetReady,
      rk \<or> ?d = kDT_Keyboard \<and> r = kPS2IR_packetReady, s')"
    using o(2) s0 by (simp add: callInterruptAction_hw)
  moreover have "m' = (m \<or> rm \<or> ?d = kDT_Mouse \<and> r = kPS2IR_packetReady)"
    "k' = (k \<or> rk \<or> ?d = kDT_Keyboard \<and> r = kPS2IR_packetReady)" using o(3,4) by auto
  ultimately show ?thesis unfolding handled_def by blast
qed

lemma handleInterrupt_loop_sound:
  "handleInterrupt_loop e m k s = Some r \<Longrightarrow> handled e m k s (fst r) (fst (snd r)) (snd (snd r))"
proof (erule handleInterrupt_loop.raw_induct [where P = "\<lambda>e m k s r. handled e m k s (fst r) (fst (snd r)) (snd (snd r))", rotated])
  fix f :: "('h, 'd) env \<Rightarrow> bool \<Rightarrow> bool \<Rightarrow> ('h, 'd) sys \<Rightarrow> (bool \<times> bool \<times> ('h, 'd) sys) option" and e m k s r
  assume IH: "\<And>e m k s r. f e m k s = Some r \<Longrightarrow> handled e m k s (fst r) (fst (snd r)) (snd (snd r))"
    and body: "(let (status, s) = sys_inb e kCommandPort s
      in if \<not> tst status kOutputReady then Some (m, k, s)
         else let (data, s) = sys_inb e kDataPort s
              in if tst status kMouseData
                 then do { (result, s) \<leftarrow> callInterruptAction e kDT_Mouse data s;
                           f e (m \<or> result = kPS2IR_packetReady) k s }
                 else do { (result, s) \<leftarrow> callInterruptAction e kDT_Keyboard data s;
                           f e m (k \<or> result = kPS2IR_packetReady) s }) = Some r"
  obtain status h0 where i0: "inb e kCommandPort (hw s) = (status, h0)" by fastforce
  obtain b h1 where i1: "inb e kDataPort h0 = (b, h1)" by fastforce
  show "handled e m k s (fst r) (fst (snd r)) (snd (snd r))"
  proof (cases "tst status kOutputReady")
    case True
    then obtain res s1 where "callInterruptAction e (dataFor status) b (s\<lparr>hw := h1\<rparr>) = Some (res, s1)"
      "f e (m \<or> dataFor status = kDT_Mouse \<and> res = kPS2IR_packetReady)
        (k \<or> dataFor status = kDT_Keyboard \<and> res = kPS2IR_packetReady) s1 = Some r"
      using body i0 i1 by (cases "tst status kMouseData") (auto simp: sys_inb_def dataFor_cases bind_eq_Some_conv)
    then show ?thesis by (intro handled_more [OF i0 True i1] IH)
  next
    case False
    then show ?thesis using body i0 by (auto simp: sys_inb_def intro: handled_empty)
  qed
qed

lemma handleInterrupt_loop_complete:
  assumes "drains e (hw s) evs h" and "callAll e evs (s\<lparr>hw := h\<rparr>) = Some (rm, rk, s')"
  shows "handleInterrupt_loop e m k s = Some (m \<or> rm, k \<or> rk, s')"
  using assms
proof (induction evs arbitrary: s m k rm rk)
  case Nil
  then show ?case by (subst handleInterrupt_loop_step) (auto split: prod.splits)
next
  case (Cons ev evs)
  obtain d b where ev: "ev = (d, b)" by fastforce
  obtain status h0 h1 where i: "inb e kCommandPort (hw s) = (status, h0)" "inb e kDataPort h0 = (b, h1)"
    "tst status kOutputReady" "d = dataFor status" "drains e h1 evs h"
    using Cons.prems(1) ev by (auto split: prod.splits)
  obtain r s0 rm' rk' where c: "callInterruptAction e d b s = Some (r, s0)"
    "callAll e evs (s0\<lparr>hw := h\<rparr>) = Some (rm', rk', s')"
    "rm = (rm' \<or> d = kDT_Mouse \<and> r = kPS2IR_packetReady)" "rk = (rk' \<or> d = kDT_Keyboard \<and> r = kPS2IR_packetReady)"
    using Cons.prems(2) ev by (auto simp: callInterruptAction_hw bind_eq_Some_conv)
  have "handleInterrupt_loop e m' k' (s0\<lparr>hw := h1\<rparr>) = Some (m' \<or> rm', k' \<or> rk', s')" for m' k'
    using Cons.IH [of "s0\<lparr>hw := h1\<rparr>"] i(5) c(2) by simp
  then show ?case using i c
    by (subst handleInterrupt_loop_step) (auto simp: callInterruptAction_hw)
qed

text \<open>
  C24: An interrupt handler returns exactly when the output buffer runs empty. Taking the bytes in one
  go and waking the work loop once at the end has the same effect as delivering each byte at once:
  every byte goes to the routine of the device it came from, in order of arrival, and a device is
  woken exactly if its routine reported a packet. While the counter of ignored interrupts is not
  zero the handlers do nothing, so a request that polls the port gets all the bytes.
\<close>

theorem interruptHandler_effect:
  "interruptHandlerMouse e s = interruptHandlerKeyboard e s
   \<and> (interruptHandlerKeyboard e s = Some s' \<longleftrightarrow>
       (if ignoreInterrupts (ctl s) = 0
        then \<exists>evs h. drains e (hw s) evs h \<and> deliverAll e evs (s\<lparr>hw := h\<rparr>) = Some s'
        else s' = s))"
proof -
  have h: "handleInterrupt e s = handleInterrupt_loop e False False s \<bind> (\<lambda>(m, k, s). wake m k s)"
    by (simp add: handleInterrupt_def wake_def)
  have "handleInterrupt e s = Some s' \<longleftrightarrow> (\<exists>evs h. drains e (hw s) evs h \<and> deliverAll e evs (s\<lparr>hw := h\<rparr>) = Some s')"
  proof
    assume "handleInterrupt e s = Some s'"
    then obtain m k s1 where l: "handleInterrupt_loop e False False s = Some (m, k, s1)" and w: "wake m k s1 = Some s'"
      unfolding h by (auto simp: bind_eq_Some_conv)
    show "\<exists>evs h. drains e (hw s) evs h \<and> deliverAll e evs (s\<lparr>hw := h\<rparr>) = Some s'"
    proof -
      obtain evs h where "drains e (hw s) evs h" "callAll e evs (s\<lparr>hw := h\<rparr>) = Some (m, k, s1)"
        using handleInterrupt_loop_sound [OF l] by (auto simp: handled_def)
      then show ?thesis using w by (intro exI [of _ evs] exI [of _ h]) (simp add: deliverAll_callAll)
    qed
  next
    assume "\<exists>evs h. drains e (hw s) evs h \<and> deliverAll e evs (s\<lparr>hw := h\<rparr>) = Some s'"
    then show "handleInterrupt e s = Some s'"
      unfolding h using handleInterrupt_loop_complete [of e s _ _ _ _ _ False False]
      by (fastforce simp: deliverAll_callAll bind_eq_Some_conv)
  qed
  then show ?thesis by (auto simp: interruptHandlerKeyboard_def interruptHandlerMouse_def)
qed

end
