(* ===== verification/PS2_Power.thy ===== *)
theory PS2_Power
  imports PS2_Interrupt
begin

text \<open>
  The life cycle of the controller: start and stop, the reset of the 8042, the power states, and
  the messages it passes between the drivers.
\<close>

subsection \<open>Power control routines of the drivers\<close>

definition dispatchDriverPowerControl ::
  "('h, 'd) env \<Rightarrow> PS2PowerAction \<Rightarrow> PS2DeviceType \<Rightarrow> ('h, 'd) sys \<Rightarrow> ('h, 'd) sys option" where
  "dispatchDriverPowerControl e whatToDo deviceType s =
     do { s \<leftarrow> (if deviceType = kDT_Mouse \<and> powerControlInstalledMouse (ctl s) then
                  do { action \<leftarrow> powerControlActionMouse (ctl s);
                       target \<leftarrow> powerControlTargetMouse (ctl s);
                       callPower e action target whatToDo s }
                else Some s);
          (if deviceType = kDT_Keyboard \<and> powerControlInstalledKeyboard (ctl s) then
             do { action \<leftarrow> powerControlActionKeyboard (ctl s);
                  target \<leftarrow> powerControlTargetKeyboard (ctl s);
                  callPower e action target whatToDo s }
           else Some s) }"

definition installPowerControlAction ::
  "PS2DeviceType \<Rightarrow> objref \<Rightarrow> funref \<Rightarrow> ('h, 'd) sys \<Rightarrow> ('h, 'd) sys" where
  "installPowerControlAction deviceType target action s =
     (if deviceType = kDT_Keyboard \<and> \<not> powerControlInstalledKeyboard (ctl s) then
        let s = retain target s
        in s\<lparr>ctl := (ctl s)\<lparr>powerControlTargetKeyboard := Some target,
               powerControlActionKeyboard := Some action, powerControlInstalledKeyboard := True\<rparr>\<rparr>
      else if deviceType = kDT_Mouse \<and> \<not> powerControlInstalledMouse (ctl s) then
        let s = retain target s
        in s\<lparr>ctl := (ctl s)\<lparr>powerControlTargetMouse := Some target,
               powerControlActionMouse := Some action, powerControlInstalledMouse := True\<rparr>\<rparr>
      else s)"

definition uninstallPowerControlAction ::
  "PS2DeviceType \<Rightarrow> ('h, 'd) sys \<Rightarrow> ('h, 'd) sys option" where
  "uninstallPowerControlAction deviceType s =
     (if deviceType = kDT_Keyboard \<and> powerControlInstalledKeyboard (ctl s) then
        do { target \<leftarrow> powerControlTargetKeyboard (ctl s);
             let s = release target s;
             Some (s\<lparr>ctl := (ctl s)\<lparr>powerControlInstalledKeyboard := False,
                       powerControlActionKeyboard := None, powerControlTargetKeyboard := None\<rparr>\<rparr>) }
      else if deviceType = kDT_Mouse \<and> powerControlInstalledMouse (ctl s) then
        do { target \<leftarrow> powerControlTargetMouse (ctl s);
             let s = release target s;
             Some (s\<lparr>ctl := (ctl s)\<lparr>powerControlInstalledMouse := False,
                       powerControlActionMouse := None, powerControlTargetMouse := None\<rparr>\<rparr>) }
      else Some s)"

subsection \<open>Reset of the 8042\<close>

definition set_suppressTimeout :: "bool \<Rightarrow> ('h, 'd) sys \<Rightarrow> ('h, 'd) sys" where
  "set_suppressTimeout b s = s\<lparr>ctl := (ctl s)\<lparr>suppressTimeout := b\<rparr>\<rparr>"

definition resetCommandByte :: "u8 \<Rightarrow> u8" where
  "resetCommandByte commandByte =
     (commandByte AND NOT (kCB_EnableKeyboardIRQ OR kCB_EnableMouseIRQ OR kCB_DisableMouseClock
        OR kCB_DisableMouseClock)) OR kCB_TranslateMode"

definition resetController :: "('h, 'd) env \<Rightarrow> ('h, 'd) sys \<Rightarrow> ('h, 'd) sys option" where
  "resetController e s =
     do { let s = set_suppressTimeout True s;
          s \<leftarrow> writeCommandPort e kCP_DisableKeyboardClock s;
          s \<leftarrow> writeCommandPort e kCP_DisableMouseClock s;
          (_, s) \<leftarrow> flushDataPort e 0 s;
          s \<leftarrow> writeCommandPort e kCP_EnableMouseClock s;
          s \<leftarrow> writeCommandPort e kCP_EnableKeyboardClock s;
          s \<leftarrow> writeCommandPort e kCP_GetCommandByte s;
          (commandByte, s) \<leftarrow> readDataPort e kDT_Keyboard s;
          s \<leftarrow> writeCommandPort e kCP_TestController s;
          (_, s) \<leftarrow> readDataPort e kDT_Keyboard s;
          (_, s) \<leftarrow> readDataPort e kDT_Mouse s;
          s \<leftarrow> writeCommandPort e kCP_TestKeyboardPort s;
          (_, s) \<leftarrow> readDataPort e kDT_Keyboard s;
          s \<leftarrow> writeCommandPort e kCP_TestMousePort s;
          (_, s) \<leftarrow> readDataPort e kDT_Mouse s;
          let s = set_suppressTimeout False s;
          s \<leftarrow> writeCommandPort e kCP_SetCommandByte s;
          s \<leftarrow> writeDataPort e (resetCommandByte commandByte) s;
          s \<leftarrow> writeDataPort e kDP_SetDefaultsAndDisable s;
          (_, s) \<leftarrow> readDataPort e kDT_Keyboard s;
          s \<leftarrow> writeCommandPort e kCP_TransmitToMouse s;
          s \<leftarrow> writeDataPort e kDP_SetDefaultsAndDisable s;
          (_, s) \<leftarrow> readDataPort e kDT_Mouse s;
          (_, s) \<leftarrow> flushDataPort e 0 s;
          Some s }"

subsection \<open>Power states\<close>

definition set_hardwareOffline :: "bool \<Rightarrow> ('h, 'd) sys \<Rightarrow> ('h, 'd) sys" where
  "set_hardwareOffline b s = s\<lparr>ctl := (ctl s)\<lparr>hardwareOffline := b\<rparr>\<rparr>"

definition IOSleep :: "u32 \<Rightarrow> ('h, 'd) sys \<Rightarrow> ('h, 'd) sys" where
  "IOSleep ms s = s\<lparr>sleeps := sleeps s @ [ms]\<rparr>"

text \<open>The branch to the sleep state, and the branch from it to a working state.\<close>

definition enterSleep :: "('h, 'd) env \<Rightarrow> ('h, 'd) sys \<Rightarrow> ('h, 'd) sys option" where
  "enterSleep e s =
     do { let s = ignoreInterrupts_add 1 s;
          (_, s) \<leftarrow> setCommandByte e 0 (kCB_EnableKeyboardIRQ OR kCB_EnableMouseIRQ) s;
          s \<leftarrow> dispatchDriverPowerControl e kPS2C_DisableDevice kDT_Mouse s;
          s \<leftarrow> dispatchDriverPowerControl e kPS2C_DisableDevice kDT_Keyboard s;
          let s = set_hardwareOffline True s;
          (_, s) \<leftarrow> setCommandByte e (kCB_DisableKeyboardClock OR kCB_DisableMouseClock) 0 s;
          Some s }"

definition leaveSleep :: "('h, 'd) env \<Rightarrow> ('h, 'd) sys \<Rightarrow> ('h, 'd) sys option" where
  "leaveSleep e s =
     do { let s = (if wakedelay (ctl s) \<noteq> 0 then IOSleep (wakedelay (ctl s)) s else s);
          s \<leftarrow> resetController e s;
          (_, s) \<leftarrow> setCommandByte e 0
            (kCB_DisableKeyboardClock OR kCB_DisableMouseClock OR kCB_EnableKeyboardIRQ OR kCB_EnableMouseIRQ) s;
          let s = set_hardwareOffline False s;
          s \<leftarrow> (if \<not> mouseWakeFirst (ctl s) then
                  do { s \<leftarrow> dispatchDriverPowerControl e kPS2C_EnableDevice kDT_Keyboard s;
                       dispatchDriverPowerControl e kPS2C_EnableDevice kDT_Mouse s }
                else
                  do { s \<leftarrow> dispatchDriverPowerControl e kPS2C_EnableDevice kDT_Mouse s;
                       dispatchDriverPowerControl e kPS2C_EnableDevice kDT_Keyboard s });
          (_, s) \<leftarrow> setCommandByte e (kCB_EnableKeyboardIRQ OR kCB_EnableMouseIRQ OR kCB_SystemFlag) 0 s;
          Some (ignoreInterrupts_add (- 1) s) }"

definition setPowerStateGated :: "('h, 'd) env \<Rightarrow> u32 \<Rightarrow> ('h, 'd) sys \<Rightarrow> ('h, 'd) sys option" where
  "setPowerStateGated e powerState s =
     do { s \<leftarrow> (if currentPowerState (ctl s) \<noteq> powerState then
                  do { s \<leftarrow> (if powerState = kPS2PowerStateSleep then enterSleep e s
                             else if powerState = kPS2PowerStateDoze \<or> powerState = kPS2PowerStateNormal then
                               (if currentPowerState (ctl s) \<noteq> kPS2PowerStateSleep then Some s
                                else leaveSleep e s)
                             else Some s);
                       Some (s\<lparr>ctl := (ctl s)\<lparr>currentPowerState := powerState\<rparr>\<rparr>) }
                else Some s);
          Some (s\<lparr>powerAcks := Suc (powerAcks s)\<rparr>) }"

text \<open>\<^verbatim>\<open>setPowerStateCallout\<close> and \<^verbatim>\<open>setPowerStateAction\<close>: the argument is an \<^verbatim>\<open>unsigned long\<close>
  passed through a pointer and cut to 32 bits.\<close>

definition setPowerStateCallout :: "('h, 'd) env \<Rightarrow> u64 \<Rightarrow> ('h, 'd) sys \<Rightarrow> ('h, 'd) sys option" where
  "setPowerStateCallout e param1 s =
     (if workLoop (ctl s) then setPowerStateGated e (ucast param1) s else Some s)"

subsection \<open>Properties\<close>

text \<open>\<^verbatim>\<open>setPropertiesGated\<close> on the two values it looks up in the dictionary, when they are there and
  have the right class.\<close>

definition setPropertiesGated :: "u32 option \<Rightarrow> bool option \<Rightarrow> controller \<Rightarrow> controller" where
  "setPropertiesGated num flag c =
     (let c = (case num of None \<Rightarrow> c | Some v \<Rightarrow> c\<lparr>wakedelay := v\<rparr>)
      in case flag of None \<Rightarrow> c | Some b \<Rightarrow> c\<lparr>mouseWakeFirst := b\<rparr>)"

subsection \<open>Start and stop\<close>

text \<open>What can fail in \<^verbatim>\<open>start\<close>: the allocations and registrations that the kernel may refuse.\<close>

record resources =
  got_superStart :: bool
  got_requestQueueLock :: bool
  got_workLoop :: bool
  got_interruptSourceMouse :: bool
  got_interruptSourceKeyboard :: bool
  got_interruptSourceQueue :: bool
  got_cmdGate :: bool
  added_interruptSourceQueue :: bool
  added_cmdGate :: bool
  got_powerChangeThreadCall :: bool
  got_keyboardDevice :: bool
  got_mouseDevice :: bool

definition stop :: "('h, 'd) env \<Rightarrow> ('h, 'd) sys \<Rightarrow> ('h, 'd) sys option" where
  "stop e s =
     do { let s = s\<lparr>ctl := (ctl s)\<lparr>notificationServices := [], keyboardDevice := False,
             mouseDevice := False, interruptSourceKeyboard := False, interruptSourceMouse := False,
             interruptSourceQueue := False, cmdGate := False, workLoop := False\<rparr>\<rparr>;
          s \<leftarrow> (if requestQueueLock (ctl s) then
                  do { s \<leftarrow> processRequestQueue e (set_hardwareOffline True s);
                       Some (s\<lparr>ctl := (ctl s)\<lparr>requestQueueLock := False\<rparr>\<rparr>) }
                else Some s);
          Some (s\<lparr>ctl := (ctl s)\<lparr>powerChangeThreadCall := False\<rparr>\<rparr>) }"

definition start :: "('h, 'd) env \<Rightarrow> resources \<Rightarrow> ('h, 'd) sys \<Rightarrow> (bool \<times> ('h, 'd) sys) option" where
  "start e r s =
     (let fail = (\<lambda>s. do { s \<leftarrow> stop e s; Some (False, s) })
      in if \<not> got_superStart r then Some (False, s)
         else do {
           s \<leftarrow> resetController e s;
           let s = s\<lparr>ctl := (ctl s)\<lparr>requestQueueLock := got_requestQueueLock r\<rparr>\<rparr>;
           if \<not> got_requestQueueLock r then fail s
           else do {
             let s = s\<lparr>ctl := (ctl s)\<lparr>workLoop := got_workLoop r,
                 interruptSourceMouse := got_interruptSourceMouse r,
                 interruptSourceKeyboard := got_interruptSourceKeyboard r,
                 interruptSourceQueue := got_interruptSourceQueue r, cmdGate := got_cmdGate r\<rparr>\<rparr>;
             if \<not> got_workLoop r \<or> \<not> got_interruptSourceMouse r \<or> \<not> got_interruptSourceKeyboard r
                \<or> \<not> got_interruptSourceQueue r \<or> \<not> got_cmdGate r then fail s
             else if \<not> added_interruptSourceQueue r then fail s
             else if \<not> added_cmdGate r then fail s
             else do {
               let s = s\<lparr>ctl := (ctl s)\<lparr>powerChangeThreadCall := got_powerChangeThreadCall r\<rparr>\<rparr>;
               if \<not> got_powerChangeThreadCall r then fail s
               else do {
                 let s = s\<lparr>ctl := (ctl s)\<lparr>keyboardDevice := got_keyboardDevice r,
                     interruptSourceKeyboard := got_keyboardDevice r\<rparr>\<rparr>;
                 let s = s\<lparr>ctl := (ctl s)\<lparr>mouseDevice := got_mouseDevice r,
                     interruptSourceMouse := got_mouseDevice r\<rparr>\<rparr>;
                 Some (True, s) } } } })"

subsection \<open>Messages\<close>

datatype notifier = publishNotify | terminateNotify

definition notificationHandlerGated :: "objref \<Rightarrow> notifier \<Rightarrow> ('h, 'd) sys \<Rightarrow> ('h, 'd) sys" where
  "notificationHandlerGated newService n s =
     (let services = notificationServices (ctl s)
      in s\<lparr>ctl := (ctl s)\<lparr>notificationServices :=
           (case n of
              publishNotify \<Rightarrow> if newService \<in> set services then services else services @ [newService]
            | terminateNotify \<Rightarrow> removeAll newService services)\<rparr>\<rparr>)"

text \<open>Keys that do not count as typing: the modifiers.\<close>

definition isModifierKey :: "u16 \<Rightarrow> bool" where
  "isModifierKey k \<longleftrightarrow> k \<in> {0x38, 0x3c, 0x3b, 0x3e, 0x3a, 0x3d, 0x37, 0x36, 0x3f}"

text \<open>
  The message goes to every service in turn; a receiver may change the data it points to, so the
  message is threaded through. The second round, for \<^verbatim>\<open>kPS2M_notifyKeyTime\<close>, passes the address of
  the time field of the first message's data, so what a receiver writes there ends up in that data.
\<close>

fun messageAll ::
  "('h, 'd) env \<Rightarrow> objref list \<Rightarrow> PS2Message \<Rightarrow> ('h, 'd) sys \<Rightarrow> (PS2Message \<times> ('h, 'd) sys) option" where
  "messageAll e [] m s = Some (m, s)"
| "messageAll e (service # services) m s =
     do { (m, s) \<leftarrow> callMessage e service m s; messageAll e services m s }"

definition dispatchMessageGated ::
  "('h, 'd) env \<Rightarrow> PS2Message \<Rightarrow> ('h, 'd) sys \<Rightarrow> (PS2Message \<times> ('h, 'd) sys) option" where
  "dispatchMessageGated e message s =
     do { (m, s) \<leftarrow> messageAll e (notificationServices (ctl s)) message s;
          case m of
            kPS2M_notifyKeyPressed info \<Rightarrow>
              if isModifierKey (adbKeyCode info) then Some (m, s)
              else do { (m', s) \<leftarrow> messageAll e (notificationServices (ctl s)) (kPS2M_notifyKeyTime (ki_time info)) s;
                        Some (case m' of kPS2M_notifyKeyTime t \<Rightarrow> kPS2M_notifyKeyPressed (info\<lparr>ki_time := t\<rparr>)
                              | _ \<Rightarrow> m, s) }
          | _ \<Rightarrow> Some (m, s) }"

end
