(* ===== verification/PS2_Invariant.thy ===== *)
theory PS2_Invariant
  imports PS2_Power
begin

text \<open>
The states of the controller that can occur, and what its life cycle does to them. \<open>sys_ok\<close> is
  the invariant of a running controller, \<open>ctl_step\<close> the steps it takes; what the drivers may do in
  their routines is the interface \<open>driver_clients\<close>. The properties of start, power changes and
  installation follow.
\<close>

text \<open>The controller's state but for the queue and for what the drivers and the hardware may change.\<close>

definition kstate :: "('h, 'd) sys \<Rightarrow> controller \<times> bool \<times> bool \<times> (nat \<Rightarrow> bool) \<times> (objref \<Rightarrow> int) \<times> nat" where
  "kstate s = ((ctl s)\<lparr>requestQueue := []\<rparr>, evKeyboard s, evMouse s, irqEnabled s, refs s, powerAcks s)"

definition queue_ok :: "('h, 'd) sys \<Rightarrow> bool" where
  "queue_ok s \<longleftrightarrow> (\<forall>rq\<in>set (requestQueue (ctl s)). noCompletion rq \<and> request_ok rq)"

definition client_ok ::
  "bool \<Rightarrow> bool \<Rightarrow> funref option \<Rightarrow> funref option \<Rightarrow> objref option \<Rightarrow> bool \<Rightarrow> bool \<Rightarrow> bool" where
  "client_ok installed source action packet target ev irq \<longleftrightarrow>
     (if installed then source \<and> action \<noteq> None \<and> packet \<noteq> None \<and> target \<noteq> None \<and> ev \<and> irq
      else action = None \<and> packet = None \<and> target = None \<and> \<not> ev \<and> \<not> irq)"

definition int_ok :: "('h, 'd) sys \<Rightarrow> bool" where
  "int_ok s \<longleftrightarrow>
     client_ok (interruptInstalledKeyboard (ctl s)) (interruptSourceKeyboard (ctl s))
       (interruptActionKeyboard (ctl s)) (packetActionKeyboard (ctl s)) (interruptTargetKeyboard (ctl s))
       (evKeyboard s) (irqEnabled s kIRQ_Keyboard)
     \<and> client_ok (interruptInstalledMouse (ctl s)) (interruptSourceMouse (ctl s))
       (interruptActionMouse (ctl s)) (packetActionMouse (ctl s)) (interruptTargetMouse (ctl s))
       (evMouse s) (irqEnabled s kIRQ_Mouse)"

definition power_client_ok :: "bool \<Rightarrow> funref option \<Rightarrow> objref option \<Rightarrow> bool" where
  "power_client_ok installed action target \<longleftrightarrow>
     (if installed then action \<noteq> None \<and> target \<noteq> None else action = None \<and> target = None)"

definition power_ok :: "('h, 'd) sys \<Rightarrow> bool" where
  "power_ok s \<longleftrightarrow>
     currentPowerState (ctl s) \<in> {kPS2PowerStateSleep, kPS2PowerStateDoze, kPS2PowerStateNormal}
     \<and> hardwareOffline (ctl s) = (currentPowerState (ctl s) = kPS2PowerStateSleep)
     \<and> ignoreInterrupts (ctl s) = (if currentPowerState (ctl s) = kPS2PowerStateSleep then 1 else 0)
     \<and> \<not> suppressTimeout (ctl s)
     \<and> power_client_ok (powerControlInstalledKeyboard (ctl s)) (powerControlActionKeyboard (ctl s))
          (powerControlTargetKeyboard (ctl s))
     \<and> power_client_ok (powerControlInstalledMouse (ctl s)) (powerControlActionMouse (ctl s))
          (powerControlTargetMouse (ctl s))"

definition sys_ok :: "('h, 'd) sys \<Rightarrow> bool" where
  "sys_ok s \<longleftrightarrow> int_ok s \<and> power_ok s \<and> queue_ok s"

lemma kstateE:
  assumes "kstate s' = kstate s"
  obtains q where "ctl s' = (ctl s)\<lparr>requestQueue := q\<rparr>" "evKeyboard s' = evKeyboard s"
    "evMouse s' = evMouse s" "irqEnabled s' = irqEnabled s" "refs s' = refs s" "powerAcks s' = powerAcks s"
proof
  have "(ctl s')\<lparr>requestQueue := []\<rparr> = (ctl s)\<lparr>requestQueue := []\<rparr>"
    using assms by (simp add: kstate_def)
  then have "(ctl s')\<lparr>requestQueue := [], requestQueue := requestQueue (ctl s')\<rparr> =
      (ctl s)\<lparr>requestQueue := [], requestQueue := requestQueue (ctl s')\<rparr>" by simp
  then show "ctl s' = (ctl s)\<lparr>requestQueue := requestQueue (ctl s')\<rparr>" by simp
qed (use assms in \<open>simp_all add: kstate_def\<close>)

lemma int_ok_kstate: "kstate s' = kstate s \<Longrightarrow> int_ok s' = int_ok s"
  by (erule kstateE) (simp add: int_ok_def)


lemma io_frame_kstate: "io_frame (s\<lparr>sleeps := x\<rparr>) s' \<Longrightarrow> kstate s' = kstate s"
  by (simp add: io_frame_iff kstate_def)


lemma io_bind:
  "io_frame s0 s \<Longrightarrow> (\<And>s'. io_frame s0 s' \<Longrightarrow> wlp (f s') Q) \<Longrightarrow> wlp (writeCommandPort e b s \<bind> f) Q"
  "io_frame s0 s \<Longrightarrow> (\<And>s'. io_frame s0 s' \<Longrightarrow> wlp (f s') Q) \<Longrightarrow> wlp (writeDataPort e b s \<bind> f) Q"
  "io_frame s0 s \<Longrightarrow> (\<And>v s'. io_frame s0 s' \<Longrightarrow> wlp (g v s') Q) \<Longrightarrow> wlp (readDataPort e d s \<bind> case_prod g) Q"
  "io_frame s0 s \<Longrightarrow> (\<And>v s'. io_frame s0 s' \<Longrightarrow> wlp (h v s') Q) \<Longrightarrow> wlp (flushDataPort e n s \<bind> case_prod h) Q"
  by (auto simp: wlp_def bind_eq_Some_conv dest!: io_frames intro: io_frame_trans)

lemma setCommandByteGated_wlp:
  "wlp (setCommandByteGated e rq s) (\<lambda>(rq', s'). io_frame s s')"
proof -
  have add: "io_frame (ignoreInterrupts_add 1 s) s' \<Longrightarrow> io_frame s (ignoreInterrupts_add (- 1) s')" for s'
    by (simp add: io_frame_iff ignoreInterrupts_add_def)
  show ?thesis
    unfolding setCommandByteGated_def Let_def
    by ((rule io_bind, assumption) | (rule io_bind, erule add) | (rule io_bind, rule io_frame_refl)
        | rule wlp_if | (rule wlp_Some, simp add: add))+
qed

lemma setCommandByte_frame:
  assumes "setCommandByte e a b s = Some (old, s')"
  shows "io_frame s s'"
  using assms wlpD [OF setCommandByteGated_wlp]
  by (fastforce simp: setCommandByte_def bind_eq_Some_conv)










lemma kstate_io: "io_frame s s' \<Longrightarrow> kstate s' = kstate s"
  by (simp add: io_frame_iff kstate_def)





subsection \<open>Steps of the controller\<close>






lemma setCommandByte_bind:
  "(\<And>s1. io_frame s s1 \<Longrightarrow> wlp (h s1) Q) \<Longrightarrow> wlp (setCommandByte e a b s \<bind> (\<lambda>(_, s). h s)) Q"
  using setCommandByte_frame by (fastforce simp: wlp_def bind_eq_Some_conv)

lemmas ok_parts = sys_ok_def int_ok_def power_ok_def queue_ok_def

lemmas ok_defs = ok_parts client_ok_def

lemma client_ok_simps:
  "client_ok True s a p t ev irq \<longleftrightarrow> s \<and> a \<noteq> None \<and> p \<noteq> None \<and> t \<noteq> None \<and> ev \<and> irq"
  "client_ok False s a p t ev irq \<longleftrightarrow> a = None \<and> p = None \<and> t = None \<and> \<not> ev \<and> \<not> irq"
  by (simp_all add: client_ok_def)

lemma install_ok:
  assumes "installInterruptAction e d target f g s = Some s'" and "sys_ok s"
  shows "sys_ok s'"
proof -
  have irq: "kIRQ_Keyboard \<noteq> kIRQ_Mouse" by (simp add: ps2_const)
  have "wlp (installInterruptAction e d target f g s) sys_ok"
    unfolding installInterruptAction_def Let_def
    apply (rule wlp_if)
     apply (rule setCommandByte_bind)
     apply (rule wlp_Some)
    subgoal using assms(2) irq by (simp add: io_frame_iff ok_parts enableInterrupt_def retain_def client_ok_simps)
    apply (rule wlp_if)
     apply (rule setCommandByte_bind)
     apply (rule wlp_Some)
    subgoal using assms(2) irq by (simp add: io_frame_iff ok_parts enableInterrupt_def retain_def client_ok_simps)
    using assms(2) by (rule wlp_Some)
  then show ?thesis using assms(1) by (rule wlpD)
qed









lemma power_states_distinct [simp]:
  "kPS2PowerStateDoze \<noteq> kPS2PowerStateSleep" "kPS2PowerStateNormal \<noteq> kPS2PowerStateSleep"
  "kPS2PowerStateSleep \<noteq> kPS2PowerStateDoze" "kPS2PowerStateSleep \<noteq> kPS2PowerStateNormal"
  by (simp_all add: ps2_const)




lemma int_ok_sleepwake [simp]:
  "int_ok (ignoreInterrupts_add n s) = int_ok s" "int_ok (set_hardwareOffline b s) = int_ok s"
  "int_ok (s\<lparr>ctl := (ctl s)\<lparr>currentPowerState := p\<rparr>\<rparr>) = int_ok s" "int_ok (s\<lparr>powerAcks := a\<rparr>) = int_ok s"
  by (simp_all add: int_ok_def ignoreInterrupts_add_def set_hardwareOffline_def)



subsection \<open>Properties of the life cycle\<close>



lemma sim_sys_ok: "sys_ok (sim_sys q)"
  by (simp add: ok_defs power_client_ok_def sim_sys_def sim_ctl_def init_controller_def)


lemma dispatch_total: "int_ok s \<Longrightarrow> \<exists>s'. dispatchDriverInterrupt e d b s = Some s' \<and> int_ok s'"
proof -
  assume ok: "int_ok s"
  have "\<exists>s'. dispatchDriverInterrupt e d b s = Some s'"
    using ok by (cases d) (auto simp: int_ok_def client_ok_def dispatchDriverInterrupt_def callInterruptAction_def
        signalMouse_def signalKeyboard_def split: if_splits prod.splits)
  then obtain s' where s': "dispatchDriverInterrupt e d b s = Some s'" by blast
  moreover have "int_ok s'"
    using int_ok_kstate [OF kstate_io [OF dispatchDriverInterrupt_frame [OF s']]] ok by simp
  ultimately show ?thesis by blast
qed

text \<open>
  In a well formed state no byte can make the controller call through a null pointer: whatever
  bytes arrive for whatever device, all are delivered.
\<close>

lemma delivery_total:
  assumes "sys_ok s"
  shows "\<exists>s'. deliverAll e evs s = Some s'"
proof -
  have "int_ok s \<Longrightarrow> \<exists>s'. deliverAll e evs s = Some s'"
  proof (induction evs arbitrary: s)
    case (Cons ev evs)
    obtain d b where "ev = (d, b)" by fastforce
    then show ?case using dispatch_total [OF Cons.prems, of e d b] Cons.IH by auto
  qed simp
  then show ?thesis using assms by (simp add: sys_ok_def)
qed

lemma delivery_total_witness:
  "\<exists>s'. deliverAll sim_env [(kDT_Keyboard, 0x1E), (kDT_Mouse, 8)] (sim_sys []) = Some s'"
  using delivery_total [OF sim_sys_ok] .
































text \<open>The fields of one device, and the bit of its interrupt in the command byte.\<close>

definition installed :: "PS2DeviceType \<Rightarrow> ('h, 'd) sys \<Rightarrow> bool" where
  "installed d s = (case d of kDT_Keyboard \<Rightarrow> interruptInstalledKeyboard (ctl s) | kDT_Mouse \<Rightarrow> interruptInstalledMouse (ctl s))"

definition hasSource :: "PS2DeviceType \<Rightarrow> ('h, 'd) sys \<Rightarrow> bool" where
  "hasSource d s = (case d of kDT_Keyboard \<Rightarrow> interruptSourceKeyboard (ctl s) | kDT_Mouse \<Rightarrow> interruptSourceMouse (ctl s))"

definition irqBit :: "PS2DeviceType \<Rightarrow> u8" where
  "irqBit d = (case d of kDT_Keyboard \<Rightarrow> kCB_EnableKeyboardIRQ | kDT_Mouse \<Rightarrow> kCB_EnableMouseIRQ)"

text \<open>
  Installing a driver's routines and removing them again. With an event source for the device and
  nothing installed, the installation retains the target, enables the device's interrupt in the
  command byte and nowhere else, and from then on the device's bytes go to the given routine;
  the removal undoes all of it: the whole system is as before but for the hardware, where only the
  interrupt bit of the device differs, being off. A second installation changes nothing.
\<close>

lemma install_uninstall_roundtrip:
  assumes "commandByteLaw e quiet cb" and "quiet (hw s)" and "sys_ok s" and "\<not> installed d s" and "hasSource d s"
  shows "\<exists>s1. installInterruptAction e d target f g s = Some s1 \<and> sys_ok s1 \<and> installed d s1
      \<and> quiet (hw s1) \<and> cb (hw s1) = cb (hw s) OR irqBit d \<and> refs s1 = (refs s)(target := refs s target + 1)
      \<and> (\<forall>b. dispatchDriverInterrupt e d b s1 =
           (let (r, x) = callInterrupt e f target b (drv s1); s2 = s1\<lparr>drv := x\<rparr>
            in if r \<noteq> kPS2IR_packetReady then Some s2
               else if d = kDT_Mouse then signalMouse s2 else signalKeyboard s2))
      \<and> installInterruptAction e d target' f' g' s1 = Some s1
      \<and> (\<exists>h. uninstallInterruptAction e d s1 = Some (s\<lparr>hw := h\<rparr>) \<and> cb h = cb (hw s) AND NOT (irqBit d))"
proof -
  have irq: "kIRQ_Keyboard \<noteq> kIRQ_Mouse" by (simp add: ps2_const)
  let ?f = "\<lambda>on s. case d of
      kDT_Keyboard \<Rightarrow> enableInterrupt kIRQ_Keyboard True (retain target s)\<lparr>evKeyboard := True, ctl := (ctl s)\<lparr>interruptTargetKeyboard := Some target,
          interruptActionKeyboard := Some f, packetActionKeyboard := Some g, interruptInstalledKeyboard := on\<rparr>\<rparr>
    | kDT_Mouse \<Rightarrow> enableInterrupt kIRQ_Mouse True (retain target s)\<lparr>evMouse := True, ctl := (ctl s)\<lparr>interruptTargetMouse := Some target,
          interruptActionMouse := Some f, packetActionMouse := Some g, interruptInstalledMouse := on\<rparr>\<rparr>"
  let ?pre = "case d of
      kDT_Keyboard \<Rightarrow> (retain target s)\<lparr>ctl := (ctl (retain target s))\<lparr>interruptTargetKeyboard := Some target,
          interruptActionKeyboard := Some f, packetActionKeyboard := Some g\<rparr>, evKeyboard := True\<rparr>
    | kDT_Mouse \<Rightarrow> (retain target s)\<lparr>ctl := (ctl (retain target s))\<lparr>interruptTargetMouse := Some target,
          interruptActionMouse := Some f, packetActionMouse := Some g\<rparr>, evMouse := True\<rparr>"
  have "hw ?pre = hw s" by (cases d) (simp_all add: retain_def)
  then obtain h where h: "setCommandByte e (irqBit d) 0 ?pre = Some (cb (hw s), ?pre\<lparr>hw := h\<rparr>)" "quiet h"
    "cb h = cb (hw s) OR irqBit d"
    using setCommandByte_law [OF assms(1), of ?pre "irqBit d" 0] assms(2) by auto
  let ?s1 = "(?f True s)\<lparr>hw := h\<rparr>"
  have inst: "installInterruptAction e d target f g s = Some ?s1"
    using h(1) assms(4,5)
    by (cases d) (simp_all add: installInterruptAction_def irqBit_def installed_def hasSource_def enableInterrupt_def retain_def)
  obtain h2 where h2: "setCommandByte e 0 (irqBit d) ?s1 = Some (cb h, ?s1\<lparr>hw := h2\<rparr>)" "cb h2 = cb h AND NOT (irqBit d)"
    using setCommandByte_law [OF assms(1), of ?s1 0 "irqBit d"] h(2) by auto
  have un: "uninstallInterruptAction e d ?s1 = Some (s\<lparr>hw := h2\<rparr>)"
    using h2(1) assms(3,4) irq
    by (cases d) (simp_all add: uninstallInterruptAction_def irqBit_def installed_def enableInterrupt_def
        retain_def release_def ok_parts client_ok_simps fun_upd_idem)
  have "cb h2 = cb (hw s) AND NOT (irqBit d)"
    unfolding h2(2) h(3) by (rule bit_word_eqI) (auto simp: bit_simps)
  moreover have "sys_ok ?s1" using install_ok [OF inst assms(3)] .
  moreover have "dispatchDriverInterrupt e d b ?s1 =
       (let (r, x) = callInterrupt e f target b (drv ?s1); s2 = ?s1\<lparr>drv := x\<rparr>
        in if r \<noteq> kPS2IR_packetReady then Some s2
           else if d = kDT_Mouse then signalMouse s2 else signalKeyboard s2)" for b
    by (cases d) (auto simp: dispatchDriverInterrupt_def callInterruptAction_def split: prod.splits)
  moreover have "installInterruptAction e d target' f' g' ?s1 = Some ?s1" "installed d ?s1"
    by (cases d; simp add: installInterruptAction_def installed_def)+
  moreover have "refs ?s1 = (refs s)(target := refs s target + 1)"
    by (cases d) (simp_all add: enableInterrupt_def retain_def)
  ultimately show ?thesis using inst un h by (intro exI [of _ ?s1]) auto
qed


definition sim_nomouse :: "(i8042, log) sys" where
  "sim_nomouse = (sim_sys [])\<lparr>ctl := sim_ctl\<lparr>interruptTargetMouse := None, interruptActionMouse := None,
     packetActionMouse := None, interruptInstalledMouse := False\<rparr>, evMouse := False,
     irqEnabled := (\<lambda>i. i = kIRQ_Keyboard)\<rparr>"

lemma install_uninstall_roundtrip_witness:
  "\<exists>s1 h. installInterruptAction sim_env kDT_Mouse 7 21 31 sim_nomouse = Some s1 \<and> cbyte (hw s1) = 0x47
     \<and> refs s1 7 = 2 \<and> uninstallInterruptAction sim_env kDT_Mouse s1 = Some (sim_nomouse\<lparr>hw := h\<rparr>) \<and> cbyte h = 0x45"
proof -
  have irq: "kIRQ_Keyboard \<noteq> kIRQ_Mouse" by (simp add: ps2_const)
  have "outq (hw sim_nomouse) = [] \<and> awaiting (hw sim_nomouse) = AwaitDevice"
    by (simp add: sim_nomouse_def sim_sys_def)
  moreover have "sys_ok sim_nomouse" "\<not> installed kDT_Mouse sim_nomouse" "hasSource kDT_Mouse sim_nomouse"
    using irq by (simp_all add: sim_nomouse_def ok_defs power_client_ok_def installed_def hasSource_def sim_defs)
  ultimately show ?thesis
    using install_uninstall_roundtrip [OF sim_commandByteLaw, of sim_nomouse kDT_Mouse 7 21 31]
    by (fastforce simp: sim_nomouse_def sim_sys_def irqBit_def ps2_const)
qed

text \<open>
  The command byte that \<^verbatim>\<open>resetController\<close> writes: both interrupts off, the mouse clock on, translation
  of scan codes on, and every other bit as it was. In particular a disabled keyboard clock stays
  disabled: the mask names the mouse clock twice and the keyboard clock not at all.
\<close>

lemma resetCommandByte_bits:
  "bit (resetCommandByte b) n \<longleftrightarrow>
     (if n \<in> {0, 1, 5} then False else if n = 6 then True else bit b n)"
proof (cases "n < 8")
  case True
  then have "n \<in> {0, 1, 2, 3, 4, 5, 6, 7}" by auto
  then show ?thesis
    by (elim insertE) (simp_all add: resetCommandByte_def ps2_const bit_simps bit_numeral_rec)
next
  case False
  then show ?thesis using bit_imp_le_length [of "resetCommandByte b" n] bit_imp_le_length [of b n] by auto
qed










end
