(* ===== verification/PS2_Nubs.thy ===== *)
theory PS2_Nubs
  imports PS2_Power
begin

text \<open>
  The nubs: the objects through which the drivers of a keyboard and a mouse reach the controller (ApplePS2Device.cpp,
  ApplePS2KeyboardDevice.cpp, ApplePS2MouseDevice.cpp; a call without a controller is undefined, None), and the nub that joins the ACPI entries of
  keyboard and mouse for the controller (AppleACPIPS2Nub.cpp; methods of its superclass are parameters).
\<close>

subsection \<open>The nubs of the keyboard and the mouse\<close>

record ps2_device =
  d_controller :: bool \<comment> \<open>the pointer is not null\<close>
  d_deviceType :: PS2DeviceType

text \<open>The two subclasses differ in the type only.\<close>

definition init_keyboardDevice :: "bool \<Rightarrow> bool \<times> ps2_device" where
  "init_keyboardDevice superInit = (superInit, \<lparr>d_controller = False, d_deviceType = kDT_Keyboard\<rparr>)"

definition init_mouseDevice :: "bool \<Rightarrow> bool \<times> ps2_device" where
  "init_mouseDevice superInit = (superInit, \<lparr>d_controller = False, d_deviceType = kDT_Mouse\<rparr>)"

definition attach_device :: "bool \<Rightarrow> objref \<Rightarrow> ps2_device \<Rightarrow> ('h, 'd) sys \<Rightarrow> bool \<times> ps2_device \<times> ('h, 'd) sys" where
  "attach_device superAttach provider n s =
     (if \<not> superAttach then (False, n, s) else (True, n\<lparr>d_controller := True\<rparr>, retain provider s))"

definition detach_device :: "objref \<Rightarrow> ps2_device \<Rightarrow> ('h, 'd) sys \<Rightarrow> (ps2_device \<times> ('h, 'd) sys) option" where
  "detach_device provider n s = (if d_controller n then Some (n\<lparr>d_controller := False\<rparr>, release provider s) else None)"

definition device_freeRequest :: "ps2_device \<Rightarrow> PS2Request \<Rightarrow> ('h, 'd) sys \<Rightarrow> ('h, 'd) sys option" where
  "device_freeRequest n rq s = (if d_controller n then Some (freeRequest rq s) else None)"

definition device_submitRequest :: "ps2_device \<Rightarrow> PS2Request \<Rightarrow> ('h, 'd) sys \<Rightarrow> ('h, 'd) sys option" where
  "device_submitRequest n rq s = (if d_controller n then Some (submitRequest rq s) else None)"

definition device_submitRequestAndBlock ::
  "('h, 'd) env \<Rightarrow> ps2_device \<Rightarrow> PS2Request \<Rightarrow> ('h, 'd) sys \<Rightarrow> (PS2Request \<times> ('h, 'd) sys) option" where
  "device_submitRequestAndBlock e n rq s = (if d_controller n then submitRequestAndBlock e rq s else None)"

definition device_setCommandByte :: "('h, 'd) env \<Rightarrow> ps2_device \<Rightarrow> u8 \<Rightarrow> u8 \<Rightarrow> ('h, 'd) sys \<Rightarrow> (u8 \<times> ('h, 'd) sys) option" where
  "device_setCommandByte e n sets clears s = (if d_controller n then setCommandByte e sets clears s else None)"

definition device_installInterruptAction ::
  "('h, 'd) env \<Rightarrow> ps2_device \<Rightarrow> objref \<Rightarrow> funref \<Rightarrow> funref \<Rightarrow> ('h, 'd) sys \<Rightarrow> ('h, 'd) sys option" where
  "device_installInterruptAction e n target interruptAction packetAction s =
     (if d_controller n then installInterruptAction e (d_deviceType n) target interruptAction packetAction s else None)"

definition device_uninstallInterruptAction :: "('h, 'd) env \<Rightarrow> ps2_device \<Rightarrow> ('h, 'd) sys \<Rightarrow> ('h, 'd) sys option" where
  "device_uninstallInterruptAction e n s = (if d_controller n then uninstallInterruptAction e (d_deviceType n) s else None)"

definition device_installPowerControlAction :: "ps2_device \<Rightarrow> objref \<Rightarrow> funref \<Rightarrow> ('h, 'd) sys \<Rightarrow> ('h, 'd) sys option" where
  "device_installPowerControlAction n target action s =
     (if d_controller n then Some (installPowerControlAction (d_deviceType n) target action s) else None)"

definition device_uninstallPowerControlAction :: "ps2_device \<Rightarrow> ('h, 'd) sys \<Rightarrow> ('h, 'd) sys option" where
  "device_uninstallPowerControlAction n s = (if d_controller n then uninstallPowerControlAction (d_deviceType n) s else None)"

definition device_dispatchMessage :: "('h, 'd) env \<Rightarrow> ps2_device \<Rightarrow> PS2Message \<Rightarrow> ('h, 'd) sys \<Rightarrow> (PS2Message \<times> ('h, 'd) sys) option" where
  "device_dispatchMessage e n message s = (if d_controller n then dispatchMessageGated e message s else None)"

subsection \<open>The ACPI nub\<close>

text \<open>
  An entry of the registry as the nub sees it: whether its names match those of a mouse, whether it is a service, its interrupt
  properties, and whether it takes part in power management or wants notifications.
\<close>

record 'x acpi_entry =
  en_matches :: bool
  en_service :: bool
  en_controllers :: "'x list option"
  en_specifiers :: "'x list option"
  en_powerPlane :: bool
  en_deliver :: bool

record 'x acpi_nub =
  n_mouseProvider :: "'x acpi_entry option"
  n_interruptControllers :: "'x list"
  n_interruptSpecifiers :: "'x list"
  n_properties :: "('x list \<times> 'x list) option" \<comment> \<open>the published controllers and specifiers\<close>
  n_powerJoined :: nat
  n_registered :: bool

definition LEGACY_KEYBOARD_IRQ :: nat where
  "LEGACY_KEYBOARD_IRQ = 1"

definition LEGACY_MOUSE_IRQ :: nat where
  "LEGACY_MOUSE_IRQ = 12"

definition mergeInterruptProperties :: "'x acpi_entry \<Rightarrow> 'x acpi_nub \<Rightarrow> 'x acpi_nub" where
  "mergeInterruptProperties pnpProvider n =
     (case (en_controllers pnpProvider, en_specifiers pnpProvider) of
        (Some (c # _), Some (p # _)) \<Rightarrow>
          n\<lparr>n_interruptControllers := n_interruptControllers n @ [c], n_interruptSpecifiers := n_interruptSpecifiers n @ [p]\<rparr>
      | _ \<Rightarrow> n)"

text \<open>The delay, from the property or the boot argument, and the first entry of the ACPI plane that matches.\<close>

definition findMouseDelay :: "u32 option \<Rightarrow> u32 option \<Rightarrow> u32" where
  "findMouseDelay property bootArg = (case bootArg of Some d \<Rightarrow> d | None \<Rightarrow> case property of Some d \<Rightarrow> d | None \<Rightarrow> 100)"

definition findMouseDevice :: "'x acpi_entry list option \<Rightarrow> 'x acpi_entry option" where
  "findMouseDevice plane =
     (case plane of
        None \<Rightarrow> None
      | Some entries \<Rightarrow> (case List.find en_matches entries of Some entry \<Rightarrow> if en_service entry then Some entry else None | None \<Rightarrow> None))"

definition start_acpi ::
  "bool \<Rightarrow> bool \<times> bool \<Rightarrow> 'x acpi_entry \<Rightarrow> 'x acpi_entry list option \<Rightarrow> bool \<Rightarrow> 'x acpi_nub \<Rightarrow> bool \<times> 'x acpi_nub" where
  "start_acpi superStart arrays provider plane attached n =
     (if \<not> superStart then (False, n)
      else
        let n = n\<lparr>n_interruptControllers := [], n_interruptSpecifiers := []\<rparr>
        in if \<not> fst arrays \<or> \<not> snd arrays then (False, n)
           else
             let n = mergeInterruptProperties provider n;
                 n = n\<lparr>n_powerJoined := n_powerJoined n + 1\<rparr>;
                 n = n\<lparr>n_mouseProvider := findMouseDevice plane\<rparr>;
                 n = (case n_mouseProvider n of
                        None \<Rightarrow> n
                      | Some mouse \<Rightarrow>
                          if attached then
                            let n = mergeInterruptProperties mouse n
                            in if en_powerPlane mouse then n\<lparr>n_powerJoined := n_powerJoined n + 1\<rparr> else n
                          else n);
                 n = (if n_interruptControllers n \<noteq> [] \<and> n_interruptSpecifiers n \<noteq> []
                      then n\<lparr>n_properties := Some (n_interruptControllers n, n_interruptSpecifiers n)\<rparr> else n)
             in (True, n\<lparr>n_interruptControllers := [], n_interruptSpecifiers := [], n_registered := True\<rparr>))"

text \<open>The five interrupt methods translate the legacy source to an index for the method of the superclass, here a parameter.\<close>

definition translateSource :: "'r \<Rightarrow> (nat \<Rightarrow> 'r) \<Rightarrow> nat \<Rightarrow> 'r" where
  "translateSource kIOReturnBadArgument super source =
     (if source = LEGACY_KEYBOARD_IRQ then super 0 else if source = LEGACY_MOUSE_IRQ then super 1 else kIOReturnBadArgument)"

definition registerInterrupt_acpi :: "'r \<Rightarrow> (nat \<Rightarrow> 't \<Rightarrow> 'f \<Rightarrow> 'c \<Rightarrow> 'r) \<Rightarrow> nat \<Rightarrow> 't \<Rightarrow> 'f \<Rightarrow> 'c \<Rightarrow> 'r" where
  "registerInterrupt_acpi bad super source target handler refCon = translateSource bad (\<lambda>i. super i target handler refCon) source"

definition unregisterInterrupt_acpi :: "'r \<Rightarrow> (nat \<Rightarrow> 'r) \<Rightarrow> nat \<Rightarrow> 'r" where
  "unregisterInterrupt_acpi bad super source = translateSource bad super source"

definition getInterruptType_acpi :: "'r \<Rightarrow> (nat \<Rightarrow> 'r) \<Rightarrow> nat \<Rightarrow> 'r" where
  "getInterruptType_acpi bad super source = translateSource bad super source"

definition enableInterrupt_acpi :: "'r \<Rightarrow> (nat \<Rightarrow> 'r) \<Rightarrow> nat \<Rightarrow> 'r" where
  "enableInterrupt_acpi bad super source = translateSource bad super source"

definition disableInterrupt_acpi :: "'r \<Rightarrow> (nat \<Rightarrow> 'r) \<Rightarrow> nat \<Rightarrow> 'r" where
  "disableInterrupt_acpi bad super source = translateSource bad super source"

text \<open>A message goes to all services below the nub that ask for notifications; the messages sent.\<close>

definition message_acpi :: "'x acpi_entry list option \<Rightarrow> 'm \<Rightarrow> ('x acpi_entry \<times> 'm) list" where
  "message_acpi below msg =
     (case below of None \<Rightarrow> [] | Some entries \<Rightarrow> map (\<lambda>entry. (entry, msg)) (filter (\<lambda>entry. en_service entry \<and> en_deliver entry) entries))"

end
