(* ===== verification/PS2_Loop.thy ===== *)
theory PS2_Loop
  imports PS2_Ring
begin

text \<open>
  What the driver models share: array accesses that are undefined outside the array, loops over
  operations that may be undefined, and the loop by which the work loop side of every driver empties
  its ring buffer. An operation of a driver has a result in the option monad, and \<open>None\<close> stands for
  undefined behaviour (an access outside of an array) or for a loop that does not end; so a theorem
  that an operation returns \<open>Some\<close> is a theorem of memory safety.
\<close>

definition at :: "'a list \<Rightarrow> nat \<Rightarrow> 'a option" where
  "at xs i = (if i < length xs then Some (xs ! i) else None)"

definition put_at :: "'a list \<Rightarrow> nat \<Rightarrow> 'a \<Rightarrow> 'a list option" where
  "put_at xs i v = (if i < length xs then Some (xs[i := v]) else None)"

lemma at_Some [simp]: "i < length xs \<Longrightarrow> at xs i = Some (xs ! i)"
  by (simp add: at_def)

lemma at_SomeD: "at xs i = Some v \<Longrightarrow> i < length xs \<and> v = xs ! i"
  by (auto simp: at_def split: if_splits)

lemma put_at_Some [simp]: "i < length xs \<Longrightarrow> put_at xs i v = Some (xs[i := v])"
  by (simp add: put_at_def)

subsection \<open>Loops\<close>

text \<open>\<^verbatim>\<open>for (x in xs) s = f(x, s)\<close> and \<^verbatim>\<open>while (b(s)) s = c(s)\<close>.\<close>

fun foldM :: "('a \<Rightarrow> 's \<Rightarrow> 's option) \<Rightarrow> 'a list \<Rightarrow> 's \<Rightarrow> 's option" where
  "foldM f [] s = Some s"
| "foldM f (x # xs) s = do { s \<leftarrow> f x s; foldM f xs s }"

partial_function (option) loop :: "('s \<Rightarrow> bool) \<Rightarrow> ('s \<Rightarrow> 's option) \<Rightarrow> 's \<Rightarrow> 's option" where
  [code]: "loop b c s = (if b s then do { s \<leftarrow> c s; loop b c s } else Some s)"

lemma foldM_append: "foldM f (xs @ ys) s = do { s \<leftarrow> foldM f xs s; foldM f ys s }"
proof (induction xs arbitrary: s)
  case (Cons x xs)
  then show ?case by (cases "f x s") auto
qed simp

text \<open>A loop whose body always succeeds and keeps an invariant succeeds and keeps it.\<close>

lemma foldM_invariant:
  assumes "\<And>x s. x \<in> set xs \<Longrightarrow> P s \<Longrightarrow> \<exists>s'. f x s = Some s' \<and> P s'" and "P s"
  shows "\<exists>s'. foldM f xs s = Some s' \<and> P s'"
  using assms
proof (induction xs arbitrary: s)
  case (Cons x xs)
  from Cons.prems(1) [of x s] Cons.prems(2) obtain s1 where s1: "f x s = Some s1" "P s1" by auto
  then show ?case using Cons.IH [of s1] Cons.prems(1) by auto
qed simp

lemma foldM_total: "foldM (\<lambda>x s. Some (f x s)) xs s = Some (fold f xs s)"
  by (induction xs arbitrary: s) auto

subsection \<open>Draining a ring buffer\<close>

text \<open>
  The work loop side of a driver: a handler for one packet that does not look at the ring
  buffer. The drivers' \<^verbatim>\<open>packetReady\<close> is \<^verbatim>\<open>while (count() >= size) { handle(tail()); advanceTail(size); }\<close>.
\<close>

locale packet_client = packet_ring size inv packets pending full avail front pop poke commit
  for size :: nat and inv :: "'r \<Rightarrow> bool" and packets :: "'r \<Rightarrow> 'b list list"
    and pending and full and avail and front and pop and poke and commit +
  fixes ring :: "'s \<Rightarrow> 'r"
    and put :: "'r \<Rightarrow> 's \<Rightarrow> 's"
    and handle :: "'b list \<Rightarrow> 's \<Rightarrow> 's option"
  assumes ring_put: "ring (put r s) = r"
    and put_ring: "put (ring s) s = s"
    and put_put: "put r (put r' s) = put r s"
    and handle_put: "handle p (put r s) = map_option (put r) (handle p s)"
begin

lemma ring_handle: "handle p s = Some s' \<Longrightarrow> ring s' = ring s"
proof -
  assume s': "handle p s = Some s'"
  have "handle p (put (ring s) s) = map_option (put (ring s)) (handle p s)" by (rule handle_put)
  then have "s' = put (ring s) s'" using s' by (simp add: put_ring)
  then have "ring s' = ring (put (ring s) s')" by simp
  then show ?thesis by (simp add: ring_put)
qed

lemma foldM_handle_put: "foldM handle ps (put r s) = map_option (put r) (foldM handle ps s)"
proof (induction ps arbitrary: s)
  case (Cons p ps)
  then show ?case by (cases "handle p s") (simp_all add: handle_put)
qed simp

text \<open>
  The loop stops with an empty queue, and has handled every queued packet exactly once, in the
  order in which the interrupt routine queued them; it is undefined only if a handler is.
\<close>

lemma drain_all:
  assumes "inv (ring s)"
  shows "\<exists>r. loop (\<lambda>s. avail (ring s))
               (\<lambda>s. do { s' \<leftarrow> handle (front (ring s)) s; Some (put (pop (ring s')) s') }) s
           = map_option (put r) (foldM handle (packets (ring s)) s) \<and> inv r \<and> packets r = []"
  using assms
proof (induction "packets (ring s)" arbitrary: s)
  case Nil
  then have "\<not> avail (ring s)" using avail_iff by simp
  then show ?case using Nil
    by (intro exI [of _ "ring s"]) (simp add: loop.simps put_ring)
next
  case (Cons p ps)
  then have ne: "packets (ring s) \<noteq> []" by auto
  have hd: "front (ring s) = p" and tl: "packets (pop (ring s)) = ps"
    using packets_Cons [OF Cons.prems ne] Cons.hyps(2) by auto
  note inv' = inv_pop [OF Cons.prems ne]
  let ?b = "\<lambda>s. avail (ring s)"
  let ?c = "\<lambda>s. do { s' \<leftarrow> handle (front (ring s)) s; Some (put (pop (ring s')) s') }"
  have step: "loop ?b ?c s = do { s' \<leftarrow> ?c s; loop ?b ?c s' }"
    using avail_iff [OF Cons.prems] ne by (subst loop.simps) simp
  show ?case
  proof (cases "handle p s")
    case None
    obtain r where "inv r" "packets r = []"
      using Cons.hyps(1) [of "put (pop (ring s)) s"] by (auto simp: ring_put tl inv')
    with None show ?thesis
      using step Cons.hyps(2) [symmetric] by (intro exI [of _ r]) (simp add: hd)
  next
    case (Some s1)
    let ?s = "put (pop (ring s)) s1"
    have c: "?c s = Some ?s" using Some by (simp add: hd ring_handle [OF Some])
    obtain r where r: "loop ?b ?c ?s = map_option (put r) (foldM handle (packets (ring ?s)) ?s)"
      "inv r" "packets r = []"
      using Cons.hyps(1) [of ?s] by (auto simp: ring_put tl inv')
    have "map_option (put r) (foldM handle (packets (ring ?s)) ?s) = map_option (put r) (foldM handle (p # ps) s)"
      using Some by (simp add: ring_put tl foldM_handle_put option.map_comp comp_def put_put)
    then show ?thesis using r step c Cons.hyps(2) by auto
  qed
qed

end

text \<open>
  A weaker interface for a handler that may look at anything but leaves the ring buffer alone: if it keeps a
  property of the driver on every packet the buffer can hold, so does the loop, and it ends with an empty buffer.
\<close>

locale packet_worker = packet_ring size inv packets pending full avail front pop poke commit
  for size :: nat and inv :: "'r \<Rightarrow> bool" and packets :: "'r \<Rightarrow> 'b list list"
    and pending and full and avail and front and pop and poke and commit +
  fixes ring :: "'s \<Rightarrow> 'r"
    and put :: "'r \<Rightarrow> 's \<Rightarrow> 's"
    and handle :: "'b list \<Rightarrow> 's \<Rightarrow> 's option"
    and good :: "'s \<Rightarrow> bool"
  assumes ring_put: "ring (put r s) = r"
    and good_put: "good (put r s) \<longleftrightarrow> good s"
    and packet_size: "inv r \<Longrightarrow> p \<in> set (packets r) \<Longrightarrow> length p = size"
    and handle_good: "good s \<Longrightarrow> length p = size \<Longrightarrow> \<exists>s'. handle p s = Some s' \<and> good s' \<and> ring s' = ring s"
begin

lemma drain_good:
  assumes "inv (ring s)" "good s"
  shows "\<exists>s'. loop (\<lambda>s. avail (ring s)) (\<lambda>s. do { s' \<leftarrow> handle (front (ring s)) s; Some (put (pop (ring s')) s') }) s = Some s'
    \<and> good s' \<and> inv (ring s') \<and> packets (ring s') = []"
  using assms
proof (induction "packets (ring s)" arbitrary: s)
  case Nil
  then show ?case using avail_iff [of "ring s"] by (intro exI [of _ s]) (simp add: loop.simps)
next
  case (Cons p ps)
  then have ne: "packets (ring s) \<noteq> []" by auto
  have hd: "front (ring s) = p" and tl: "packets (pop (ring s)) = ps"
    using packets_Cons [OF Cons.prems(1) ne] Cons.hyps(2) by auto
  have "length p = size" using packet_size [OF Cons.prems(1), of p] Cons.hyps(2) by (metis list.set_intros(1))
  then obtain s1 where s1: "handle p s = Some s1" "good s1" "ring s1 = ring s" using handle_good [OF Cons.prems(2)] by blast
  let ?s = "put (pop (ring s)) s1"
  have "\<exists>s'. loop (\<lambda>s. avail (ring s)) (\<lambda>s. do { s' \<leftarrow> handle (front (ring s)) s; Some (put (pop (ring s')) s') }) ?s = Some s'
    \<and> good s' \<and> inv (ring s') \<and> packets (ring s') = []"
    using Cons.hyps(1) [of ?s] tl s1(2) inv_pop [OF Cons.prems(1) ne] by (simp add: ring_put good_put)
  moreover have "avail (ring s)" using avail_iff [OF Cons.prems(1)] ne by simp
  ultimately show ?case using s1 hd by (subst loop.simps) simp
qed

end

text \<open>A byte is added to the packet at the head.\<close>

lemma unat_Suc_small: "unat w < 100 \<Longrightarrow> unat (w + 1) = Suc (unat w)" for w :: u32
  by (subst unat_plus_if') simp

lemma collect_byte:
  fixes r :: "u8 ring"
  assumes "ring_aligned k r" "n < k"
  shows "ring_aligned k (ring_head_write n b r)" "ring_packets k (ring_head_write n b r) = ring_packets k r"
    "ring_full k (ring_head_write n b r) = ring_full k r"
    "take (Suc n) (ring_pending k (ring_head_write n b r)) = take n (ring_pending k r) @ [b]"
proof -
  show "ring_aligned k (ring_head_write n b r)" "ring_packets k (ring_head_write n b r) = ring_packets k r"
    "ring_full k (ring_head_write n b r) = ring_full k r"
    using assms by (simp_all add: byte_ring.packets_poke ring_full_def)
  show "take (Suc n) (ring_pending k (ring_head_write n b r)) = take n (ring_pending k r) @ [b]"
    using length_ring_pending [OF assms(1)] assms by (simp add: take_Suc_conv_app_nth byte_ring.pending_poke)
qed

lemma aligned_fits: "ring_aligned k r \<Longrightarrow> m_head r + k \<le> ring_N r"
  using multiple_fits [of k "ring_N r" "m_head r"] by (auto simp: ring_aligned_def ring_ok_def)

lemma at_head: "ring_aligned k r \<Longrightarrow> at (m_buffer r) (m_head r) = Some (hd (ring_pending k r))"
  using aligned_fits [of k r] by (auto simp: at_def ring_N_def ring_pending_def window_def ring_aligned_def hd_drop_conv_nth)

end
