(* ===== verification/PS2_Nubs_Correct.thy ===== *)
theory PS2_Nubs_Correct
  imports PS2_Nubs PS2_Invariant PS2_Loop
begin

text \<open>
  The nubs keep the drivers of keyboard and mouse apart, and the ACPI nub routes each interrupt to its device.
\<close>

subsection \<open>Definitions\<close>




definition demo_keyboard_entry :: "nat acpi_entry" where
  "demo_keyboard_entry = \<lparr>en_matches = False, en_service = True, en_controllers = Some [7], en_specifiers = Some [1], en_powerPlane = True, en_deliver = False\<rparr>"

definition demo_mouse_entry :: "nat acpi_entry" where
  "demo_mouse_entry = \<lparr>en_matches = True, en_service = True, en_controllers = Some [7], en_specifiers = Some [12], en_powerPlane = False, en_deliver = False\<rparr>"

definition demo_nub :: "nat acpi_nub" where
  "demo_nub = \<lparr>n_mouseProvider = None, n_interruptControllers = [], n_interruptSpecifiers = [], n_properties = None, n_powerJoined = 0, n_registered = False\<rparr>"






text \<open>
  The ACPI nub routes interrupts: when the keyboard and the mouse entry both have interrupt properties, source 1 reaches the
  interrupt of the keyboard and source 12 that of the mouse; any other source is refused.
\<close>

lemma acpi_routes_interrupts:
  assumes "start_acpi True (True, True) keyboard plane True n = (ok, n')" "findMouseDevice plane = Some mouse"
    and "en_controllers keyboard = Some (kc # kcs)" "en_specifiers keyboard = Some (ks # kss)"
    and "en_controllers mouse = Some (mc # mcs)" "en_specifiers mouse = Some (ms # mss)"
  shows "ok \<and> n_registered n' \<and> n_properties n' = Some ([kc, mc], [ks, ms])
    \<and> enableInterrupt_acpi None (\<lambda>i. Some ([ks, ms] ! i)) source
       = (if source = 1 then Some ks else if source = 12 then Some ms else None)"
  using assms
  by (auto simp: start_acpi_def mergeInterruptProperties_def enableInterrupt_acpi_def translateSource_def Let_def LEGACY_KEYBOARD_IRQ_def
      LEGACY_MOUSE_IRQ_def)

text \<open>Without interrupt properties of the keyboard, source 1 reaches the mouse.\<close>

lemma acpi_keyboard_missing:
  assumes "start_acpi True (True, True) keyboard plane True n = (ok, n')" "findMouseDevice plane = Some mouse"
    and "en_controllers keyboard = None" "en_controllers mouse = Some (mc # mcs)" "en_specifiers mouse = Some (ms # mss)"
  shows "n_properties n' = Some ([mc], [ms]) \<and> enableInterrupt_acpi None (\<lambda>i. Some ([ms] ! i)) 1 = Some ms"
  using assms
  by (auto simp: start_acpi_def mergeInterruptProperties_def enableInterrupt_acpi_def translateSource_def Let_def LEGACY_KEYBOARD_IRQ_def
      LEGACY_MOUSE_IRQ_def)

lemma acpi_routes_interrupts_witness:
  "n_properties (snd (start_acpi True (True, True) demo_keyboard_entry (Some [demo_keyboard_entry, demo_mouse_entry]) True demo_nub))
     = Some ([7, 7], [1, 12])"
proof -
  have f: "findMouseDevice (Some [demo_keyboard_entry, demo_mouse_entry]) = Some demo_mouse_entry"
    by (simp add: findMouseDevice_def demo_keyboard_entry_def demo_mouse_entry_def)
  show ?thesis
    using acpi_routes_interrupts [OF prod.collapse [symmetric] f, where keyboard = demo_keyboard_entry and n = demo_nub and kc = 7 and kcs = "[]" and ks = 1 and kss = "[]" and mc = 7 and mcs = "[]" and ms = 12 and mss = "[]"]
    by (simp add: demo_keyboard_entry_def demo_mouse_entry_def)
qed


end
