(* ===== verification/PS2_Config.thy ===== *)
theory PS2_Config
  imports PS2_Prelude "HOL-Library.AList"
begin

text \<open>
  The configuration of the drivers as the controller assembles it (end of VoodooPS2Controller.cpp):
  objects of the property list, the identification of the platform from the registry and the DSDT,
  nodes that are links to other nodes, the translation of the ACPI method RMCF, whose arrays stand for
  dictionaries, and the merge of default, platform and override. The registry is a parameter: the
  properties of the controller and of its parents, and the ACPI tables. Allocations are taken to succeed.
\<close>

subsection \<open>Objects\<close>

datatype osobj =
    OSString string
  | OSNumber u64
  | OSBoolean bool
  | OSData "u8 list"
  | OSArray "osobj list"
  | OSDictionary "(string \<times> osobj) list"

text \<open>A dictionary is an association list; a value of another class than the expected one counts as
  absent, as \<^verbatim>\<open>OSDynamicCast\<close> has it.\<close>

type_synonym dict = "(string \<times> osobj) list"

fun asString :: "osobj option \<Rightarrow> string option" where
  "asString (Some (OSString x)) = Some x"
| "asString _ = None"

fun asNumber :: "osobj option \<Rightarrow> u64 option" where
  "asNumber (Some (OSNumber x)) = Some x"
| "asNumber _ = None"

fun asBoolean :: "osobj option \<Rightarrow> bool option" where
  "asBoolean (Some (OSBoolean x)) = Some x"
| "asBoolean _ = None"

fun asArray :: "osobj option \<Rightarrow> osobj list option" where
  "asArray (Some (OSArray x)) = Some x"
| "asArray _ = None"

fun asData :: "osobj option \<Rightarrow> u8 list option" where
  "asData (Some (OSData x)) = Some x"
| "asData _ = None"

fun asDictionary :: "osobj option \<Rightarrow> dict option" where
  "asDictionary (Some (OSDictionary x)) = Some x"
| "asDictionary _ = None"

definition getObject :: "dict \<Rightarrow> string \<Rightarrow> osobj option" where
  "getObject d k = map_of d k"

definition setObject :: "string \<Rightarrow> osobj \<Rightarrow> dict \<Rightarrow> dict" where
  "setObject k v d = AList.update k v d"

text \<open>\<^verbatim>\<open>OSDictionary::merge\<close>: every entry of the second dictionary is set in the first.\<close>

definition mergeDict :: "dict \<Rightarrow> dict \<Rightarrow> dict" where
  "mergeDict d new = fold (\<lambda>(k, v). setObject k v) new d"

subsection \<open>The platform\<close>

record DSDT_HEADER =
  tableSignature :: u32
  oemID :: "u8 list"
  oemTableID :: "u8 list"

definition DSDT_HEADER_size :: nat where
  "DSDT_HEADER_size = 4 + 4 + 1 + 1 + 6 + 8 + 4 + 4 + 4"

definition DSDT_SIGNATURE :: u32 where
  "DSDT_SIGNATURE = 0x44 OR push_bit 8 0x53 OR push_bit 16 0x44 OR push_bit 24 0x54"

definition dsdt_header :: "u8 list \<Rightarrow> DSDT_HEADER" where
  "dsdt_header bytes =
     \<lparr>tableSignature = foldr (\<lambda>b acc. ucast b OR push_bit 8 acc) (window 4 0 bytes) 0,
      oemID = window 6 10 bytes, oemTableID = window 8 16 bytes\<rparr>"

text \<open>The property \<^verbatim>\<open>ACPI Tables\<close> of the platform expert, when there is one.\<close>

definition getDSDT :: "osobj option \<Rightarrow> DSDT_HEADER option" where
  "getDSDT tables =
     do { d \<leftarrow> asDictionary tables;
          data \<leftarrow> asData (getObject d ''DSDT'');
          if length data < DSDT_HEADER_size then None
          else if tableSignature (dsdt_header data) \<noteq> DSDT_SIGNATURE then None
          else Some (dsdt_header data) }"

definition stripTrailingSpaces :: "string \<Rightarrow> string" where
  "stripTrailingSpaces str = rev (dropWhile (\<lambda>c. c = CHR '' '') (rev str))"

text \<open>The bytes of a table field as a C string: up to the first zero, or all with the zero put behind.\<close>

definition cstring :: "u8 list \<Rightarrow> string" where
  "cstring bytes = map (\<lambda>b. char_of (unat b)) (takeWhile (\<lambda>b. b \<noteq> 0) bytes)"

fun getPlatformOverride :: "dict list \<Rightarrow> string \<Rightarrow> string option" where
  "getPlatformOverride [] sz = None"
| "getPlatformOverride (reg # parents) sz =
     (case asString (getObject reg sz) of Some ident \<Rightarrow> Some ident | None \<Rightarrow> getPlatformOverride parents sz)"

text \<open>What the controller can see of the machine: its registry entry and the parents of it, the ACPI
  tables, and the result of RMCF when a parent is an ACPI device (None within Some: the call fails).\<close>

record platform =
  regChain :: "dict list"
  acpiTables :: "osobj option"
  acpiRMCF :: "osobj option option"

definition getPlatformManufacturer :: "platform \<Rightarrow> string option" where
  "getPlatformManufacturer p =
     (case getPlatformOverride (regChain p) ''RM,oem-id'' of
        Some ident \<Rightarrow> Some ident
      | None \<Rightarrow> map_option (\<lambda>h. stripTrailingSpaces (cstring (oemID h))) (getDSDT (acpiTables p)))"

definition getPlatformProduct :: "platform \<Rightarrow> string option" where
  "getPlatformProduct p =
     (case getPlatformOverride (regChain p) ''RM,oem-table-id'' of
        Some ident \<Rightarrow> Some ident
      | None \<Rightarrow> map_option (\<lambda>h. stripTrailingSpaces (cstring (oemTableID h))) (getDSDT (acpiTables p)))"

subsection \<open>Nodes and links\<close>

text \<open>The target of a link ends at a semicolon, behind which a comment may stand.\<close>

definition linkTarget :: "string \<Rightarrow> string" where
  "linkTarget link = takeWhile (\<lambda>c. c \<noteq> CHR '';'') link"

text \<open>
  \<^verbatim>\<open>_getConfigurationNode\<close> for a name that is not null: the node of that name, following links. The
  outer option is None when the recursion never ends, the inner one is the result, null or a dictionary.
\<close>

partial_function (option) configurationNode :: "dict \<Rightarrow> string \<Rightarrow> dict option option" where
  [code]: "configurationNode root name =
     (case getObject root name of
        Some (OSDictionary d) \<Rightarrow> Some (Some d)
      | Some (OSString link) \<Rightarrow> configurationNode root (linkTarget link)
      | _ \<Rightarrow> Some None)"

definition getConfigurationNode :: "platform \<Rightarrow> dict \<Rightarrow> dict option option" where
  "getConfigurationNode p ls =
     (case getPlatformManufacturer p of
        None \<Rightarrow> Some None
      | Some manufacturer \<Rightarrow>
          (case asDictionary (getObject ls manufacturer) of
             None \<Rightarrow> Some None
           | Some manufacturerNode \<Rightarrow>
               do { configuration \<leftarrow> (case getPlatformProduct p of
                                        None \<Rightarrow> Some None
                                      | Some product \<Rightarrow> configurationNode manufacturerNode product);
                    case configuration of
                      Some d \<Rightarrow> Some (Some d)
                    | None \<Rightarrow> configurationNode manufacturerNode ''Default'' }))"

subsection \<open>Translation of RMCF\<close>

text \<open>
  \<^verbatim>\<open>translateEntry\<close> and \<^verbatim>\<open>translateArray\<close>: the translated object or None for null, and the object as the
  translation leaves it, since arrays are translated in place even when an array around them turns out
  not to be a dictionary after all. \<open>translatePairs\<close> is the loop over the keys and values.
\<close>

definition translateString :: "string \<Rightarrow> osobj option" where
  "translateString sz =
     (if sz = ''>y'' then Some (OSBoolean True)
      else if sz = ''>n'' then Some (OSBoolean False)
      else if sz = ''>>y'' \<or> sz = ''>>n'' then Some (OSString (tl sz))
      else None)"

fun translateEntry :: "osobj \<Rightarrow> osobj option \<times> osobj"
  and translateArray :: "osobj list \<Rightarrow> osobj option \<times> osobj list"
  and translateEach :: "osobj list \<Rightarrow> osobj list"
  and translatePairs :: "osobj list \<Rightarrow> dict \<Rightarrow> dict option \<times> osobj list"
where
  "translateEntry (OSArray xs) = (case translateArray xs of (r, xs') \<Rightarrow> (r, OSArray xs'))"
| "translateEntry (OSString sz) = (translateString sz, OSString sz)"
| "translateEntry obj = (None, obj)"
| "translateArray [] = (None, [])"
| "translateArray (x # xs) =
     (if x = OSArray [] then (let ys = translateEach xs in (Some (OSArray ys), ys))
      else if odd (length (x # xs)) then (None, x # xs)
      else case translatePairs (x # xs) [] of (d, xs') \<Rightarrow> (map_option OSDictionary d, xs'))"
| "translateEach [] = []"
| "translateEach (x # xs) =
     (case translateEntry x of (Some t, _) \<Rightarrow> t # translateEach xs | (None, x') \<Rightarrow> x' # translateEach xs)"
| "translatePairs (OSString key # obj # rest) dict =
     (case translateEntry obj of
        (tr, obj') \<Rightarrow>
          (case translatePairs rest (setObject key (case tr of Some t \<Rightarrow> t | None \<Rightarrow> obj') dict) of
             (d, rest') \<Rightarrow> (d, OSString key # obj' # rest')))"
| "translatePairs [] dict = (Some dict, [])"
| "translatePairs xs dict = (None, xs)"

definition getConfigurationOverride :: "osobj option \<Rightarrow> dict option" where
  "getConfigurationOverride r =
     do { array \<leftarrow> asArray r; asDictionary (fst (translateArray array)) }"

subsection \<open>The merged configuration\<close>

text \<open>\<^verbatim>\<open>makeConfigurationNode\<close> on the cached override: the configuration and the cache after it.\<close>

definition makeConfigurationNode ::
  "platform \<Rightarrow> dict option \<Rightarrow> string \<Rightarrow> dict option \<Rightarrow> (dict option \<times> dict option) option" where
  "makeConfigurationNode p ls sect rmcfCache =
     (case ls of
        None \<Rightarrow> Some (None, rmcfCache)
      | Some ls \<Rightarrow>
          do { defaultNode \<leftarrow> configurationNode ls ''Default'';
               platformNode \<leftarrow> getConfigurationNode p ls;
               let result = (case defaultNode of
                               Some d \<Rightarrow> Some (case platformNode of None \<Rightarrow> d | Some n \<Rightarrow> mergeDict d n)
                             | None \<Rightarrow> platformNode);
               let over = (case rmcfCache of
                             Some d \<Rightarrow> Some d
                           | None \<Rightarrow> (case acpiRMCF p of None \<Rightarrow> None | Some r \<Rightarrow> getConfigurationOverride r));
               let result = (case over of
                               None \<Rightarrow> result
                             | Some d \<Rightarrow> (case asDictionary (getObject d sect) of
                                            None \<Rightarrow> result
                                          | Some s \<Rightarrow> Some (case result of None \<Rightarrow> s | Some r \<Rightarrow> mergeDict r s)));
               Some (result, over) })"

end
