(* ===== verification/PS2_Config_Spec.thy ===== *)
theory PS2_Config_Spec
  imports PS2_Config
begin

text \<open>
  Properties of the configuration: following links, the round trip through the arrays of RMCF, and the
  precedence of default, platform and override.
\<close>

text \<open>Following links: a name leads to a dictionary, to nothing, or to what its link leads to.\<close>

inductive resolves :: "dict \<Rightarrow> string \<Rightarrow> dict option \<Rightarrow> bool" where
  Node: "getObject root name = Some (OSDictionary d) \<Longrightarrow> resolves root name (Some d)"
| Link: "getObject root name = Some (OSString link) \<Longrightarrow> resolves root (linkTarget link) r \<Longrightarrow> resolves root name r"
| Absent: "asDictionary (getObject root name) = None \<Longrightarrow> asString (getObject root name) = None \<Longrightarrow> resolves root name None"

text \<open>How a configuration is written for RMCF.\<close>

fun encode :: "osobj \<Rightarrow> osobj" and encodeAll :: "osobj list \<Rightarrow> osobj list" and encodePairs :: "dict \<Rightarrow> osobj list" where
  "encode (OSBoolean b) = OSString (if b then ''>y'' else ''>n'')"
| "encode (OSString sz) = OSString (if sz = ''>y'' \<or> sz = ''>n'' then CHR ''>'' # sz else sz)"
| "encode (OSArray xs) = OSArray (OSArray [] # encodeAll xs)"
| "encode (OSDictionary d) = OSArray (encodePairs d)"
| "encode obj = obj"
| "encodeAll [] = []"
| "encodeAll (x # xs) = encode x # encodeAll xs"
| "encodePairs [] = []"
| "encodePairs ((k, v) # d) = OSString k # encode v # encodePairs d"

text \<open>The configurations that can be written: no empty dictionaries, no string that stands for an escaped
  Boolean.\<close>

fun encodable :: "osobj \<Rightarrow> bool" and encodableAll :: "osobj list \<Rightarrow> bool" and encodablePairs :: "dict \<Rightarrow> bool" where
  "encodable (OSString sz) \<longleftrightarrow> sz \<noteq> ''>>y'' \<and> sz \<noteq> ''>>n''"
| "encodable (OSArray xs) \<longleftrightarrow> encodableAll xs"
| "encodable (OSDictionary d) \<longleftrightarrow> d \<noteq> [] \<and> distinct (map fst d) \<and> encodablePairs d"
| "encodable obj \<longleftrightarrow> True"
| "encodableAll [] \<longleftrightarrow> True"
| "encodableAll (x # xs) \<longleftrightarrow> encodable x \<and> encodableAll xs"
| "encodablePairs [] \<longleftrightarrow> True"
| "encodablePairs ((k, v) # d) \<longleftrightarrow> encodable v \<and> encodablePairs d"

text \<open>The value of a key in a dictionary that may be missing, and the first of several values.\<close>

definition lookupIn :: "dict option \<Rightarrow> string \<Rightarrow> osobj option" where
  "lookupIn d k = Option.bind d (\<lambda>d. getObject d k)"

fun firstOf :: "osobj option list \<Rightarrow> osobj option" where
  "firstOf [] = None"
| "firstOf (x # xs) = (case x of Some v \<Rightarrow> Some v | None \<Rightarrow> firstOf xs)"

text \<open>The section of the override that applies: of the cached one, or of the one RMCF returns.\<close>

definition overrideSection :: "platform \<Rightarrow> dict option \<Rightarrow> string \<Rightarrow> dict option" where
  "overrideSection p rmcfCache sect =
     Option.bind (case rmcfCache of Some d \<Rightarrow> Some d | None \<Rightarrow> Option.bind (acpiRMCF p) getConfigurationOverride)
       (\<lambda>d. asDictionary (getObject d sect))"

definition uniqueKeys :: "dict option \<Rightarrow> bool" where
  "uniqueKeys d \<longleftrightarrow> (case d of None \<Rightarrow> True | Some d \<Rightarrow> distinct (map fst d))"

definition translated :: "osobj \<Rightarrow> osobj" where
  "translated obj = (case translateEntry obj of (Some t, _) \<Rightarrow> t | (None, obj') \<Rightarrow> obj')"

text \<open>A concrete machine, for the witnesses.\<close>

definition demo_list :: dict where
  "demo_list = [(''Default'', OSDictionary [(''ButtonCount'', OSNumber 3), (''WakeDelay'', OSNumber 1000)]),
     (''HP'', OSDictionary [(''4530s'', OSString ''ProBook;the same''), (''ProBook'', OSDictionary [(''WakeDelay'', OSNumber 0)])])]"

definition demo_platform :: platform where
  "demo_platform = \<lparr>regChain = [[], [(''RM,oem-id'', OSString ''HP''), (''RM,oem-table-id'', OSString ''4530s'')]], acpiTables = None,
     acpiRMCF = Some (Some (encode (OSDictionary [(''Mouse'', OSDictionary [(''ButtonCount'', OSNumber 2)])])))\<rparr>"

lemma configurationNode_sound: "resolves root name r \<Longrightarrow> configurationNode root name = Some r"
proof (induction rule: resolves.induct)
  case (Absent root name)
  then show ?case by (subst configurationNode.simps) (auto split: option.splits osobj.splits)
qed (subst configurationNode.simps, simp)+

lemma configurationNode_complete: "configurationNode root name = Some r \<Longrightarrow> resolves root name r"
proof (rule configurationNode.raw_induct [of resolves root name r])
  fix f root n r'
  assume "\<And>root n r. f root n = Some r \<Longrightarrow> resolves root n r"
    and "(case getObject root n of Some (OSString link) \<Rightarrow> f root (linkTarget link)
          | Some (OSDictionary d) \<Rightarrow> Some (Some d) | _ \<Rightarrow> Some None) = Some r'"
  then show "resolves root n r'" by (auto split: option.splits osobj.splits intro: resolves.intros)
qed


lemma cyclic_links_hang:
  assumes "\<forall>n \<in> names. \<exists>link. getObject root n = Some (OSString link) \<and> linkTarget link \<in> names" "name \<in> names"
  shows "configurationNode root name = None"
proof (rule ccontr)
  assume "configurationNode root name \<noteq> None"
  then obtain r where "resolves root name r" using configurationNode_complete by blast
  then show False using assms
    by (induction rule: resolves.induct) fastforce+
qed

lemma setObject_new: "k \<notin> fst ` set d \<Longrightarrow> setObject k v d = d @ [(k, v)]"
  unfolding setObject_def by (induction d) auto

lemma length_encodePairs: "length (encodePairs d) = 2 * length d"
  by (induction d) auto

lemma translate_encode:
  "encodable x \<Longrightarrow> translated (encode x) = x"
  "encodableAll xs \<Longrightarrow> translateEach (encodeAll xs) = xs"
  "encodablePairs d \<Longrightarrow> (\<And>acc. distinct (map fst (acc @ d)) \<Longrightarrow> fst (translatePairs (encodePairs d) acc) = Some (acc @ d))"
proof (induction x and xs and d rule: encode_encodeAll_encodePairs.induct)
  case (4 d)
  then obtain k v d' where d: "d = (k, v) # d'" by (cases d) auto
  then have "fst (translatePairs (encodePairs d) []) = Some d" using 4 by simp
  then have "fst (translateArray (encodePairs d)) = Some (OSDictionary d)"
    using d length_encodePairs [of d'] by (simp add: case_prod_beta)
  then show ?case by (auto simp: translated_def case_prod_beta split: option.splits)
next
  case (7 x xs)
  then show ?case by (auto simp: translated_def case_prod_beta split: option.splits)
next
  case (9 k v d)
  then have "k \<notin> fst ` set acc" and "distinct (map fst ((acc @ [(k, v)]) @ d))" by auto
  moreover have "(case fst (translateEntry (encode v)) of Some t \<Rightarrow> t | None \<Rightarrow> snd (translateEntry (encode v))) = v"
    using 9 by (simp add: translated_def case_prod_beta split: option.splits)
  ultimately show ?case using 9 by (simp add: case_prod_beta setObject_new)
qed (auto simp: translated_def translateString_def Let_def)

text \<open>
  C30: A configuration written as the arrays of the ACPI method RMCF, with Booleans as strings and arrays
  marked by an empty first entry, is translated back to that configuration.
\<close>

theorem rmcf_roundtrip:
  assumes "encodable (OSDictionary d)"
  shows "getConfigurationOverride (Some (encode (OSDictionary d))) = Some d"
proof -
  obtain k v d' where d: "d = (k, v) # d'" using assms by (cases d) auto
  have "fst (translatePairs (encodePairs d) []) = Some d" using translate_encode(3) [of d "[]"] assms by simp
  then show ?thesis using d length_encodePairs [of d'] by (simp add: getConfigurationOverride_def case_prod_beta)
qed

lemma map_of_mergeDict: "map_of (mergeDict d new) k = (case map_of (rev new) k of Some v \<Rightarrow> Some v | None \<Rightarrow> map_of d k)"
proof -
  have "map_of (fold (\<lambda>(k, v). AList.update k v) new d) = map_of d ++ map_of (rev new)"
    by (induction new arbitrary: d) (auto simp: AList.update_conv' map_add_def fun_eq_iff split: option.splits)
  then show ?thesis by (simp add: mergeDict_def setObject_def [abs_def] map_add_def)
qed

lemma map_of_rev_distinct: "distinct (map fst xs) \<Longrightarrow> map_of (rev xs) = map_of xs"
proof (induction xs)
  case (Cons x xs)
  then have "map_of xs (fst x) = None" by (simp add: map_of_eq_None_iff)
  then show ?case using Cons by (auto simp: map_add_def fun_eq_iff split: option.split)
qed simp

lemma lookupIn_merge:
  "uniqueKeys (Some new) \<Longrightarrow> lookupIn (Some (mergeDict d new)) k = firstOf [lookupIn (Some new) k, lookupIn (Some d) k]"
  by (simp add: lookupIn_def getObject_def map_of_mergeDict uniqueKeys_def map_of_rev_distinct split: option.split)

text \<open>
  C29: The configuration of a driver is the merge of the default node, the node of the platform and the
  section of the ACPI override: each key has the value of the last of them that has the key, and there is no
  configuration only if none of the three exists. The cache keeps what the override says.
\<close>

theorem makeConfigurationNode_precedence:
  assumes "resolves ls ''Default'' defaultNode" "getConfigurationNode p ls = Some platformNode"
    "uniqueKeys platformNode" "uniqueKeys (overrideSection p cache sect)"
  shows "\<exists>result cache'. makeConfigurationNode p (Some ls) sect cache = Some (result, cache')
    \<and> (result = None \<longleftrightarrow> defaultNode = None \<and> platformNode = None \<and> overrideSection p cache sect = None)
    \<and> (\<forall>k. lookupIn result k = firstOf [lookupIn (overrideSection p cache sect) k, lookupIn platformNode k, lookupIn defaultNode k])
    \<and> (\<forall>sect. overrideSection p cache' sect = overrideSection p cache sect)"
proof -
  let ?base = "case defaultNode of Some d \<Rightarrow> Some (case platformNode of None \<Rightarrow> d | Some n \<Rightarrow> mergeDict d n) | None \<Rightarrow> platformNode"
  let ?over = "case cache of Some d \<Rightarrow> Some d | None \<Rightarrow> Option.bind (acpiRMCF p) getConfigurationOverride"
  let ?sec = "overrideSection p cache sect"
  let ?res = "case ?sec of None \<Rightarrow> ?base | Some s \<Rightarrow> Some (case ?base of None \<Rightarrow> s | Some r \<Rightarrow> mergeDict r s)"
  have base: "lookupIn ?base k = firstOf [lookupIn platformNode k, lookupIn defaultNode k]" for k
    using assms(3) lookupIn_merge by (cases defaultNode; cases platformNode) (auto simp: lookupIn_def split: option.split)
  have "lookupIn ?res k = firstOf [lookupIn ?sec k, lookupIn ?base k]" for k
    using assms(4) lookupIn_merge by (cases ?sec; cases ?base) (auto simp: lookupIn_def split: option.split)
  then have look: "lookupIn ?res k = firstOf [lookupIn ?sec k, lookupIn platformNode k, lookupIn defaultNode k]" for k
    using base [of k] by (simp split: option.split)
  have "makeConfigurationNode p (Some ls) sect cache = Some (?res, ?over)"
    using configurationNode_sound [OF assms(1)] assms(2)
    by (cases cache; cases "acpiRMCF p")
      (simp_all add: makeConfigurationNode_def overrideSection_def Let_def split: option.split)
  moreover have "overrideSection p ?over sect' = overrideSection p cache sect'" for sect'
    by (cases cache; cases "acpiRMCF p") (simp_all add: overrideSection_def split: option.split)
  moreover have "?res = None \<longleftrightarrow> defaultNode = None \<and> platformNode = None \<and> ?sec = None"
    by (simp split: option.split)
  ultimately show ?thesis using look
    by (intro exI [of _ ?res] exI [of _ ?over] conjI allI) (assumption | simp only:)+
qed


lemma demo_nodes:
  "resolves demo_list ''Default'' (Some [(''ButtonCount'', OSNumber 3), (''WakeDelay'', OSNumber 1000)])"
  "getConfigurationNode demo_platform demo_list = Some (Some [(''WakeDelay'', OSNumber 0)])"
  "overrideSection demo_platform None ''Mouse'' = Some [(''ButtonCount'', OSNumber 2)]"
proof -
  show "resolves demo_list ''Default'' (Some [(''ButtonCount'', OSNumber 3), (''WakeDelay'', OSNumber 1000)])"
    by (rule Node) (simp add: demo_list_def getObject_def)
  show "getConfigurationNode demo_platform demo_list = Some (Some [(''WakeDelay'', OSNumber 0)])"
    by code_simp
  show "overrideSection demo_platform None ''Mouse'' = Some [(''ButtonCount'', OSNumber 2)]"
    by code_simp
qed

theorem rmcf_roundtrip_witness:
  "getConfigurationOverride (Some (OSArray [OSString ''A'', OSString ''>y'', OSString ''B'', OSArray [OSArray [], OSString ''>>n'']]))
     = Some [(''A'', OSBoolean True), (''B'', OSArray [OSString ''>n''])]"
  using rmcf_roundtrip [of "[(''A'', OSBoolean True), (''B'', OSArray [OSString ''>n''])]"] by simp

theorem makeConfigurationNode_precedence_witness:
  "\<exists>d cache. makeConfigurationNode demo_platform (Some demo_list) ''Mouse'' None = Some (Some d, cache)
    \<and> getObject d ''ButtonCount'' = Some (OSNumber 2) \<and> getObject d ''WakeDelay'' = Some (OSNumber 0)"
proof -
  have u: "uniqueKeys (Some [(''WakeDelay'', OSNumber 0)])" "uniqueKeys (overrideSection demo_platform None ''Mouse'')"
    unfolding demo_nodes(3) by (simp_all add: uniqueKeys_def)
  obtain result cache where r: "makeConfigurationNode demo_platform (Some demo_list) ''Mouse'' None = Some (result, cache)"
    "result \<noteq> None" and l: "\<And>k. lookupIn result k = firstOf [lookupIn (Some [(''ButtonCount'', OSNumber 2)]) k,
      lookupIn (Some [(''WakeDelay'', OSNumber 0)]) k, lookupIn (Some [(''ButtonCount'', OSNumber 3), (''WakeDelay'', OSNumber 1000)]) k]"
    using makeConfigurationNode_precedence [OF demo_nodes(1,2) u] unfolding demo_nodes(3) by blast
  then obtain d where "result = Some d" by blast
  then show ?thesis using r l [of "''ButtonCount''"] l [of "''WakeDelay''"] by (simp add: lookupIn_def getObject_def)
qed

end
