(* ===== verification/Kbd_Maps.thy ===== *)
theory Kbd_Maps
  imports PS2_Prelude
begin

text \<open>
  The two stock tables of ApplePS2ToADBMap.h: the ADB code of a scan code, and its flags: in the high byte the number
  plus one of the modifier bit the key drives, in the low byte whether the key sends no break
  code. The first half of each table is for plain scan codes and the second half for extended
  ones; each half is written here in two parts of 128 entries.
\<close>

definition DEADKEY :: u8 where [ps2_const]:
  "DEADKEY = 0x80"

definition BRIGHTNESS_DOWN :: u8 where [ps2_const]:
  "BRIGHTNESS_DOWN = 0x6b"

definition BRIGHTNESS_UP :: u8 where [ps2_const]:
  "BRIGHTNESS_UP = 0x71"

definition ADB_CONVERTER_LEN :: nat where [ps2_const]:
  "ADB_CONVERTER_LEN = 256 * 2"

definition ADB_CONVERTER_EX_START :: nat where [ps2_const]:
  "ADB_CONVERTER_EX_START = 256"

definition kMaskLeftControl :: u16 where [ps2_const]:
  "kMaskLeftControl = 0x0001"

definition kMaskRightControl :: u16 where [ps2_const]:
  "kMaskRightControl = 0x0002"

definition kMaskLeftShift :: u16 where [ps2_const]:
  "kMaskLeftShift = 0x0004"

definition kMaskRightShift :: u16 where [ps2_const]:
  "kMaskRightShift = 0x0008"

definition kMaskLeftAlt :: u16 where [ps2_const]:
  "kMaskLeftAlt = 0x0010"

definition kMaskRightAlt :: u16 where [ps2_const]:
  "kMaskRightAlt = 0x0020"

definition kMaskLeftWindows :: u16 where [ps2_const]:
  "kMaskLeftWindows = 0x0040"

definition kMaskRightWindows :: u16 where [ps2_const]:
  "kMaskRightWindows = 0x0080"

definition kMaskLeftFn :: u16 where [ps2_const]:
  "kMaskLeftFn = 0x0100"

definition kMaskWindowsContext :: u16 where [ps2_const]:
  "kMaskWindowsContext = 0x0200"

subsection \<open>Scan codes to ADB codes\<close>

definition PS2ToADBMapStock_0 :: "u8 list" where
  "PS2ToADBMapStock_0 = [
     DEADKEY, 0x35, 0x12, 0x13, 0x14, 0x15, 0x17, 0x16,
     0x1a, 0x1c, 0x19, 0x1d, 0x1b, 0x18, 0x33, 0x30,
     0x0c, 0x0d, 0x0e, 0x0f, 0x11, 0x10, 0x20, 0x22,
     0x1f, 0x23, 0x21, 0x1e, 0x24, 0x3b, 0x00, 0x01,
     0x02, 0x03, 0x05, 0x04, 0x26, 0x28, 0x25, 0x29,
     0x27, 0x32, 0x38, 0x2a, 0x06, 0x07, 0x08, 0x09,
     0x0b, 0x2d, 0x2e, 0x2b, 0x2f, 0x2c, 0x3c, 0x43,
     0x3a, 0x31, 0x39, 0x7a, 0x78, 0x63, 0x76, 0x60,
     0x61, 0x62, 0x64, 0x65, 0x6d, 0x47, 0x6b, 0x59,
     0x5b, 0x5c, 0x4e, 0x56, 0x57, 0x58, 0x45, 0x53,
     0x54, 0x55, 0x52, 0x41, 0x44, 0x46, 0x0a, 0x67,
     0x6f, 0x51, DEADKEY, DEADKEY, 0x5f, DEADKEY, DEADKEY, DEADKEY,
     DEADKEY, DEADKEY, DEADKEY, DEADKEY, 0x69, 0x6b, 0x71, 0x6a,
     0x40, 0x4f, 0x50, 0x5a, DEADKEY, DEADKEY, DEADKEY, DEADKEY,
     0x68, DEADKEY, DEADKEY, 0x5e, DEADKEY, DEADKEY, DEADKEY, 0x68,
     0x68, 0x68, DEADKEY, 0x66, DEADKEY, 0x5d, 0x5f, DEADKEY]"

definition PS2ToADBMapStock_1 :: "u8 list" where
  "PS2ToADBMapStock_1 = [
     DEADKEY, DEADKEY, DEADKEY, DEADKEY, DEADKEY, DEADKEY, DEADKEY, DEADKEY,
     DEADKEY, DEADKEY, DEADKEY, DEADKEY, DEADKEY, DEADKEY, DEADKEY, DEADKEY,
     DEADKEY, DEADKEY, DEADKEY, DEADKEY, DEADKEY, DEADKEY, DEADKEY, DEADKEY,
     DEADKEY, DEADKEY, DEADKEY, DEADKEY, DEADKEY, DEADKEY, DEADKEY, DEADKEY,
     DEADKEY, DEADKEY, DEADKEY, DEADKEY, DEADKEY, DEADKEY, DEADKEY, DEADKEY,
     DEADKEY, DEADKEY, DEADKEY, DEADKEY, DEADKEY, DEADKEY, DEADKEY, DEADKEY,
     DEADKEY, DEADKEY, DEADKEY, DEADKEY, DEADKEY, DEADKEY, DEADKEY, DEADKEY,
     DEADKEY, DEADKEY, DEADKEY, DEADKEY, DEADKEY, DEADKEY, DEADKEY, DEADKEY,
     DEADKEY, DEADKEY, DEADKEY, DEADKEY, DEADKEY, DEADKEY, DEADKEY, DEADKEY,
     DEADKEY, DEADKEY, DEADKEY, DEADKEY, DEADKEY, DEADKEY, DEADKEY, DEADKEY,
     DEADKEY, DEADKEY, DEADKEY, DEADKEY, DEADKEY, DEADKEY, DEADKEY, DEADKEY,
     DEADKEY, DEADKEY, DEADKEY, DEADKEY, DEADKEY, DEADKEY, DEADKEY, DEADKEY,
     DEADKEY, DEADKEY, DEADKEY, DEADKEY, DEADKEY, DEADKEY, DEADKEY, DEADKEY,
     DEADKEY, DEADKEY, DEADKEY, DEADKEY, DEADKEY, DEADKEY, DEADKEY, DEADKEY,
     DEADKEY, 0x66, 0x68, DEADKEY, DEADKEY, DEADKEY, DEADKEY, DEADKEY,
     DEADKEY, DEADKEY, DEADKEY, DEADKEY, DEADKEY, DEADKEY, DEADKEY, DEADKEY]"

definition PS2ToADBMapStock_2 :: "u8 list" where
  "PS2ToADBMapStock_2 = [
     DEADKEY, DEADKEY, DEADKEY, DEADKEY, DEADKEY, BRIGHTNESS_DOWN, BRIGHTNESS_UP, DEADKEY,
     DEADKEY, 0x83, 0xa0, DEADKEY, DEADKEY, DEADKEY, DEADKEY, DEADKEY,
     0x4d, DEADKEY, BRIGHTNESS_DOWN, DEADKEY, DEADKEY, DEADKEY, DEADKEY, BRIGHTNESS_UP,
     DEADKEY, 0x42, DEADKEY, DEADKEY, 0x4c, 0x3e, DEADKEY, DEADKEY,
     0x4a, DEADKEY, 0x34, DEADKEY, DEADKEY, DEADKEY, DEADKEY, DEADKEY,
     DEADKEY, DEADKEY, DEADKEY, DEADKEY, DEADKEY, DEADKEY, 0x49, DEADKEY,
     0x48, DEADKEY, DEADKEY, DEADKEY, DEADKEY, 0x4b, DEADKEY, 0x69,
     0x3d, DEADKEY, DEADKEY, DEADKEY, DEADKEY, DEADKEY, DEADKEY, DEADKEY,
     DEADKEY, DEADKEY, DEADKEY, DEADKEY, DEADKEY, 0x71, DEADKEY, 0x73,
     0x7e, 0x74, DEADKEY, 0x7b, DEADKEY, 0x7c, BRIGHTNESS_UP, 0x77,
     0x7d, 0x79, 0x92, 0x75, DEADKEY, DEADKEY, DEADKEY, DEADKEY,
     DEADKEY, BRIGHTNESS_UP, DEADKEY, 0x37, 0x36, 0x6e, 0x7f, DEADKEY,
     DEADKEY, DEADKEY, DEADKEY, DEADKEY, DEADKEY, DEADKEY, DEADKEY, DEADKEY,
     DEADKEY, DEADKEY, DEADKEY, DEADKEY, DEADKEY, DEADKEY, 0x70, DEADKEY,
     DEADKEY, DEADKEY, DEADKEY, DEADKEY, DEADKEY, DEADKEY, DEADKEY, DEADKEY,
     DEADKEY, DEADKEY, DEADKEY, DEADKEY, DEADKEY, DEADKEY, DEADKEY, DEADKEY]"

definition PS2ToADBMapStock_3 :: "u8 list" where
  "PS2ToADBMapStock_3 = [
     DEADKEY, DEADKEY, DEADKEY, DEADKEY, DEADKEY, DEADKEY, DEADKEY, DEADKEY,
     DEADKEY, DEADKEY, DEADKEY, DEADKEY, DEADKEY, DEADKEY, DEADKEY, DEADKEY,
     DEADKEY, DEADKEY, DEADKEY, DEADKEY, DEADKEY, DEADKEY, DEADKEY, DEADKEY,
     DEADKEY, DEADKEY, DEADKEY, DEADKEY, DEADKEY, DEADKEY, DEADKEY, DEADKEY,
     DEADKEY, DEADKEY, DEADKEY, DEADKEY, DEADKEY, DEADKEY, DEADKEY, DEADKEY,
     DEADKEY, DEADKEY, DEADKEY, DEADKEY, DEADKEY, DEADKEY, DEADKEY, DEADKEY,
     DEADKEY, DEADKEY, DEADKEY, DEADKEY, DEADKEY, DEADKEY, DEADKEY, DEADKEY,
     DEADKEY, DEADKEY, DEADKEY, DEADKEY, DEADKEY, DEADKEY, DEADKEY, DEADKEY,
     DEADKEY, DEADKEY, DEADKEY, DEADKEY, DEADKEY, DEADKEY, DEADKEY, DEADKEY,
     DEADKEY, DEADKEY, DEADKEY, DEADKEY, DEADKEY, DEADKEY, DEADKEY, DEADKEY,
     DEADKEY, DEADKEY, DEADKEY, DEADKEY, DEADKEY, DEADKEY, DEADKEY, DEADKEY,
     DEADKEY, DEADKEY, DEADKEY, DEADKEY, DEADKEY, DEADKEY, DEADKEY, DEADKEY,
     DEADKEY, DEADKEY, DEADKEY, DEADKEY, DEADKEY, DEADKEY, DEADKEY, DEADKEY,
     DEADKEY, DEADKEY, DEADKEY, DEADKEY, DEADKEY, DEADKEY, DEADKEY, DEADKEY,
     DEADKEY, DEADKEY, DEADKEY, DEADKEY, DEADKEY, DEADKEY, DEADKEY, DEADKEY,
     DEADKEY, DEADKEY, DEADKEY, DEADKEY, DEADKEY, DEADKEY, DEADKEY, DEADKEY]"

definition PS2ToADBMapStock :: "u8 list" where
  "PS2ToADBMapStock = PS2ToADBMapStock_0 @ PS2ToADBMapStock_1 @ PS2ToADBMapStock_2 @ PS2ToADBMapStock_3"

subsection \<open>Flags\<close>

definition PS2flagsStock_0 :: "u16 list" where
  "PS2flagsStock_0 = [
     0x00, 0x00, 0x00, 0x00, 0x00, 0x00, 0x00, 0x00,
     0x00, 0x00, 0x00, 0x00, 0x00, 0x00, 0x00, 0x00,
     0x00, 0x00, 0x00, 0x00, 0x00, 0x00, 0x00, 0x00,
     0x00, 0x00, 0x00, 0x00, 0x00, 0x0100, 0x00, 0x00,
     0x00, 0x00, 0x00, 0x00, 0x00, 0x00, 0x00, 0x00,
     0x00, 0x00, 0x0300, 0x00, 0x00, 0x00, 0x00, 0x00,
     0x00, 0x00, 0x00, 0x00, 0x00, 0x00, 0x0400, 0x00,
     0x0500, 0x00, 0x00, 0x00, 0x00, 0x00, 0x00, 0x00,
     0x00, 0x00, 0x00, 0x00, 0x00, 0x00, 0x00, 0x00,
     0x00, 0x00, 0x00, 0x00, 0x00, 0x00, 0x00, 0x00,
     0x00, 0x00, 0x00, 0x00, 0x00, 0x00, 0x00, 0x00,
     0x00, 0x00, 0x00, 0x00, 0x00, 0x00, 0x00, 0x00,
     0x00, 0x00, 0x00, 0x00, 0x00, 0x00, 0x00, 0x00,
     0x00, 0x00, 0x00, 0x00, 0x00, 0x00, 0x00, 0x00,
     0x00, 0x00, 0x00, 0x00, 0x00, 0x00, 0x00, 0x00,
     0x00, 0x00, 0x00, 0x00, 0x00, 0x00, 0x00, 0x00]"

definition PS2flagsStock_1 :: "u16 list" where
  "PS2flagsStock_1 = [
     0x00, 0x00, 0x00, 0x00, 0x00, 0x00, 0x00, 0x00,
     0x00, 0x00, 0x00, 0x00, 0x00, 0x00, 0x00, 0x00,
     0x00, 0x00, 0x00, 0x00, 0x00, 0x00, 0x00, 0x00,
     0x00, 0x00, 0x00, 0x00, 0x00, 0x00, 0x00, 0x00,
     0x00, 0x00, 0x00, 0x00, 0x00, 0x00, 0x00, 0x00,
     0x00, 0x00, 0x00, 0x00, 0x00, 0x00, 0x00, 0x00,
     0x00, 0x00, 0x00, 0x00, 0x00, 0x00, 0x00, 0x00,
     0x00, 0x00, 0x00, 0x00, 0x00, 0x00, 0x00, 0x00,
     0x00, 0x00, 0x00, 0x00, 0x00, 0x00, 0x00, 0x00,
     0x00, 0x00, 0x00, 0x00, 0x00, 0x00, 0x00, 0x00,
     0x00, 0x00, 0x00, 0x00, 0x00, 0x00, 0x00, 0x00,
     0x00, 0x00, 0x00, 0x00, 0x00, 0x00, 0x00, 0x00,
     0x00, 0x00, 0x00, 0x00, 0x00, 0x00, 0x00, 0x00,
     0x00, 0x00, 0x00, 0x00, 0x00, 0x00, 0x00, 0x00,
     0x00, 0x00, 0x00, 0x00, 0x00, 0x00, 0x00, 0x00,
     0x00, 0x00, 0x00, 0x00, 0x00, 0x00, 0x00, 0x00]"

definition PS2flagsStock_2 :: "u16 list" where
  "PS2flagsStock_2 = [
     0x00, 0x00, 0x00, 0x00, 0x00, 0x00, 0x00, 0x00,
     0x00, 0x00, 0x00, 0x00, 0x00, 0x00, 0x00, 0x00,
     0x00, 0x00, 0x00, 0x00, 0x00, 0x00, 0x00, 0x00,
     0x00, 0x00, 0x00, 0x00, 0x00, 0x0200, 0x00, 0x00,
     0x00, 0x00, 0x00, 0x00, 0x00, 0x00, 0x00, 0x00,
     0x00, 0x00, 0x00, 0x00, 0x00, 0x00, 0x00, 0x00,
     0x00, 0x00, 0x00, 0x00, 0x00, 0x00, 0x00, 0x00,
     0x0600, 0x00, 0x00, 0x00, 0x00, 0x00, 0x00, 0x00,
     0x00, 0x00, 0x00, 0x00, 0x00, 0x00, 0x00, 0x00,
     0x00, 0x00, 0x00, 0x00, 0x00, 0x00, 0x00, 0x00,
     0x00, 0x00, 0x00, 0x00, 0x00, 0x00, 0x00, 0x00,
     0x00, 0x00, 0x00, 0x0700, 0x0800, 0x0a00, 0x00, 0x00,
     0x00, 0x00, 0x00, 0x0900, 0x00, 0x00, 0x00, 0x00,
     0x00, 0x00, 0x00, 0x00, 0x00, 0x00, 0x00, 0x00,
     0x00, 0x00, 0x00, 0x00, 0x00, 0x00, 0x00, 0x00,
     0x00, 0x00, 0x00, 0x00, 0x00, 0x00, 0x00, 0x00]"

definition PS2flagsStock_3 :: "u16 list" where
  "PS2flagsStock_3 = [
     0x00, 0x00, 0x00, 0x00, 0x00, 0x00, 0x00, 0x00,
     0x00, 0x00, 0x00, 0x00, 0x00, 0x00, 0x00, 0x00,
     0x00, 0x00, 0x00, 0x00, 0x00, 0x00, 0x00, 0x00,
     0x00, 0x00, 0x00, 0x00, 0x00, 0x00, 0x00, 0x00,
     0x00, 0x00, 0x00, 0x00, 0x00, 0x00, 0x00, 0x00,
     0x00, 0x00, 0x00, 0x00, 0x00, 0x00, 0x00, 0x00,
     0x00, 0x00, 0x00, 0x00, 0x00, 0x00, 0x00, 0x00,
     0x00, 0x00, 0x00, 0x00, 0x00, 0x00, 0x00, 0x00,
     0x00, 0x00, 0x00, 0x00, 0x00, 0x00, 0x00, 0x00,
     0x00, 0x00, 0x00, 0x00, 0x00, 0x00, 0x00, 0x00,
     0x00, 0x00, 0x00, 0x00, 0x00, 0x00, 0x00, 0x00,
     0x00, 0x00, 0x00, 0x00, 0x00, 0x00, 0x00, 0x00,
     0x00, 0x00, 0x00, 0x00, 0x00, 0x00, 0x00, 0x00,
     0x00, 0x00, 0x00, 0x00, 0x00, 0x00, 0x00, 0x00,
     0x00, 0x00, 0x00, 0x00, 0x00, 0x00, 0x00, 0x00,
     0x00, 0x00, 0x00, 0x00, 0x00, 0x00, 0x00, 0x00]"

definition PS2flagsStock :: "u16 list" where
  "PS2flagsStock = PS2flagsStock_0 @ PS2flagsStock_1 @ PS2flagsStock_2 @ PS2flagsStock_3"

subsection \<open>What the tables hold\<close>

lemma stock_lengths [simp]:
  "length PS2ToADBMapStock = ADB_CONVERTER_LEN" "length PS2flagsStock = ADB_CONVERTER_LEN"
  by code_simp+

end
