(* ===== verification/Kbd_State.thy ===== *)
theory Kbd_State
  imports PS2_Loop PS2_Request PS2_Constants PS2_Config Kbd_Maps
begin

text \<open>
  The state of the keyboard driver (class \<^verbatim>\<open>ApplePS2Keyboard\<close>, VoodooPS2Keyboard.h) and the services
  of the kernel it calls. The fields keep the names of the class, without the underscore. Pointers to
  objects the driver only tests for null are Booleans. The kernel services have a state of their own,
  \<open>plat\<close>, of an arbitrary type: the clock, the ACPI methods, the other drivers that receive messages, and
  the allocator. What the driver hands to the system, key events above all, is logged in \<open>hid_out\<close>.
\<close>

subsection \<open>Constants\<close>

definition KBV_NUM_KEYCODES :: nat where
  "KBV_NUM_KEYCODES = 512"

definition KBV_BITS_PER_UNIT :: nat where
  "KBV_BITS_PER_UNIT = 32"

definition KBV_BITS_MASK :: nat where
  "KBV_BITS_MASK = 31"

definition KBV_BITS_SHIFT :: nat where
  "KBV_BITS_SHIFT = 5"

definition KBV_NUNITS :: nat where
  "KBV_NUNITS = (KBV_NUM_KEYCODES + (KBV_BITS_PER_UNIT - 1)) div KBV_BITS_PER_UNIT"

definition KBV_NUM_SCANCODES :: nat where
  "KBV_NUM_SCANCODES = 256"

definition kBreaklessKey :: u16 where [ps2_const]:
  "kBreaklessKey = 0x01"

definition kPacketLength :: nat where
  "kPacketLength = 2 + 6 + 8"

definition kPacketTimeOffset :: nat where
  "kPacketTimeOffset = 8"

definition kPacketKeyDataLength :: nat where
  "kPacketKeyDataLength = 2"

lemmas kbd_nums [simp] =
  KBV_NUM_KEYCODES_def KBV_BITS_PER_UNIT_def KBV_BITS_MASK_def KBV_BITS_SHIFT_def KBV_NUNITS_def
  KBV_NUM_SCANCODES_def kPacketLength_def kPacketTimeOffset_def kPacketKeyDataLength_def
  ADB_CONVERTER_LEN_def ADB_CONVERTER_EX_START_def

subsection \<open>The bit vector of the keys that are down\<close>

text \<open>The macros \<^verbatim>\<open>KBV_KEYDOWN\<close>, \<^verbatim>\<open>KBV_KEYUP\<close> and \<^verbatim>\<open>KBV_IS_KEYDOWN\<close> on the array of 32 bit units.\<close>

definition kbv_bit :: "nat \<Rightarrow> u32" where
  "kbv_bit n = push_bit (n AND KBV_BITS_MASK) 1"

definition KBV_KEYDOWN :: "nat \<Rightarrow> u32 list \<Rightarrow> u32 list option" where
  "KBV_KEYDOWN n v =
     do { u \<leftarrow> at v (drop_bit KBV_BITS_SHIFT n); put_at v (drop_bit KBV_BITS_SHIFT n) (u OR kbv_bit n) }"

definition KBV_KEYUP :: "nat \<Rightarrow> u32 list \<Rightarrow> u32 list option" where
  "KBV_KEYUP n v =
     do { u \<leftarrow> at v (drop_bit KBV_BITS_SHIFT n); put_at v (drop_bit KBV_BITS_SHIFT n) (u AND NOT (kbv_bit n)) }"

definition KBV_IS_KEYDOWN :: "nat \<Rightarrow> u32 list \<Rightarrow> bool option" where
  "KBV_IS_KEYDOWN n v = do { u \<leftarrow> at v (drop_bit KBV_BITS_SHIFT n); Some (u AND kbv_bit n \<noteq> 0) }"

text \<open>The abstraction: the set of the keys that are down.\<close>

definition keysDown :: "u32 list \<Rightarrow> nat set" where
  "keysDown v = {n. n < 32 * length v \<and> bit (v ! (n div 32)) (n mod 32)}"

subsection \<open>Packets and time stamps\<close>

text \<open>The eight bytes of a \<^verbatim>\<open>uint64_t\<close> in memory, least significant first, and back.\<close>

definition store64 :: "u64 \<Rightarrow> u8 list" where
  "store64 t = map (\<lambda>i. ucast (drop_bit (8 * i) t)) [0..<8]"

definition load64 :: "u8 list \<Rightarrow> u64" where
  "load64 bs = foldr (\<lambda>b acc. ucast b OR push_bit 8 acc) bs 0"

definition packet_time :: "u8 list \<Rightarrow> u64" where
  "packet_time packet = load64 (window 8 kPacketTimeOffset packet)"

text \<open>A packet with its two bytes of key data and its time stamp; the six bytes between are unused.\<close>

definition key_packet :: "u8 \<Rightarrow> u8 \<Rightarrow> u8 list \<Rightarrow> u64 \<Rightarrow> u8 list" where
  "key_packet b0 b1 unused t = [b0, b1] @ unused @ store64 t"

subsection \<open>State\<close>

datatype timer_func = kTimerSleep | kTimerEject

text \<open>Key events with ADB code, direction and time; the request to sleep; the change of the property
  \<^verbatim>\<open>HIDFKeyMode\<close> of the HID system.\<close>

datatype kbd_out =
    KeyEvent u8 bool u64
  | SleepNow
  | SetHIDFKeyMode bool

record 'p kbd =
  keyBitVector :: "u32 list"
  extendCount :: u8
  ringBuffer :: "u8 ring"
  lastdata :: u8
  interruptHandlerInstalled :: bool
  powerControlHandlerInstalled :: bool
  ledState :: u8
  kbdDevice :: bool \<comment> \<open>\<^verbatim>\<open>_device\<close>; the pointer is not null, as for the two below\<close>
  kbdCmdGate :: bool
  sleepEjectTimer :: bool
  PS2modifierState :: u16
  PS2ToPS2Map :: "u16 list"
  PS2flags :: "u16 list"
  PS2ToADBMap :: "u8 list"
  PS2ToADBMapMapped :: "u8 list"
  fkeymode :: u32
  fkeymodesupported :: bool
  keysStandard :: "osobj list option"
  keysSpecial :: "osobj list option"
  swapcommandoption :: bool
  logscancodes :: u32
  f12ejectdelay :: u32
  timerFunc :: timer_func
  sleepEjectTimeout :: "u64 option" \<comment> \<open>the delay \<^verbatim>\<open>_sleepEjectTimer\<close> is armed with\<close>
  maxsleeppresstime :: u32
  actionSwipeUp :: "u16 list"
  actionSwipeDown :: "u16 list"
  actionSwipeLeft :: "u16 list"
  actionSwipeRight :: "u16 list"
  provider :: bool \<comment> \<open>the pointer is not null\<close>
  brightnessLevels :: "int list option"
  brightnessCount :: int
  backlightLevels :: "int list option"
  backlightCount :: int
  brightnessHack :: bool
  macroTranslation :: "u8 list list option"
  macroInversion :: "u8 list list option"
  macroBuffer :: "u8 list option"
  macroMax :: int
  macroCurrent :: nat
  macroMaxTime :: u64
  macroTimer :: bool \<comment> \<open>the pointer is not null\<close>
  macroTimeout :: "u64 option" \<comment> \<open>the delay \<^verbatim>\<open>_macroTimer\<close> is armed with\<close>
  firsttime :: bool \<comment> \<open>the static variable of \<^verbatim>\<open>dispatchKeyboardEventWithPacket\<close>\<close>
  hid_out :: "kbd_out list"
  plat :: 'p

text \<open>
  The kernel services: the time since boot and its conversion; the version of the kernel; ACPI
  methods that return an integer or take one; whether an allocation succeeds; whether the HID system
  service and the power management root domain are found; the delivery of a message by the
  controller, which may change the data of the message; and the content of an uninitialised Boolean
  on the stack.
\<close>

record 'p kbd_env =
  clock_get_uptime :: "'p \<Rightarrow> u64 \<times> 'p"
  absolutetime_to_nanoseconds :: "u64 \<Rightarrow> u64"
  version_major :: nat
  evaluateInteger :: "string \<Rightarrow> 'p \<Rightarrow> u32 option \<times> 'p"
  evaluateObject :: "string \<Rightarrow> u32 \<Rightarrow> 'p \<Rightarrow> 'p"
  withNumber :: "'p \<Rightarrow> bool \<times> 'p"
  withCString :: "'p \<Rightarrow> bool \<times> 'p"
  withObjects :: "'p \<Rightarrow> bool \<times> 'p"
  waitForHIDSystem :: "'p \<Rightarrow> bool \<times> 'p"
  getPMRootDomain :: "'p \<Rightarrow> bool"
  deviceMessage :: "PS2Message \<Rightarrow> 'p \<Rightarrow> PS2Message \<times> 'p"
  stackBool :: bool

subsection \<open>Calls of the services\<close>

definition lift_plat :: "('p \<Rightarrow> 'a \<times> 'p) \<Rightarrow> 'p kbd \<Rightarrow> 'a \<times> 'p kbd" where
  "lift_plat f s = (let (a, p) = f (plat s) in (a, s\<lparr>plat := p\<rparr>))"

definition dispatchKeyboardEventX :: "u8 \<Rightarrow> bool \<Rightarrow> u64 \<Rightarrow> 'p kbd \<Rightarrow> 'p kbd" where
  "dispatchKeyboardEventX code down time s = s\<lparr>hid_out := hid_out s @ [KeyEvent code down time]\<rparr>"

definition setSleepEjectTimer :: "u64 \<Rightarrow> 'p kbd \<Rightarrow> 'p kbd" where
  "setSleepEjectTimer time s = s\<lparr>sleepEjectTimeout := Some time\<rparr>"

definition cancelSleepEjectTimer :: "'p kbd \<Rightarrow> 'p kbd" where
  "cancelSleepEjectTimer s = s\<lparr>sleepEjectTimeout := None\<rparr>"

definition setMacroTimer :: "u64 \<Rightarrow> 'p kbd \<Rightarrow> 'p kbd" where
  "setMacroTimer time s = s\<lparr>macroTimeout := Some time\<rparr>"

definition cancelMacroTimer :: "'p kbd \<Rightarrow> 'p kbd" where
  "cancelMacroTimer s = s\<lparr>macroTimeout := None\<rparr>"

definition checkModifierState :: "u16 \<Rightarrow> 'p kbd \<Rightarrow> bool" where
  "checkModifierState m s \<longleftrightarrow> m = (PS2modifierState s AND m)"

end
