(* ===== verification/Kbd_Dispatch.thy ===== *)
theory Kbd_Dispatch
  imports Kbd_State
begin

text \<open>
  From a packet to key events: \<^verbatim>\<open>dispatchKeyboardEventWithPacket\<close> and what it calls, the brightness
  and backlight keys, the sleep and eject timer, the key sequences of the swipe actions. The method is
  split at the comments of the source: modifier tracking, keys that call ACPI methods, the special
  scan codes, the special ADB codes, and the delivery. Logging is left out, and the parts that are only
  compiled in a \<^verbatim>\<open>DEBUG\<close> build.
\<close>

subsection \<open>Brightness and backlight\<close>

text \<open>The index of the first level, from \<open>index\<close> on, that is at least the current one.\<close>

function findLevel :: "int list \<Rightarrow> int \<Rightarrow> int \<Rightarrow> int \<Rightarrow> int option" where
  "findLevel levels count current index =
     (if index < count then
        do { level \<leftarrow> (if index < 0 then None else at levels (nat index));
             if level \<ge> current then Some index else findLevel levels count current (index + 1) }
      else Some index)"
  by pat_completeness auto

termination
  by (relation "measure (\<lambda>(_, count, _, index). nat (count - index))") auto

declare findLevel.simps [simp del]

text \<open>One step up or down in a table of levels, from the first usable entry on.\<close>

definition newLevel :: "int list \<Rightarrow> int \<Rightarrow> int \<Rightarrow> int \<Rightarrow> bool \<Rightarrow> int option" where
  "newLevel levels count first current up =
     do { index \<leftarrow> findLevel levels count current first;
          let index = index + (if up then 1 else -1);
          let index = (if index \<ge> count then count - 1 else index);
          let index = (if index < first then first else index);
          if index < 0 then None else at levels (nat index) }"

text \<open>The call of the ACPI method that sets a level, when the key goes down.\<close>

definition applyLevel :: "'p kbd_env \<Rightarrow> string \<Rightarrow> int \<Rightarrow> bool \<Rightarrow> 'p kbd \<Rightarrow> 'p kbd" where
  "applyLevel e method level down s =
     (let (num, s) = lift_plat (withNumber e) s
      in if num \<and> down then s\<lparr>plat := evaluateObject e method (word_of_int level) (plat s)\<rparr> else s)"

definition modifyScreenBrightness :: "'p kbd_env \<Rightarrow> u8 \<Rightarrow> bool \<Rightarrow> 'p kbd \<Rightarrow> 'p kbd option" where
  "modifyScreenBrightness e adbCode down s =
     (case lift_plat (evaluateInteger e ''KBQC'') s of
        (None, s) \<Rightarrow> Some s
      | (Some result, s) \<Rightarrow>
          do { levels \<leftarrow> brightnessLevels s;
               level \<leftarrow> newLevel levels (brightnessCount s) 2 (sint result) (adbCode = 0x90);
               Some (applyLevel e ''KBCM'' level down s) })"

definition modifyKeyboardBacklight :: "'p kbd_env \<Rightarrow> nat \<Rightarrow> bool \<Rightarrow> 'p kbd \<Rightarrow> 'p kbd option" where
  "modifyKeyboardBacklight e keyCode down s =
     (case lift_plat (evaluateInteger e ''KKQC'') s of
        (None, s) \<Rightarrow> Some s
      | (Some result, s) \<Rightarrow>
          do { levels \<leftarrow> backlightLevels s;
               level \<leftarrow> newLevel levels (backlightCount s) 0 (sint result) (keyCode = 0x4e);
               Some (applyLevel e ''KKCM'' level down s) })"

subsection \<open>The sleep and eject timer\<close>

definition onSleepEjectTimer :: "'p kbd_env \<Rightarrow> 'p kbd \<Rightarrow> 'p kbd" where
  "onSleepEjectTimer e s =
     (case timerFunc s of
        kTimerSleep \<Rightarrow> if getPMRootDomain e (plat s) then s\<lparr>hid_out := hid_out s @ [SleepNow]\<rparr> else s
      | kTimerEject \<Rightarrow> let (now, s) = lift_plat (clock_get_uptime e) s
                       in dispatchKeyboardEventX 0x92 True now s)"

subsection \<open>Steps of dispatchKeyboardEventWithPacket\<close>

text \<open>A key that is pressed and released at once, each event with a time stamp of its own.\<close>

definition stampedPress :: "'p kbd_env \<Rightarrow> u8 \<Rightarrow> 'p kbd \<Rightarrow> 'p kbd" where
  "stampedPress e code s =
     (let (now, s) = lift_plat (clock_get_uptime e) s;
          s = dispatchKeyboardEventX code True now s;
          (now, s) = lift_plat (clock_get_uptime e) s
      in dispatchKeyboardEventX code False now s)"

text \<open>Modifier tracking. A shift of an \<^verbatim>\<open>int\<close> by 31 or more is undefined.\<close>

definition trackModifier :: "nat \<Rightarrow> bool \<Rightarrow> 'p kbd \<Rightarrow> 'p kbd option" where
  "trackModifier keyCodeRaw down s =
     do { flags \<leftarrow> at (PS2flags s) keyCodeRaw;
          let b = (ucast (drop_bit 8 flags) :: u8);
          if b = 0 then Some s
          else if unat b - 1 \<ge> 31 then None
          else let keyMask = push_bit (unat b - 1) 1
               in Some (s\<lparr>PS2modifierState := if down then PS2modifierState s OR keyMask
                                                else PS2modifierState s AND NOT keyMask\<rparr>) }"

text \<open>Codes e0f0 through e0ff call the ACPI methods RKA0 to RKAF.\<close>

definition methodRKA :: "nat \<Rightarrow> string" where
  "methodRKA keyCode =
     (let n = keyCode - 0x01f0 in ''RKA'' @ [char_of (if n < 10 then n + 48 else n - 10 + 65)])"

definition acpiKey :: "'p kbd_env \<Rightarrow> nat \<Rightarrow> bool \<Rightarrow> 'p kbd \<Rightarrow> 'p kbd" where
  "acpiKey e keyCode down s =
     (if keyCode \<ge> 0x01f0 \<and> keyCode \<le> 0x01ff \<and> provider s then
        let (num, s) = lift_plat (withNumber e) s
        in if num then s\<lparr>plat := evaluateObject e (methodRKA keyCode) (of_bool down) (plat s)\<rparr> else s
      else s)"

text \<open>The brightness keys of the HP Envy: held keys of the list are released before and pressed after.\<close>

definition resendHeld :: "nat list \<Rightarrow> bool \<Rightarrow> u64 \<Rightarrow> 'p kbd \<Rightarrow> 'p kbd option" where
  "resendHeld keys down now =
     foldM (\<lambda>k s. do { held \<leftarrow> KBV_IS_KEYDOWN k (keyBitVector s);
                       if held then do { code \<leftarrow> at (PS2ToADBMap s) k;
                                         Some (dispatchKeyboardEventX code down now s) }
                       else Some s }) keys"

definition numpadKey :: "'p kbd_env \<Rightarrow> nat \<Rightarrow> bool \<Rightarrow> u64 \<Rightarrow> 'p kbd \<Rightarrow> (nat \<times> 'p kbd) option" where
  "numpadKey e keyCode down now s =
     (if backlightLevels s \<noteq> None \<and> checkModifierState (kMaskLeftControl OR kMaskLeftAlt) s then
        do { s \<leftarrow> modifyKeyboardBacklight e keyCode down s; Some (0, s) }
      else if brightnessHack s \<and> checkModifierState (kMaskLeftControl OR kMaskLeftShift) s then
        do { let keys = (if checkModifierState kMaskLeftWindows s then [0x1d] else [0x2a, 0x1d]);
             s \<leftarrow> resendHeld keys False now s;
             let s = dispatchKeyboardEventX (if keyCode = 0x4e then 0x90 else 0x91) down now s;
             s \<leftarrow> resendHeld keys True now s;
             Some (0, s) }
      else Some (keyCode, s))"

definition deleteKey :: "nat \<Rightarrow> bool \<Rightarrow> u64 \<Rightarrow> 'p kbd \<Rightarrow> nat \<times> 'p kbd" where
  "deleteKey keyCode down now s =
     (if checkModifierState (kMaskLeftControl OR kMaskLeftAlt) s then
        (0, if down then s
            else dispatchKeyboardEventX 0x7f False now (dispatchKeyboardEventX 0x7f True now
                   (dispatchKeyboardEventX 0x3b False now (dispatchKeyboardEventX 0x37 False now s))))
      else (keyCode, s))"

definition sleepKey :: "'p kbd_env \<Rightarrow> bool \<Rightarrow> 'p kbd \<Rightarrow> 'p kbd" where
  "sleepKey e down s =
     (if down then
        let s = s\<lparr>timerFunc := kTimerSleep\<rparr>
        in if fkeymode s \<noteq> 0 \<or> maxsleeppresstime s = 0 then onSleepEjectTimer e s
           else setSleepEjectTimer (ucast (maxsleeppresstime s) * 1000000) s
      else cancelSleepEjectTimer s)"

definition toggleTouchpad :: "'p kbd_env \<Rightarrow> 'p kbd \<Rightarrow> 'p kbd" where
  "toggleTouchpad e s =
     (let (m, s) = lift_plat (deviceMessage e (kPS2M_getDisableTouchpad (stackBool e))) s;
          enabled = (case m of kPS2M_getDisableTouchpad b \<Rightarrow> b | _ \<Rightarrow> stackBool e);
          (_, s) = lift_plat (deviceMessage e (kPS2M_setDisableTouchpad (\<not> enabled))) s
      in s)"

definition toggleFKeyMode :: "'p kbd_env \<Rightarrow> 'p kbd \<Rightarrow> 'p kbd" where
  "toggleFKeyMode e s =
     (if fkeymodesupported s then
        let (service, s) = lift_plat (waitForHIDSystem e) s
        in if service then
             let (num, s) = lift_plat (withNumber e) s;
                 (key, s) = lift_plat (withCString e) s
             in if num \<and> key then
                  let (dict, s) = lift_plat (withObjects e) s
                  in if dict then s\<lparr>hid_out := hid_out s @ [SetHIDFKeyMode (fkeymode s = 0)]\<rparr> else s
                else s
           else s
      else s)"

text \<open>The switch on the translated scan code: the code that is left to deliver, 0 when it was used up.\<close>

definition specialKey :: "'p kbd_env \<Rightarrow> nat \<Rightarrow> bool \<Rightarrow> u64 \<Rightarrow> 'p kbd \<Rightarrow> (nat \<times> 'p kbd) option" where
  "specialKey e keyCode down now s =
     (if keyCode = 0x4e \<or> keyCode = 0x4a then numpadKey e keyCode down now s
      else if keyCode = 0x0153 then Some (deleteKey keyCode down now s)
      else if keyCode = 0x015f then Some (0, sleepKey e down s)
      else if keyCode = 0x0128 \<or> keyCode = 0x0137 then
        Some (0, if \<not> down then s
                 else if \<not> checkModifierState kMaskLeftControl s then toggleTouchpad e s
                 else if keyCode \<noteq> 0x0137 then s
                 else toggleFKeyMode e s)
      else if keyCode = 0x0127 then Some (0, if down then toggleFKeyMode e s else s)
      else Some (keyCode, s))"

text \<open>The switch on the ADB code: the code to deliver, whether it is eaten, and the state.\<close>

definition specialADB :: "'p kbd_env \<Rightarrow> u8 \<Rightarrow> bool \<Rightarrow> 'p kbd \<Rightarrow> (u8 \<times> bool \<times> 'p kbd) option" where
  "specialADB e code down s =
     (if code = 0x90 \<or> code = 0x91 then
        (if brightnessLevels s \<noteq> None then
           do { s \<leftarrow> modifyScreenBrightness e code down s; Some (DEADKEY, False, s) }
         else Some (code, False, s))
      else if code = 0x92 \<and> PS2modifierState s = 0 then
        (if down then
           let s = s\<lparr>timerFunc := kTimerEject\<rparr>
           in Some (code, True,
                if f12ejectdelay s = 0 then onSleepEjectTimer e s
                else setSleepEjectTimer (ucast (f12ejectdelay s) * 1000000) s)
         else Some (code, False, cancelSleepEjectTimer s))
      else Some (code, False, s))"

text \<open>
  The other drivers are told about the key and may eat it; then the event goes to the HID system. A
  key without break code is released as soon as it is pressed.
\<close>

definition notifyKey :: "'p kbd_env \<Rightarrow> u64 \<Rightarrow> u8 \<Rightarrow> bool \<Rightarrow> bool \<Rightarrow> 'p kbd \<Rightarrow> bool \<times> 'p kbd" where
  "notifyKey e now_ns code down eat s =
     (let info = \<lparr>ki_time = now_ns, adbKeyCode = ucast code, goingDown = down, eatKey = eat\<rparr>;
          (m, s) = lift_plat (deviceMessage e (kPS2M_notifyKeyPressed info)) s
      in (case m of kPS2M_notifyKeyPressed info' \<Rightarrow> eatKey info' | _ \<Rightarrow> eat, s))"

definition capsLockKey :: "'p kbd_env \<Rightarrow> u8 \<Rightarrow> bool \<Rightarrow> 'p kbd \<Rightarrow> 'p kbd" where
  "capsLockKey e code down s =
     (if down then
        let s = stampedPress e code s;
            s = (if \<not> firsttime s then stampedPress e code s else s)
        in s\<lparr>firsttime := False\<rparr>
      else s)"

definition deliverKey :: "u8 \<Rightarrow> bool \<Rightarrow> bool \<Rightarrow> u64 \<Rightarrow> 'p kbd \<Rightarrow> 'p kbd" where
  "deliverKey code down breakless now s =
     (let s = (if down \<or> \<not> breakless then dispatchKeyboardEventX code down now s else s)
      in if down \<and> breakless then dispatchKeyboardEventX code False now s else s)"

text \<open>The part of the method that follows the translation of the scan code.\<close>

definition dispatchKey :: "'p kbd_env \<Rightarrow> nat \<Rightarrow> nat \<Rightarrow> bool \<Rightarrow> u64 \<Rightarrow> 'p kbd \<Rightarrow> (bool \<times> 'p kbd) option" where
  "dispatchKey e keyCodeRaw keyCode down now s =
     do { s \<leftarrow> trackModifier keyCodeRaw down s;
          let s = acpiKey e keyCode down s;
          (keyCode, s) \<leftarrow> specialKey e keyCode down now s;
          code \<leftarrow> at (PS2ToADBMap s) keyCode;
          (code, eat, s) \<leftarrow> specialADB e code down s;
          let (eat, s) = notifyKey e (absolutetime_to_nanoseconds e now) code down eat s;
          if code = 0x39 \<and> version_major e \<ge> 16 then Some (True, capsLockKey e code down s)
          else if keyCode \<noteq> 0 \<and> \<not> eat then
            do { flags \<leftarrow> at (PS2flags s) keyCodeRaw;
                 Some (True, deliverKey code down (tst flags kBreaklessKey) now s) }
          else Some (True, s) }"

definition dispatchKeyboardEventWithPacket ::
  "'p kbd_env \<Rightarrow> u8 list \<Rightarrow> 'p kbd \<Rightarrow> (bool \<times> 'p kbd) option" where
  "dispatchKeyboardEventWithPacket e packet s =
     do { b0 \<leftarrow> at packet 0;
          scanCode \<leftarrow> at packet 1;
          let extended = b0 - 1;
          let keyCodeRaw = unat (scanCode AND NOT kSC_UpBit);
          let down = (\<not> tst scanCode kSC_UpBit);
          let now = packet_time packet;
          if extended = 0 then
            (if scanCode = 0xf2 \<or> scanCode = 0xf1 then
               do { code \<leftarrow> at (PS2ToADBMap s) (unat scanCode);
                    Some (True, stampedPress e code s) }
             else do { keyCode \<leftarrow> at (PS2ToPS2Map s) keyCodeRaw;
                       dispatchKey e keyCodeRaw (unat keyCode) down now s })
          else
            do { let keyCodeRaw = keyCodeRaw + KBV_NUM_SCANCODES;
                 keyCode \<leftarrow> at (PS2ToPS2Map s) keyCodeRaw;
                 if keyCodeRaw = 0x012a then Some (False, s)
                 else dispatchKey e keyCodeRaw (unat keyCode) down now s } }"

subsection \<open>Key sequences\<close>

text \<open>The sequence ends at the first zero; without one the loop runs off the array.\<close>

fun sendKeySequence :: "'p kbd_env \<Rightarrow> u16 list \<Rightarrow> 'p kbd \<Rightarrow> 'p kbd option" where
  "sendKeySequence e [] s = None"
| "sendKeySequence e (key # keys) s =
     (if key = 0 then Some s
      else let (now, s) = lift_plat (clock_get_uptime e) s
           in sendKeySequence e keys
                (dispatchKeyboardEventX (ucast (key AND 0xFF)) (\<not> tst key 0x1000) now s))"

end
