(* ===== verification/Kbd_Input.thy ===== *)
theory Kbd_Input
  imports Kbd_Dispatch
begin

text \<open>
  The way of a byte through the keyboard driver: \<^verbatim>\<open>interruptOccurred\<close> assembles packets at interrupt time and
  queues them, \<^verbatim>\<open>packetReady\<close> takes them from the queue in the work loop, \<^verbatim>\<open>invertMacros\<close> replaces
  known sequences of packets by one, and \<^verbatim>\<open>message\<close> takes packets from ACPI notifications and the
  swipe gestures of the trackpad.
\<close>

subsection \<open>Interrupt time\<close>

text \<open>Two bytes of key data and the time stamp, written at the head of the ring buffer.\<close>

definition queuePacket :: "u8 \<Rightarrow> u8 \<Rightarrow> u64 \<Rightarrow> u8 ring \<Rightarrow> u8 ring" where
  "queuePacket b0 b1 now r =
     ring_advanceHead kPacketLength
       (fold (\<lambda>i. ring_head_write (kPacketTimeOffset + i) (store64 now ! i)) [0..<8]
         (ring_head_write 1 b1 (ring_head_write 0 b0 r)))"

definition enqueueKey :: "'p kbd_env \<Rightarrow> u8 \<Rightarrow> u8 \<Rightarrow> 'p kbd \<Rightarrow> 'p kbd" where
  "enqueueKey e b0 b1 s =
     (let (now, s) = lift_plat (clock_get_uptime e) s
      in s\<lparr>ringBuffer := queuePacket b0 b1 now (ringBuffer s)\<rparr>)"

text \<open>The end of \<^verbatim>\<open>interruptOccurred\<close>: the byte that completes a scan code.\<close>

definition scanCodeComplete :: "'p kbd_env \<Rightarrow> u8 \<Rightarrow> u8 \<Rightarrow> 'p kbd \<Rightarrow> (PS2InterruptResult \<times> 'p kbd) option" where
  "scanCodeComplete e extended data s =
     do { let keyCodeRaw = unat extended * 256 + unat (data AND NOT kSC_UpBit);
          flags \<leftarrow> at (PS2flags s) keyCodeRaw;
          if tst flags kBreaklessKey then
            Some (kPS2IR_packetReady, enqueueKey e (extended + 1) data s)
          else if \<not> tst data kSC_UpBit then
            do { isDown \<leftarrow> KBV_IS_KEYDOWN keyCodeRaw (keyBitVector s);
                 if isDown then Some (kPS2IR_packetBuffering, s)
                 else do { v \<leftarrow> KBV_KEYDOWN keyCodeRaw (keyBitVector s);
                           Some (kPS2IR_packetReady, enqueueKey e (extended + 1) data (s\<lparr>keyBitVector := v\<rparr>)) } }
          else do { v \<leftarrow> KBV_KEYUP keyCodeRaw (keyBitVector s);
                    Some (kPS2IR_packetReady, enqueueKey e (extended + 1) data (s\<lparr>keyBitVector := v\<rparr>)) } }"

definition interruptOccurred :: "'p kbd_env \<Rightarrow> u8 \<Rightarrow> 'p kbd \<Rightarrow> (PS2InterruptResult \<times> 'p kbd) option" where
  "interruptOccurred e data s =
     (if lastdata s = kSC_Reset \<and> data = 0 then
        Some (kPS2IR_packetReady, (enqueueKey e 0 kSC_Reset s)\<lparr>extendCount := 0\<rparr>)
      else
        let s = s\<lparr>lastdata := data\<rparr>
        in if data = kSC_Acknowledge then Some (kPS2IR_packetBuffering, s)
           else if data = kSC_Resend then Some (kPS2IR_packetBuffering, s)
           else if data = kSC_Extend then Some (kPS2IR_packetBuffering, s\<lparr>extendCount := 1\<rparr>)
           else if data = kSC_Pause then Some (kPS2IR_packetBuffering, s\<lparr>extendCount := 2\<rparr>)
           else let extended = extendCount s;
                    s = (if extended = 0 then s else s\<lparr>extendCount := extended - 1\<rparr>)
                in if extended = 0 \<or> extendCount s = 0 then scanCodeComplete e extended data s
                   else Some (kPS2IR_packetBuffering, s))"

subsection \<open>Macro inversion\<close>

definition kOutputBytesOffset :: nat where
  "kOutputBytesOffset = 2"

definition kModifierBytesOffset :: nat where
  "kModifierBytesOffset = 2 + 2"

definition kPrefixBytes :: nat where
  "kPrefixBytes = 2 + 2 + 4"

definition kMinMacroInversion :: nat where
  "kMinMacroInversion = kPrefixBytes + 2"

lemmas macro_nums [simp] =
  kOutputBytesOffset_def kModifierBytesOffset_def kPrefixBytes_def kMinMacroInversion_def

text \<open>A packet in the macro buffer, and the copy of a packet into it.\<close>

definition macroPacket :: "u8 list \<Rightarrow> nat \<Rightarrow> u8 list option" where
  "macroPacket buf i =
     (if i * kPacketLength + kPacketLength \<le> length buf
      then Some (window kPacketLength (i * kPacketLength) buf) else None)"

definition storeMacroPacket :: "nat \<Rightarrow> u8 list \<Rightarrow> u8 list \<Rightarrow> u8 list option" where
  "storeMacroPacket i packet buf =
     (if i * kPacketLength + kPacketLength \<le> length buf \<and> kPacketLength \<le> length packet
      then Some (take (i * kPacketLength) buf @ take kPacketLength packet @ drop (i * kPacketLength + kPacketLength) buf)
      else None)"

fun compareMacro :: "u8 list \<Rightarrow> u8 list \<Rightarrow> nat \<Rightarrow> bool option" where
  "compareMacro buffer data 0 = Some True"
| "compareMacro buffer data (Suc count) =
     do { b0 \<leftarrow> at buffer 0; d0 \<leftarrow> at data 0;
          if b0 \<noteq> d0 then Some False
          else do { b1 \<leftarrow> at buffer 1; d1 \<leftarrow> at data 1;
                    if b1 \<noteq> d1 then Some False
                    else compareMacro (drop kPacketLength buffer) (drop kPacketKeyDataLength data) count } }"

fun dispatchBuffered :: "'p kbd_env \<Rightarrow> nat list \<Rightarrow> 'p kbd \<Rightarrow> 'p kbd option" where
  "dispatchBuffered e [] s = Some s"
| "dispatchBuffered e (i # is) s =
     do { buf \<leftarrow> macroBuffer s;
          packet \<leftarrow> macroPacket buf i;
          (_, s) \<leftarrow> dispatchKeyboardEventWithPacket e packet s;
          dispatchBuffered e is s }"

definition dispatchInvertBuffer :: "'p kbd_env \<Rightarrow> 'p kbd \<Rightarrow> 'p kbd option" where
  "dispatchInvertBuffer e s =
     do { s \<leftarrow> dispatchBuffered e [0..<macroCurrent s] s;
          Some (cancelMacroTimer (s\<lparr>macroCurrent := 0\<rparr>)) }"

text \<open>The test of the modifier keys: a mask and the value to compare with, ffff for any of them.\<close>

definition macroModifiers :: "u8 list \<Rightarrow> u16 \<Rightarrow> bool option" where
  "macroModifiers data modifiers =
     do { m1 \<leftarrow> at data kModifierBytesOffset; m0 \<leftarrow> at data (kModifierBytesOffset + 1);
          c1 \<leftarrow> at data (kModifierBytesOffset + 2); c0 \<leftarrow> at data (kModifierBytesOffset + 3);
          let modMask = push_bit 8 (ucast m1) + ucast m0;
          let compare = push_bit 8 (ucast c1) + ucast c0;
          Some (compare = 0xFFFF \<and> tst modifiers modMask \<or> modifiers AND modMask = compare) }"

text \<open>How the buffered packets compare with one macro.\<close>

datatype macro_match = NoMatch | PartialMatch | FullMatch

definition matchMacro :: "nat \<Rightarrow> u8 list \<Rightarrow> u8 list \<Rightarrow> u16 \<Rightarrow> macro_match option" where
  "matchMacro buffered data buf modifiers =
     (let len = int (length data) - int kPrefixBytes; total = int (buffered * kPacketKeyDataLength)
      in if total \<le> len then
           do { same \<leftarrow> compareMacro buf (drop kPrefixBytes data) buffered;
                if \<not> same then Some NoMatch
                else if total = len then
                  do { match \<leftarrow> macroModifiers data modifiers;
                       Some (if match then FullMatch else NoMatch) }
                else Some PartialMatch }
         else Some NoMatch)"

text \<open>A whole macro was typed: its output takes the place of the key data of the first packet.\<close>

definition outputMacro :: "'p kbd_env \<Rightarrow> u8 list \<Rightarrow> u8 list \<Rightarrow> 'p kbd \<Rightarrow> 'p kbd option" where
  "outputMacro e data buf s =
     do { o0 \<leftarrow> at data kOutputBytesOffset; o1 \<leftarrow> at data (kOutputBytesOffset + 1);
          buf \<leftarrow> put_at buf 0 o0; buf \<leftarrow> put_at buf 1 o1;
          packet \<leftarrow> macroPacket buf 0;
          (_, s) \<leftarrow> dispatchKeyboardEventWithPacket e packet (s\<lparr>macroBuffer := Some buf\<rparr>);
          Some ((cancelMacroTimer s)\<lparr>macroCurrent := 0\<rparr>) }"

text \<open>The loop over the macros: whether the packet was used up, by a whole macro or as part of one.\<close>

fun tryMacros :: "'p kbd_env \<Rightarrow> nat \<Rightarrow> u8 list list \<Rightarrow> 'p kbd \<Rightarrow> (bool \<times> 'p kbd) option" where
  "tryMacros e buffered [] s = Some (False, s)"
| "tryMacros e buffered (data # ps) s =
     do { buf \<leftarrow> macroBuffer s;
          m \<leftarrow> matchMacro buffered data buf (PS2modifierState s);
          case m of
            NoMatch \<Rightarrow> tryMacros e buffered ps s
          | FullMatch \<Rightarrow> do { s \<leftarrow> outputMacro e data buf s; Some (True, s) }
          | PartialMatch \<Rightarrow>
              Some (True, (setMacroTimer (macroMaxTime s) (cancelMacroTimer s))\<lparr>macroCurrent := macroCurrent s + 1\<rparr>) }"

text \<open>Whether the last packet in the buffer is older than the limit; the difference is unsigned.\<close>

definition macroExpired :: "'p kbd_env \<Rightarrow> u64 \<Rightarrow> 'p kbd \<Rightarrow> bool option" where
  "macroExpired e now s =
     do { buf \<leftarrow> macroBuffer s;
          packet \<leftarrow> macroPacket buf (macroCurrent s - 1);
          Some (absolutetime_to_nanoseconds e now - absolutetime_to_nanoseconds e (packet_time packet) > macroMaxTime s) }"

definition flushMacros :: "'p kbd_env \<Rightarrow> 'p kbd \<Rightarrow> 'p kbd option" where
  "flushMacros e s = (if macroCurrent s > 0 then dispatchInvertBuffer e s else Some s)"

definition flushExpired :: "'p kbd_env \<Rightarrow> u64 \<Rightarrow> 'p kbd \<Rightarrow> 'p kbd option" where
  "flushExpired e now s =
     (if macroCurrent s > 0 then
        do { late \<leftarrow> macroExpired e now s; if late then dispatchInvertBuffer e s else Some s }
      else Some s)"

definition invertMacros :: "'p kbd_env \<Rightarrow> u8 list \<Rightarrow> 'p kbd \<Rightarrow> (bool \<times> 'p kbd) option" where
  "invertMacros e packet s =
     (if \<not> macroTimer s \<or> macroBuffer s = None then Some (False, s)
      else
        do { s \<leftarrow> flushExpired e (packet_time packet) s;
             buf \<leftarrow> macroBuffer s;
             buf \<leftarrow> storeMacroPacket (macroCurrent s) packet buf;
             let s = s\<lparr>macroBuffer := Some buf\<rparr>;
             macros \<leftarrow> macroInversion s;
             (used, s) \<leftarrow> tryMacros e (macroCurrent s + 1) macros s;
             if used then Some (True, s)
             else do { s \<leftarrow> flushMacros e s; Some (False, s) } })"

text \<open>\<^verbatim>\<open>if (!_macroInversion || !invertMacros(packet)) dispatchKeyboardEventWithPacket(packet);\<close>\<close>

definition inputPacket :: "'p kbd_env \<Rightarrow> u8 list \<Rightarrow> 'p kbd \<Rightarrow> 'p kbd option" where
  "inputPacket e packet s =
     do { (used, s) \<leftarrow> (if macroInversion s = None then Some (False, s) else invertMacros e packet s);
          if used then Some s
          else do { (_, s) \<leftarrow> dispatchKeyboardEventWithPacket e packet s; Some s } }"

subsection \<open>The work loop\<close>

definition handlePacket :: "'p kbd_env \<Rightarrow> u8 list \<Rightarrow> 'p kbd \<Rightarrow> 'p kbd option" where
  "handlePacket e packet s =
     do { b0 \<leftarrow> at packet 0; if b0 \<noteq> 0 then inputPacket e packet s else Some s }"

definition packetReady :: "'p kbd_env \<Rightarrow> 'p kbd \<Rightarrow> 'p kbd option" where
  "packetReady e =
     loop (\<lambda>s. kPacketLength \<le> ring_count (ringBuffer s))
       (\<lambda>s. do { s \<leftarrow> handlePacket e (ring_front kPacketLength (ringBuffer s)) s;
                 Some (s\<lparr>ringBuffer := ring_advanceTail kPacketLength (ringBuffer s)\<rparr>) })"

definition onMacroTimer :: "'p kbd_env \<Rightarrow> 'p kbd \<Rightarrow> 'p kbd option" where
  "onMacroTimer e s =
     do { s \<leftarrow> packetReady e s;
          if macroCurrent s > 0 then
            let (now, s) = lift_plat (clock_get_uptime e) s in flushExpired e now s
          else Some s }"

subsection \<open>Messages\<close>

text \<open>The messages to the driver: those of the other drivers, and the notifications of the ACPI device.\<close>

datatype kbd_message =
    PS2M PS2Message
  | ACPINotification "u32 option" \<comment> \<open>the argument, unless it is null\<close>

text \<open>A packet on the stack, whose six unused bytes are whatever the memory holds.\<close>

definition stampAndInput :: "'p kbd_env \<Rightarrow> (nat \<Rightarrow> u8) \<Rightarrow> u8 \<Rightarrow> u8 \<Rightarrow> 'p kbd \<Rightarrow> 'p kbd option" where
  "stampAndInput e unused b0 b1 s =
     (let (now, s) = lift_plat (clock_get_uptime e) s in inputPacket e (key_packet b0 b1 (map unused [0..<6]) now) s)"

definition message :: "'p kbd_env \<Rightarrow> (nat \<Rightarrow> u8) \<Rightarrow> kbd_message \<Rightarrow> 'p kbd \<Rightarrow> 'p kbd option" where
  "message e unused m s =
     (case m of
        PS2M kPS2M_swipeDown \<Rightarrow> sendKeySequence e (actionSwipeDown s) s
      | PS2M kPS2M_swipeLeft \<Rightarrow> sendKeySequence e (actionSwipeLeft s) s
      | PS2M kPS2M_swipeRight \<Rightarrow> sendKeySequence e (actionSwipeRight s) s
      | PS2M kPS2M_swipeUp \<Rightarrow> sendKeySequence e (actionSwipeUp s) s
      | PS2M _ \<Rightarrow> Some s
      | ACPINotification None \<Rightarrow> Some s
      | ACPINotification (Some arg) \<Rightarrow>
          if arg AND 0xFFFF0000 = 0 then
            let p0 = ucast (drop_bit 8 arg) :: u8; p1 = ucast arg :: u8
            in if p0 = 1 \<or> p0 = 2 then stampAndInput e unused p0 p1 s
               else if p0 = 3 \<or> p0 = 4 then
                 do { s \<leftarrow> stampAndInput e unused (p0 - 2) p1 s;
                      stampAndInput e unused (p0 - 2) (p1 OR 0x80) s }
               else Some s
          else Some s)"

end
