(* ===== verification/Kbd_Parse.thy ===== *)
theory Kbd_Parse
  imports PS2_Prelude
begin

text \<open>
  The parsers of the keyboard's configuration strings (VoodooPS2Keyboard.cpp): hexadecimal
  numbers, remappings such as \<^verbatim>\<open>e077=e017\<close> and key sequences such as \<^verbatim>\<open>3b d, 7e d, 7e u, 3b u\<close>.
  A C string is the list of its characters without the final zero; a terminator that is not a
  character of the string is the zero character. The \<^verbatim>\<open>int\<close> that \<^verbatim>\<open>parseHex\<close> shifts is kept in 32
  bits.
\<close>

definition NUL :: char where
  "NUL = CHR 0x00"

text \<open>The value of a digit, as the three ranges of \<^verbatim>\<open>parseHex\<close>.\<close>

definition hexDigit :: "char \<Rightarrow> u32 option" where
  "hexDigit c =
     (let n = of_char c :: nat
      in if 48 \<le> n \<and> n \<le> 57 then Some (of_nat (n - 48))
         else if 97 \<le> n \<and> n \<le> 102 then Some (of_nat (n - 97 + 10))
         else if 65 \<le> n \<and> n \<le> 70 then Some (of_nat (n - 65 + 10))
         else None)"

fun parseHex_loop :: "string \<Rightarrow> char \<Rightarrow> char \<Rightarrow> u32 \<Rightarrow> (u32 \<times> string) option" where
  "parseHex_loop [] term1 term2 n = Some (n, [])"
| "parseHex_loop (c # psz) term1 term2 n =
     (if c = term1 \<or> c = term2 then Some (n, c # psz)
      else case hexDigit c of
             None \<Rightarrow> None
           | Some d \<Rightarrow> parseHex_loop psz term1 term2 (push_bit 4 n + d))"

definition parseHex :: "string \<Rightarrow> char \<Rightarrow> char \<Rightarrow> (u32 \<times> string) option" where
  "parseHex psz term1 term2 = parseHex_loop psz term1 term2 0"

definition parseRemap :: "string \<Rightarrow> (u16 \<times> u16) option" where
  "parseRemap psz =
     (case parseHex psz (CHR ''='') NUL of
        None \<Rightarrow> None
      | Some (n, psz) \<Rightarrow>
          (case psz of
             [] \<Rightarrow> None
           | c # psz' \<Rightarrow>
               if c \<noteq> CHR ''='' \<or> n > 0xFFFF then None
               else case parseHex psz' (CHR 0x0A) (CHR '';'') of
                      None \<Rightarrow> None
                    | Some (n', _) \<Rightarrow> if n' > 0xFFFF then None else Some (ucast n, ucast n')))"

lemma parseHex_loop_suffix: "parseHex_loop psz t1 t2 n = Some (v, rest) \<Longrightarrow> length rest \<le> length psz"
  by (induction psz t1 t2 n rule: parseHex_loop.induct) (fastforce split: if_splits option.splits)+

lemma parseHex_suffix: "parseHex psz t1 t2 = Some (v, rest) \<Longrightarrow> length rest \<le> length psz"
  by (simp add: parseHex_def parseHex_loop_suffix)

text \<open>
  \<^verbatim>\<open>parseAction\<close> writes the actions to \<open>dest\<close> as it goes; on an error it only clears the first
  entry. The result is whether it succeeded, and the array.
\<close>

definition parseAction_error :: "u16 list \<Rightarrow> bool \<times> u16 list" where
  "parseAction_error dest = (False, dest[0 := 0])"

definition parseAction_finish :: "nat \<Rightarrow> u16 list \<Rightarrow> nat \<Rightarrow> bool \<times> u16 list" where
  "parseAction_finish i dest sz = (if i \<ge> sz then parseAction_error dest else (True, dest[i := 0]))"

definition actionCode :: "u32 \<Rightarrow> char \<Rightarrow> u16" where
  "actionCode n c = ucast (n OR (if c = CHR ''u'' then 0x1000 else 0))"

function parseAction_loop :: "string \<Rightarrow> nat \<Rightarrow> u16 list \<Rightarrow> nat \<Rightarrow> bool \<times> u16 list" where
  "parseAction_loop psz i dest sz =
     (if psz = [] \<or> i \<ge> sz then parseAction_finish i dest sz
      else case parseHex psz (CHR '' '') NUL of
             Some (n, sp # c # rest) \<Rightarrow>
               if sp \<noteq> CHR '' '' \<or> c \<noteq> CHR ''d'' \<and> c \<noteq> CHR ''u'' then parseAction_error dest
               else let dest = dest[i := actionCode n c]
                    in (case rest of
                          [] \<Rightarrow> parseAction_finish (Suc i) dest sz
                        | x # rest' \<Rightarrow>
                            if x \<noteq> CHR '','' then parseAction_error dest
                            else parseAction_loop (dropWhile (\<lambda>y. y = CHR '' '') rest') (Suc i) dest sz)
           | _ \<Rightarrow> parseAction_error dest)"
  by pat_completeness auto

termination
  by (relation "measure (\<lambda>(psz, _). length psz)")
    (auto dest!: parseHex_suffix intro: le_less_trans [OF length_dropWhile_le])

definition parseAction :: "string \<Rightarrow> u16 list \<Rightarrow> nat \<Rightarrow> bool \<times> u16 list" where
  "parseAction psz dest sz = parseAction_loop psz 0 dest sz"


text \<open>The default size of an action array, \<^verbatim>\<open>countof(_actionSwipeUp)\<close>.\<close>

definition actionArray :: nat where
  "actionArray = 16"

subsection \<open>Printing\<close>

definition hexChar :: "nat \<Rightarrow> char" where
  "hexChar d = ''0123456789abcdef'' ! d"

fun showHex :: "nat \<Rightarrow> nat \<Rightarrow> string" where
  "showHex 0 v = []"
| "showHex (Suc k) v = hexChar (v div 16 ^ k mod 16) # showHex k v"

definition showRemap :: "u16 \<Rightarrow> u16 \<Rightarrow> string" where
  "showRemap a b = showHex 4 (unat a) @ ''='' @ showHex 4 (unat b)"

text \<open>A key of a sequence is its ADB code and whether it is released.\<close>

definition showKey :: "u8 \<times> bool \<Rightarrow> string" where
  "showKey k = showHex 2 (unat (fst k)) @ (if snd k then '' u'' else '' d'')"

fun showAction :: "(u8 \<times> bool) list \<Rightarrow> string" where
  "showAction [] = []"
| "showAction [k] = showKey k"
| "showAction (k # ks) = showKey k @ '', '' @ showAction ks"

definition keyCode :: "u8 \<times> bool \<Rightarrow> u16" where
  "keyCode k = ucast (fst k) OR (if snd k then 0x1000 else 0)"

subsection \<open>Lemmas\<close>

lemma hexDigit_hexChar: "d < 16 \<Longrightarrow> hexDigit (hexChar d) = Some (of_nat d)"
proof -
  have "\<forall>d\<in>set [0..<16]. hexDigit (hexChar d) = Some (of_nat d)" by code_simp
  then show "d < 16 \<Longrightarrow> hexDigit (hexChar d) = Some (of_nat d)" by simp
qed

lemma hexChar_neq: "d < 16 \<Longrightarrow> c \<in> {CHR ''='', NUL, CHR 0x0A, CHR '';'', CHR '' ''} \<Longrightarrow> hexChar d \<noteq> c"
proof -
  assume "d < 16" "c \<in> {CHR ''='', NUL, CHR 0x0A, CHR '';'', CHR '' ''}"
  then have "hexDigit c = None" by (auto simp: hexDigit_def NUL_def)
  then show ?thesis using hexDigit_hexChar [OF \<open>d < 16\<close>] by auto
qed

lemma parseHex_loop_show:
  assumes "t1 \<in> {CHR ''='', NUL, CHR 0x0A, CHR '';'', CHR '' ''}" and "t2 \<in> {CHR ''='', NUL, CHR 0x0A, CHR '';'', CHR '' ''}"
    and "rest = [] \<or> hd rest = t1 \<or> hd rest = t2"
  shows "parseHex_loop (showHex k v @ rest) t1 t2 n = Some (n * 16 ^ k + of_nat (v mod 16 ^ k), rest)"
proof (induction k arbitrary: n)
  case 0
  then show ?case using assms(3) by (cases rest) auto
next
  case (Suc k)
  let ?d = "v div 16 ^ k mod 16"
  have d: "?d < 16" by simp
  have "hexChar ?d \<noteq> t1" "hexChar ?d \<noteq> t2" using hexChar_neq [OF d] assms by blast+
  then have "parseHex_loop (showHex (Suc k) v @ rest) t1 t2 n =
      Some ((n * 16 + of_nat ?d) * 16 ^ k + of_nat (v mod 16 ^ k), rest)"
    using Suc.IH hexDigit_hexChar [OF d] by (simp add: push_bit_eq_mult)
  moreover have "v mod 16 ^ Suc k = ?d * 16 ^ k + v mod 16 ^ k"
    using mod_mult2_eq [of v "16 ^ k" 16] by (simp add: mult.commute)
  then have "(of_nat (v mod 16 ^ Suc k) :: u32) = of_nat ?d * 16 ^ k + of_nat (v mod 16 ^ k)" by simp
  ultimately show ?case by (simp add: algebra_simps)
qed

text \<open>Remappings round trip, also with a comment behind them.\<close>

lemma parseRemap_shown:
  assumes r: "rest = [] \<or> hd rest = CHR '';''"
  shows "parseRemap (showRemap a b @ rest) = Some (a, b)"
proof -
  have lt: "unat x < 65536" for x :: u16
    using unsigned_less [of x, where ?'a = nat] by simp
  have v: "(of_nat (unat x mod 16 ^ 4) :: u32) = ucast x" for x :: u16
    using lt [of x] by simp
  have small: "\<not> ucast x > (0xFFFF :: u32)" for x :: u16
    using lt [of x] by (simp add: word_less_nat_alt unsigned_ucast_eq take_bit_nat_eq_self)
  have uu: "ucast (ucast x :: u32) = x" for x :: u16
    by (rule bit_word_eqI) (simp add: bit_simps)
  have "parseHex (showHex 4 (unat a) @ ''='' @ showHex 4 (unat b) @ rest) (CHR ''='') NUL =
      Some (ucast a, ''='' @ showHex 4 (unat b) @ rest)"
    using parseHex_loop_show [of "CHR ''=''" NUL "''='' @ showHex 4 (unat b) @ rest" 4 "unat a" 0] v [of a]
    by (simp add: parseHex_def)
  moreover have "parseHex (showHex 4 (unat b) @ rest) (CHR 0x0A) (CHR '';'') = Some (ucast b, rest)"
    using parseHex_loop_show [of "CHR 0x0A" "CHR '';''" rest 4 "unat b" 0] v [of b] r
    by (auto simp: parseHex_def)
  ultimately show ?thesis using small [of a] small [of b] uu by (simp add: parseRemap_def showRemap_def)
qed

lemma parseHex_key:
  "parseHex (showKey k @ rest) (CHR '' '') NUL =
     Some (ucast (fst k), (if snd k then '' u'' else '' d'') @ rest)"
proof -
  have "unat (fst k) < 256" using unsigned_less [of "fst k", where ?'a = nat] by simp
  then have "(of_nat (unat (fst k) mod 16 ^ 2) :: u32) = ucast (fst k)" by simp
  then show ?thesis
    using parseHex_loop_show [of "CHR '' ''" NUL "(if snd k then '' u'' else '' d'') @ rest" 2 "unat (fst k)" 0]
    by (simp add: parseHex_def showKey_def)
qed

lemma actionCode_key: "actionCode (ucast (fst k)) (if snd k then CHR ''u'' else CHR ''d'') = keyCode k"
  by (rule bit_word_eqI) (auto simp: actionCode_def keyCode_def bit_simps)

lemma showAction_hd: "showAction (k # ks) \<noteq> [] \<and> dropWhile (\<lambda>y. y = CHR '' '') (showAction (k # ks)) = showAction (k # ks)"
proof -
  let ?d = "unat (fst k) div 16 mod 16"
  have "hexChar ?d \<noteq> CHR '' ''" by (rule hexChar_neq) auto
  moreover have "\<exists>rest. showAction (k # ks) = hexChar ?d # rest"
    by (cases ks) (simp_all add: showKey_def numeral_2_eq_2)
  ultimately show ?thesis by auto
qed

lemma parseAction_step:
  assumes "i < sz"
  shows "parseAction_loop (showKey k) i dest sz = parseAction_finish (Suc i) (dest[i := keyCode k]) sz"
    and "parseAction_loop (showKey k @ '', '' @ showAction (k2 # ks)) i dest sz =
      parseAction_loop (showAction (k2 # ks)) (Suc i) (dest[i := keyCode k]) sz"
proof -
  have ne: "showKey k @ rest \<noteq> []" for rest by (simp add: showKey_def numeral_2_eq_2)
  have h1: "parseHex (showKey k) (CHR '' '') NUL = Some (ucast (fst k), if snd k then '' u'' else '' d'')"
    using parseHex_key [of k "[]"] by simp
  show "parseAction_loop (showKey k) i dest sz = parseAction_finish (Suc i) (dest[i := keyCode k]) sz"
    using assms h1 ne [of "[]"] actionCode_key [of k]
    by (subst parseAction_loop.simps) (cases "snd k"; simp)
  show "parseAction_loop (showKey k @ '', '' @ showAction (k2 # ks)) i dest sz =
      parseAction_loop (showAction (k2 # ks)) (Suc i) (dest[i := keyCode k]) sz"
    using assms ne [of "'', '' @ showAction (k2 # ks)"] parseHex_key [of k "'', '' @ showAction (k2 # ks)"]
      actionCode_key [of k] showAction_hd [of k2 ks]
    by (subst parseAction_loop.simps) (cases "snd k"; simp del: parseAction_loop.simps showAction.simps)
qed

declare parseAction_loop.simps [simp del]

lemma parseAction_loop_show:
  "ks \<noteq> [] \<Longrightarrow> i + length ks < sz \<Longrightarrow> length dest = sz \<Longrightarrow>
     parseAction_loop (showAction ks) i dest sz =
       (True, take i dest @ map keyCode ks @ [0] @ drop (i + length ks + 1) dest)"
proof (induction ks arbitrary: i dest rule: showAction.induct)
  case (2 k)
  then show ?case
    by (simp add: parseAction_step parseAction_finish_def upd_conv_take_nth_drop take_Suc_conv_app_nth
        list_update_append)
next
  case (3 k k2 ks)
  then have "parseAction_loop (showAction (k2 # ks)) (Suc i) (dest[i := keyCode k]) sz =
    (True, take (Suc i) (dest[i := keyCode k]) @ map keyCode (k2 # ks) @ [0] @
      drop (Suc i + length (k2 # ks) + 1) (dest[i := keyCode k]))"
    by (intro "3.IH") auto
  moreover have "parseAction_loop (showAction (k # k2 # ks)) i dest sz =
      parseAction_loop (showAction (k2 # ks)) (Suc i) (dest[i := keyCode k]) sz"
    using parseAction_step(2) [of i sz k k2 ks dest] "3.prems" by simp
  ultimately show ?case using "3.prems"
    by (simp add: take_Suc_conv_app_nth)
qed simp

text \<open>
  Key sequences round trip: a sequence shorter than the array parses to the codes of its keys, ended by a
  zero; the rest of the array is untouched.
\<close>

lemma parseAction_shown:
  assumes "length ks < length dest"
  shows "parseAction (showAction ks) dest (length dest) =
    (True, map keyCode ks @ [0] @ drop (length ks + 1) dest)"
proof (cases ks)
  case Nil
  then show ?thesis using assms
    by (cases dest) (simp_all add: parseAction_def parseAction_loop.simps parseAction_finish_def)
next
  case (Cons k ks')
  then show ?thesis using assms parseAction_loop_show [of ks 0 "length dest" dest] by (simp add: parseAction_def)
qed

end
