(* ===== verification/Kbd_Config.thy ===== *)
theory Kbd_Config
  imports Kbd_Input Kbd_Parse
begin

text \<open>
  The configuration of the keyboard driver: the defaults of \<^verbatim>\<open>init\<close>, the tables that \<^verbatim>\<open>probe\<close> loads
  from the configuration dictionary, the parameters of \<^verbatim>\<open>setParamPropertiesGated\<close>, and the tables of
  brightness levels that \<^verbatim>\<open>start\<close> reads from ACPI. What is published in the registry with
  \<^verbatim>\<open>setProperty\<close> is left out, and allocations of arrays are taken to succeed.
\<close>

subsection \<open>Scan code tables\<close>

text \<open>A scan code of the configuration is plain or has the prefix e0; its index in the tables.\<close>

definition exPart :: "u16 \<Rightarrow> u8" where
  "exPart scan = ucast (drop_bit 8 scan)"

definition scanOk :: "u8 \<Rightarrow> bool" where
  "scanOk ex \<longleftrightarrow> ex = 0 \<or> ex = 0xe0"

definition scanIndex :: "u8 \<Rightarrow> u8 \<Rightarrow> nat" where
  "scanIndex ex low = unat low + (if ex = 0xe0 then KBV_NUM_SCANCODES else 0)"

definition isComment :: "string \<Rightarrow> bool" where
  "isComment psz \<longleftrightarrow> psz \<noteq> [] \<and> hd psz = CHR '';''"

definition customPS2Entry :: "osobj \<Rightarrow> u16 list \<Rightarrow> u16 list option" where
  "customPS2Entry obj table =
     (case asString (Some obj) of
        None \<Rightarrow> Some table
      | Some psz \<Rightarrow>
          if isComment psz then Some table
          else case parseRemap psz of
                 None \<Rightarrow> Some table
               | Some (scanIn, scanOut) \<Rightarrow>
                   if \<not> scanOk (exPart scanIn) \<or> \<not> scanOk (exPart scanOut) then Some table
                   else put_at table (scanIndex (exPart scanIn) (ucast scanIn))
                          (word_of_nat (scanIndex (exPart scanOut) (ucast scanOut))))"

definition loadCustomPS2Map :: "osobj list option \<Rightarrow> 'p kbd \<Rightarrow> 'p kbd option" where
  "loadCustomPS2Map arr s =
     (case arr of
        None \<Rightarrow> Some s
      | Some objs \<Rightarrow> do { t \<leftarrow> foldM customPS2Entry objs (PS2ToPS2Map s); Some (s\<lparr>PS2ToPS2Map := t\<rparr>) })"

text \<open>Here the code is not checked to fit 16 bits: only its second byte is looked at.\<close>

definition breaklessEntry :: "osobj \<Rightarrow> u16 list \<Rightarrow> u16 list option" where
  "breaklessEntry obj table =
     (case asString (Some obj) of
        None \<Rightarrow> Some table
      | Some psz \<Rightarrow>
          if isComment psz then Some table
          else case parseHex psz (CHR 0x0A) (CHR '';'') of
                 None \<Rightarrow> Some table
               | Some (scanIn, _) \<Rightarrow>
                   let exIn = ucast (drop_bit 8 scanIn)
                   in if \<not> scanOk exIn then Some table
                      else do { f \<leftarrow> at table (scanIndex exIn (ucast scanIn));
                                put_at table (scanIndex exIn (ucast scanIn)) (f OR kBreaklessKey) })"

definition loadBreaklessPS2 :: "dict \<Rightarrow> string \<Rightarrow> 'p kbd \<Rightarrow> 'p kbd option" where
  "loadBreaklessPS2 d name s =
     (case asArray (getObject d name) of
        None \<Rightarrow> Some s
      | Some objs \<Rightarrow> do { t \<leftarrow> foldM breaklessEntry objs (PS2flags s); Some (s\<lparr>PS2flags := t\<rparr>) })"

definition customADBEntry :: "osobj \<Rightarrow> u8 list \<Rightarrow> u8 list option" where
  "customADBEntry obj table =
     (case asString (Some obj) of
        None \<Rightarrow> Some table
      | Some psz \<Rightarrow>
          if isComment psz then Some table
          else case parseRemap psz of
                 None \<Rightarrow> Some table
               | Some (scanIn, adbOut) \<Rightarrow>
                   if \<not> scanOk (exPart scanIn) \<or> adbOut > 0xFF then Some table
                   else put_at table (scanIndex (exPart scanIn) (ucast scanIn)) (ucast adbOut))"

definition loadCustomADBMap :: "dict \<Rightarrow> string \<Rightarrow> 'p kbd \<Rightarrow> 'p kbd option" where
  "loadCustomADBMap d name s =
     (case asArray (getObject d name) of
        None \<Rightarrow> Some s
      | Some objs \<Rightarrow> do { t \<leftarrow> foldM customADBEntry objs (PS2ToADBMapMapped s); Some (s\<lparr>PS2ToADBMapMapped := t\<rparr>) })"

subsection \<open>Macros\<close>

text \<open>A valid macro: at least one step, an even number of bytes, and the mark ffff in front.\<close>

definition validMacro :: "u8 list \<Rightarrow> bool" where
  "validMacro p \<longleftrightarrow> length p \<ge> kMinMacroInversion \<and> even (length p) \<and> p ! 0 = 0xFF \<and> p ! 1 = 0xFF"

definition loadMacroData :: "dict \<Rightarrow> string \<Rightarrow> u8 list list option" where
  "loadMacroData d name =
     (case asArray (getObject d name) of
        None \<Rightarrow> None
      | Some objs \<Rightarrow>
          let valid = filter validMacro (List.map_filter (\<lambda>x. asData (Some x)) objs)
          in if valid \<noteq> [] then Some valid else None)"

text \<open>The length of the longest sequence; the buffer has room for this many packets. A new buffer is not
  initialised: bytes of it that no packet was copied to are never compared nor sent.\<close>

definition maxMacro :: "u8 list list \<Rightarrow> int" where
  "maxMacro ms = fold (\<lambda>p m. let len = int (length p) - int kPrefixBytes in if len > m then len else m) ms 0"

definition loadMacros :: "dict \<Rightarrow> 'p kbd \<Rightarrow> 'p kbd" where
  "loadMacros d s =
     (let s = s\<lparr>macroTranslation := loadMacroData d ''Macro Translation'',
                macroInversion := loadMacroData d ''Macro Inversion''\<rparr>
      in case macroInversion s of
           None \<Rightarrow> s
         | Some ms \<Rightarrow> s\<lparr>macroBuffer := Some (replicate (nat (maxMacro ms) * kPacketLength) 0),
                         macroMax := maxMacro ms\<rparr>)"

subsection \<open>Parameters\<close>

definition paramTimes :: "dict \<Rightarrow> 'p kbd \<Rightarrow> 'p kbd" where
  "paramTimes d s =
     (let s = (case asNumber (getObject d ''SleepPressTime'') of
                 None \<Rightarrow> s | Some n \<Rightarrow> s\<lparr>maxsleeppresstime := ucast n\<rparr>);
          s = (case asNumber (getObject d ''HIDF12EjectDelay'') of
                 None \<Rightarrow> s | Some n \<Rightarrow> s\<lparr>f12ejectdelay := ucast n\<rparr>)
      in case asNumber (getObject d ''MaximumMacroTime'') of
           None \<Rightarrow> s | Some n \<Rightarrow> s\<lparr>macroMaxTime := n\<rparr>)"

definition paramFKeyMode :: "dict \<Rightarrow> 'p kbd \<Rightarrow> 'p kbd option" where
  "paramFKeyMode d s =
     (if fkeymodesupported s then
        let oldfkeymode = fkeymode s;
            s = (case asNumber (getObject d ''HIDFKeyMode'') of
                   None \<Rightarrow> s | Some n \<Rightarrow> s\<lparr>fkeymode := ucast n\<rparr>)
        in if oldfkeymode \<noteq> fkeymode s
           then loadCustomPS2Map (if fkeymode s \<noteq> 0 then keysStandard s else keysSpecial s) s
           else Some s
      else Some s)"

definition setADB :: "nat \<Rightarrow> u8 \<Rightarrow> 'p kbd \<Rightarrow> 'p kbd option" where
  "setADB i v s = do { t \<leftarrow> put_at (PS2ToADBMap s) i v; Some (s\<lparr>PS2ToADBMap := t\<rparr>) }"

text \<open>\<^verbatim>\<open>_PS2ToADBMap[i] = _PS2ToADBMapMapped[j]\<close>.\<close>

definition copyADB :: "nat \<Rightarrow> nat \<Rightarrow> 'p kbd \<Rightarrow> 'p kbd option" where
  "copyADB i j s = do { v \<leftarrow> at (PS2ToADBMapMapped s) j; setADB i v s }"

text \<open>Two keys exchanged, or put back.\<close>

definition exchangeADB :: "bool \<Rightarrow> nat \<Rightarrow> nat \<Rightarrow> 'p kbd \<Rightarrow> 'p kbd option" where
  "exchangeADB swap i j s =
     (if swap then do { s \<leftarrow> copyADB i j s; copyADB j i s }
      else do { s \<leftarrow> copyADB i i s; copyADB j j s })"

definition onBoolean :: "dict \<Rightarrow> string \<Rightarrow> (bool \<Rightarrow> 'p kbd \<Rightarrow> 'p kbd option) \<Rightarrow> 'p kbd \<Rightarrow> 'p kbd option" where
  "onBoolean d name f s = (case asBoolean (getObject d name) of None \<Rightarrow> Some s | Some b \<Rightarrow> f b s)"

definition paramSwapCaps :: "dict \<Rightarrow> 'p kbd \<Rightarrow> 'p kbd option" where
  "paramSwapCaps d = onBoolean d ''Swap capslock and left control'' (\<lambda>b. exchangeADB b 0x3a 0x1d)"

definition paramSwapCommand :: "dict \<Rightarrow> 'p kbd \<Rightarrow> 'p kbd option" where
  "paramSwapCommand d = onBoolean d ''Swap command and option''
     (\<lambda>b s. do { let s = s\<lparr>swapcommandoption := b\<rparr>; s \<leftarrow> exchangeADB b 0x38 0x15b s; exchangeADB b 0x138 0x15c s })"

definition paramBrightnessHack :: "dict \<Rightarrow> 'p kbd \<Rightarrow> 'p kbd option" where
  "paramBrightnessHack d = onBoolean d ''BrightnessHack'' (\<lambda>b s. Some (if b then s\<lparr>brightnessHack := True\<rparr> else s))"

text \<open>The two uses of the application key exclude each other: the first one set wins.\<close>

definition paramApplicationKey :: "dict \<Rightarrow> 'p kbd \<Rightarrow> 'p kbd option" where
  "paramApplicationKey d s =
     do { s \<leftarrow> onBoolean d ''Make Application key into right windows''
            (\<lambda>b s. if b then setADB 0x15d (if swapcommandoption s then 0x3d else 0x36) s
                    else copyADB 0x15d 0x15d s) s;
          let temp = (asBoolean (getObject d ''Make Application key into right windows'') = Some True);
          onBoolean d ''Make Application key into Apple Fn key''
            (\<lambda>b s. if temp then Some s
                    else if b then setADB 0x15d 0x3f s else copyADB 0x15d 0x15d s) s }"

definition paramHangul :: "dict \<Rightarrow> 'p kbd \<Rightarrow> 'p kbd option" where
  "paramHangul d = onBoolean d ''Make right modifier keys into Hangul and Hanja''
     (\<lambda>b s. if b then do { s \<leftarrow> copyADB 0x138 0xf2 s; copyADB 0x11d 0xf1 s }
             else do { s \<leftarrow> copyADB 0x138 (if swapcommandoption s then 0x15c else 0x138) s; copyADB 0x11d 0x11d s })"

definition paramISO :: "dict \<Rightarrow> 'p kbd \<Rightarrow> 'p kbd option" where
  "paramISO d = onBoolean d ''Use ISO layout keyboard'' (\<lambda>b. exchangeADB b 0x29 0x56)"

definition paramLog :: "dict \<Rightarrow> 'p kbd \<Rightarrow> 'p kbd" where
  "paramLog d s = (case asNumber (getObject d ''LogScanCodes'') of None \<Rightarrow> s | Some n \<Rightarrow> s\<lparr>logscancodes := ucast n\<rparr>)"

definition paramAction :: "dict \<Rightarrow> string \<Rightarrow> u16 list \<Rightarrow> u16 list" where
  "paramAction d name action =
     (case asString (getObject d name) of None \<Rightarrow> action | Some str \<Rightarrow> snd (parseAction str action actionArray))"

definition paramActions :: "dict \<Rightarrow> 'p kbd \<Rightarrow> 'p kbd" where
  "paramActions d s =
     s\<lparr>actionSwipeUp := paramAction d ''ActionSwipeUp'' (actionSwipeUp s),
       actionSwipeDown := paramAction d ''ActionSwipeDown'' (actionSwipeDown s),
       actionSwipeLeft := paramAction d ''ActionSwipeLeft'' (actionSwipeLeft s),
       actionSwipeRight := paramAction d ''ActionSwipeRight'' (actionSwipeRight s)\<rparr>"

definition setParamPropertiesGated :: "dict option \<Rightarrow> 'p kbd \<Rightarrow> 'p kbd option" where
  "setParamPropertiesGated dict s =
     (case dict of
        None \<Rightarrow> Some s
      | Some d \<Rightarrow>
          do { s \<leftarrow> paramFKeyMode d (paramTimes d s);
               s \<leftarrow> paramSwapCaps d s;
               s \<leftarrow> paramSwapCommand d s;
               s \<leftarrow> paramBrightnessHack d s;
               s \<leftarrow> paramApplicationKey d s;
               s \<leftarrow> paramHangul d s;
               s \<leftarrow> paramISO d s;
               Some (paramActions d (paramLog d s)) })"

subsection \<open>Init and probe\<close>

text \<open>The members \<^verbatim>\<open>init\<close> does not set are zero, since the objects of the kernel are allocated zeroed.\<close>

definition defaultAction :: "string \<Rightarrow> u16 list" where
  "defaultAction psz = snd (parseAction psz (replicate actionArray 0) actionArray)"

definition init_kbd :: "'p \<Rightarrow> 'p kbd" where
  "init_kbd p = \<lparr>keyBitVector = replicate KBV_NUNITS 0, extendCount = 0,
     ringBuffer = ring_init (kPacketLength * 32), lastdata = 0, interruptHandlerInstalled = False,
     powerControlHandlerInstalled = False, ledState = 0, kbdDevice = False,
     kbdCmdGate = False, sleepEjectTimer = False, PS2modifierState = 0,
     PS2ToPS2Map = map word_of_nat [0..<2 * KBV_NUM_SCANCODES], PS2flags = PS2flagsStock,
     PS2ToADBMap = replicate ADB_CONVERTER_LEN 0, PS2ToADBMapMapped = PS2ToADBMapStock,
     fkeymode = 0, fkeymodesupported = False, keysStandard = None, keysSpecial = None,
     swapcommandoption = False, logscancodes = 0, f12ejectdelay = 250, timerFunc = kTimerSleep,
     sleepEjectTimeout = None, maxsleeppresstime = 0,
     actionSwipeUp = defaultAction ''3b d, 37 d, 7e d, 7e u, 37 u, 3b u'',
     actionSwipeDown = defaultAction ''3b d, 37 d, 7d d, 7d u, 37 u, 3b u'',
     actionSwipeLeft = defaultAction ''3b d, 37 d, 7b d, 7b u, 37 u, 3b u'',
     actionSwipeRight = defaultAction ''3b d, 37 d, 7c d, 7c u, 37 u, 3b u'',
     provider = False, brightnessLevels = None, brightnessCount = 0, backlightLevels = None,
     backlightCount = 0, brightnessHack = False, macroTranslation = None, macroInversion = None,
     macroBuffer = None, macroMax = 0, macroCurrent = 0, macroMaxTime = 25000000, macroTimer = False,
     macroTimeout = None, firsttime = True, hid_out = [], plat = p\<rparr>"

definition probeFKeys :: "dict \<Rightarrow> 'p kbd \<Rightarrow> 'p kbd option" where
  "probeFKeys d s =
     (let std = asArray (getObject d ''Function Keys Standard'');
          spc = asArray (getObject d ''Function Keys Special'')
      in if std \<noteq> None \<and> spc \<noteq> None
         then loadCustomPS2Map spc (s\<lparr>keysStandard := std, keysSpecial := spc, fkeymodesupported := True\<rparr>)
         else Some (s\<lparr>keysStandard := None, keysSpecial := None, fkeymodesupported := False\<rparr>))"

text \<open>\<^verbatim>\<open>probe\<close> on the configuration node of the platform, when there is one, and the answer of the
  probe of the super class. The result is whether the
  driver takes the device; the echo test of the DEBUG build does not change it.\<close>

definition probe :: "bool \<Rightarrow> dict option \<Rightarrow> 'p kbd \<Rightarrow> (bool \<times> 'p kbd) option" where
  "probe superProbe config s =
     (if \<not> superProbe \<or> (case config of None \<Rightarrow> False | Some d \<Rightarrow> asBoolean (getObject d ''DisableDevice'') = Some True)
      then Some (False, s)
      else
        do { s \<leftarrow> (case config of
                      None \<Rightarrow> Some s
                    | Some d \<Rightarrow>
                        do { s \<leftarrow> loadCustomPS2Map (asArray (getObject d ''Custom PS2 Map'')) s;
                             s \<leftarrow> loadBreaklessPS2 d ''Breakless PS2'' s;
                             s \<leftarrow> loadCustomADBMap d ''Custom ADB Map'' s;
                             s \<leftarrow> probeFKeys d s;
                             Some (loadMacros d s) });
             let s = s\<lparr>PS2ToADBMap := PS2ToADBMapMapped s\<rparr>;
             s \<leftarrow> setParamPropertiesGated config s;
             Some (True, s) })"

subsection \<open>Brightness levels\<close>

text \<open>
  The table an ACPI method returns, when the methods are there (\<open>found\<close>) and the call succeeds: an
  array of at least \<open>least\<close> entries, where what is not a number counts as 0.
\<close>

definition readLevels :: "nat \<Rightarrow> bool \<Rightarrow> osobj option \<Rightarrow> int list option" where
  "readLevels least found result =
     (if \<not> found then None
      else case asArray result of
             None \<Rightarrow> None
           | Some objs \<Rightarrow>
               if length objs < least then None
               else Some (map (\<lambda>x. case asNumber (Some x) of None \<Rightarrow> 0 | Some n \<Rightarrow> sint (ucast n :: u32)) objs))"

definition startLevels :: "bool \<Rightarrow> bool \<Rightarrow> osobj option \<Rightarrow> bool \<Rightarrow> osobj option \<Rightarrow> 'p kbd \<Rightarrow> 'p kbd" where
  "startLevels prov foundBr resultBr foundBl resultBl s =
     (let s = s\<lparr>provider := prov\<rparr>;
          s = (case if prov then readLevels 4 foundBr resultBr else None of
                 None \<Rightarrow> s | Some ls \<Rightarrow> s\<lparr>brightnessLevels := Some ls, brightnessCount := int (length ls)\<rparr>)
      in case if prov then readLevels 2 foundBl resultBl else None of
           None \<Rightarrow> s | Some ls \<Rightarrow> s\<lparr>backlightLevels := Some ls, backlightCount := int (length ls)\<rparr>)"

end
