(* ===== verification/Kbd_Power.thy ===== *)
theory Kbd_Power
  imports Kbd_Config PS2_Power
begin

text \<open>
  The operations of the keyboard driver that send requests to the controller: the lights, enabling,
  initialisation, power changes, start and stop. They run in the whole system: the state of the
  keyboard driver is a part of the state of the drivers, read and written by the two functions of a
  \<open>kbd_part\<close>, since a request that waits for the hardware may deliver bytes to the drivers. The
  driver talks to its nub, ApplePS2KeyboardDevice, which forwards every call to the controller with its
  own device type.
\<close>

record ('d, 'p) kbd_part =
  kget :: "'d \<Rightarrow> 'p kbd"
  kput :: "'p kbd \<Rightarrow> 'd \<Rightarrow> 'd"

definition kbd_of :: "('d, 'p) kbd_part \<Rightarrow> ('h, 'd) sys \<Rightarrow> 'p kbd" where
  "kbd_of L s = kget L (drv s)"

definition set_kbd :: "('d, 'p) kbd_part \<Rightarrow> 'p kbd \<Rightarrow> ('h, 'd) sys \<Rightarrow> ('h, 'd) sys" where
  "set_kbd L k s = s\<lparr>drv := kput L k (drv s)\<rparr>"

subsection \<open>Requests\<close>

text \<open>The request for the lights is allocated, at some address, and freed by the controller.\<close>

definition setLEDs :: "nat \<Rightarrow> u8 \<Rightarrow> ('h, 'd) sys \<Rightarrow> ('h, 'd) sys" where
  "setLEDs addr leds s =
     submitRequest ((new_PS2Request addr 4)\<lparr>commands :=
         [cmd kPS2C_WriteDataPort kDP_SetKeyboardLEDs, cmd kPS2C_ReadDataPortAndCompare kSC_Acknowledge,
          cmd kPS2C_WriteDataPort leds, cmd kPS2C_ReadDataPortAndCompare kSC_Acknowledge],
       commandsCount := 4\<rparr>) s"

definition lockLED :: "u8 \<Rightarrow> bool \<Rightarrow> u8 \<Rightarrow> u8" where
  "lockLED led locked leds = (if locked then leds OR led else leds AND NOT led)"

definition setAlphaLockFeedback :: "('d, 'p) kbd_part \<Rightarrow> nat \<Rightarrow> bool \<Rightarrow> ('h, 'd) sys \<Rightarrow> ('h, 'd) sys" where
  "setAlphaLockFeedback L addr locked s =
     (let k = kbd_of L s; leds = lockLED kLED_CapsLock locked (ledState k)
      in setLEDs addr leds (set_kbd L (k\<lparr>ledState := leds\<rparr>) s))"

definition setNumLockFeedback :: "('d, 'p) kbd_part \<Rightarrow> nat \<Rightarrow> bool \<Rightarrow> ('h, 'd) sys \<Rightarrow> ('h, 'd) sys" where
  "setNumLockFeedback L addr locked s =
     (let k = kbd_of L s; leds = lockLED kLED_NumLock locked (ledState k)
      in setLEDs addr leds (set_kbd L (k\<lparr>ledState := leds\<rparr>) s))"

definition sendKeyboard :: "('h, 'd) env \<Rightarrow> u8 \<Rightarrow> ('h, 'd) sys \<Rightarrow> ('h, 'd) sys option" where
  "sendKeyboard e v s =
     do { (_, s) \<leftarrow> submitRequestAndBlock e
            (TPS2Request [cmd kPS2C_WriteDataPort v, cmd kPS2C_ReadDataPortAndCompare kSC_Acknowledge]) s;
          Some s }"

definition setKeyboardEnable :: "('h, 'd) env \<Rightarrow> bool \<Rightarrow> ('h, 'd) sys \<Rightarrow> ('h, 'd) sys option" where
  "setKeyboardEnable e enable = sendKeyboard e (if enable then kDP_Enable else kDP_SetDefaultsAndDisable)"

subsection \<open>Initialisation\<close>

text \<open>A key up for every key that is down. The packet is on the stack; its time stamp is never set.\<close>

definition releaseKey :: "'p kbd_env \<Rightarrow> (nat \<Rightarrow> u8) \<Rightarrow> nat \<Rightarrow> 'p kbd \<Rightarrow> 'p kbd option" where
  "releaseKey ke stack scanCode k =
     do { isDown \<leftarrow> KBV_IS_KEYDOWN scanCode (keyBitVector k);
          if isDown then
            do { packet \<leftarrow> put_at (map stack [0..<kPacketLength]) 0 (if scanCode < KBV_NUM_SCANCODES then 1 else 2);
                 packet \<leftarrow> put_at packet 1 (word_of_nat scanCode OR kSC_UpBit);
                 (_, k) \<leftarrow> dispatchKeyboardEventWithPacket ke packet k;
                 Some k }
          else Some k }"

definition releaseKeys :: "'p kbd_env \<Rightarrow> (nat \<Rightarrow> u8) \<Rightarrow> 'p kbd \<Rightarrow> 'p kbd option" where
  "releaseKeys ke stack k = foldM (releaseKey ke stack) [0..<KBV_NUM_KEYCODES] k"

definition clearKeys :: "'p kbd \<Rightarrow> 'p kbd" where
  "clearKeys k = k\<lparr>keyBitVector := replicate KBV_NUNITS 0, PS2modifierState := 0\<rparr>"

definition resetInput :: "'p kbd \<Rightarrow> 'p kbd" where
  "resetInput k = k\<lparr>extendCount := 0, ringBuffer := ring_reset (ringBuffer k)\<rparr>"

definition initKeyboard ::
  "('h, 'd) env \<Rightarrow> ('d, 'p) kbd_part \<Rightarrow> 'p kbd_env \<Rightarrow> (nat \<Rightarrow> u8) \<Rightarrow> nat \<Rightarrow> ('h, 'd) sys \<Rightarrow> ('h, 'd) sys option" where
  "initKeyboard e L ke stack addr s =
     do { s \<leftarrow> sendKeyboard e kDP_SetDefaults s;
          k \<leftarrow> releaseKeys ke stack (kbd_of L s);
          let s = set_kbd L (clearKeys k) s;
          let s = setLEDs addr (ledState (kbd_of L s)) s;
          let s = set_kbd L (resetInput (kbd_of L s)) s;
          s \<leftarrow> setKeyboardEnable e True s;
          (_, s) \<leftarrow> setCommandByte e kCB_TranslateMode 0 s;
          Some s }"

definition setDevicePowerState ::
  "('h, 'd) env \<Rightarrow> ('d, 'p) kbd_part \<Rightarrow> 'p kbd_env \<Rightarrow> (nat \<Rightarrow> u8) \<Rightarrow> nat \<Rightarrow> PS2PowerAction \<Rightarrow> ('h, 'd) sys \<Rightarrow> ('h, 'd) sys option" where
  "setDevicePowerState e L ke stack addr whatToDo s =
     (case whatToDo of
        kPS2C_DisableDevice \<Rightarrow> setKeyboardEnable e False s
      | kPS2C_EnableDevice \<Rightarrow> initKeyboard e L ke stack addr s)"

subsection \<open>Start and stop\<close>

text \<open>What the kernel gives to \<^verbatim>\<open>start\<close>, and the results of the ACPI methods.\<close>

record kbd_resources =
  kgot_super :: bool
  kgot_workLoop :: bool
  kgot_cmdGate :: bool
  kgot_sleepTimer :: bool
  kgot_macroTimer :: bool
  kgot_provider :: bool
  kgot_brightness :: "bool \<times> osobj option"
  kgot_backlight :: "bool \<times> osobj option"

text \<open>The object and function pointers the driver registers with the controller.\<close>

record kbd_refs =
  kref_this :: objref
  kref_interrupt :: funref
  kref_packet :: funref
  kref_power :: funref

definition start_kbd ::
  "('h, 'd) env \<Rightarrow> ('d, 'p) kbd_part \<Rightarrow> 'p kbd_env \<Rightarrow> kbd_refs \<Rightarrow> kbd_resources \<Rightarrow> (nat \<Rightarrow> u8) \<Rightarrow> nat
     \<Rightarrow> ('h, 'd) sys \<Rightarrow> (bool \<times> ('h, 'd) sys) option" where
  "start_kbd e L ke f r stack addr s =
     (if \<not> kgot_super r then Some (False, s)
      else
        let s = set_kbd L ((kbd_of L s)\<lparr>kbdDevice := True, kbdCmdGate := kgot_cmdGate r\<rparr>) s
        in if \<not> kgot_workLoop r \<or> \<not> kgot_cmdGate r then
             Some (False, set_kbd L ((kbd_of L s)\<lparr>kbdDevice := False\<rparr>) s)
           else
             let s = set_kbd L ((kbd_of L s)\<lparr>sleepEjectTimer := kgot_sleepTimer r\<rparr>) s
             in if \<not> kgot_sleepTimer r then
                  Some (False, set_kbd L ((kbd_of L s)\<lparr>kbdCmdGate := False, kbdDevice := False\<rparr>) s)
                else
                  do { let k = (kbd_of L s)\<lparr>macroTimer := kgot_macroTimer r\<rparr>;
                       let k = startLevels (kgot_provider r) (fst (kgot_brightness r)) (snd (kgot_brightness r))
                                 (fst (kgot_backlight r)) (snd (kgot_backlight r)) k;
                       s \<leftarrow> initKeyboard e L ke stack addr (set_kbd L k s);
                       s \<leftarrow> installInterruptAction e kDT_Keyboard (kref_this f) (kref_interrupt f) (kref_packet f) s;
                       let s = set_kbd L ((kbd_of L s)\<lparr>interruptHandlerInstalled := True\<rparr>) s;
                       let s = installPowerControlAction kDT_Keyboard (kref_this f) (kref_power f) s;
                       Some (True, set_kbd L ((kbd_of L s)\<lparr>powerControlHandlerInstalled := True\<rparr>) s) })"

definition stop_kbd ::
  "('h, 'd) env \<Rightarrow> ('d, 'p) kbd_part \<Rightarrow> bool \<Rightarrow> ('h, 'd) sys \<Rightarrow> ('h, 'd) sys option" where
  "stop_kbd e L workLoopThere s =
     do { s \<leftarrow> setKeyboardEnable e False s;
          let s = (if workLoopThere
                   then set_kbd L ((kbd_of L s)\<lparr>kbdCmdGate := False, sleepEjectTimer := False, sleepEjectTimeout := None,
                          macroTimer := False, macroTimeout := None\<rparr>) s
                   else s);
          s \<leftarrow> (if interruptHandlerInstalled (kbd_of L s) then uninstallInterruptAction e kDT_Keyboard s else Some s);
          let s = set_kbd L ((kbd_of L s)\<lparr>interruptHandlerInstalled := False\<rparr>) s;
          s \<leftarrow> (if powerControlHandlerInstalled (kbd_of L s) then uninstallPowerControlAction kDT_Keyboard s else Some s);
          Some (set_kbd L ((kbd_of L s)\<lparr>powerControlHandlerInstalled := False, kbdDevice := False, provider := False,
            brightnessLevels := None, backlightLevels := None, keysStandard := None, keysSpecial := None,
            macroInversion := None, macroTranslation := None, macroBuffer := None\<rparr>) s) }"

end
