(* ===== verification/Kbd_Safety.thy ===== *)
theory Kbd_Safety
  imports Kbd_Power
begin

text \<open>
  The invariant of the keyboard driver, and that the delivery of a key is defined, that is free of
  accesses outside of an array, in every state that satisfies it. The bit vector of the keys that
  are down is refined to a set of keys, and the bytes the interrupt routine writes to packets.
\<close>

text \<open>The part of the state that the delivery of a key never changes: all but the modifiers, the timer of
  the sleep and eject keys, the caps lock work around, the output and the kernel services.\<close>

definition stable :: "'p kbd \<Rightarrow> 'p kbd" where
  "stable s = s\<lparr>PS2modifierState := 0, timerFunc := kTimerSleep, sleepEjectTimeout := None,
     firsttime := False, hid_out := [], plat := undefined\<rparr>"

text \<open>
  The invariant: the arrays have the sizes of the class, the prefix count is at most 2, the ring buffer is used
  in whole packets, every translated scan code is an index of the ADB table, every modifier number is at most 16,
  the level tables have their recorded size, the swipe actions are terminated, and the macro buffer has room
  for one more packet.
\<close>

definition input_ok :: "'p kbd \<Rightarrow> bool" where
  "input_ok s \<longleftrightarrow> length (keyBitVector s) = KBV_NUNITS \<and> extendCount s \<le> 2
     \<and> ring_aligned kPacketLength (ringBuffer s) \<and> ring_N (ringBuffer s) = kPacketLength * 32"

definition tables_ok :: "'p kbd \<Rightarrow> bool" where
  "tables_ok s \<longleftrightarrow> length (PS2ToPS2Map s) = 2 * KBV_NUM_SCANCODES
     \<and> (\<forall>c \<in> set (PS2ToPS2Map s). unat c < ADB_CONVERTER_LEN)
     \<and> length (PS2flags s) = 2 * KBV_NUM_SCANCODES \<and> (\<forall>f \<in> set (PS2flags s). drop_bit 8 f \<le> 16)
     \<and> length (PS2ToADBMap s) = ADB_CONVERTER_LEN \<and> length (PS2ToADBMapMapped s) = ADB_CONVERTER_LEN"

definition levels_ok :: "'p kbd \<Rightarrow> bool" where
  "levels_ok s \<longleftrightarrow>
     (\<forall>ls. brightnessLevels s = Some ls \<longrightarrow> brightnessCount s = int (length ls) \<and> 2 < length ls)
     \<and> (\<forall>ls. backlightLevels s = Some ls \<longrightarrow> backlightCount s = int (length ls) \<and> 0 < length ls)"

definition actions_ok :: "'p kbd \<Rightarrow> bool" where
  "actions_ok s \<longleftrightarrow> (\<forall>a \<in> {actionSwipeUp s, actionSwipeDown s, actionSwipeLeft s, actionSwipeRight s}.
     length a = actionArray \<and> 0 \<in> set a)"

definition macros_ok :: "'p kbd \<Rightarrow> bool" where
  "macros_ok s \<longleftrightarrow> (\<forall>buf. macroBuffer s = Some buf \<longrightarrow>
     (\<exists>ms. macroInversion s = Some ms \<and> (\<forall>m \<in> set ms. validMacro m \<and> int (length m) - 8 \<le> macroMax s))
     \<and> length buf = nat (macroMax s) * kPacketLength \<and> macroCurrent s < nat (macroMax s))
     \<and> (macroBuffer s = None \<longrightarrow> macroCurrent s = 0)"

definition kbd_ok :: "'p kbd \<Rightarrow> bool" where
  "kbd_ok s \<longleftrightarrow> input_ok s \<and> tables_ok s \<and> levels_ok s \<and> actions_ok s \<and> macros_ok s"

lemma stable_upd [simp]:
  "stable (s\<lparr>PS2modifierState := a\<rparr>) = stable s" "stable (s\<lparr>timerFunc := b\<rparr>) = stable s"
  "stable (s\<lparr>sleepEjectTimeout := c\<rparr>) = stable s" "stable (s\<lparr>firsttime := d\<rparr>) = stable s"
  "stable (s\<lparr>hid_out := h\<rparr>) = stable s" "stable (s\<lparr>plat := p\<rparr>) = stable s"
  by (simp_all add: stable_def)

lemma stable_sel:
  assumes "stable s' = stable s"
  shows "ringBuffer s' = ringBuffer s" "PS2ToADBMap s' = PS2ToADBMap s" "PS2flags s' = PS2flags s"
    "PS2ToPS2Map s' = PS2ToPS2Map s" "keyBitVector s' = keyBitVector s" "macroBuffer s' = macroBuffer s"
    "macroCurrent s' = macroCurrent s" "macroInversion s' = macroInversion s" "macroTimeout s' = macroTimeout s"
    "brightnessLevels s' = brightnessLevels s" "backlightLevels s' = backlightLevels s"
    "macroMaxTime s' = macroMaxTime s" "macroTimer s' = macroTimer s" "ledState s' = ledState s" "macroMax s' = macroMax s"
  using assms [THEN arg_cong, of ringBuffer] assms [THEN arg_cong, of PS2ToADBMap]
    assms [THEN arg_cong, of PS2flags] assms [THEN arg_cong, of PS2ToPS2Map]
    assms [THEN arg_cong, of keyBitVector] assms [THEN arg_cong, of macroBuffer]
    assms [THEN arg_cong, of macroCurrent] assms [THEN arg_cong, of macroInversion] assms [THEN arg_cong, of macroTimeout]
    assms [THEN arg_cong, of brightnessLevels] assms [THEN arg_cong, of backlightLevels]
    assms [THEN arg_cong, of macroMaxTime] assms [THEN arg_cong, of macroTimer] assms [THEN arg_cong, of ledState] assms [THEN arg_cong, of macroMax]
  by (simp_all add: stable_def)

lemma lift_plat_stable [simp]: "stable (snd (lift_plat f s)) = stable s"
  by (auto simp: lift_plat_def split: prod.splits)

lemma lift_plat_stableD: "lift_plat f s = (a, s') \<Longrightarrow> stable s' = stable s"
  using lift_plat_stable [of f s] by simp

lemma event_stable [simp]: "stable (dispatchKeyboardEventX c d t s) = stable s"
  by (simp add: dispatchKeyboardEventX_def)

lemma timer_stable [simp]: "stable (setSleepEjectTimer t s) = stable s" "stable (cancelSleepEjectTimer s) = stable s"
  by (simp_all add: setSleepEjectTimer_def cancelSleepEjectTimer_def)

lemma onSleepEjectTimer_stable [simp]: "stable (onSleepEjectTimer e s) = stable s"
  by (cases "timerFunc s") (simp_all add: onSleepEjectTimer_def case_prod_beta)

lemma stampedPress_stable [simp]: "stable (stampedPress e c s) = stable s"
  by (simp add: stampedPress_def Let_def case_prod_beta)

lemma applyLevel_stable [simp]: "stable (applyLevel e m l d s) = stable s"
  by (simp add: applyLevel_def Let_def case_prod_beta)

lemma brightness_stable: "modifyScreenBrightness e c d s = Some s' \<Longrightarrow> stable s' = stable s"
  by (auto simp: modifyScreenBrightness_def bind_eq_Some_conv dest!: lift_plat_stableD split: prod.splits option.splits)

lemma backlight_stable: "modifyKeyboardBacklight e k d s = Some s' \<Longrightarrow> stable s' = stable s"
  by (auto simp: modifyKeyboardBacklight_def bind_eq_Some_conv dest!: lift_plat_stableD split: prod.splits option.splits)

lemma trackModifier_form: "\<exists>w. trackModifier r d s = None \<or> trackModifier r d s = Some (s\<lparr>PS2modifierState := w\<rparr>)"
proof (cases "at (PS2flags s) r")
  case (Some f)
  then show ?thesis
    by (cases "ucast (drop_bit 8 f) = (0 :: u8)")
      (auto simp: trackModifier_def Let_def intro: exI [of _ "PS2modifierState s"])
qed (simp add: trackModifier_def)

lemma trackModifier_stable: "trackModifier r d s = Some s' \<Longrightarrow> stable s' = stable s"
  using trackModifier_form [of r d s] by auto

lemma acpiKey_stable [simp]: "stable (acpiKey e k d s) = stable s"
  by (simp add: acpiKey_def Let_def case_prod_beta)

lemma resendHeld_stable: "resendHeld ks d t s = Some s' \<Longrightarrow> stable s' = stable s"
  unfolding resendHeld_def
  by (induction ks arbitrary: s) (auto simp: bind_eq_Some_conv split: if_splits)

lemma numpadKey_stable: "numpadKey e k d t s = Some (k', s') \<Longrightarrow> stable s' = stable s"
  by (auto simp: numpadKey_def Let_def bind_eq_Some_conv dest!: backlight_stable resendHeld_stable split: if_splits)

lemma keys_stable [simp]:
  "stable (snd (deleteKey k d t s)) = stable s" "stable (sleepKey e d s) = stable s"
  "stable (toggleTouchpad e s) = stable s" "stable (toggleFKeyMode e s) = stable s"
  by (simp_all add: deleteKey_def sleepKey_def toggleTouchpad_def toggleFKeyMode_def Let_def case_prod_beta)

lemma specialKey_stable: "specialKey e k d t s = Some (k', s') \<Longrightarrow> stable s' = stable s"
  using keys_stable(1) [of k d t s]
  by (cases "deleteKey k d t s") (auto simp: specialKey_def dest!: numpadKey_stable split: if_splits)

lemma specialADB_stable: "specialADB e c d s = Some (c', eat, s') \<Longrightarrow> stable s' = stable s"
  by (auto simp: specialADB_def bind_eq_Some_conv Let_def dest!: brightness_stable split: if_splits)

lemma notifyKey_stable [simp]: "stable (snd (notifyKey e t c d eat s)) = stable s"
  by (simp add: notifyKey_def Let_def case_prod_beta)

lemma deliver_stable [simp]:
  "stable (capsLockKey e c d s) = stable s" "stable (deliverKey c d b t s) = stable s"
  by (simp_all add: capsLockKey_def deliverKey_def Let_def)

lemma dispatchKey_stable: "dispatchKey e r k d t s = Some (b, s') \<Longrightarrow> stable s' = stable s"
  by (auto simp: dispatchKey_def bind_eq_Some_conv Let_def case_prod_beta
      dest!: trackModifier_stable specialKey_stable specialADB_stable split: if_splits)

lemma dispatch_stable: "dispatchKeyboardEventWithPacket e p s = Some (b, s') \<Longrightarrow> stable s' = stable s"
  by (auto simp: dispatchKeyboardEventWithPacket_def bind_eq_Some_conv Let_def
      dest: dispatchKey_stable split: if_splits)

subsection \<open>The invariant\<close>

lemma kbd_ok_stable [simp]: "kbd_ok (stable s) = kbd_ok s"
  by (simp add: kbd_ok_def input_ok_def tables_ok_def levels_ok_def actions_ok_def macros_ok_def stable_def)

lemma kbd_ok_cong: "stable s' = stable s \<Longrightarrow> kbd_ok s' = kbd_ok s"
  by (metis kbd_ok_stable)

subsection \<open>Dispatch is defined\<close>

lemma findLevel_defined:
  "0 \<le> index \<Longrightarrow> index \<le> int (length ls) \<Longrightarrow>
     \<exists>i. findLevel ls (int (length ls)) current index = Some i \<and> index \<le> i \<and> i \<le> int (length ls)"
proof (induction ls "int (length ls)" current index rule: findLevel.induct)
  case (1 ls current index)
  show ?case
  proof (cases "index < int (length ls) \<and> ls ! nat index < current")
    case True
    then have "\<exists>i. findLevel ls (int (length ls)) current (index + 1) = Some i \<and> index + 1 \<le> i \<and> i \<le> int (length ls)"
      using "1.prems" by (intro "1.hyps") (auto simp: nat_less_iff at_def)
    then show ?thesis using True "1.prems"
      by (subst findLevel.simps) (auto simp: nat_less_iff)
  next
    case False
    then show ?thesis using "1.prems" by (subst findLevel.simps) (auto simp: nat_less_iff)
  qed
qed

lemma newLevel_eq:
  assumes "findLevel ls (int (length ls)) current first = Some i" "0 \<le> first" "first < int (length ls)"
    "first \<le> i" "i \<le> int (length ls)"
  shows "newLevel ls (int (length ls)) first current up =
    Some (ls ! nat (max first (min (int (length ls) - 1) (if up then i + 1 else i - 1))))"
proof -
  let ?j = "i + (if up then 1 else - 1)" and ?n = "int (length ls)"
  have clamp: "(if (if ?j \<ge> ?n then ?n - 1 else ?j) < first then first else if ?j \<ge> ?n then ?n - 1 else ?j)
      = max first (min (?n - 1) (if up then i + 1 else i - 1))" by auto
  have "0 \<le> max first (min (?n - 1) (if up then i + 1 else i - 1))"
    and "max first (min (?n - 1) (if up then i + 1 else i - 1)) < ?n" using assms by auto
  then show ?thesis unfolding newLevel_def Let_def assms(1) Option.bind.bind_lunit clamp
    using assms(2) by (simp add: nat_less_iff)
qed

lemma newLevel_defined:
  assumes "0 \<le> first" "first < int (length ls)"
  shows "\<exists>v. newLevel ls (int (length ls)) first current up = Some v"
  using findLevel_defined [of first ls current] newLevel_eq assms by fastforce

lemma kbd_ok_event [simp]: "kbd_ok (dispatchKeyboardEventX c d t s) = kbd_ok s"
  by (rule kbd_ok_cong) simp

lemma kbd_ok_levels:
  "kbd_ok s \<Longrightarrow> brightnessLevels s = Some ls \<Longrightarrow> brightnessCount s = int (length ls) \<and> 2 < length ls"
  "kbd_ok s \<Longrightarrow> backlightLevels s = Some ls \<Longrightarrow> backlightCount s = int (length ls) \<and> 0 < length ls"
  by (simp_all add: kbd_ok_def levels_ok_def)

lemma kbd_ok_tables:
  assumes "kbd_ok s"
  shows "length (PS2ToPS2Map s) = 512" "i < 512 \<Longrightarrow> unat (PS2ToPS2Map s ! i) < 512"
    "length (PS2flags s) = 512" "i < 512 \<Longrightarrow> drop_bit 8 (PS2flags s ! i) \<le> 16"
    "length (PS2ToADBMap s) = 512" "length (PS2ToADBMapMapped s) = 512" "length (keyBitVector s) = 16"
  using assms by (simp_all add: kbd_ok_def tables_ok_def input_ok_def)

lemma brightness_defined:
  assumes "kbd_ok s" "brightnessLevels s \<noteq> None"
  shows "\<exists>s'. modifyScreenBrightness e c d s = Some s'"
proof -
  obtain r s1 where s1: "lift_plat (evaluateInteger e ''KBQC'') s = (r, s1)" by fastforce
  note st = lift_plat_stableD [OF s1]
  have ok: "kbd_ok s1" using assms(1) kbd_ok_cong [OF st] by simp
  obtain ls where ls: "brightnessLevels s1 = Some ls" using assms(2) stable_sel(10) [OF st] by auto
  show ?thesis
    using newLevel_defined [of 2 ls] kbd_ok_levels(1) [OF ok ls] ls s1
    by (auto simp: modifyScreenBrightness_def bind_eq_Some_conv split: option.splits)
qed

lemma backlight_defined:
  assumes "kbd_ok s" "backlightLevels s \<noteq> None"
  shows "\<exists>s'. modifyKeyboardBacklight e k d s = Some s'"
proof -
  obtain r s1 where s1: "lift_plat (evaluateInteger e ''KKQC'') s = (r, s1)" by fastforce
  note st = lift_plat_stableD [OF s1]
  have ok: "kbd_ok s1" using assms(1) kbd_ok_cong [OF st] by simp
  obtain ls where ls: "backlightLevels s1 = Some ls" using assms(2) stable_sel(11) [OF st] by auto
  show ?thesis
    using newLevel_defined [of 0 ls] kbd_ok_levels(2) [OF ok ls] ls s1
    by (auto simp: modifyKeyboardBacklight_def bind_eq_Some_conv split: option.splits)
qed

lemma trackModifier_defined:
  assumes "kbd_ok s" "r < 512"
  shows "\<exists>s'. trackModifier r d s = Some s'"
proof -
  let ?f = "PS2flags s ! r"
  have "drop_bit 8 ?f \<le> 16" using kbd_ok_tables(4) [OF assms] .
  then have "unat (drop_bit 8 ?f) \<le> 16" by (simp add: word_le_nat_alt)
  then have "unat (ucast (drop_bit 8 ?f) :: u8) \<le> 16"
    by (simp add: unsigned_ucast_eq take_bit_nat_eq_self)
  then show ?thesis using assms kbd_ok_tables(3) [OF assms(1)] by (simp add: trackModifier_def Let_def)
qed

lemma KBV_IS_KEYDOWN_defined: "length v = 16 \<Longrightarrow> n < 512 \<Longrightarrow> \<exists>b. KBV_IS_KEYDOWN n v = Some b"
  by (simp add: KBV_IS_KEYDOWN_def drop_bit_eq_div)

lemma resendHeld_defined:
  assumes "kbd_ok s" "\<forall>k \<in> set ks. k < 512"
  shows "\<exists>s'. resendHeld ks d t s = Some s'"
proof -
  have "\<exists>s'. foldM (\<lambda>k s. do { held \<leftarrow> KBV_IS_KEYDOWN k (keyBitVector s);
                       if held then do { code \<leftarrow> at (PS2ToADBMap s) k;
                                         Some (dispatchKeyboardEventX code d t s) }
                       else Some s }) ks s = Some s' \<and> kbd_ok s'"
  proof (rule foldM_invariant)
    fix k and s :: "'a kbd"
    assume k: "k \<in> set ks" and ok: "kbd_ok s"
    obtain b where "KBV_IS_KEYDOWN k (keyBitVector s) = Some b"
      using KBV_IS_KEYDOWN_defined [of "keyBitVector s" k] kbd_ok_tables(7) [OF ok] k assms(2) by auto
    then show "\<exists>s'. (do { held \<leftarrow> KBV_IS_KEYDOWN k (keyBitVector s);
        if held then do { code \<leftarrow> at (PS2ToADBMap s) k; Some (dispatchKeyboardEventX code d t s) }
        else Some s }) = Some s' \<and> kbd_ok s'"
      using k assms(2) kbd_ok_tables(5) [OF ok] ok by auto
  qed (rule assms)
  then show ?thesis by (auto simp: resendHeld_def)
qed

lemma specialKey_defined:
  assumes "kbd_ok s" "k < 512"
  shows "\<exists>k' s'. specialKey e k d t s = Some (k', s') \<and> k' < 512"
proof (cases "k = 0x4e \<or> k = 0x4a")
  case True
  have "\<exists>s'. resendHeld ks d' t s1 = Some s'" if "stable s1 = stable s" "set ks \<subseteq> {0x2a, 0x1d}" for ks d' s1
    using resendHeld_defined [of s1 ks d' t] kbd_ok_cong [OF that(1)] assms(1) that(2) by fastforce
  note held = this
  have "\<exists>s1. resendHeld ks False t s = Some s1 \<and> (\<exists>s2. resendHeld ks True t (dispatchKeyboardEventX c d t s1) = Some s2)"
    if ks: "set ks \<subseteq> {0x2a, 0x1d}" for ks c
  proof -
    obtain s1 where s1: "resendHeld ks False t s = Some s1" using held [OF refl ks] by blast
    have "stable (dispatchKeyboardEventX c d t s1) = stable s" using resendHeld_stable [OF s1] by simp
    then show ?thesis using s1 held [OF _ ks] by blast
  qed
  note resent = this
  let ?keys = "if checkModifierState kMaskLeftWindows s then [0x1d] else [0x2a, 0x1d]"
  have keys: "set ?keys \<subseteq> {0x2a, 0x1d}" by simp
  obtain s1 s2 where "resendHeld ?keys False t s = Some s1"
    "resendHeld ?keys True t (dispatchKeyboardEventX (if k = 0x4e then 0x90 else 0x91) d t s1) = Some s2"
    using resent [of ?keys "if k = 0x4e then 0x90 else 0x91"] keys by blast
  then have "\<exists>k' s'. numpadKey e k d t s = Some (k', s') \<and> k' < 512"
    using backlight_defined [OF assms(1), of e k d] assms(2)
    unfolding numpadKey_def Let_def by (cases "backlightLevels s = None") auto
  then show ?thesis using True by (auto simp: specialKey_def)
next
  case False
  then show ?thesis using assms by (auto simp: specialKey_def deleteKey_def)
qed

lemma ex_bool_simps [simp]: "\<exists>b. b" "\<exists>b. \<not> b"
  by auto

lemma specialADB_defined:
  assumes "kbd_ok s"
  shows "\<exists>c' eat s'. specialADB e c d s = Some (c', eat, s')"
  using brightness_defined [OF assms, of e c d] by (auto simp: specialADB_def Let_def)

lemma dispatchKey_defined:
  assumes "kbd_ok s" "r < 512" "k < 512"
  shows "\<exists>b s'. dispatchKey e r k d t s = Some (b, s')"
proof -
  obtain s1 where s1: "trackModifier r d s = Some s1" using trackModifier_defined [OF assms(1,2)] by blast
  let ?s2 = "acpiKey e k d s1"
  have ok2: "kbd_ok ?s2"
    using assms(1) trackModifier_stable [OF s1] by (simp add: kbd_ok_cong [of ?s2 s])
  obtain k3 s3 where s3: "specialKey e k d t ?s2 = Some (k3, s3)" "k3 < 512"
    using specialKey_defined [OF ok2 assms(3)] by blast
  have ok3: "kbd_ok s3" using ok2 kbd_ok_cong [OF specialKey_stable [OF s3(1)]] by simp
  obtain c4 eat4 s4 where s4: "specialADB e (PS2ToADBMap s3 ! k3) d s3 = Some (c4, eat4, s4)"
    using specialADB_defined [OF ok3] by blast
  obtain eat5 s5 where s5: "notifyKey e (absolutetime_to_nanoseconds e t) c4 d eat4 s4 = (eat5, s5)" by fastforce
  have ok5: "kbd_ok s5"
    using ok3 kbd_ok_cong [OF specialADB_stable [OF s4]] kbd_ok_cong [of s5 s4]
      notifyKey_stable [of e "absolutetime_to_nanoseconds e t" c4 d eat4 s4] s5 by simp
  show ?thesis
    using assms s1 s3 s4 s5 kbd_ok_tables(5) [OF ok3] kbd_ok_tables(3) [OF ok5]
    by (simp add: dispatchKey_def Let_def)
qed

lemma scan_bound: "unat (x AND NOT kSC_UpBit) < 128"
proof -
  have "NOT kSC_UpBit = mask 7" by (simp add: kSC_UpBit_def mask_eq_exp_minus_1)
  then have "x AND NOT kSC_UpBit = take_bit 7 x" by (simp add: take_bit_eq_mask)
  then show ?thesis using take_bit_nat_less_exp [of 7 "unat x"] by (simp add: unsigned_take_bit_eq)
qed

lemma dispatch_defined:
  assumes "kbd_ok s" "length p = 16"
  shows "\<exists>b s'. dispatchKeyboardEventWithPacket e p s = Some (b, s') \<and> kbd_ok s'"
proof -
  let ?r = "unat (p ! 1 AND NOT kSC_UpBit)"
  have r: "?r < 128" by (rule scan_bound)
  have c: "unat (p ! 1) < 256" using unsigned_less [of "p ! 1", where ?'a = nat] by simp
  note t = kbd_ok_tables [OF assms(1)]
  have "\<exists>b s'. dispatchKey e i (unat (PS2ToPS2Map s ! i)) d n s = Some (b, s')" if "i < 512" for i d n
    using dispatchKey_defined [OF assms(1) that t(2) [OF that]] .
  then have "\<exists>b s'. dispatchKeyboardEventWithPacket e p s = Some (b, s')"
    using assms r c t by (auto simp: dispatchKeyboardEventWithPacket_def Let_def)
  then show ?thesis using dispatch_stable kbd_ok_cong assms(1) by blast
qed

subsection \<open>The bit vector is a set of keys\<close>

lemma kbv_index: "drop_bit KBV_BITS_SHIFT n = n div 32" "kbv_bit n = push_bit (n mod 32) 1"
proof -
  have "n AND 31 = take_bit 5 n" by (simp add: take_bit_eq_mask mask_eq_exp_minus_1)
  then show "kbv_bit n = push_bit (n mod 32) 1" by (simp add: kbv_bit_def take_bit_eq_mod)
qed (simp add: drop_bit_eq_div)

lemma bit_kbv: "j < 32 \<Longrightarrow> bit (2 ^ (n mod 32) :: u32) j \<longleftrightarrow> j = n mod 32"
  by (auto simp: bit_exp_iff)

lemma KBV_KEYDOWN_set:
  assumes "n < 32 * length v"
  shows "\<exists>v'. KBV_KEYDOWN n v = Some v' \<and> length v' = length v \<and> keysDown v' = insert n (keysDown v)"
proof -
  let ?v = "v[n div 32 := v ! (n div 32) OR push_bit (n mod 32) 1]"
  have n: "n div 32 < length v" using assms by auto
  have "bit (?v ! (m div 32)) (m mod 32) \<longleftrightarrow> m = n \<or> bit (v ! (m div 32)) (m mod 32)" if "m < 32 * length v" for m
  proof -
    have "m div 32 < length v" using that by auto
    moreover have "m = n \<longleftrightarrow> m div 32 = n div 32 \<and> m mod 32 = n mod 32"
      by (metis div_mult_mod_eq)
    ultimately show ?thesis
      using n by (auto simp: nth_list_update bit_or_iff bit_kbv)
  qed
  then have "keysDown ?v = insert n (keysDown v)" using assms by (auto simp: keysDown_def)
  moreover have "KBV_KEYDOWN n v = Some ?v" using n by (simp add: KBV_KEYDOWN_def kbv_index del: kbd_nums)
  ultimately show ?thesis by simp
qed

lemma KBV_KEYUP_set:
  assumes "n < 32 * length v"
  shows "\<exists>v'. KBV_KEYUP n v = Some v' \<and> length v' = length v \<and> keysDown v' = keysDown v - {n}"
proof -
  let ?v = "v[n div 32 := v ! (n div 32) AND NOT (push_bit (n mod 32) 1)]"
  have n: "n div 32 < length v" using assms by auto
  have "bit (?v ! (m div 32)) (m mod 32) \<longleftrightarrow> m \<noteq> n \<and> bit (v ! (m div 32)) (m mod 32)" if "m < 32 * length v" for m
  proof -
    have "m div 32 < length v" using that by auto
    moreover have "m = n \<longleftrightarrow> m div 32 = n div 32 \<and> m mod 32 = n mod 32"
      by (metis div_mult_mod_eq)
    ultimately show ?thesis
      using n by (auto simp: nth_list_update bit_and_iff bit_not_iff bit_kbv)
  qed
  then have "keysDown ?v = keysDown v - {n}" using assms by (auto simp: keysDown_def)
  moreover have "KBV_KEYUP n v = Some ?v" using n by (simp add: KBV_KEYUP_def kbv_index del: kbd_nums)
  ultimately show ?thesis by simp
qed

lemma KBV_IS_KEYDOWN_set: "n < 32 * length v \<Longrightarrow> KBV_IS_KEYDOWN n v = Some (n \<in> keysDown v)"
  using tst_bit [of "v ! (n div 32)" "n mod 32"]
  by (auto simp: KBV_IS_KEYDOWN_def kbv_index keysDown_def tst_def simp del: kbd_nums)

lemma keysDown_clear: "keysDown (replicate k 0) = {}"
  by (auto simp: keysDown_def)

subsection \<open>Bytes to packets\<close>

lemma store64_length [simp]: "length (store64 t) = 8"
  by (simp add: store64_def)

lemma load64_bytes:
  "load64 (map (\<lambda>i. ucast (drop_bit (8 * i) t)) [0..<k]) = take_bit (8 * k) t"
proof (induction k arbitrary: t)
  case (Suc k)
  have "load64 (map (\<lambda>i. ucast (drop_bit (8 * i) t)) [0..<Suc k]) =
      ucast (ucast t :: u8) OR push_bit 8 (take_bit (8 * k) (drop_bit 8 t))"
    unfolding upt_conv_Cons [OF zero_less_Suc] map_Suc_upt [symmetric]
    by (simp add: load64_def Suc [unfolded load64_def, symmetric] comp_def add.commute)
  also have "\<dots> = take_bit (8 * Suc k) t"
    by (rule bit_word_eqI) (auto simp: bit_simps)
  finally show ?case .
qed (simp add: load64_def)

lemma load64_store64 [simp]: "load64 (store64 t) = t"
  using load64_bytes [of t 8] by (simp add: store64_def take_bit_word_eq_self)

lemma key_packet_simps [simp]:
  assumes "length u = 6"
  shows "length (key_packet b0 b1 u t) = 16" "key_packet b0 b1 u t ! 0 = b0" "key_packet b0 b1 u t ! Suc 0 = b1"
    "packet_time (key_packet b0 b1 u t) = t"
  using assms by (simp_all add: key_packet_def packet_time_def window_def)

lemma pokes_pending:
  assumes "ring_aligned k r" "\<forall>i \<in> set is. f i < k"
  shows "ring_pending k (fold (\<lambda>i. ring_head_write (f i) (g i)) is r) = fold (\<lambda>i p. p[f i := g i]) is (ring_pending k r)
    \<and> ring_packets k (fold (\<lambda>i. ring_head_write (f i) (g i)) is r) = ring_packets k r
    \<and> ring_aligned k (fold (\<lambda>i. ring_head_write (f i) (g i)) is r)
    \<and> ring_count (fold (\<lambda>i. ring_head_write (f i) (g i)) is r) = ring_count r
    \<and> ring_N (fold (\<lambda>i. ring_head_write (f i) (g i)) is r) = ring_N r"
  using assms
  by (induction "is" arbitrary: r) (simp_all add: byte_ring.pending_poke byte_ring.packets_poke)

lemma fold_update_window:
  assumes "p + k \<le> length ys" "length xs = k"
  shows "fold (\<lambda>i ys. ys[p + i := xs ! i]) [0..<k] ys = take p ys @ xs @ drop (p + k) ys"
proof -
  have "n \<le> k \<Longrightarrow> fold (\<lambda>i ys. ys[p + i := xs ! i]) [0..<n] ys = take p ys @ take n xs @ drop (p + n) ys" for n
  proof (induction n)
    case (Suc n)
    have "(take p ys @ take n xs @ drop (p + n) ys)[p + n := xs ! n] = take p ys @ take (Suc n) xs @ drop (p + Suc n) ys"
      using Suc.prems assms
      by (intro nth_equalityI) (auto simp: nth_append nth_list_update less_Suc_eq)
    then show ?case using Suc by simp
  qed simp
  from this [of k] show ?thesis using assms by simp
qed

lemma queuePacket_packets:
  assumes "ring_aligned 16 r"
  shows "ring_packets 16 (queuePacket b0 b1 t r) = (if ring_full 16 r then ring_packets 16 r
      else ring_packets 16 r @ [key_packet b0 b1 (window 6 2 (ring_pending 16 r)) t])"
    and "ring_aligned 16 (queuePacket b0 b1 t r)" and "ring_N (queuePacket b0 b1 t r) = ring_N r"
proof -
  let ?r1 = "ring_head_write 1 b1 (ring_head_write 0 b0 r)"
  let ?r2 = "fold (\<lambda>i. ring_head_write (8 + i) (store64 t ! i)) [0..<8] ?r1"
  let ?p = "ring_pending 16 r"
  have q: "queuePacket b0 b1 t r = ring_advanceHead 16 ?r2" by (simp add: queuePacket_def)
  have l: "length ?p = 16" by (rule length_ring_pending [OF assms])
  have 1: "ring_pending 16 ?r1 = ?p[0 := b0, 1 := b1]" "ring_aligned 16 ?r1" "ring_packets 16 ?r1 = ring_packets 16 r"
    using assms by (simp_all add: byte_ring.pending_poke byte_ring.packets_poke)
  note 2 = pokes_pending [OF 1(2), of "[0..<8]" "\<lambda>i. 8 + i" "\<lambda>i. store64 t ! i"]
  have "ring_pending 16 ?r2 = take 8 (?p[0 := b0, 1 := b1]) @ store64 t"
    using 2 1(1) l fold_update_window [of 8 8 "?p[0 := b0, 1 := b1]" "store64 t"] by simp
  also have "\<dots> = key_packet b0 b1 (window 6 2 ?p) t"
  proof -
    obtain x y zs where p: "?p = x # y # zs" using l by (auto simp: length_Suc_conv numeral_eq_Suc)
    show ?thesis unfolding p by (simp add: key_packet_def window_def)
  qed
  finally have pend: "ring_pending 16 ?r2 = key_packet b0 b1 (window 6 2 ?p) t" .
  show "ring_packets 16 (queuePacket b0 b1 t r) = (if ring_full 16 r then ring_packets 16 r
      else ring_packets 16 r @ [key_packet b0 b1 (window 6 2 ?p) t])"
    unfolding q using 2 1 pend by (simp add: byte_ring.packets_commit ring_full_def)
  show "ring_aligned 16 (queuePacket b0 b1 t r)" unfolding q using 2 by (simp add: byte_ring.inv_commit)
  show "ring_N (queuePacket b0 b1 t r) = ring_N r" unfolding q using 2 by simp
qed

end
