(* ===== verification/Kbd_Commute.thy ===== *)
theory Kbd_Commute
  imports Kbd_Safety
begin

text \<open>
  The handling of a packet does not look at the ring buffer, and the delivery of a key does not look at
  the macro buffer: they commute with updates of these. With this the work loop of the keyboard driver is a
  client of the packet ring.
\<close>

definition put_ring :: "u8 ring \<Rightarrow> 'p kbd \<Rightarrow> 'p kbd" where
  "put_ring r s = s\<lparr>ringBuffer := r\<rparr>"

definition put_macro :: "u8 list option \<Rightarrow> nat \<Rightarrow> u64 option \<Rightarrow> 'p kbd \<Rightarrow> 'p kbd" where
  "put_macro b c t s = s\<lparr>macroBuffer := b, macroCurrent := c, macroTimeout := t\<rparr>"

lemma lift_plat_fields [simp]:
  "brightnessLevels (snd (lift_plat f s)) = brightnessLevels s" "brightnessCount (snd (lift_plat f s)) = brightnessCount s"
  "backlightLevels (snd (lift_plat f s)) = backlightLevels s" "backlightCount (snd (lift_plat f s)) = backlightCount s"
  "hid_out (snd (lift_plat f s)) = hid_out s" "PS2modifierState (snd (lift_plat f s)) = PS2modifierState s"
  by (simp_all add: lift_plat_def case_prod_beta Let_def)

subsection \<open>Neutral updates\<close>

text \<open>
  An update of the state that the delivery of a key neither sees nor overwrites: the delivery commutes
  with it. It is used for the ring buffer, which the work loop pops while packets are handled, and for the
  buffer of the macros.
\<close>

locale neutral_update =
  fixes u :: "'p kbd \<Rightarrow> 'p kbd"
  assumes u_sel:
    "keyBitVector (u s) = keyBitVector s"
    "PS2modifierState (u s) = PS2modifierState s"
    "PS2ToPS2Map (u s) = PS2ToPS2Map s"
    "PS2flags (u s) = PS2flags s"
    "PS2ToADBMap (u s) = PS2ToADBMap s"
    "fkeymode (u s) = fkeymode s"
    "fkeymodesupported (u s) = fkeymodesupported s"
    "f12ejectdelay (u s) = f12ejectdelay s"
    "timerFunc (u s) = timerFunc s"
    "maxsleeppresstime (u s) = maxsleeppresstime s"
    "provider (u s) = provider s"
    "brightnessLevels (u s) = brightnessLevels s"
    "brightnessCount (u s) = brightnessCount s"
    "backlightLevels (u s) = backlightLevels s"
    "backlightCount (u s) = backlightCount s"
    "brightnessHack (u s) = brightnessHack s"
    "firsttime (u s) = firsttime s"
    "hid_out (u s) = hid_out s"
    "plat (u s) = plat s"
    and u_upd:
    "(u s)\<lparr>PS2modifierState := a0\<rparr> = u (s\<lparr>PS2modifierState := a0\<rparr>)"
    "(u s)\<lparr>timerFunc := a1\<rparr> = u (s\<lparr>timerFunc := a1\<rparr>)"
    "(u s)\<lparr>sleepEjectTimeout := a2\<rparr> = u (s\<lparr>sleepEjectTimeout := a2\<rparr>)"
    "(u s)\<lparr>firsttime := a3\<rparr> = u (s\<lparr>firsttime := a3\<rparr>)"
    "(u s)\<lparr>hid_out := a4\<rparr> = u (s\<lparr>hid_out := a4\<rparr>)"
    "(u s)\<lparr>plat := a5\<rparr> = u (s\<lparr>plat := a5\<rparr>)"
begin

lemmas u_simps [simp] = u_sel u_upd

lemma lift_plat_commute: "lift_plat f (u s) = (fst (lift_plat f s), u (snd (lift_plat f s)))"
  by (simp add: lift_plat_def Let_def case_prod_beta)

lemma event_commute: "dispatchKeyboardEventX c d t (u s) = u (dispatchKeyboardEventX c d t s)"
  by (simp add: dispatchKeyboardEventX_def)

lemma timers_commute:
  "setSleepEjectTimer t (u s) = u (setSleepEjectTimer t s)"
  "cancelSleepEjectTimer (u s) = u (cancelSleepEjectTimer s)"
  "checkModifierState m (u s) = checkModifierState m s"
  by (simp_all add: setSleepEjectTimer_def cancelSleepEjectTimer_def
      checkModifierState_def)

lemmas ring_commutes = lift_plat_commute event_commute timers_commute

lemma onSleepEjectTimer_commute: "onSleepEjectTimer e (u s) = u (onSleepEjectTimer e s)"
  by (cases "timerFunc s") (simp_all add: onSleepEjectTimer_def case_prod_beta ring_commutes)

lemma stampedPress_commute: "stampedPress e c (u s) = u (stampedPress e c s)"
  by (simp add: stampedPress_def Let_def case_prod_beta ring_commutes)

lemma applyLevel_commute: "applyLevel e m l d (u s) = u (applyLevel e m l d s)"
  by (simp add: applyLevel_def Let_def case_prod_beta ring_commutes)

lemma brightness_commute:
  "modifyScreenBrightness e c d (u s) = map_option (\<lambda>s. u s) (modifyScreenBrightness e c d s)"
  by (cases "lift_plat (evaluateInteger e ''KBQC'') s")
    (simp add: modifyScreenBrightness_def lift_plat_commute applyLevel_commute map_option_bind comp_def split: option.split)

lemma backlight_commute:
  "modifyKeyboardBacklight e k d (u s) = map_option (\<lambda>s. u s) (modifyKeyboardBacklight e k d s)"
  by (cases "lift_plat (evaluateInteger e ''KKQC'') s")
    (simp add: modifyKeyboardBacklight_def lift_plat_commute applyLevel_commute map_option_bind comp_def split: option.split)

lemma trackModifier_commute:
  "trackModifier k d (u s) = map_option (\<lambda>s. u s) (trackModifier k d s)"
  by (cases "at (PS2flags s) k") (simp_all add: trackModifier_def Let_def)

lemma acpiKey_commute: "acpiKey e k d (u s) = u (acpiKey e k d s)"
  by (simp add: acpiKey_def Let_def case_prod_beta ring_commutes)

lemma resendHeld_commute:
  "resendHeld ks d t (u s) = map_option (\<lambda>s. u s) (resendHeld ks d t s)"
  unfolding resendHeld_def
proof (induction ks arbitrary: s)
  case (Cons k ks)
  show ?case
    using Cons by (cases "KBV_IS_KEYDOWN k (keyBitVector s)"; cases "at (PS2ToADBMap s) k") (simp_all add: event_commute)
qed simp

lemma numpadKey_commute:
  "numpadKey e k d t (u s) = map_option (\<lambda>(k, s). (k, u s)) (numpadKey e k d t s)"
  by (simp add: numpadKey_def Let_def ring_commutes backlight_commute resendHeld_commute map_option_bind comp_def option.map_comp
      map_option_bind [symmetric] bind_map_option)

lemma keys_commute:
  "deleteKey k d t (u s) = (fst (deleteKey k d t s), u (snd (deleteKey k d t s)))"
  "toggleTouchpad e (u s) = u (toggleTouchpad e s)"
  "toggleFKeyMode e (u s) = u (toggleFKeyMode e s)"
  by (simp_all add: deleteKey_def toggleTouchpad_def toggleFKeyMode_def Let_def case_prod_beta ring_commutes)

lemma sleepKey_commute: "sleepKey e d (u s) = u (sleepKey e d s)"
  by (simp add: sleepKey_def Let_def timers_commute onSleepEjectTimer_commute)

lemma specialKey_commute:
  "specialKey e k d t (u s) = map_option (\<lambda>(k, s). (k, u s)) (specialKey e k d t s)"
  by (simp add: specialKey_def numpadKey_commute keys_commute sleepKey_commute timers_commute case_prod_beta)

lemma specialADB_commute:
  "specialADB e c d (u s) = map_option (\<lambda>(c, b, s). (c, b, u s)) (specialADB e c d s)"
  by (simp add: specialADB_def Let_def brightness_commute timers_commute onSleepEjectTimer_commute map_option_bind comp_def bind_map_option)

lemma notifyKey_commute:
  "notifyKey e t c d b (u s) = (fst (notifyKey e t c d b s), u (snd (notifyKey e t c d b s)))"
  by (simp add: notifyKey_def Let_def case_prod_beta ring_commutes)

lemma deliver_commute:
  "capsLockKey e c d (u s) = u (capsLockKey e c d s)"
  "deliverKey c d b t (u s) = u (deliverKey c d b t s)"
  by (simp_all add: capsLockKey_def deliverKey_def Let_def stampedPress_commute event_commute)

lemma dispatchKey_commute:
  "dispatchKey e i k d t (u s) = map_option (\<lambda>(b, s). (b, u s)) (dispatchKey e i k d t s)"
  by (simp add: dispatchKey_def Let_def trackModifier_commute acpiKey_commute specialKey_commute specialADB_commute notifyKey_commute
      deliver_commute case_prod_beta map_option_bind comp_def bind_map_option if_distrib [of "map_option _"] cong: if_cong)

lemma dispatch_commute:
  "dispatchKeyboardEventWithPacket e p (u s) =
     map_option (\<lambda>(b, s). (b, u s)) (dispatchKeyboardEventWithPacket e p s)"
  by (simp add: dispatchKeyboardEventWithPacket_def Let_def dispatchKey_commute stampedPress_commute
      map_option_bind comp_def if_distrib [of "map_option _"] cong: if_cong)

end

text \<open>An update that the macro buffer does not see either: the handling of a packet commutes with it.\<close>

locale neutral_macro_update = neutral_update u for u :: "'p kbd \<Rightarrow> 'p kbd" +
  assumes m_sel:
    "macroInversion (u s) = macroInversion s"
    "macroBuffer (u s) = macroBuffer s"
    "macroCurrent (u s) = macroCurrent s"
    "macroMaxTime (u s) = macroMaxTime s"
    "macroTimer (u s) = macroTimer s"
    and m_upd:
    "(u s)\<lparr>macroBuffer := b0\<rparr> = u (s\<lparr>macroBuffer := b0\<rparr>)"
    "(u s)\<lparr>macroCurrent := b1\<rparr> = u (s\<lparr>macroCurrent := b1\<rparr>)"
    "(u s)\<lparr>macroTimeout := b2\<rparr> = u (s\<lparr>macroTimeout := b2\<rparr>)"
begin

lemmas m_simps [simp] = m_sel m_upd

lemma macro_timers:
  "setMacroTimer t (u s) = u (setMacroTimer t s)" "cancelMacroTimer (u s) = u (cancelMacroTimer s)"
  by (simp_all add: setMacroTimer_def cancelMacroTimer_def)

lemma dispatchBuffered_commute:
  "dispatchBuffered e is (u s) = map_option (\<lambda>s. u s) (dispatchBuffered e is s)"
proof (induction "is" arbitrary: s)
  case (Cons i "is")
  then show ?case
    by (simp add: dispatch_commute map_option_bind comp_def bind_map_option case_prod_beta)
qed simp

lemma dispatchInvertBuffer_commute:
  "dispatchInvertBuffer e (u s) = map_option (\<lambda>s. u s) (dispatchInvertBuffer e s)"
  by (simp add: dispatchInvertBuffer_def dispatchBuffered_commute map_option_bind comp_def bind_map_option macro_timers)

lemma outputMacro_commute:
  "outputMacro e m buf (u s) = map_option (\<lambda>s. u s) (outputMacro e m buf s)"
  by (simp add: outputMacro_def dispatch_commute map_option_bind comp_def bind_map_option case_prod_beta macro_timers)

lemma macro_match_commute:
  "(case x of NoMatch \<Rightarrow> map_option h a | PartialMatch \<Rightarrow> map_option h b | FullMatch \<Rightarrow> map_option h c)
     = map_option h (case x of NoMatch \<Rightarrow> a | PartialMatch \<Rightarrow> b | FullMatch \<Rightarrow> c)"
  by (cases x) simp_all

lemma tryMacros_commute:
  "tryMacros e n ms (u s) = map_option (\<lambda>(b, s). (b, u s)) (tryMacros e n ms s)"
proof (induction ms arbitrary: s)
  case (Cons m ms)
  show ?case
  proof (cases "macroBuffer s")
    case (Some buf)
    then show ?thesis
    proof (cases "matchMacro n m buf (PS2modifierState s)")
      case (Some x)
      then show ?thesis using Cons \<open>macroBuffer s = Some buf\<close>
        by (cases x) (simp_all add: outputMacro_commute map_option_bind comp_def bind_map_option macro_timers)
    qed simp
  qed simp
qed simp

lemma macroExpired_commute: "macroExpired e t (u s) = macroExpired e t s"
  by (simp add: macroExpired_def)

lemma flush_commute:
  "flushMacros e (u s) = map_option u (flushMacros e s)"
  "flushExpired e t (u s) = map_option u (flushExpired e t s)"
proof -
  show "flushMacros e (u s) = map_option u (flushMacros e s)"
    by (simp add: flushMacros_def dispatchInvertBuffer_commute)
  show "flushExpired e t (u s) = map_option u (flushExpired e t s)"
    by (cases "macroExpired e t s") (simp_all add: flushExpired_def dispatchInvertBuffer_commute macroExpired_commute)
qed

lemma invertMacros_commute:
  "invertMacros e p (u s) = map_option (\<lambda>(b, s). (b, u s)) (invertMacros e p s)"
  by (simp add: invertMacros_def Let_def tryMacros_commute flush_commute map_option_bind comp_def
      bind_map_option case_prod_beta if_distrib [of "map_option _"] cong: if_cong)

lemma inputPacket_commute: "inputPacket e p (u s) = map_option u (inputPacket e p s)"
  by (simp add: inputPacket_def invertMacros_commute dispatch_commute map_option_bind comp_def
      bind_map_option case_prod_beta if_distrib [of "map_option _"] cong: if_cong)

lemma handlePacket_commute: "handlePacket e p (u s) = map_option u (handlePacket e p s)"
  by (simp add: handlePacket_def inputPacket_commute map_option_bind comp_def if_distrib [of "map_option _"] cong: if_cong)

end

text \<open>The ring buffer and the macro buffer, and the work loop as a client of the packet ring.\<close>

interpretation ring_update: neutral_macro_update "put_ring r"
  by unfold_locales (simp_all add: put_ring_def)

interpretation macro_update: neutral_update "put_macro b c t"
  by unfold_locales (simp_all add: put_macro_def)

interpretation kbd_client: packet_client 16 "\<lambda>r. ring_aligned 16 r \<and> ring_N r = 512" "ring_packets 16" "ring_pending 16" "ring_full 16"
  "\<lambda>r. 16 \<le> ring_count r" "ring_front 16" "ring_advanceTail 16" ring_head_write "ring_advanceHead 16"
  ringBuffer put_ring "handlePacket e" for e :: "'p kbd_env"
  by unfold_locales (simp_all add: ring_update.handlePacket_commute, simp_all add: put_ring_def)

end
