(* ===== verification/Kbd_Macro.thy ===== *)
theory Kbd_Macro
  imports Kbd_Commute
begin

text \<open>
  Macro inversion: the buffer of packets, the comparison of packed key data and the timing refine a
  specification on lists of packets, in which it is plain that no packet is lost.
\<close>

text \<open>Packets delivered one after the other.\<close>

definition dispatchAll :: "'p kbd_env \<Rightarrow> u8 list list \<Rightarrow> 'p kbd \<Rightarrow> 'p kbd option" where
  "dispatchAll e = foldM (\<lambda>p s. map_option snd (dispatchKeyboardEventWithPacket e p s))"

text \<open>The packets in the macro buffer, and the key data of packets.\<close>

definition macroPackets :: "u8 list \<Rightarrow> nat \<Rightarrow> u8 list list" where
  "macroPackets buf n = map (\<lambda>i. window 16 (i * 16) buf) [0..<n]"

definition pendingMacro :: "'p kbd \<Rightarrow> u8 list list" where
  "pendingMacro s = (case macroBuffer s of None \<Rightarrow> [] | Some buf \<Rightarrow> macroPackets buf (macroCurrent s))"

definition keyData :: "u8 list list \<Rightarrow> u8 list" where
  "keyData ps = concat (map (take 2) ps)"

text \<open>
  The specification of macro inversion. Packets that wait for the rest of a macro are a list \<open>ps\<close>; a new packet
  \<open>p\<close> is compared, together with them, with the macros in their order. The result is the list of packets to
  deliver and the list of packets that wait.
\<close>

definition macroMatches :: "u16 \<Rightarrow> u8 list list \<Rightarrow> u8 list \<Rightarrow> macro_match" where
  "macroMatches modifiers ps m =
     (if keyData ps = drop 8 m then (if macroModifiers m modifiers = Some True then FullMatch else NoMatch)
      else if keyData ps = take (length (keyData ps)) (drop 8 m) then PartialMatch else NoMatch)"

definition macroStep :: "u16 \<Rightarrow> u8 list list \<Rightarrow> u8 list list \<Rightarrow> u8 list \<Rightarrow> u8 list list \<times> u8 list list" where
  "macroStep modifiers ms ps p =
     (case find (\<lambda>m. macroMatches modifiers (ps @ [p]) m \<noteq> NoMatch) ms of
        None \<Rightarrow> (ps @ [p], [])
      | Some m \<Rightarrow>
          if macroMatches modifiers (ps @ [p]) m = FullMatch
          then ([[m ! 2, m ! 3] @ drop 2 (hd (ps @ [p]))], [])
          else ([], ps @ [p]))"

text \<open>A packet comes too late for the packets that wait.\<close>

definition tooLate :: "'p kbd_env \<Rightarrow> u8 list \<Rightarrow> 'p kbd \<Rightarrow> bool" where
  "tooLate e p s \<longleftrightarrow> pendingMacro s \<noteq> [] \<and>
     macroMaxTime s < absolutetime_to_nanoseconds e (packet_time p)
       - absolutetime_to_nanoseconds e (packet_time (last (pendingMacro s)))"

lemma macroPackets_Suc: "macroPackets buf (Suc n) = take 16 buf # macroPackets (drop 16 buf) n"
  unfolding macroPackets_def upt_conv_Cons [OF zero_less_Suc] map_Suc_upt [symmetric]
  by (simp add: window_def comp_def add.commute)

lemma length_macroPackets [simp]: "length (macroPackets buf n) = n"
  by (simp add: macroPackets_def)

lemma length_keyData: "\<forall>p \<in> set ps. 2 \<le> length p \<Longrightarrow> length (keyData ps) = 2 * length ps"
  by (induction ps) (auto simp: keyData_def)

lemma macroPackets_lengths: "16 * n \<le> length buf \<Longrightarrow> \<forall>p \<in> set (macroPackets buf n). length p = 16"
  by (auto simp: macroPackets_def window_def)

lemma compareMacro_eq:
  "16 * n \<le> length buf \<Longrightarrow> 2 * n \<le> length data \<Longrightarrow>
     compareMacro buf data n = Some (keyData (macroPackets buf n) = take (2 * n) data)"
proof (induction n arbitrary: buf data)
  case 0
  then show ?case by (simp add: keyData_def macroPackets_def)
next
  case (Suc n)
  obtain d0 d1 ds where d: "data = d0 # d1 # ds" using Suc.prems(2)
    by (cases data; cases "tl data") auto
  have "\<exists>b0 b1 bs. buf = b0 # b1 # bs" using Suc.prems(1) by (cases buf; cases "tl buf") auto
  then obtain b0 b1 bs where b: "buf = b0 # b1 # bs" by blast
  have "compareMacro (drop 16 buf) (drop 2 data) n = Some (keyData (macroPackets (drop 16 buf) n) = take (2 * n) (drop 2 data))"
    by (rule Suc.IH) (use Suc.prems in auto)
  moreover have "keyData (macroPackets buf (Suc n)) = b0 # b1 # keyData (macroPackets (drop 16 buf) n)"
    by (simp add: macroPackets_Suc keyData_def b)
  ultimately show ?case by (auto simp: b d)
qed

lemma macroModifiers_defined: "8 \<le> length m \<Longrightarrow> \<exists>b. macroModifiers m w = Some b"
  by (simp add: macroModifiers_def Let_def)

lemma macro_sizes: "kPrefixBytes = 8" "kPacketKeyDataLength = 2"
  by simp_all

lemma matchMacro_eq:
  assumes "validMacro m" "16 * n \<le> length buf"
  shows "matchMacro n m buf w = Some (macroMatches w (macroPackets buf n) m)"
proof -
  let ?k = "keyData (macroPackets buf n)"
  have l: "length ?k = 2 * n"
    using length_keyData [of "macroPackets buf n"] macroPackets_lengths [OF assms(2)] by auto
  have m: "10 \<le> length m" using assms(1) by (simp add: validMacro_def)
  obtain b where b: "macroModifiers m w = Some b" using macroModifiers_defined [of m w] m by auto
  show ?thesis
  proof (cases "2 * n \<le> length m - 8")
    case True
    have full: "?k = drop 8 m \<longleftrightarrow> ?k = take (2 * n) (drop 8 m) \<and> 2 * n = length m - 8"
      using l by (cases "2 * n = length m - 8") (auto dest: arg_cong [where f = length])
    have cmp: "compareMacro buf (drop 8 m) n = Some (?k = take (2 * n) (drop 8 m))"
      using True by (intro compareMacro_eq assms(2)) simp
    have "int (n * 2) \<le> int (length m) - int 8" "(int (n * 2) = int (length m) - int 8) = (2 * n = length m - 8)"
      using True m by auto
    then have "matchMacro n m buf w = Some (if ?k = take (2 * n) (drop 8 m)
        then if 2 * n = length m - 8 then if b then FullMatch else NoMatch else PartialMatch else NoMatch)"
      unfolding matchMacro_def Let_def macro_sizes cmp b
      by (simp only: Option.bind.bind_lunit if_True) (simp split: if_split)
    moreover have "macroMatches w (macroPackets buf n) m = (if ?k = take (2 * n) (drop 8 m)
        then if 2 * n = length m - 8 then if b then FullMatch else NoMatch else PartialMatch else NoMatch)"
      unfolding macroMatches_def full l b by (cases b) auto
    ultimately show ?thesis by (simp only:)
  next
    case False
    then have "?k \<noteq> drop 8 m" "?k \<noteq> take (length ?k) (drop 8 m)" using l by (auto dest: arg_cong [where f = length])
    moreover have "\<not> int n * 2 \<le> int (length m) - 8" using False m by auto
    ultimately show ?thesis by (simp add: matchMacro_def macroMatches_def Let_def)
  qed
qed

subsection \<open>The macro buffer holds packets\<close>

lemma storeMacroPacket_packets:
  assumes "16 * Suc n \<le> length buf" "length p = 16"
  shows "\<exists>buf'. storeMacroPacket n p buf = Some buf' \<and> length buf' = length buf
    \<and> macroPackets buf' (Suc n) = macroPackets buf n @ [p]"
proof -
  let ?b = "take (n * 16) buf @ p @ drop (n * 16 + 16) buf"
  have "window 16 (i * 16) ?b = window 16 (i * 16) buf" if "i < n" for i
  proof -
    have "i * 16 + 16 \<le> n * 16" using that by simp
    then show ?thesis using assms by (simp add: window_def take_drop take_append drop_append)
  qed
  moreover have "window 16 (n * 16) ?b = p" using assms by (simp add: window_def)
  ultimately have "macroPackets ?b (Suc n) = macroPackets buf n @ [p]" by (simp add: macroPackets_def)
  then show ?thesis using assms by (intro exI [of _ ?b]) (simp add: storeMacroPacket_def)
qed

lemma dispatchAll_stable: "dispatchAll e ps s = Some s' \<Longrightarrow> stable s' = stable s"
  unfolding dispatchAll_def
  by (induction ps arbitrary: s) (auto simp: bind_eq_Some_conv dest: dispatch_stable)

lemma dispatchAll_defined:
  assumes "kbd_ok s" "\<forall>p \<in> set ps. length p = 16"
  shows "\<exists>s'. dispatchAll e ps s = Some s' \<and> kbd_ok s'"
  unfolding dispatchAll_def
proof (rule foldM_invariant)
  fix p and s :: "'a kbd"
  assume "p \<in> set ps" "kbd_ok s"
  then show "\<exists>s'. map_option snd (dispatchKeyboardEventWithPacket e p s) = Some s' \<and> kbd_ok s'"
    using dispatch_defined [of s p e] assms(2) by force
qed (rule assms)

lemma dispatchAll_put_macro:
  "dispatchAll e ps (put_macro b c t s) = map_option (put_macro b c t) (dispatchAll e ps s)"
  unfolding dispatchAll_def
proof (induction ps arbitrary: s)
  case (Cons p ps)
  then show ?case
    by (cases "dispatchKeyboardEventWithPacket e p s") (auto simp: macro_update.dispatch_commute)
qed simp

lemma dispatchBuffered_eq:
  "macroBuffer s = Some buf \<Longrightarrow> \<forall>i \<in> set is. i * 16 + 16 \<le> length buf \<Longrightarrow>
     dispatchBuffered e is s = dispatchAll e (map (\<lambda>i. window 16 (i * 16) buf) is) s"
proof (induction "is" arbitrary: s)
  case (Cons i "is")
  then have "dispatchBuffered e is s' = dispatchAll e (map (\<lambda>i. window 16 (i * 16) buf) is) s'"
    if "dispatchKeyboardEventWithPacket e (window 16 (i * 16) buf) s = Some (b, s')" for b s'
    using stable_sel(6) [OF dispatch_stable [OF that]] by simp
  then show ?case using Cons.prems
    by (cases "dispatchKeyboardEventWithPacket e (window 16 (i * 16) buf) s") (auto simp: macroPacket_def dispatchAll_def)
qed (simp add: dispatchAll_def)

lemma put_macro_cancel: "cancelMacroTimer (s\<lparr>macroCurrent := 0\<rparr>) = put_macro (macroBuffer s) 0 None s"
  by (simp add: cancelMacroTimer_def put_macro_def)

lemma dispatchInvertBuffer_eq:
  assumes "macroBuffer s = Some buf" "16 * macroCurrent s \<le> length buf"
  shows "dispatchInvertBuffer e s = map_option (put_macro (Some buf) 0 None) (dispatchAll e (pendingMacro s) s)"
proof -
  have "dispatchBuffered e [0..<macroCurrent s] s = dispatchAll e (pendingMacro s) s"
    using assms by (simp add: dispatchBuffered_eq pendingMacro_def macroPackets_def)
  moreover have "macroBuffer s' = Some buf" if "dispatchAll e (pendingMacro s) s = Some s'" for s'
    using stable_sel(6) [OF dispatchAll_stable [OF that]] assms(1) by simp
  ultimately show ?thesis
    by (cases "dispatchAll e (pendingMacro s) s") (simp_all add: dispatchInvertBuffer_def put_macro_cancel)
qed

lemma tryMacros_eq:
  assumes "macroBuffer s = Some buf" "\<forall>m \<in> set ms. validMacro m" "16 * n \<le> length buf"
  shows "tryMacros e n ms s =
    (case find (\<lambda>m. macroMatches (PS2modifierState s) (macroPackets buf n) m \<noteq> NoMatch) ms of
       None \<Rightarrow> Some (False, s)
     | Some m \<Rightarrow>
         if macroMatches (PS2modifierState s) (macroPackets buf n) m = FullMatch
         then map_option (Pair True) (outputMacro e m buf s)
         else Some (True, put_macro (Some buf) (macroCurrent s + 1) (Some (macroMaxTime s)) s))"
  using assms(2)
proof (induction ms)
  case (Cons m ms)
  have c: "matchMacro n m buf (PS2modifierState s) = Some (macroMatches (PS2modifierState s) (macroPackets buf n) m)"
    using matchMacro_eq [OF _ assms(3)] Cons.prems by simp
  have o: "(do { s \<leftarrow> outputMacro e m buf s; Some (True, s) }) = map_option (Pair True) (outputMacro e m buf s)"
    by (cases "outputMacro e m buf s") simp_all
  show ?case
    using Cons c assms(1) o
    by (cases "macroMatches (PS2modifierState s) (macroPackets buf n) m")
      (auto simp: setMacroTimer_def cancelMacroTimer_def put_macro_def)
qed simp

lemma outputMacro_eq:
  assumes "validMacro m" "16 \<le> length buf"
  shows "outputMacro e m buf s =
    map_option (put_macro (Some (buf[0 := m ! 2, 1 := m ! 3])) 0 None)
      (dispatchAll e [[m ! 2, m ! 3] @ drop 2 (take 16 buf)] s)"
proof -
  let ?b = "buf[0 := m ! 2, 1 := m ! 3]"
  have "2 < length m" "3 < length m" using assms(1) by (auto simp: validMacro_def)
  moreover have "macroPacket ?b 0 = Some ([m ! 2, m ! 3] @ drop 2 (take 16 buf))"
  proof -
    obtain x y zs where "buf = x # y # zs" using assms(2) by (cases buf; cases "tl buf") auto
    then show ?thesis using assms(2) by (simp add: macroPacket_def window_def)
  qed
  moreover have "s\<lparr>macroBuffer := Some ?b\<rparr> = put_macro (Some ?b) (macroCurrent s) (macroTimeout s) s"
    by (simp add: put_macro_def)
  moreover have "(cancelMacroTimer (put_macro b c t s))\<lparr>macroCurrent := 0\<rparr> = put_macro b 0 None s" for b c t and s :: "'a kbd"
    by (simp add: put_macro_def cancelMacroTimer_def)
  moreover have "0 < length buf" "1 < length buf" using assms(2) by auto
  ultimately show ?thesis
    by (cases "dispatchKeyboardEventWithPacket e ([m ! 2, m ! 3] @ drop 2 (take 16 buf)) s")
      (auto simp: outputMacro_def macro_update.dispatch_commute dispatchAll_def)
qed

lemma macros_okD:
  assumes "kbd_ok s" "macroBuffer s = Some buf"
  obtains ms where "macroInversion s = Some ms" "\<forall>m \<in> set ms. validMacro m \<and> int (length m) - 8 \<le> macroMax s"
    "length buf = nat (macroMax s) * 16" "macroCurrent s < nat (macroMax s)"
  using assms by (auto simp: kbd_ok_def macros_ok_def)

lemma pendingMacro_last:
  assumes "macroBuffer s = Some buf" "16 * macroCurrent s \<le> length buf" "0 < macroCurrent s"
  shows "macroPacket buf (macroCurrent s - 1) = Some (last (pendingMacro s))"
proof -
  obtain n where "macroCurrent s = Suc n" using assms(3) by (cases "macroCurrent s") auto
  then show ?thesis using assms by (simp add: macroPacket_def pendingMacro_def macroPackets_def)
qed

lemma pendingMacro_Nil: "macroBuffer s = Some buf \<Longrightarrow> pendingMacro s = [] \<longleftrightarrow> macroCurrent s = 0"
  by (simp add: pendingMacro_def macroPackets_def)

lemma flushExpired_eq:
  assumes "macroBuffer s = Some buf" "16 * macroCurrent s \<le> length buf"
  shows "flushExpired e (packet_time p) s =
    (if tooLate e p s then dispatchInvertBuffer e s else Some s)"
  using assms pendingMacro_last [OF assms]
  by (auto simp: flushExpired_def macroExpired_def tooLate_def pendingMacro_Nil)

lemma kbd_ok_put_macro:
  assumes "kbd_ok s" "macroBuffer s = Some buf" "length b = length buf" "c < nat (macroMax s)"
  shows "kbd_ok (put_macro (Some b) c t s)"
  using assms
  by (simp add: kbd_ok_def input_ok_def tables_ok_def levels_ok_def actions_ok_def macros_ok_def put_macro_def)

lemma put_macro_simps [simp]:
  "macroBuffer (put_macro b c t s) = b" "macroCurrent (put_macro b c t s) = c" "macroTimeout (put_macro b c t s) = t"
  "macroTimer (put_macro b c t s) = macroTimer s" "macroInversion (put_macro b c t s) = macroInversion s"
  "macroMax (put_macro b c t s) = macroMax s" "macroMaxTime (put_macro b c t s) = macroMaxTime s"
  "PS2modifierState (put_macro b c t s) = PS2modifierState s"
  "put_macro b c t (put_macro b' c' t' s) = put_macro b c t s"
  "put_macro (macroBuffer s) (macroCurrent s) (macroTimeout s) s = s"
  by (simp_all add: put_macro_def)

lemma put_macro_self: "put_macro (macroBuffer s) (macroCurrent s) (macroTimeout s) s = s"
  by simp

lemma pendingMacro_lengths:
  assumes "kbd_ok s"
  shows "\<forall>p \<in> set (pendingMacro s). length p = 16"
proof (cases "macroBuffer s")
  case (Some buf)
  obtain ms where "length buf = nat (macroMax s) * 16" "macroCurrent s < nat (macroMax s)"
    using macros_okD [OF assms Some] by blast
  then show ?thesis using macroPackets_lengths [of "macroCurrent s" buf] Some by (simp add: pendingMacro_def)
qed (simp add: pendingMacro_def)

lemma after_dispatchAll:
  assumes "kbd_ok s" "macroBuffer s = Some buf" "\<forall>p \<in> set ps. length p = 16"
  obtains s2 where "dispatchAll e ps s = Some s2"
    "\<And>b c t. length b = length buf \<Longrightarrow> c < nat (macroMax s) \<Longrightarrow> kbd_ok (put_macro (Some b) c t s2)"
proof -
  obtain s2 where s2: "dispatchAll e ps s = Some s2" "kbd_ok s2" using dispatchAll_defined [OF assms(1,3)] by blast
  note st = stable_sel [OF dispatchAll_stable [OF s2(1)]]
  show thesis using that [OF s2(1)] kbd_ok_put_macro [OF s2(2)] st assms(2) by simp
qed

lemma macroStep_cases:
  obtains (None) "find (\<lambda>m. macroMatches w (ps @ [p]) m \<noteq> NoMatch) ms = None" "macroStep w ms ps p = (ps @ [p], [])"
  | (Full) m where "find (\<lambda>m. macroMatches w (ps @ [p]) m \<noteq> NoMatch) ms = Some m" "m \<in> set ms"
      "macroMatches w (ps @ [p]) m = FullMatch"
      "macroStep w ms ps p = ([[m ! 2, m ! 3] @ drop 2 (hd (ps @ [p]))], [])"
  | (Partial) m where "find (\<lambda>m. macroMatches w (ps @ [p]) m \<noteq> NoMatch) ms = Some m" "m \<in> set ms"
      "macroMatches w (ps @ [p]) m = PartialMatch" "macroStep w ms ps p = ([], ps @ [p])"
proof (cases "find (\<lambda>m. macroMatches w (ps @ [p]) m \<noteq> NoMatch) ms")
  case None
  then show ?thesis using that(1) by (simp add: macroStep_def)
next
  case (Some m)
  then have "m \<in> set ms" "macroMatches w (ps @ [p]) m \<noteq> NoMatch" by (auto simp: find_Some_iff)
  then show ?thesis using that(2) [OF Some] that(3) [OF Some] Some
    by (cases "macroMatches w (ps @ [p]) m") (simp_all add: macroStep_def)
qed

lemma partial_room:
  assumes "macroMatches w ps m = PartialMatch" "\<forall>p \<in> set ps. length p = 16" "int (length m) - 8 \<le> k"
  shows "2 * length ps < nat k"
proof -
  have l: "length (keyData ps) = 2 * length ps" using length_keyData [of ps] assms(2) by auto
  have "keyData ps = take (length (keyData ps)) (drop 8 m)" "keyData ps \<noteq> drop 8 m"
    using assms(1) by (auto simp: macroMatches_def split: if_splits)
  then have "length (keyData ps) < length m - 8"
    by (metis length_drop linorder_not_less take_all)
  then show ?thesis using l assms(3) by linarith
qed

text \<open>The comparison with the macros, once expired packets are out of the way.\<close>

lemma tryMacros_step:
  assumes ok: "kbd_ok s" and buf: "macroBuffer s = Some buf" and ms: "macroInversion s = Some ms" and p: "length p = 16"
  defines "R \<equiv> macroStep (PS2modifierState s) ms (pendingMacro s) p"
  shows "\<exists>buf' s2 s'. storeMacroPacket (macroCurrent s) p buf = Some buf' \<and> dispatchAll e (fst R) s = Some s2
    \<and> do { (used, s) \<leftarrow> tryMacros e (macroCurrent s + 1) ms (s\<lparr>macroBuffer := Some buf'\<rparr>);
            (used, s) \<leftarrow> (if used then Some (True, s) else do { s \<leftarrow> flushMacros e s; Some (False, s) });
            if used then Some s else do { (_, s) \<leftarrow> dispatchKeyboardEventWithPacket e p s; Some s } } = Some s'
    \<and> s' = put_macro (macroBuffer s') (macroCurrent s') (macroTimeout s') s2 \<and> pendingMacro s' = snd R \<and> kbd_ok s'
    \<and> (pendingMacro s' \<noteq> [] \<longrightarrow> macroTimeout s' = Some (macroMaxTime s))"
proof -
  let ?n = "macroCurrent s" and ?ps = "pendingMacro s"
  obtain ms' where mo: "macroInversion s = Some ms'" "\<forall>m \<in> set ms'. validMacro m \<and> int (length m) - 8 \<le> macroMax s"
    "length buf = nat (macroMax s) * 16" "?n < nat (macroMax s)" using macros_okD [OF ok buf] .
  then have valid: "\<forall>m \<in> set ms. validMacro m" and room: "16 * Suc ?n \<le> length buf"
    and lens: "\<forall>m \<in> set ms. int (length m) - 8 \<le> macroMax s" using ms by auto
  obtain buf' where b': "storeMacroPacket ?n p buf = Some buf'" "length buf' = length buf"
    "macroPackets buf' (Suc ?n) = macroPackets buf ?n @ [p]" using storeMacroPacket_packets [OF room p] by blast
  have ps: "?ps = macroPackets buf ?n" by (simp add: pendingMacro_def buf)
  then have pk: "macroPackets buf' (Suc ?n) = ?ps @ [p]" using b' by simp
  have pl: "\<forall>p \<in> set (?ps @ [p]). length p = 16" using pendingMacro_lengths [OF ok] p by simp
  let ?s3 = "s\<lparr>macroBuffer := Some buf'\<rparr>"
  have s3: "?s3 = put_macro (Some buf') ?n (macroTimeout s) s" by (simp add: put_macro_def)
  have "16 * Suc ?n \<le> length buf'" using room b'(2) by simp
  note found = tryMacros_eq [of ?s3 buf' ms "Suc ?n" e, OF _ valid this, unfolded pk, simplified]
  show ?thesis
  proof (cases rule: macroStep_cases [of "PS2modifierState s" ?ps p ms])
    case None
    have pb: "macroPackets buf' ?n = ?ps" using pk by (simp add: macroPackets_def)
    obtain s2 where s2: "dispatchAll e (?ps @ [p]) s = Some s2"
      "\<And>b c t. length b = length buf \<Longrightarrow> c < nat (macroMax s) \<Longrightarrow> kbd_ok (put_macro (Some b) c t s2)"
      using after_dispatchAll [OF ok buf pl] by blast
    obtain sa b where sa: "dispatchAll e ?ps s = Some sa" "dispatchKeyboardEventWithPacket e p sa = Some (b, s2)"
      using s2(1) by (auto simp: dispatchAll_def foldM_append bind_eq_Some_conv)
    obtain t' where "flushMacros e ?s3 = Some (put_macro (Some buf') 0 t' sa)"
    proof (cases "?n = 0")
      case True
      then have "?ps = []" using pendingMacro_Nil [OF buf] by simp
      then have "sa = s" using sa(1) by (simp add: dispatchAll_def)
      then show ?thesis using that [of "macroTimeout s"] True by (simp add: flushMacros_def put_macro_def)
    next
      case False
      have "dispatchInvertBuffer e ?s3 = Some (put_macro (Some buf') 0 None sa)"
        using dispatchInvertBuffer_eq [of ?s3 buf' e] room b'(2) pb sa(1) unfolding s3
        by (simp add: pendingMacro_def dispatchAll_put_macro)
      then show ?thesis using that [of None] False by (simp add: flushMacros_def)
    qed
    then have "dispatchAll e (fst R) s = Some s2 \<and> (do { (used, s) \<leftarrow> tryMacros e (?n + 1) ms ?s3;
          (used, s) \<leftarrow> (if used then Some (True, s) else do { s \<leftarrow> flushMacros e s; Some (False, s) });
          if used then Some s else do { (_, s) \<leftarrow> dispatchKeyboardEventWithPacket e p s; Some s } })
        = Some (put_macro (Some buf') 0 t' s2)"
      using found None(1) sa(2) s2(1) None(2) by (simp add: R_def macro_update.dispatch_commute)
    moreover have "kbd_ok (put_macro (Some buf') 0 t' s2)" using s2(2) b'(2) mo(4) by simp
    ultimately show ?thesis using b'(1) None(2)
      by (intro exI [of _ buf'] exI [of _ s2] exI [of _ "put_macro (Some buf') 0 t' s2"])
        (simp add: R_def pendingMacro_def macroPackets_def)
  next
    case (Full m)
    let ?q = "[m ! 2, m ! 3] @ drop 2 (hd (?ps @ [p]))" and ?b = "buf'[0 := m ! 2, 1 := m ! 3]"
    have l16: "16 \<le> length buf'" using room b'(2) by simp
    have "hd (?ps @ [p]) = take 16 buf'" unfolding pk [symmetric] by (simp add: macroPackets_Suc)
    moreover have "length ?q = 16" using pl by (cases ?ps) auto
    then obtain s2 where s2: "dispatchAll e [?q] s = Some s2"
      "\<And>b c t. length b = length buf \<Longrightarrow> c < nat (macroMax s) \<Longrightarrow> kbd_ok (put_macro (Some b) c t s2)"
      using after_dispatchAll [OF ok buf, of "[?q]"] by auto
    ultimately have "outputMacro e m buf' ?s3 = Some (put_macro (Some ?b) 0 None s2)"
      using outputMacro_eq [OF _ l16, of m e ?s3] valid Full(2) unfolding s3 by (simp add: dispatchAll_put_macro)
    then have "tryMacros e (Suc ?n) ms ?s3 = Some (True, put_macro (Some ?b) 0 None s2)"
      using found Full(1,3) by simp
    moreover have "kbd_ok (put_macro (Some ?b) 0 None s2)" using s2(2) b'(2) mo(4) by simp
    ultimately show ?thesis using b'(1) Full(4) s2(1)
      by (intro exI [of _ buf'] exI [of _ s2] exI [of _ "put_macro (Some ?b) 0 None s2"])
        (simp add: R_def pendingMacro_def macroPackets_def)
  next
    case (Partial m)
    let ?s' = "put_macro (Some buf') (Suc ?n) (Some (macroMaxTime s)) s"
    have "Suc ?n < nat (macroMax s)"
      using partial_room [OF Partial(3) pl] lens Partial(2) ps by fastforce
    then have "kbd_ok ?s'" using kbd_ok_put_macro [OF ok buf b'(2)] by simp
    moreover have "pendingMacro ?s' = ?ps @ [p]" by (simp add: pendingMacro_def pk)
    moreover have "tryMacros e (Suc ?n) ms ?s3 = Some (True, ?s')"
      using found Partial by (simp add: put_macro_def)
    ultimately show ?thesis using b' Partial(4) unfolding R_def
      by (intro exI [of _ buf'] exI [of _ s] exI [of _ ?s']) (simp add: dispatchAll_def)
  qed
qed

text \<open>Packets that waited too long are sent before the new one is looked at.\<close>

lemma flushExpired_step:
  fixes e :: "'p kbd_env" and s :: "'p kbd" and p :: "u8 list"
  assumes ok: "kbd_ok s" and buf: "macroBuffer s = Some buf"
  defines "late \<equiv> tooLate e p s"
  shows "\<exists>s1 sb. dispatchAll e (if late then pendingMacro s else []) s = Some s1
    \<and> flushExpired e (packet_time p) s = Some sb \<and> kbd_ok sb \<and> macroBuffer sb = Some buf
    \<and> sb = put_macro (macroBuffer sb) (macroCurrent sb) (macroTimeout sb) s1
    \<and> pendingMacro sb = (if late then [] else pendingMacro s)"
proof -
  obtain ms where "length buf = nat (macroMax s) * 16" "macroCurrent s < nat (macroMax s)"
    using macros_okD [OF ok buf] by blast
  then have cur: "16 * macroCurrent s \<le> length buf" "0 < nat (macroMax s)" by linarith+
  note fl = flushExpired_eq [OF buf cur(1), of e p]
  show ?thesis
  proof (cases late)
    case True
    obtain s1 where s1: "dispatchAll e (pendingMacro s) s = Some s1"
      "\<And>b c t. length b = length buf \<Longrightarrow> c < nat (macroMax s) \<Longrightarrow> kbd_ok (put_macro (Some b) c t s1)"
      using after_dispatchAll [OF ok buf pendingMacro_lengths [OF ok]] by blast
    then show ?thesis using True fl cur s1(2) [of buf 0 None] dispatchInvertBuffer_eq [OF buf cur(1), of e]
      by (intro exI [of _ s1] exI [of _ "put_macro (Some buf) 0 None s1"])
        (simp add: late_def pendingMacro_def macroPackets_def)
  next
    case False
    then show ?thesis using fl ok buf put_macro_self [of s] by (intro exI [of _ s]) (simp add: late_def dispatchAll_def)
  qed
qed

lemma inputPacket_macros:
  fixes e :: "'p kbd_env" and s :: "'p kbd" and p :: "u8 list"
  assumes ok: "kbd_ok s" and timer: "macroTimer s" and buf: "macroBuffer s \<noteq> None" and ms: "macroInversion s = Some ms"
    and p: "length p = 16"
  defines "late \<equiv> tooLate e p s"
  shows "\<exists>s1 s2 s'. dispatchAll e (if late then pendingMacro s else []) s = Some s1
    \<and> dispatchAll e (fst (macroStep (PS2modifierState s1) ms (if late then [] else pendingMacro s) p)) s1 = Some s2
    \<and> inputPacket e p s = Some s' \<and> s' = put_macro (macroBuffer s') (macroCurrent s') (macroTimeout s') s2
    \<and> pendingMacro s' = snd (macroStep (PS2modifierState s1) ms (if late then [] else pendingMacro s) p) \<and> kbd_ok s'
    \<and> (pendingMacro s' \<noteq> [] \<longrightarrow> macroTimeout s' = Some (macroMaxTime s))"
proof -
  obtain b where b: "macroBuffer s = Some b" using buf by auto
  obtain s1 sb where 1: "dispatchAll e (if late then pendingMacro s else []) s = Some s1"
    "flushExpired e (packet_time p) s = Some sb" "kbd_ok sb" "macroBuffer sb = Some b"
    and sb: "sb = put_macro (macroBuffer sb) (macroCurrent sb) (macroTimeout sb) s1"
    and pend: "pendingMacro sb = (if late then [] else pendingMacro s)"
    using flushExpired_step [OF ok b, of e p] unfolding late_def by blast
  have w: "PS2modifierState sb = PS2modifierState s1" by (subst sb) simp
  have mb: "macroInversion sb = Some ms"
    by (subst sb) (use stable_sel(8) [OF dispatchAll_stable [OF 1(1)]] ms in simp)
  define R where "R = macroStep (PS2modifierState s1) ms (if late then [] else pendingMacro s) p"
  obtain b' s2 s' where 2: "storeMacroPacket (macroCurrent sb) p b = Some b'" "dispatchAll e (fst R) sb = Some s2"
    "do { (used, s) \<leftarrow> tryMacros e (macroCurrent sb + 1) ms (sb\<lparr>macroBuffer := Some b'\<rparr>);
            (used, s) \<leftarrow> (if used then Some (True, s) else do { s \<leftarrow> flushMacros e s; Some (False, s) });
            if used then Some s else do { (_, s) \<leftarrow> dispatchKeyboardEventWithPacket e p s; Some s } } = Some s'"
    "s' = put_macro (macroBuffer s') (macroCurrent s') (macroTimeout s') s2" "pendingMacro s' = snd R" "kbd_ok s'"
    "pendingMacro s' \<noteq> [] \<longrightarrow> macroTimeout s' = Some (macroMaxTime sb)"
    using tryMacros_step [OF 1(3,4) mb p, of e] unfolding w pend R_def by blast
  obtain s2' where s2': "dispatchAll e (fst R) s1 = Some s2'"
      "s2 = put_macro (macroBuffer sb) (macroCurrent sb) (macroTimeout sb) s2'"
    using 2(2) by (subst (asm) sb) (auto simp: dispatchAll_put_macro)
  have "inputPacket e p s = Some s'"
    using 1(2) 2(1,3) 1(4) mb ms timer b
    by (cases "tryMacros e (Suc (macroCurrent sb)) ms (sb\<lparr>macroBuffer := Some b'\<rparr>)")
      (auto simp: inputPacket_def invertMacros_def split: if_splits)
  moreover have "s' = put_macro (macroBuffer s') (macroCurrent s') (macroTimeout s') s2'"
    by (subst 2(4)) (simp add: s2'(2))
  moreover have "macroMaxTime sb = macroMaxTime s"
    by (subst sb) (use stable_sel(12) [OF dispatchAll_stable [OF 1(1)]] in simp)
  ultimately show ?thesis using 1(1) s2'(1) 2(5-7) unfolding R_def by metis
qed

end
