(* ===== verification/Kbd_Stream.thy ===== *)
theory Kbd_Stream
  imports Kbd_Macro
begin

text \<open>
  The stream of scan codes: the interrupt routine refines a decoder on a set of keys, the work loop handles every
  queued packet once and in order, and every entry point of the driver is defined and keeps the invariant.
\<close>

text \<open>
  The specification of the scan code decoder: from the last byte, the number of prefix bytes still
  to go and the set of the keys that are down, one byte gives the key data of a packet or none. An auto
  repeated key gives none.
\<close>

definition scanStep :: "(nat \<Rightarrow> bool) \<Rightarrow> u8 \<Rightarrow> u8 \<times> u8 \<times> nat set \<Rightarrow> (u8 \<times> u8) option \<times> u8 \<times> u8 \<times> nat set" where
  "scanStep breakless data st =
     (case st of (prev, ext, down) \<Rightarrow>
        if prev = kSC_Reset \<and> data = 0 then (Some (0, kSC_Reset), prev, 0, down)
        else if data = kSC_Acknowledge \<or> data = kSC_Resend then (None, data, ext, down)
        else if data = kSC_Extend then (None, data, 1, down)
        else if data = kSC_Pause then (None, data, 2, down)
        else if ext = 2 then (None, data, 1, down)
        else let key = unat ext * 256 + unat (data AND NOT kSC_UpBit)
             in if breakless key then (Some (ext + 1, data), data, 0, down)
                else if tst data kSC_UpBit then (Some (ext + 1, data), data, 0, down - {key})
                else if key \<in> down then (None, data, 0, down)
                else (Some (ext + 1, data), data, 0, insert key down))"

text \<open>The state of the decoder in the driver, and the packets in its queue.\<close>

definition scanState :: "'p kbd \<Rightarrow> u8 \<times> u8 \<times> nat set" where
  "scanState s = (lastdata s, extendCount s, keysDown (keyBitVector s))"

definition breaklessKey :: "'p kbd \<Rightarrow> nat \<Rightarrow> bool" where
  "breaklessKey s key = tst (PS2flags s ! key) kBreaklessKey"

definition queued :: "'p kbd \<Rightarrow> u8 list list" where
  "queued s = ring_packets 16 (ringBuffer s)"

text \<open>The packet with the given key data, stamped with the time of the clock.\<close>

definition newPacket :: "'p kbd_env \<Rightarrow> u8 \<times> u8 \<Rightarrow> 'p kbd \<Rightarrow> u8 list" where
  "newPacket e d s = key_packet (fst d) (snd d) (window 6 2 (ring_pending 16 (ringBuffer s))) (fst (clock_get_uptime e (plat s)))"

text \<open>A result of the interrupt routine agrees with a result of the specification.\<close>

definition scanRefines :: "'p kbd_env \<Rightarrow> 'p kbd \<Rightarrow> (u8 \<times> u8) option \<times> u8 \<times> u8 \<times> nat set \<Rightarrow> PS2InterruptResult \<times> 'p kbd \<Rightarrow> bool" where
  "scanRefines e s R r \<longleftrightarrow> fst r = (if fst R = None then kPS2IR_packetBuffering else kPS2IR_packetReady)
    \<and> scanState (snd r) = snd R
    \<and> queued (snd r) = (case fst R of None \<Rightarrow> queued s
         | Some d \<Rightarrow> if ring_full 16 (ringBuffer s) then queued s else queued s @ [newPacket e d s])"

lemma kbd_ok_input_upd [simp]:
  "kbd_ok (s\<lparr>lastdata := a\<rparr>) = kbd_ok s"
  "kbd_ok (s\<lparr>macroTimeout := b\<rparr>) = kbd_ok s"
  "kbd_ok (s\<lparr>plat := p\<rparr>) = kbd_ok s"
  by (simp_all add: kbd_ok_def input_ok_def tables_ok_def levels_ok_def actions_ok_def macros_ok_def)

lemma enqueueKey_eq:
  "enqueueKey e b0 b1 s = s\<lparr>ringBuffer := queuePacket b0 b1 (fst (clock_get_uptime e (plat s))) (ringBuffer s),
     plat := snd (clock_get_uptime e (plat s))\<rparr>"
  by (simp add: enqueueKey_def lift_plat_def Let_def case_prod_beta)

lemma enqueueKey_queued:
  assumes "kbd_ok s"
  shows "queued (enqueueKey e b0 b1 s) =
      (if ring_full 16 (ringBuffer s) then queued s else queued s @ [newPacket e (b0, b1) s])"
    and "kbd_ok (enqueueKey e b0 b1 s)"
    and "lastdata (enqueueKey e b0 b1 s) = lastdata s" "extendCount (enqueueKey e b0 b1 s) = extendCount s"
    "keyBitVector (enqueueKey e b0 b1 s) = keyBitVector s"
proof -
  have r: "ring_aligned 16 (ringBuffer s)" "ring_N (ringBuffer s) = 512" using assms by (simp_all add: kbd_ok_def input_ok_def)
  note q = queuePacket_packets [OF r(1)]
  show "queued (enqueueKey e b0 b1 s) =
      (if ring_full 16 (ringBuffer s) then queued s else queued s @ [newPacket e (b0, b1) s])"
    by (simp add: enqueueKey_eq queued_def newPacket_def q)
  show "kbd_ok (enqueueKey e b0 b1 s)"
    using assms q(2,3) r by (simp add: enqueueKey_eq kbd_ok_def input_ok_def tables_ok_def levels_ok_def actions_ok_def macros_ok_def)
qed (simp_all add: enqueueKey_eq)

lemma kbd_ok_ext: "kbd_ok s \<Longrightarrow> b \<le> 2 \<Longrightarrow> kbd_ok (s\<lparr>extendCount := b\<rparr>)"
  by (simp add: kbd_ok_def input_ok_def tables_ok_def levels_ok_def actions_ok_def macros_ok_def)

lemma kbd_ok_vec: "kbd_ok s \<Longrightarrow> length v = 16 \<Longrightarrow> kbd_ok (s\<lparr>keyBitVector := v\<rparr>)"
  by (simp add: kbd_ok_def input_ok_def tables_ok_def levels_ok_def actions_ok_def macros_ok_def)

text \<open>The byte that completes a scan code.\<close>

lemma scanCodeComplete_step:
  fixes s :: "'p kbd" and extended data :: u8
  assumes ok: "kbd_ok s" and ext: "extended \<le> 1" and e0: "extendCount s = 0"
  defines "key \<equiv> unat extended * 256 + unat (data AND NOT kSC_UpBit)"
  defines "D \<equiv> keysDown (keyBitVector s)"
  shows "\<exists>s'. scanCodeComplete e extended data s =
      Some (if \<not> breaklessKey s key \<and> \<not> tst data kSC_UpBit \<and> key \<in> D then kPS2IR_packetBuffering else kPS2IR_packetReady, s')
    \<and> kbd_ok s' \<and> lastdata s' = lastdata s \<and> extendCount s' = 0
    \<and> keysDown (keyBitVector s') = (if breaklessKey s key then D else if tst data kSC_UpBit then D - {key} else insert key D)
    \<and> queued s' = (if \<not> breaklessKey s key \<and> \<not> tst data kSC_UpBit \<and> key \<in> D \<or> ring_full 16 (ringBuffer s) then queued s
                    else queued s @ [newPacket e (extended + 1, data) s])"
proof -
  have "unat extended \<le> 1" using ext by (simp add: word_le_nat_alt)
  then have key: "key < 512" using scan_bound [of data] by (auto simp: key_def)
  then have k32: "key < 32 * length (keyBitVector s)" using kbd_ok_tables(7) [OF ok] by simp
  have f: "at (PS2flags s) key = Some (PS2flags s ! key)" using key kbd_ok_tables(3) [OF ok] by simp
  obtain v where v: "KBV_KEYDOWN key (keyBitVector s) = Some v" "length v = 16" "keysDown v = insert key D"
    using KBV_KEYDOWN_set [OF k32] kbd_ok_tables(7) [OF ok] by (auto simp: D_def)
  obtain u where u: "KBV_KEYUP key (keyBitVector s) = Some u" "length u = 16" "keysDown u = D - {key}"
    using KBV_KEYUP_set [OF k32] kbd_ok_tables(7) [OF ok] by (auto simp: D_def)
  have i: "KBV_IS_KEYDOWN key (keyBitVector s) = Some (key \<in> D)" using KBV_IS_KEYDOWN_set [OF k32] by (simp add: D_def)
  have n: "queued (s\<lparr>keyBitVector := w\<rparr>) = queued s" "newPacket e d (s\<lparr>keyBitVector := w\<rparr>) = newPacket e d s" for w d
    by (simp_all add: queued_def newPacket_def)
  note q = enqueueKey_queued [OF ok, of e] enqueueKey_queued [OF kbd_ok_vec [OF ok v(2)], of e]
    enqueueKey_queued [OF kbd_ok_vec [OF ok u(2)], of e]
  show ?thesis unfolding scanCodeComplete_def key_def [symmetric] Let_def f Option.bind.bind_lunit
    using v u i ok e0 q n by (cases "breaklessKey s key"; cases "tst data kSC_UpBit"; cases "key \<in> D")
      (simp_all add: breaklessKey_def D_def insert_absorb)
qed

lemma extend_cases: "(x :: u8) \<le> 2 \<Longrightarrow> x = 0 \<or> x = 1 \<or> x = 2"
proof -
  assume "x \<le> 2"
  then have "unat x = 0 \<or> unat x = 1 \<or> unat x = 2" by (auto simp: word_le_nat_alt)
  then show ?thesis by (auto simp: word_unat_eq_iff)
qed

lemma scanState_upd:
  "queued (s\<lparr>lastdata := a\<rparr>) = queued s" "queued (s\<lparr>extendCount := b\<rparr>) = queued s"
  "scanState (s\<lparr>lastdata := a\<rparr>) = (a, snd (scanState s))"
  "scanState (s\<lparr>extendCount := b\<rparr>) = (fst (scanState s), b, snd (snd (scanState s)))"
  "newPacket e d (s\<lparr>lastdata := a\<rparr>) = newPacket e d s" "newPacket e d (s\<lparr>extendCount := b\<rparr>) = newPacket e d s"
  "breaklessKey (s\<lparr>lastdata := a\<rparr>) = breaklessKey s" "breaklessKey (s\<lparr>extendCount := b\<rparr>) = breaklessKey s"
  by (simp_all add: queued_def scanState_def newPacket_def breaklessKey_def fun_eq_iff)

lemma interruptOccurred_step:
  assumes ok: "kbd_ok s"
  shows "\<exists>r. interruptOccurred e data s = Some r \<and> kbd_ok (snd r)
    \<and> scanRefines e s (scanStep (breaklessKey s) data (scanState s)) r"
proof -
  let ?s = "s\<lparr>lastdata := data\<rparr>" and ?x = "extendCount s"
  have x2: "?x \<le> 2" using ok by (simp add: kbd_ok_def input_ok_def)
  consider (reset) "lastdata s = kSC_Reset \<and> data = 0"
    | (code) "\<not> (lastdata s = kSC_Reset \<and> data = 0)" "data \<notin> {kSC_Acknowledge, kSC_Resend, kSC_Extend, kSC_Pause}" "?x \<noteq> 2"
    | (other) "\<not> (lastdata s = kSC_Reset \<and> data = 0)" "data \<in> {kSC_Acknowledge, kSC_Resend, kSC_Extend, kSC_Pause} \<or> ?x = 2"
    by blast
  then show ?thesis
  proof cases
    case reset
    then show ?thesis
      using enqueueKey_queued [OF ok, of e 0 kSC_Reset] kbd_ok_ext [OF enqueueKey_queued(2) [OF ok], of 0 e 0 kSC_Reset]
      by (simp add: interruptOccurred_def scanStep_def scanState_def scanRefines_def queued_def)
  next
    case code
    then have x: "?x = 0 \<or> ?x = 1" using extend_cases [OF x2] by blast
    let ?s0 = "if ?x = 0 then ?s else ?s\<lparr>extendCount := ?x - 1\<rparr>"
    have s0: "kbd_ok ?s0" "extendCount ?s0 = 0" "breaklessKey ?s0 = breaklessKey s" "keyBitVector ?s0 = keyBitVector s"
      "queued ?s0 = queued s" "newPacket e d ?s0 = newPacket e d s" "ringBuffer ?s0 = ringBuffer s" "lastdata ?s0 = data" for d
      using ok x by (auto simp: kbd_ok_ext scanState_upd)
    have i: "interruptOccurred e data s = scanCodeComplete e ?x data ?s0"
      using code s0(2) unfolding interruptOccurred_def Let_def by auto
    have x1: "?x \<le> 1" using x by auto
    show ?thesis unfolding i
      using scanCodeComplete_step [OF s0(1) x1 s0(2), of e data] code unfolding s0(3-8)
      by (auto simp: scanRefines_def scanStep_def scanState_def Let_def insert_absorb)
  next
    case other
    have e3: "kbd_ok (?s\<lparr>extendCount := b\<rparr>)" if "b \<in> {1, 2}" for b
      using kbd_ok_ext [of ?s b] ok that by auto
    show ?thesis
    proof (cases "data \<in> {kSC_Acknowledge, kSC_Resend, kSC_Extend, kSC_Pause}")
      case True
      then consider "data = kSC_Acknowledge" | "data = kSC_Resend" | "data = kSC_Extend" | "data = kSC_Pause" by blast
      then show ?thesis using e3 [of 1] e3 [of 2] ok
        by cases (simp_all add: interruptOccurred_def scanRefines_def scanStep_def scanState_def queued_def Let_def ps2_const)
    next
      case False
      then have "?x = 2" using other(2) by blast
      then show ?thesis using other(1) False e3 [of 1]
        by (cases "lastdata s = kSC_Reset")
          (simp_all add: interruptOccurred_def scanRefines_def scanStep_def scanState_def queued_def Let_def)
    qed
  qed
qed

subsection \<open>The work loop\<close>

lemma inputPacket_ok:
  assumes "kbd_ok s" "length p = 16"
  shows "\<exists>s'. inputPacket e p s = Some s' \<and> kbd_ok s'"
proof (cases "macroInversion s \<noteq> None \<and> macroTimer s \<and> macroBuffer s \<noteq> None")
  case True
  then obtain ms where "macroInversion s = Some ms" by auto
  then show ?thesis using inputPacket_macros [OF assms(1) _ _ _ assms(2)] True by blast
next
  case False
  then have "(if macroInversion s = None then Some (False, s) else invertMacros e p s) = Some (False, s)"
    by (auto simp: invertMacros_def)
  then have "inputPacket e p s = map_option snd (dispatchKeyboardEventWithPacket e p s)"
    by (simp add: inputPacket_def map_option_case split: option.split)
  then show ?thesis using dispatch_defined [OF assms, of e] by auto
qed

lemma handlePacket_ok:
  assumes "kbd_ok s" "length p = 16"
  shows "\<exists>s'. handlePacket e p s = Some s' \<and> kbd_ok s'"
  using inputPacket_ok [OF assms, of e] assms by (simp add: handlePacket_def)

lemma queued_lengths: "kbd_ok s \<Longrightarrow> \<forall>p \<in> set (queued s). length p = 16"
  using ring_packets_lengths [of 16 "ringBuffer s"] by (simp add: queued_def kbd_ok_def input_ok_def)

lemma kbd_ok_put_ring:
  "kbd_ok s \<Longrightarrow> ring_aligned 16 r \<Longrightarrow> ring_N r = 512 \<Longrightarrow> kbd_ok (put_ring r s)"
  by (simp add: kbd_ok_def input_ok_def tables_ok_def levels_ok_def actions_ok_def macros_ok_def put_ring_def)

lemma queued_put_ring [simp]: "queued (put_ring r s) = ring_packets 16 r"
  by (simp add: queued_def put_ring_def)

lemma packetReady_step:
  assumes "kbd_ok s"
  shows "\<exists>r s'. foldM (handlePacket e) (queued s) s = Some s' \<and> packetReady e s = Some (put_ring r s')
    \<and> queued (put_ring r s') = [] \<and> kbd_ok (put_ring r s')"
proof -
  have al: "ring_aligned 16 (ringBuffer s) \<and> ring_N (ringBuffer s) = 512" using assms by (simp add: kbd_ok_def input_ok_def)
  obtain r where r: "packetReady e s = map_option (put_ring r) (foldM (handlePacket e) (queued s) s)"
    "ring_aligned 16 r \<and> ring_N r = 512" "ring_packets 16 r = []"
    using kbd_client.drain_all [OF al, of e] unfolding packetReady_def queued_def put_ring_def by auto
  obtain s' where s': "foldM (handlePacket e) (queued s) s = Some s' \<and> kbd_ok s'"
    using foldM_invariant [of "queued s" kbd_ok "handlePacket e" s] handlePacket_ok queued_lengths [OF assms] assms by blast
  then show ?thesis using r kbd_ok_put_ring [of s' r] by (intro exI [of _ r] exI [of _ s']) simp
qed

lemma flushExpired_ok:
  assumes "kbd_ok s"
  shows "\<exists>s'. flushExpired e t s = Some s' \<and> kbd_ok s'"
proof (cases "macroBuffer s")
  case None
  then have "macroCurrent s = 0" using assms by (simp add: kbd_ok_def macros_ok_def)
  then show ?thesis using assms by (simp add: flushExpired_def)
next
  case (Some buf)
  have "packet_time (key_packet 0 0 (replicate 6 0) t) = t" by simp
  then show ?thesis using flushExpired_step [OF assms Some, of e "key_packet 0 0 (replicate 6 0) t"] by metis
qed

lemma kbd_ok_lift [simp]: "kbd_ok (snd (lift_plat f s)) = kbd_ok s"
  by (rule kbd_ok_cong) simp

lemma onMacroTimer_ok:
  assumes "kbd_ok s"
  shows "\<exists>s'. onMacroTimer e s = Some s' \<and> kbd_ok s'"
proof -
  obtain s1 where "packetReady e s = Some s1" "kbd_ok s1" using packetReady_step [OF assms] by blast
  then show ?thesis using flushExpired_ok [of "snd (lift_plat (clock_get_uptime e) s1)"]
    by (simp add: onMacroTimer_def case_prod_beta)
qed

lemma sendKeySequence_ok:
  "0 \<in> set keys \<Longrightarrow> kbd_ok s \<Longrightarrow> \<exists>s'. sendKeySequence e keys s = Some s' \<and> kbd_ok s'"
proof (induction keys arbitrary: s)
  case (Cons k keys)
  then show ?case by (auto simp: Let_def case_prod_beta)
qed simp

lemma stampAndInput_ok: "kbd_ok s \<Longrightarrow> \<exists>s'. stampAndInput e u b0 b1 s = Some s' \<and> kbd_ok s'"
  using inputPacket_ok [of "snd (lift_plat (clock_get_uptime e) s)"] by (simp add: stampAndInput_def case_prod_beta)

lemma message_ok:
  assumes "kbd_ok s"
  shows "\<exists>s'. message e u m s = Some s' \<and> kbd_ok s'"
proof -
  have acts: "0 \<in> set (actionSwipeUp s)" "0 \<in> set (actionSwipeDown s)" "0 \<in> set (actionSwipeLeft s)" "0 \<in> set (actionSwipeRight s)"
    using assms by (simp_all add: kbd_ok_def actions_ok_def)
  have two: "\<exists>s'. (do { s \<leftarrow> stampAndInput e u a b s; stampAndInput e u a c s }) = Some s' \<and> kbd_ok s'" for a b c
    using stampAndInput_ok [OF assms, of e u a b] stampAndInput_ok [of _ e u a c] by fastforce
  show ?thesis
    using sendKeySequence_ok [OF _ assms] acts assms stampAndInput_ok [OF assms] two
    by (simp add: message_def Let_def split: kbd_message.split PS2Message.split option.split)
qed

end
