(* ===== verification/Kbd_Config_Safe.thy ===== *)
theory Kbd_Config_Safe
  imports Kbd_Stream
begin

text \<open>
  The configuration of the keyboard driver keeps its invariant, and the driver as a whole never
  accesses an array out of bounds, whatever the configuration, the bytes and the messages.
\<close>

text \<open>What can happen to the driver after it has started, in any order: a byte at interrupt time, the work loop,
  the two timers, a message, a change of the parameters.\<close>

datatype kbd_event =
    Byte u8
  | WorkLoop
  | MacroTimer
  | SleepEjectTimer
  | Message kbd_message
  | SetParams "dict option"

fun kbd_apply :: "'p kbd_env \<Rightarrow> (nat \<Rightarrow> u8) \<Rightarrow> kbd_event \<Rightarrow> 'p kbd \<Rightarrow> 'p kbd option" where
  "kbd_apply e mem (Byte data) s = map_option snd (interruptOccurred e data s)"
| "kbd_apply e mem WorkLoop s = packetReady e s"
| "kbd_apply e mem MacroTimer s = onMacroTimer e s"
| "kbd_apply e mem SleepEjectTimer s = Some (onSleepEjectTimer e s)"
| "kbd_apply e mem (Message m) s = message e mem m s"
| "kbd_apply e mem (SetParams d) s = setParamPropertiesGated d s"

lemma scanIndex_bound: "scanIndex ex low < 512"
  using unsigned_less [of low, where ?'a = nat] by (simp add: scanIndex_def)

lemma customPS2Entry_ok:
  assumes "length t = 512" "\<forall>c \<in> set t. unat c < 512"
  shows "\<exists>t'. customPS2Entry obj t = Some t' \<and> length t' = 512 \<and> (\<forall>c \<in> set t'. unat c < 512)"
proof -
  have "unat (word_of_nat (scanIndex a b) :: u16) < 512" for a b
    using scanIndex_bound [of a b] by (simp add: unat_of_nat)
  then have "\<forall>c \<in> set (t[i := word_of_nat (scanIndex a b)]). unat c < 512" for i a b
    using assms(2) set_update_subset_insert [of t i "word_of_nat (scanIndex a b)"] by auto
  then show ?thesis using assms scanIndex_bound
    by (auto simp: customPS2Entry_def split: option.split)
qed

lemma loadCustomPS2Map_ok:
  assumes "kbd_ok s"
  shows "\<exists>s'. loadCustomPS2Map arr s = Some s' \<and> kbd_ok s'"
proof (cases arr)
  case (Some objs)
  have t: "length (PS2ToPS2Map s) = 512 \<and> (\<forall>c \<in> set (PS2ToPS2Map s). unat c < 512)"
    using assms by (simp add: kbd_ok_def tables_ok_def)
  obtain t' where "foldM customPS2Entry objs (PS2ToPS2Map s) = Some t'" "length t' = 512 \<and> (\<forall>c \<in> set t'. unat c < 512)"
    using foldM_invariant [of objs "\<lambda>t. length t = 512 \<and> (\<forall>c \<in> set t. unat c < 512)" customPS2Entry, OF _ t] customPS2Entry_ok
    by blast
  then show ?thesis using Some assms
    by (simp add: loadCustomPS2Map_def kbd_ok_def input_ok_def tables_ok_def levels_ok_def actions_ok_def macros_ok_def)
qed (simp add: loadCustomPS2Map_def assms)

lemma breaklessEntry_ok:
  assumes "length t = 512" "\<forall>f \<in> set t. drop_bit 8 f \<le> 16"
  shows "\<exists>t'. breaklessEntry obj t = Some t' \<and> length t' = 512 \<and> (\<forall>f \<in> set t'. drop_bit 8 f \<le> 16)"
proof -
  have b: "drop_bit 8 (f OR kBreaklessKey) = drop_bit 8 f" for f
    by (simp add: kBreaklessKey_def drop_bit_or)
  have "\<forall>f \<in> set (t[i := t ! i OR kBreaklessKey]). drop_bit 8 f \<le> 16" if "i < 512" for i
  proof -
    have "drop_bit 8 (t ! i) \<le> 16" using assms that by simp
    then show ?thesis using assms(2) set_update_subset_insert [of t i "t ! i OR kBreaklessKey"] b by auto
  qed
  then show ?thesis using assms scanIndex_bound
    by (auto simp: breaklessEntry_def Let_def split: option.split)
qed

lemma loadBreaklessPS2_ok:
  assumes "kbd_ok s"
  shows "\<exists>s'. loadBreaklessPS2 d name s = Some s' \<and> kbd_ok s'"
proof (cases "asArray (getObject d name)")
  case (Some objs)
  have t: "length (PS2flags s) = 512 \<and> (\<forall>f \<in> set (PS2flags s). drop_bit 8 f \<le> 16)"
    using assms by (simp add: kbd_ok_def tables_ok_def)
  obtain t' where "foldM breaklessEntry objs (PS2flags s) = Some t'" "length t' = 512 \<and> (\<forall>f \<in> set t'. drop_bit 8 f \<le> 16)"
    using foldM_invariant [of objs "\<lambda>t. length t = 512 \<and> (\<forall>f \<in> set t. drop_bit 8 f \<le> 16)" breaklessEntry, OF _ t] breaklessEntry_ok
    by blast
  then show ?thesis using Some assms
    by (simp add: loadBreaklessPS2_def kbd_ok_def input_ok_def tables_ok_def levels_ok_def actions_ok_def macros_ok_def)
qed (simp add: loadBreaklessPS2_def assms)

lemma customADBEntry_ok: "length t = 512 \<Longrightarrow> \<exists>t'. customADBEntry obj t = Some t' \<and> length t' = 512"
  using scanIndex_bound by (auto simp: customADBEntry_def split: option.split)

lemma loadCustomADBMap_ok:
  assumes "kbd_ok s"
  shows "\<exists>s'. loadCustomADBMap d name s = Some s' \<and> kbd_ok s'"
proof (cases "asArray (getObject d name)")
  case (Some objs)
  have t: "length (PS2ToADBMapMapped s) = 512"
    using assms by (simp add: kbd_ok_def tables_ok_def)
  obtain t' where "foldM customADBEntry objs (PS2ToADBMapMapped s) = Some t'" "length t' = 512"
    using foldM_invariant [of objs "\<lambda>t. length t = 512" customADBEntry, OF _ t] customADBEntry_ok by blast
  then show ?thesis using Some assms
    by (simp add: loadCustomADBMap_def kbd_ok_def input_ok_def tables_ok_def levels_ok_def actions_ok_def macros_ok_def)
qed (simp add: loadCustomADBMap_def assms)

lemma setADB_ok: "kbd_ok s \<Longrightarrow> i < 512 \<Longrightarrow> \<exists>s'. setADB i v s = Some s' \<and> kbd_ok s'"
  by (simp add: setADB_def kbd_ok_def input_ok_def tables_ok_def levels_ok_def actions_ok_def macros_ok_def)

lemma copyADB_ok: "kbd_ok s \<Longrightarrow> i < 512 \<Longrightarrow> j < 512 \<Longrightarrow> \<exists>s'. copyADB i j s = Some s' \<and> kbd_ok s'"
  using setADB_ok [of s i "PS2ToADBMapMapped s ! j"] kbd_ok_tables(6) [of s] by (simp add: copyADB_def)

lemma ok_bind: "\<exists>s'. m = Some s' \<and> kbd_ok s' \<Longrightarrow> (\<And>s. kbd_ok s \<Longrightarrow> \<exists>s'. f s = Some s' \<and> kbd_ok s')
    \<Longrightarrow> \<exists>s'. (m \<bind> f) = Some s' \<and> kbd_ok s'"
  by auto

lemma exchangeADB_ok: "kbd_ok s \<Longrightarrow> i < 512 \<Longrightarrow> j < 512 \<Longrightarrow> \<exists>s'. exchangeADB b i j s = Some s' \<and> kbd_ok s'"
  unfolding exchangeADB_def by (auto intro!: ok_bind copyADB_ok)

lemma onBoolean_ok: "kbd_ok s \<Longrightarrow> (\<And>b. \<exists>s'. f b s = Some s' \<and> kbd_ok s') \<Longrightarrow> \<exists>s'. onBoolean d n f s = Some s' \<and> kbd_ok s'"
  by (simp add: onBoolean_def split: option.split)

lemma kbd_ok_param_upd:
  "kbd_ok (s\<lparr>maxsleeppresstime := a\<rparr>) = kbd_ok s" "kbd_ok (s\<lparr>f12ejectdelay := a\<rparr>) = kbd_ok s"
  "kbd_ok (s\<lparr>macroMaxTime := t\<rparr>) = kbd_ok s" "kbd_ok (s\<lparr>fkeymode := a\<rparr>) = kbd_ok s"
  "kbd_ok (s\<lparr>swapcommandoption := b\<rparr>) = kbd_ok s" "kbd_ok (s\<lparr>brightnessHack := b\<rparr>) = kbd_ok s"
  "kbd_ok (s\<lparr>logscancodes := a\<rparr>) = kbd_ok s" "kbd_ok (s\<lparr>keysStandard := k\<rparr>) = kbd_ok s"
  "kbd_ok (s\<lparr>keysSpecial := k\<rparr>) = kbd_ok s" "kbd_ok (s\<lparr>fkeymodesupported := b\<rparr>) = kbd_ok s"
  "kbd_ok (s\<lparr>macroTimer := b\<rparr>) = kbd_ok s" "kbd_ok (s\<lparr>provider := b\<rparr>) = kbd_ok s"
  by (simp_all add: kbd_ok_def input_ok_def tables_ok_def levels_ok_def actions_ok_def macros_ok_def)

lemma paramTimes_ok [simp]: "kbd_ok (paramTimes d s) = kbd_ok s"
  by (simp add: paramTimes_def Let_def kbd_ok_param_upd split: option.split)

lemma paramFKeyMode_ok: "kbd_ok s \<Longrightarrow> \<exists>s'. paramFKeyMode d s = Some s' \<and> kbd_ok s'"
  by (simp add: paramFKeyMode_def Let_def kbd_ok_param_upd loadCustomPS2Map_ok split: option.split)

lemma paramADB_ok:
  assumes "kbd_ok s"
  shows "\<exists>s'. paramSwapCaps d s = Some s' \<and> kbd_ok s'" "\<exists>s'. paramSwapCommand d s = Some s' \<and> kbd_ok s'"
    "\<exists>s'. paramBrightnessHack d s = Some s' \<and> kbd_ok s'" "\<exists>s'. paramHangul d s = Some s' \<and> kbd_ok s'"
    "\<exists>s'. paramISO d s = Some s' \<and> kbd_ok s'"
  unfolding paramSwapCaps_def paramSwapCommand_def paramBrightnessHack_def paramHangul_def paramISO_def Let_def
  using assms by (auto intro!: onBoolean_ok ok_bind exchangeADB_ok copyADB_ok simp: kbd_ok_param_upd)

lemma paramApplicationKey_ok: "kbd_ok s \<Longrightarrow> \<exists>s'. paramApplicationKey d s = Some s' \<and> kbd_ok s'"
  unfolding paramApplicationKey_def Let_def
  by (intro ok_bind onBoolean_ok) (auto intro!: setADB_ok copyADB_ok)

subsection \<open>Swipe actions\<close>

lemma parseAction_loop_ends:
  "length dest = sz \<Longrightarrow> 0 < sz \<Longrightarrow>
     length (snd (parseAction_loop psz i dest sz)) = sz \<and> 0 \<in> set (snd (parseAction_loop psz i dest sz))"
proof (induction psz i dest sz rule: parseAction_loop.induct)
  case (1 psz i dest sz)
  have e: "length (snd (parseAction_error d)) = sz \<and> 0 \<in> set (snd (parseAction_error d))" if "length d = sz" for d
    using that "1.prems"(2) by (cases d) (simp_all add: parseAction_error_def)
  have f: "length (snd (parseAction_finish j d sz)) = sz \<and> 0 \<in> set (snd (parseAction_finish j d sz))" if "length d = sz" for j d
    using that e [OF that] by (auto simp: parseAction_finish_def set_update_memI)
  show ?case
    using 1 e f
    by (subst (1 2) parseAction_loop.simps) (auto simp: Let_def split: option.split list.split)
qed

lemma paramAction_ok: "length a = 16 \<and> 0 \<in> set a \<Longrightarrow> length (paramAction d n a) = 16 \<and> 0 \<in> set (paramAction d n a)"
  using parseAction_loop_ends [of a 16] by (auto simp: paramAction_def parseAction_def actionArray_def split: option.split)

lemma paramActions_ok: "kbd_ok s \<Longrightarrow> kbd_ok (paramActions d s)"
  by (simp add: kbd_ok_def input_ok_def tables_ok_def levels_ok_def macros_ok_def paramActions_def actions_ok_def paramAction_ok actionArray_def)

lemma setParamPropertiesGated_ok: "kbd_ok s \<Longrightarrow> \<exists>s'. setParamPropertiesGated d s = Some s' \<and> kbd_ok s'"
  unfolding setParamPropertiesGated_def
  by (auto split: option.split intro!: ok_bind paramFKeyMode_ok paramADB_ok paramApplicationKey_ok paramActions_ok
      simp: paramLog_def kbd_ok_param_upd)

subsection \<open>From init to the first key\<close>

lemma ring_init_ok: "ring_aligned 16 (ring_init 512)" "ring_N (ring_init 512) = 512"
  by (simp_all add: ring_aligned_def ring_ok_def ring_init_def ring_reset_def ring_N_def)

lemma stock_flags: "\<forall>f \<in> set PS2flagsStock. drop_bit 8 f \<le> 16"
  by code_simp

lemma init_kbd_ok: "kbd_ok (init_kbd p)"
proof -
  have "\<forall>c \<in> set (map word_of_nat [0..<512] :: u16 list). unat c < 512"
    by (auto simp: unat_of_nat)
  moreover have "length (defaultAction psz) = 16 \<and> 0 \<in> set (defaultAction psz)" for psz
    using parseAction_loop_ends [of "replicate 16 0" 16 psz 0]
    by (simp add: defaultAction_def parseAction_def actionArray_def)
  ultimately show ?thesis
    using ring_init_ok stock_flags
    by (simp add: kbd_ok_def input_ok_def tables_ok_def levels_ok_def actions_ok_def macros_ok_def init_kbd_def actionArray_def)
qed

lemma loadMacroData_valid:
  "loadMacroData d n = Some ms \<Longrightarrow> ms \<noteq> [] \<and> (\<forall>m \<in> set ms. validMacro m)"
  by (auto simp: loadMacroData_def Let_def split: option.splits if_splits)

lemma fold_max_bounds:
  "k \<le> fold (\<lambda>p. max (g p)) ms k \<and> (\<forall>m \<in> set ms. g m \<le> fold (\<lambda>p. max (g p)) ms (k :: int))"
proof (induction ms arbitrary: k)
  case (Cons p ms)
  from Cons [of "max (g p) k"] show ?case by (auto simp: max_def split: if_splits)
qed simp

lemma maxMacro_bound: "\<forall>m \<in> set ms. int (length m) - 8 \<le> maxMacro ms"
proof -
  have f: "(\<lambda>(p :: u8 list) m. let len = int (length p) - int kPrefixBytes in if len > m then len else m)
      = (\<lambda>p. max (int (length p) - 8))"
    by (simp add: fun_eq_iff Let_def max_def)
  show ?thesis unfolding maxMacro_def f using fold_max_bounds [of 0 "\<lambda>p. int (length p) - 8" ms] by blast
qed

lemma loadMacros_ok:
  assumes "kbd_ok s" "macroCurrent s = 0" "macroBuffer s = None"
  shows "kbd_ok (loadMacros d s)" "macroCurrent (loadMacros d s) = 0"
proof -
  have "kbd_ok (loadMacros d s) \<and> macroCurrent (loadMacros d s) = 0"
  proof (cases "loadMacroData d ''Macro Inversion''")
    case None
    then show ?thesis using assms
      by (simp add: loadMacros_def kbd_ok_def input_ok_def tables_ok_def levels_ok_def actions_ok_def macros_ok_def)
  next
    case (Some ms)
    note v = loadMacroData_valid [OF Some]
    note le = maxMacro_bound [of ms]
    obtain m where "m \<in> set ms" "10 \<le> length m" using v by (cases ms) (auto simp: validMacro_def)
    then have "0 < nat (maxMacro ms)" using le by fastforce
    then show ?thesis using assms v le Some
      by (simp add: loadMacros_def kbd_ok_def input_ok_def tables_ok_def levels_ok_def actions_ok_def macros_ok_def)
  qed
  then show "kbd_ok (loadMacros d s)" "macroCurrent (loadMacros d s) = 0" by auto
qed

lemma load_keeps_macro:
  "loadCustomPS2Map a s = Some s' \<Longrightarrow> macroCurrent s' = macroCurrent s \<and> macroBuffer s' = macroBuffer s"
  "loadBreaklessPS2 d n s = Some s' \<Longrightarrow> macroCurrent s' = macroCurrent s \<and> macroBuffer s' = macroBuffer s"
  "loadCustomADBMap d n s = Some s' \<Longrightarrow> macroCurrent s' = macroCurrent s \<and> macroBuffer s' = macroBuffer s"
  by (auto simp: loadCustomPS2Map_def loadBreaklessPS2_def loadCustomADBMap_def bind_eq_Some_conv split: option.splits)

lemma probeFKeys_ok:
  assumes "kbd_ok s"
  shows "\<exists>s'. probeFKeys d s = Some s' \<and> kbd_ok s' \<and> macroCurrent s' = macroCurrent s \<and> macroBuffer s' = macroBuffer s"
proof -
  have ok: "kbd_ok (s\<lparr>keysStandard := a, keysSpecial := b, fkeymodesupported := c\<rparr>)" for a b c
    using assms by (simp add: kbd_ok_def input_ok_def tables_ok_def levels_ok_def actions_ok_def macros_ok_def)
  have "\<exists>s'. loadCustomPS2Map arr (s\<lparr>keysStandard := a, keysSpecial := b, fkeymodesupported := c\<rparr>) = Some s' \<and> kbd_ok s'
      \<and> macroCurrent s' = macroCurrent s \<and> macroBuffer s' = macroBuffer s" for arr a b c
    using loadCustomPS2Map_ok [OF ok, of arr] load_keeps_macro(1) by fastforce
  then show ?thesis using ok by (simp add: probeFKeys_def Let_def)
qed

lemma copy_tables_ok: "kbd_ok s \<Longrightarrow> kbd_ok (s\<lparr>PS2ToADBMap := PS2ToADBMapMapped s\<rparr>)"
  by (simp add: kbd_ok_def input_ok_def tables_ok_def levels_ok_def actions_ok_def macros_ok_def)

lemma probe_ok:
  assumes "kbd_ok s" "macroCurrent s = 0" "macroBuffer s = None"
  shows "\<exists>b s'. probe sp config s = Some (b, s') \<and> kbd_ok s'"
proof -
  have loaded: "\<exists>s'. (case config of None \<Rightarrow> Some s | Some d \<Rightarrow>
      do { s \<leftarrow> loadCustomPS2Map (asArray (getObject d ''Custom PS2 Map'')) s;
           s \<leftarrow> loadBreaklessPS2 d ''Breakless PS2'' s; s \<leftarrow> loadCustomADBMap d ''Custom ADB Map'' s;
           s \<leftarrow> probeFKeys d s; Some (loadMacros d s) }) = Some s' \<and> kbd_ok s'"
  proof (cases config)
    case (Some d)
    obtain s1 where s1: "loadCustomPS2Map (asArray (getObject d ''Custom PS2 Map'')) s = Some s1" "kbd_ok s1"
      using loadCustomPS2Map_ok [OF assms(1)] by blast
    obtain s2 where s2: "loadBreaklessPS2 d ''Breakless PS2'' s1 = Some s2" "kbd_ok s2"
      using loadBreaklessPS2_ok [OF s1(2)] by blast
    obtain s3 where s3: "loadCustomADBMap d ''Custom ADB Map'' s2 = Some s3" "kbd_ok s3"
      using loadCustomADBMap_ok [OF s2(2)] by blast
    obtain s4 where s4: "probeFKeys d s3 = Some s4" "kbd_ok s4" "macroCurrent s4 = macroCurrent s3" "macroBuffer s4 = macroBuffer s3"
      using probeFKeys_ok [OF s3(2)] by blast
    have "macroCurrent s4 = 0" "macroBuffer s4 = None"
      using load_keeps_macro(1) [OF s1(1)] load_keeps_macro(2) [OF s2(1)] load_keeps_macro(3) [OF s3(1)] s4 assms by auto
    then show ?thesis using Some s1 s2 s3 s4 loadMacros_ok(1) [OF s4(2)] by simp
  qed (simp add: assms)
  then obtain s' where "(case config of None \<Rightarrow> Some s | Some d \<Rightarrow>
      do { s \<leftarrow> loadCustomPS2Map (asArray (getObject d ''Custom PS2 Map'')) s;
           s \<leftarrow> loadBreaklessPS2 d ''Breakless PS2'' s; s \<leftarrow> loadCustomADBMap d ''Custom ADB Map'' s;
           s \<leftarrow> probeFKeys d s; Some (loadMacros d s) }) = Some s'" "kbd_ok s'" by blast
  then show ?thesis unfolding probe_def
    using setParamPropertiesGated_ok [OF copy_tables_ok, of s' config] assms(1) by auto
qed

lemma startLevels_ok: "kbd_ok s \<Longrightarrow> kbd_ok (startLevels a b c d f s)"
proof -
  assume ok: "kbd_ok s"
  have len: "readLevels n x y = Some ls \<Longrightarrow> n \<le> length ls" for n x y ls
    by (auto simp: readLevels_def split: if_splits option.splits)
  have o1: "kbd_ok s \<Longrightarrow> 4 \<le> length ls \<Longrightarrow> kbd_ok (s\<lparr>brightnessLevels := Some ls, brightnessCount := int (length ls)\<rparr>)"
    and o2: "kbd_ok s \<Longrightarrow> 2 \<le> length ls \<Longrightarrow> kbd_ok (s\<lparr>backlightLevels := Some ls, backlightCount := int (length ls)\<rparr>)"
    and o3: "kbd_ok s \<Longrightarrow> kbd_ok (s\<lparr>provider := v\<rparr>)" for s :: "'a kbd" and ls v
    by (auto simp: kbd_ok_def input_ok_def tables_ok_def levels_ok_def actions_ok_def macros_ok_def)
  show ?thesis unfolding startLevels_def Let_def
    using ok by (auto split: option.split if_splits intro!: o1 o2 o3 dest!: len)
qed

subsection \<open>The driver as a whole\<close>

lemma kbd_apply_ok:
  assumes "kbd_ok s"
  shows "\<exists>s'. kbd_apply e mem ev s = Some s' \<and> kbd_ok s'"
proof (cases ev)
  case (Byte data)
  then show ?thesis using interruptOccurred_step [OF assms, of e data] by auto
next
  case WorkLoop
  then show ?thesis using packetReady_step [OF assms, of e] by auto
next
  case SleepEjectTimer
  then show ?thesis using assms kbd_ok_cong [OF onSleepEjectTimer_stable] by auto
qed (use onMacroTimer_ok [OF assms] message_ok [OF assms] setParamPropertiesGated_ok [OF assms] in auto)

text \<open>
  C1: From init and probe with whatever configuration the property list holds, through whatever sequence
  of scan code bytes, work loop runs, timers, messages and parameter changes, the keyboard driver never
  reads or writes an array out of bounds, uses level tables or macros that are not there, or runs past
  the end of an action sequence; every loop ends, and its tables,
  ring buffer, level arrays, action sequences and macro buffer stay well formed.
\<close>

theorem keyboard_safe:
  "\<exists>loaded s0 s. probe sp config (init_kbd p) = Some (loaded, s0)
     \<and> foldM (kbd_apply e mem) evs (startLevels prov br brLevels bl blLevels (s0\<lparr>macroTimer := mt\<rparr>)) = Some s \<and> kbd_ok s"
proof -
  have init: "macroCurrent (init_kbd p) = 0" "macroBuffer (init_kbd p) = None" by (simp_all add: init_kbd_def)
  obtain loaded s0 where s0: "probe sp config (init_kbd p) = Some (loaded, s0)" "kbd_ok s0"
    using probe_ok [OF init_kbd_ok init] by blast
  then have "kbd_ok (startLevels prov br brLevels bl blLevels (s0\<lparr>macroTimer := mt\<rparr>))"
    by (simp add: startLevels_ok kbd_ok_param_upd)
  then obtain s where "foldM (kbd_apply e mem) evs (startLevels prov br brLevels bl blLevels (s0\<lparr>macroTimer := mt\<rparr>)) = Some s" "kbd_ok s"
    using foldM_invariant [of evs kbd_ok "kbd_apply e mem"] kbd_apply_ok by blast
  then show ?thesis using s0(1) by blast
qed

end
