(* ===== verification/Kbd_Correct.thy ===== *)
theory Kbd_Correct
  imports Kbd_Config_Safe
begin

text \<open>
  What the keyboard driver does with a key press: the events of an ordinary key and of
  Ctrl+Alt+Delete, brightness steps, and the round trips from configuration strings to behaviour.
\<close>

text \<open>Scan codes and ADB codes without special treatment.\<close>

definition plainCode :: "nat \<Rightarrow> bool" where
  "plainCode k \<longleftrightarrow> k \<noteq> 0 \<and> k \<notin> {0x4e, 0x4a, 0x0153, 0x015f, 0x0128, 0x0137, 0x0127} \<and> \<not> (0x01f0 \<le> k \<and> k \<le> 0x01ff)"

definition plainADB :: "u8 \<Rightarrow> bool" where
  "plainADB c \<longleftrightarrow> c \<notin> {0x90, 0x91, 0x92, 0x39}"

text \<open>Whether one of the other drivers eats the key.\<close>

definition eaten :: "'p kbd_env \<Rightarrow> u64 \<Rightarrow> u8 \<Rightarrow> bool \<Rightarrow> 'p kbd \<Rightarrow> bool" where
  "eaten e t c d s = fst (notifyKey e (absolutetime_to_nanoseconds e t) c d False s)"

definition rawCode :: "u8 \<Rightarrow> u8 \<Rightarrow> nat" where
  "rawCode b0 b1 = unat (b1 AND NOT kSC_UpBit) + (if b0 = 1 then 0 else 256)"

text \<open>The codes and directions of the key events handed to the system.\<close>

definition sentKeys :: "'p kbd \<Rightarrow> (u8 \<times> bool) list" where
  "sentKeys s = List.map_filter (\<lambda>ev. case ev of KeyEvent c d t \<Rightarrow> Some (c, d) | _ \<Rightarrow> None) (hid_out s)"

definition remapIndex :: "u16 \<Rightarrow> nat" where
  "remapIndex scan = scanIndex (exPart scan) (ucast scan)"

text \<open>Kernel services that count the calls of the clock, know no ACPI method and deliver messages to nobody.\<close>

definition demo_env :: "nat kbd_env" where
  "demo_env = \<lparr>clock_get_uptime = (\<lambda>n. (word_of_nat n, Suc n)), absolutetime_to_nanoseconds = (\<lambda>t. t), version_major = 15,
     evaluateInteger = (\<lambda>_ n. (Some 60, n)), evaluateObject = (\<lambda>_ v _. unat v), withNumber = (\<lambda>n. (True, n)),
     withCString = (\<lambda>n. (True, n)), withObjects = (\<lambda>n. (True, n)), waitForHIDSystem = (\<lambda>n. (True, n)),
     getPMRootDomain = (\<lambda>_. True), deviceMessage = Pair, stackBool = False\<rparr>"

definition demo_kbd :: "nat kbd" where
  "demo_kbd = (init_kbd 0)\<lparr>PS2ToADBMap := PS2ToADBMapStock\<rparr>"

lemma trackModifier_out: "trackModifier r d s = Some s' \<Longrightarrow> hid_out s' = hid_out s \<and> plat s' = plat s"
  using trackModifier_form [of r d s] by auto

lemma notifyKey_out: "hid_out (snd (notifyKey e t c d b s)) = hid_out s"
  by (simp add: notifyKey_def Let_def case_prod_beta)

lemma notifyKey_plat: "plat s' = plat s \<Longrightarrow> fst (notifyKey e t c d b s') = fst (notifyKey e t c d b s)"
  by (simp add: notifyKey_def Let_def case_prod_beta lift_plat_def)

lemma dispatchKey_plain:
  assumes ok: "kbd_ok s" and k: "plainCode k" "k < 512" "r < 512" and a: "plainADB (PS2ToADBMap s ! k)"
  defines "c \<equiv> PS2ToADBMap s ! k"
  shows "\<exists>s'. dispatchKey e r k d t s = Some (True, s') \<and> hid_out s' = hid_out s @
    (if eaten e t c d s then []
     else if breaklessKey s r then (if d then [KeyEvent c True t, KeyEvent c False t] else [])
     else [KeyEvent c d t])"
proof -
  obtain s1 where s1: "trackModifier r d s = Some s1" using trackModifier_defined [OF ok k(3)] by blast
  note st = stable_sel [OF trackModifier_stable [OF s1]] and o = trackModifier_out [OF s1]
  have a1: "acpiKey e k d s1 = s1" and sp: "specialKey e k d t s1 = Some (k, s1)" and sa: "specialADB e c d s1 = Some (c, False, s1)"
    using k(1) a by (auto simp: acpiKey_def specialKey_def specialADB_def plainCode_def plainADB_def c_def)
  have at: "at (PS2ToADBMap s1) k = Some c" using st(2) k(2) kbd_ok_tables(5) [OF ok] by (simp add: c_def)
  obtain eat s5 where s5: "notifyKey e (absolutetime_to_nanoseconds e t) c d False s1 = (eat, s5)" by fastforce
  have eat: "eat = eaten e t c d s" using notifyKey_plat [of s1 s e "absolutetime_to_nanoseconds e t" c d False] o s5 by (simp add: eaten_def)
  have st5: "stable s5 = stable s1" using notifyKey_stable [of e "absolutetime_to_nanoseconds e t" c d False s1] s5 by simp
  have h5: "hid_out s5 = hid_out s" using notifyKey_out [of e "absolutetime_to_nanoseconds e t" c d False s1] s5 o by simp
  have fl: "at (PS2flags s5) r = Some (PS2flags s ! r)"
    using stable_sel(3) [OF st5] st(3) k(3) kbd_ok_tables(3) [OF ok] by simp
  have c39: "c \<noteq> 0x39" "k \<noteq> 0" using a k(1) by (simp_all add: plainADB_def plainCode_def c_def)
  show ?thesis unfolding dispatchKey_def
    using s1 a1 sp at sa s5 c39 fl h5 eat
    by (simp add: Let_def breaklessKey_def deliverKey_def dispatchKeyboardEventX_def)
qed

text \<open>
  C22: A key without special treatment sends exactly one event with the ADB code its remapped scan code
  has in the table and with the time of the packet; a breakless key sends a press and a release when
  it goes down and nothing when it comes up; a key that another driver eats sends nothing.
\<close>

theorem dispatch_plain_key:
  assumes "kbd_ok s" "length u = 6" "b0 \<noteq> 0" "b0 = 1 \<longrightarrow> b1 \<noteq> 0xf1 \<and> b1 \<noteq> 0xf2" "rawCode b0 b1 \<noteq> 0x012a"
    and "plainCode (unat (PS2ToPS2Map s ! rawCode b0 b1))" "plainADB (PS2ToADBMap s ! unat (PS2ToPS2Map s ! rawCode b0 b1))"
  shows "\<exists>s'. dispatchKeyboardEventWithPacket e (key_packet b0 b1 u t) s = Some (True, s')
    \<and> hid_out s' = hid_out s @
       (let c = PS2ToADBMap s ! unat (PS2ToPS2Map s ! rawCode b0 b1); down = (\<not> tst b1 kSC_UpBit)
        in if eaten e t c down s then []
           else if breaklessKey s (rawCode b0 b1) then (if down then [KeyEvent c True t, KeyEvent c False t] else [])
           else [KeyEvent c down t])"
proof -
  let ?r = "rawCode b0 b1"
  have r: "?r < 512" using scan_bound [of b1] by (simp add: rawCode_def)
  note m = kbd_ok_tables(2) [OF assms(1) r]
  note l = kbd_ok_tables(1) [OF assms(1)]
  have "dispatchKeyboardEventWithPacket e (key_packet b0 b1 u t) s =
      dispatchKey e ?r (unat (PS2ToPS2Map s ! ?r)) (\<not> tst b1 kSC_UpBit) t s"
    using assms(2-5) r l by (auto simp: dispatchKeyboardEventWithPacket_def Let_def rawCode_def)
  then show ?thesis using dispatchKey_plain [OF assms(1,6) m r assms(7), of e "\<not> tst b1 kSC_UpBit" t] by (simp add: Let_def)
qed

subsection \<open>Ctrl+Alt+Delete\<close>

lemma trackModifier_none: "r < length (PS2flags s) \<Longrightarrow> drop_bit 8 (PS2flags s ! r) = 0 \<Longrightarrow> trackModifier r d s = Some s"
  by (simp add: trackModifier_def)

text \<open>
  Ctrl+Alt+Delete (the remapped scan code e053 with both modifiers held) releases the two modifiers
  and sends the three finger salute when the key comes up, and sends nothing when it goes down.
\<close>

lemma ctrl_alt_delete:
  assumes "kbd_ok s" "length u = 6" "b0 \<noteq> 0" "b0 = 1 \<longrightarrow> b1 \<noteq> 0xf1 \<and> b1 \<noteq> 0xf2" "rawCode b0 b1 \<noteq> 0x012a"
    and "unat (PS2ToPS2Map s ! rawCode b0 b1) = 0x0153" "drop_bit 8 (PS2flags s ! rawCode b0 b1) = 0"
    and "checkModifierState (kMaskLeftControl OR kMaskLeftAlt) s" "plainADB (PS2ToADBMap s ! 0)"
  shows "\<exists>s'. dispatchKeyboardEventWithPacket e (key_packet b0 b1 u t) s = Some (True, s')
    \<and> hid_out s' = hid_out s @ (if tst b1 kSC_UpBit
         then [KeyEvent 0x37 False t, KeyEvent 0x3b False t, KeyEvent 0x7f True t, KeyEvent 0x7f False t] else [])"
proof -
  let ?r = "rawCode b0 b1" and ?d = "\<not> tst b1 kSC_UpBit" and ?c = "PS2ToADBMap s ! 0"
  have r: "?r < 512" using scan_bound [of b1] by (simp add: rawCode_def)
  note tb = kbd_ok_tables [OF assms(1)]
  have p: "dispatchKeyboardEventWithPacket e (key_packet b0 b1 u t) s = dispatchKey e ?r 0x0153 ?d t s"
    using assms(2-6) r tb(1) by (auto simp: dispatchKeyboardEventWithPacket_def Let_def rawCode_def)
  obtain s3 where s3: "specialKey e 0x0153 ?d t s = Some (0, s3)" and o3: "hid_out s3 = hid_out s @ (if tst b1 kSC_UpBit
         then [KeyEvent 0x37 False t, KeyEvent 0x3b False t, KeyEvent 0x7f True t, KeyEvent 0x7f False t] else [])"
    using assms(8) by (simp add: specialKey_def deleteKey_def dispatchKeyboardEventX_def)
  have a3: "at (PS2ToADBMap s3) 0 = Some ?c" using stable_sel(2) [OF specialKey_stable [OF s3]] tb(5) by simp
  have "specialADB e ?c ?d s3 = Some (?c, False, s3)" "?c \<noteq> 0x39" using assms(9) by (auto simp: specialADB_def plainADB_def)
  then show ?thesis
    using p s3 a3 o3 trackModifier_none [of ?r s ?d] r tb(3) assms(7)
    by (simp add: dispatchKey_def acpiKey_def Let_def case_prod_beta notifyKey_out)
qed

subsection \<open>Brightness\<close>

lemma findLevel_at:
  assumes "sorted_wrt (<) (drop f ls)" "f \<le> i" "i < length ls"
  shows "findLevel ls (int (length ls)) (ls ! i) (int f) = Some (int i)"
proof -
  have lt: "ls ! j < ls ! i" if "f \<le> j" "j < i" for j
    using sorted_wrt_nth_less [OF assms(1), of "j - f" "i - f"] that assms(3) by simp
  have "j \<le> i \<Longrightarrow> f \<le> j \<Longrightarrow> findLevel ls (int (length ls)) (ls ! i) (int j) = Some (int i)" for j
  proof (induction "i - j" arbitrary: j)
    case 0
    then show ?case using assms(3) by (subst findLevel.simps) simp
  next
    case (Suc n)
    then have "findLevel ls (int (length ls)) (ls ! i) (int (Suc j)) = Some (int i)" by (intro Suc.hyps) auto
    moreover have "ls ! j < ls ! i" using lt [of j] Suc.hyps(2) Suc.prems by simp
    ultimately show ?case using Suc.hyps(2) assms(3)
      by (subst findLevel.simps) (simp add: add.commute)
  qed
  then show ?thesis using assms(2) by blast
qed

text \<open>
  With the levels of the ACPI table ascending, a brightness key sets the next level above or below
  the current one and stays within the table, never choosing one of the two default levels at its start.
\<close>

lemma brightness_step:
  assumes "brightnessLevels s = Some ls" "brightnessCount s = int (length ls)" "sorted_wrt (<) (drop 2 ls)"
    "2 \<le> i" "i < length ls" "evaluateInteger e ''KBQC'' (plat s) = (Some r, p1)" "sint r = ls ! i" "withNumber e p1 = (True, p2)"
  shows "modifyScreenBrightness e code True s =
    Some (s\<lparr>plat := evaluateObject e ''KBCM''
      (word_of_int (ls ! (if code = 0x90 then min (i + 1) (length ls - 1) else max 2 (i - 1)))) p2\<rparr>)"
proof -
  have f: "findLevel ls (int (length ls)) (ls ! i) 2 = Some (int i)" using findLevel_at [OF assms(3-5)] by simp
  have "nat (max 2 (min (int (length ls) - 1) (if code = 0x90 then int i + 1 else int i - 1)))
      = (if code = 0x90 then min (i + 1) (length ls - 1) else max 2 (i - 1))"
    using assms(4,5) by (auto simp: max_def min_def)
  then have "newLevel ls (int (length ls)) 2 (ls ! i) (code = 0x90) =
      Some (ls ! (if code = 0x90 then min (i + 1) (length ls - 1) else max 2 (i - 1)))"
    using newLevel_eq [OF f, of "code = 0x90"] assms(4,5) by simp
  then show ?thesis using assms by (simp add: modifyScreenBrightness_def lift_plat_def applyLevel_def)
qed

subsection \<open>Swipe actions\<close>

lemma sentKeys_event: "sentKeys (dispatchKeyboardEventX c d t s) = sentKeys s @ [(c, d)]"
  by (simp add: sentKeys_def dispatchKeyboardEventX_def List.map_filter_def)

lemma sentKeys_lift [simp]: "sentKeys (snd (lift_plat f s)) = sentKeys s"
  by (simp add: sentKeys_def)

lemma keyCode_bit: "bit (keyCode k) n \<longleftrightarrow> bit (fst k) n \<or> snd k \<and> n = 12"
proof -
  have "(0x1000 :: u16) = 2 ^ 12" by simp
  then have "bit (0x1000 :: u16) n \<longleftrightarrow> n = 12" by (simp only: bit_exp_iff) auto
  then show ?thesis unfolding keyCode_def by (cases "snd k") (auto simp: bit_simps dest: bit_imp_le_length)
qed

lemma keyCode_parts: "ucast (keyCode k AND 0xFF) = fst k" "tst (keyCode k) 0x1000 = snd k"
proof -
  have "keyCode k AND 0xFF = take_bit 8 (keyCode k)" by (simp add: take_bit_eq_mask mask_eq_exp_minus_1)
  then show "ucast (keyCode k AND 0xFF) = fst k"
    by (intro bit_word_eqI) (auto simp: bit_simps keyCode_bit)
  have "tst (keyCode k) 0x1000 = bit (keyCode k) 12" using tst_bit [of "keyCode k" 12] by simp
  then show "tst (keyCode k) 0x1000 = snd k" using bit_imp_le_length [of "fst k" 12] by (auto simp: keyCode_bit)
qed

lemma sendKeySequence_keys:
  "\<forall>k \<in> set ks. keyCode k \<noteq> 0 \<Longrightarrow> \<exists>s'. sendKeySequence e (map keyCode ks @ 0 # rest) s = Some s'
     \<and> sentKeys s' = sentKeys s @ map (\<lambda>k. (fst k, \<not> snd k)) ks"
proof (induction ks arbitrary: s)
  case (Cons k ks)
  let ?s = "dispatchKeyboardEventX (fst k) (\<not> snd k) (fst (lift_plat (clock_get_uptime e) s)) (snd (lift_plat (clock_get_uptime e) s))"
  from Cons obtain s' where "sendKeySequence e (map keyCode ks @ 0 # rest) ?s = Some s'"
    "sentKeys s' = sentKeys ?s @ map (\<lambda>k. (fst k, \<not> snd k)) ks" by (auto simp del: sendKeySequence.simps)
  then show ?case using Cons.prems by (simp add: case_prod_beta keyCode_parts sentKeys_event)
qed simp

text \<open>
  An action given in the configuration as a sequence of key codes is what a swipe message sends:
  the keys of the sequence, in order, down and up as written.
\<close>

lemma swipe_action_roundtrip:
  assumes "length (actionSwipeUp s) = actionArray" "length ks < actionArray" "\<forall>k \<in> set ks. keyCode k \<noteq> 0"
  shows "\<exists>s'. message e mem (PS2M kPS2M_swipeUp) (paramActions [(''ActionSwipeUp'', OSString (showAction ks))] s) = Some s'
    \<and> sentKeys s' = sentKeys s @ map (\<lambda>k. (fst k, \<not> snd k)) ks"
proof -
  let ?s = "paramActions [(''ActionSwipeUp'', OSString (showAction ks))] s"
  have "actionSwipeUp ?s = map keyCode ks @ 0 # drop (length ks + 1) (actionSwipeUp s)"
    using parseAction_shown [of ks "actionSwipeUp s"] assms(1,2)
    by (simp add: paramActions_def paramAction_def getObject_def)
  moreover have "sentKeys ?s = sentKeys s" by (simp add: sentKeys_def paramActions_def)
  ultimately show ?thesis
    using sendKeySequence_keys [OF assms(3), of e "drop (length ks + 1) (actionSwipeUp s)" ?s] by (simp add: message_def)
qed

subsection \<open>Remapping\<close>

lemma showRemap_not_comment: "\<not> isComment (showRemap a b)"
proof -
  have "hexChar (unat a div 16 ^ 3 mod 16) \<noteq> CHR '';''" by (rule hexChar_neq) auto
  then show ?thesis using showHex.simps(2) [of 3 "unat a"] by (simp add: isComment_def showRemap_def)
qed

lemma customPS2Entry_shown:
  assumes "length t = 512" "scanOk (exPart a)" "scanOk (exPart b)"
  shows "customPS2Entry (OSString (showRemap a b)) t = Some (t[remapIndex a := word_of_nat (remapIndex b)])"
  using assms parseRemap_shown [of "[]" a b] showRemap_not_comment [of a b] scanIndex_bound [of "exPart a" "ucast a"]
  by (simp add: customPS2Entry_def remapIndex_def)

text \<open>
  A Custom PS2 Map written as strings of the form src=dst updates the remapping table at exactly the
  entries it names, later entries winning over earlier ones.
\<close>

lemma loadCustomPS2Map_roundtrip:
  assumes "length (PS2ToPS2Map s) = 2 * KBV_NUM_SCANCODES" "\<forall>(a, b) \<in> set rs. scanOk (exPart a) \<and> scanOk (exPart b)"
  shows "loadCustomPS2Map (Some (map (\<lambda>(a, b). OSString (showRemap a b)) rs)) s =
    Some (s\<lparr>PS2ToPS2Map := fold (\<lambda>(a, b) t. t[remapIndex a := word_of_nat (remapIndex b)]) rs (PS2ToPS2Map s)\<rparr>)"
proof -
  have "foldM customPS2Entry (map (\<lambda>(a, b). OSString (showRemap a b)) rs) t =
      Some (fold (\<lambda>(a, b) t. t[remapIndex a := word_of_nat (remapIndex b)]) rs t)" if "length t = 512" for t
    using assms(2) that by (induction rs arbitrary: t) (auto simp: customPS2Entry_shown)
  then show ?thesis using assms(1) by (simp add: loadCustomPS2Map_def)
qed

subsection \<open>A concrete driver\<close>

lemma demo_kbd_ok: "kbd_ok demo_kbd"
  using copy_tables_ok [OF init_kbd_ok [of 0]] by (simp add: demo_kbd_def init_kbd_def)

lemma demo_fields:
  "PS2ToPS2Map demo_kbd = map word_of_nat [0..<512]" "PS2ToADBMap demo_kbd = PS2ToADBMapStock"
  "PS2flags demo_kbd = PS2flagsStock" "hid_out demo_kbd = []" "plat demo_kbd = 0" "PS2modifierState demo_kbd = 0"
  by (simp_all add: demo_kbd_def init_kbd_def)

lemma demo_rawCode: "rawCode 1 0x1e = 0x1e" "rawCode 2 0x53 = 0x153" "rawCode 2 0xd3 = 0x153"
  by code_simp+

lemma demo_tables:
  "PS2ToADBMapStock ! 0x1e = 0" "PS2ToADBMapStock ! 0 = 0x80" "PS2flagsStock ! 0x1e = 0" "PS2flagsStock ! 0x153 = 0"
  by code_simp+

theorem dispatch_plain_key_witness:
  "\<exists>s'. dispatchKeyboardEventWithPacket demo_env (key_packet 1 0x1e (replicate 6 0) 5) demo_kbd = Some (True, s')
    \<and> hid_out s' = [KeyEvent 0 True 5]"
proof -
  have "plainCode 0x1e" "plainADB 0" "\<not> tst (0x1e :: u8) kSC_UpBit" by (simp_all add: plainCode_def plainADB_def tst_def kSC_UpBit_def)
  moreover have "\<not> eaten demo_env 5 0 True demo_kbd" "\<not> breaklessKey demo_kbd 0x1e"
    by (simp_all add: eaten_def notifyKey_def lift_plat_def demo_env_def breaklessKey_def demo_fields demo_tables)
  ultimately show ?thesis
    using dispatch_plain_key [OF demo_kbd_ok, of "replicate 6 0" 1 "0x1e" demo_env 5]
    by (simp add: demo_fields demo_rawCode demo_tables unat_of_nat Let_def)
qed

lemma ctrl_alt_delete_witness:
  "\<exists>s'. dispatchKeyboardEventWithPacket demo_env (key_packet 2 0xd3 (replicate 6 0) 5) (demo_kbd\<lparr>PS2modifierState := 0x11\<rparr>) = Some (True, s')
    \<and> hid_out s' = [KeyEvent 0x37 False 5, KeyEvent 0x3b False 5, KeyEvent 0x7f True 5, KeyEvent 0x7f False 5]"
proof -
  have "kbd_ok (demo_kbd\<lparr>PS2modifierState := 0x11\<rparr>)" using demo_kbd_ok kbd_ok_cong [of "demo_kbd\<lparr>PS2modifierState := 0x11\<rparr>" demo_kbd] by simp
  moreover have "checkModifierState (kMaskLeftControl OR kMaskLeftAlt) (demo_kbd\<lparr>PS2modifierState := 0x11\<rparr>)"
    "plainADB 0x80" "tst (0xd3 :: u8) kSC_UpBit"
    by (simp_all add: checkModifierState_def ps2_const plainADB_def tst_def)
  ultimately show ?thesis
    using ctrl_alt_delete [of "demo_kbd\<lparr>PS2modifierState := 0x11\<rparr>" "replicate 6 0" 2 "0xd3" demo_env 5]
    by (simp add: demo_fields demo_rawCode demo_tables unat_of_nat)
qed

lemma brightness_step_witness:
  "modifyScreenBrightness demo_env 0x90 True (demo_kbd\<lparr>brightnessLevels := Some [100, 40, 20, 60, 90], brightnessCount := 5\<rparr>)
     = Some (demo_kbd\<lparr>brightnessLevels := Some [100, 40, 20, 60, 90], brightnessCount := 5, plat := 90\<rparr>)"
  using brightness_step [of "demo_kbd\<lparr>brightnessLevels := Some [100, 40, 20, 60, 90], brightnessCount := 5\<rparr>"
      "[100, 40, 20, 60, 90]" 3 demo_env 60 0 0 "0x90"]
  by (simp add: demo_env_def demo_fields)

lemma swipe_action_roundtrip_witness:
  "\<exists>s'. message demo_env (\<lambda>_. 0) (PS2M kPS2M_swipeUp) (paramActions [(''ActionSwipeUp'', OSString ''3b d, 3b u'')] demo_kbd) = Some s'
    \<and> sentKeys s' = [(0x3b, True), (0x3b, False)]"
proof -
  have "showAction [(0x3b, False), (0x3b, True)] = ''3b d, 3b u''" "keyCode (0x3b, False) \<noteq> 0" "keyCode (0x3b, True) \<noteq> 0"
    by code_simp+
  moreover have "length (actionSwipeUp demo_kbd) = actionArray" "sentKeys demo_kbd = []"
    using demo_kbd_ok by (simp_all add: kbd_ok_def actions_ok_def sentKeys_def demo_fields List.map_filter_def)
  ultimately show ?thesis
    using swipe_action_roundtrip [of demo_kbd "[(0x3b, False), (0x3b, True)]" demo_env "\<lambda>_. 0"] by (simp add: actionArray_def)
qed

lemma loadCustomPS2Map_roundtrip_witness:
  "loadCustomPS2Map (Some [OSString ''003a=001d'']) demo_kbd =
     Some (demo_kbd\<lparr>PS2ToPS2Map := (PS2ToPS2Map demo_kbd)[0x3a := 0x1d]\<rparr>)"
proof -
  have shown: "showRemap 0x003a 0x001d = ''003a=001d''" by code_simp
  have index: "remapIndex 0x003a = 0x3a" "remapIndex 0x001d = 0x1d" by code_simp+
  have ok: "\<forall>(a, b) \<in> set [(0x003a, 0x001d)]. scanOk (exPart a) \<and> scanOk (exPart b)" by code_simp
  have len: "length (PS2ToPS2Map demo_kbd) = 2 * KBV_NUM_SCANCODES" using kbd_ok_tables(1) [OF demo_kbd_ok] by simp
  show ?thesis
    using loadCustomPS2Map_roundtrip [OF len ok]
    by (simp only: list.map prod.case shown index fold_simps of_nat_numeral)
qed

end
