(* ===== verification/Kbd_Pipeline.thy ===== *)
theory Kbd_Pipeline
  imports Kbd_Correct
begin

text \<open>
  From bytes to key events: the scan code decoder, the packet queue, macro inversion and its timer.
\<close>

text \<open>A driver with one macro, of the two keys 1e and 30.\<close>

definition demo_macro :: "nat kbd" where
  "demo_macro = demo_kbd\<lparr>macroInversion := Some [[0xff, 0xff, 0x02, 0x5e, 0, 0, 0, 0, 1, 0x1e, 1, 0x30]],
     macroBuffer := Some (replicate 64 0), macroMax := 4, macroTimer := True\<rparr>"

text \<open>The driver above holding the first key of its macro.\<close>

definition demo_waiting :: "nat kbd" where
  "demo_waiting = demo_macro\<lparr>macroBuffer := Some (key_packet 1 0x1e (replicate 6 0) 5 @ replicate 48 0), macroCurrent := 1,
     plat := 10 ^ 9\<rparr>"

text \<open>
  C4: At interrupt time the driver decodes the byte stream as the abstract scan code decoder does: prefix
  bytes, the extended set, the pause key, breakless keys, auto repeat and the set of held keys; it
  queues the packet the decoder emits with the time of arrival, and stays well formed.
\<close>

theorem interrupt_refines_decoder:
  assumes "kbd_ok s"
  shows "\<exists>r. interruptOccurred e data s = Some r \<and> kbd_ok (snd r)
    \<and> scanRefines e s (scanStep (breaklessKey s) data (scanState s)) r"
  using assms by (rule interruptOccurred_step)

lemma demo_scan: "scanState demo_kbd = (0, 0, {})" "\<not> breaklessKey demo_kbd 0x1e"
  using keysDown_clear [of 16] by (simp_all add: scanState_def demo_kbd_def init_kbd_def breaklessKey_def demo_tables)

lemma demo_scanStep: "\<not> b 0x1e \<Longrightarrow> scanStep b 0x1e (0, 0, {}) = (Some (1, 0x1e), 0x1e, 0, {0x1e})"
  by (simp add: scanStep_def ps2_const tst_def)

theorem interrupt_refines_decoder_witness:
  "\<exists>s'. interruptOccurred demo_env 0x1e demo_kbd = Some (kPS2IR_packetReady, s') \<and> keysDown (keyBitVector s') = {0x1e}"
proof -
  obtain r where r: "interruptOccurred demo_env 0x1e demo_kbd = Some r"
    "scanRefines demo_env demo_kbd (scanStep (breaklessKey demo_kbd) 0x1e (scanState demo_kbd)) r"
    using interrupt_refines_decoder [OF demo_kbd_ok, of demo_env "0x1e"] by blast
  then have "scanState (snd r) = (0x1e, 0, {0x1e})" "fst r = kPS2IR_packetReady"
    unfolding demo_scan(1) demo_scanStep [of "breaklessKey demo_kbd", OF demo_scan(2)] by (simp_all add: scanRefines_def case_prod_beta)
  then show ?thesis using r(1) by (cases r) (simp add: scanState_def)
qed

text \<open>
  C21: The work loop handles every queued packet once, in the order of arrival, and leaves the queue empty.
\<close>

theorem packetReady_delivers:
  assumes "kbd_ok s"
  shows "\<exists>r s'. foldM (handlePacket e) (queued s) s = Some s' \<and> packetReady e s = Some (put_ring r s')
    \<and> queued (put_ring r s') = [] \<and> kbd_ok (put_ring r s')"
  using assms by (rule packetReady_step)

theorem packetReady_delivers_witness:
  "\<exists>s1 s2. interruptOccurred demo_env 0x1e demo_kbd = Some (kPS2IR_packetReady, s1) \<and> packetReady demo_env s1 = Some s2 \<and> queued s2 = []"
proof -
  obtain r where r: "interruptOccurred demo_env 0x1e demo_kbd = Some r" "kbd_ok (snd r)" "fst r = kPS2IR_packetReady"
    using interruptOccurred_step [OF demo_kbd_ok, of demo_env "0x1e"] by (auto simp: demo_scan demo_scanStep scanRefines_def)
  then show ?thesis using packetReady_delivers [OF r(2), of demo_env] by (cases r) auto
qed

lemma macroStep_conserves:
  "(case macroStep w ms ps p of (out, wait) \<Rightarrow> out @ wait = ps @ [p]
     \<or> wait = [] \<and> (\<exists>m \<in> set ms. keyData (ps @ [p]) = drop 8 m \<and> out = [[m ! 2, m ! 3] @ drop 2 (hd (ps @ [p]))]))"
proof (cases rule: macroStep_cases [of w ps p ms])
  case (Full m)
  then have "keyData (ps @ [p]) = drop 8 m" by (auto simp: macroMatches_def split: if_splits)
  then show ?thesis using Full by auto
qed simp_all

text \<open>
  C5: With macros, an incoming packet is treated as the abstract macro matcher says: packets that came too
  long before it are sent first; then either the packets held back and the new one are split into
  those sent now and those still held, in order and without loss, or the whole sequence is exactly
  the data of a macro and is replaced by that macro's single key. Whenever packets are held back, the
  timer is running.
\<close>

theorem macro_inversion_refines:
  assumes "kbd_ok s" "macroTimer s" "macroBuffer s \<noteq> None" "macroInversion s = Some ms" "length p = 16"
  shows "\<exists>s1 s2 s' out wait. let ps = (if tooLate e p s then [] else pendingMacro s) in
      dispatchAll e (if tooLate e p s then pendingMacro s else []) s = Some s1
    \<and> macroStep (PS2modifierState s1) ms ps p = (out, wait)
    \<and> (out @ wait = ps @ [p]
       \<or> wait = [] \<and> (\<exists>m \<in> set ms. keyData (ps @ [p]) = drop 8 m \<and> out = [[m ! 2, m ! 3] @ drop 2 (hd (ps @ [p]))]))
    \<and> dispatchAll e out s1 = Some s2
    \<and> inputPacket e p s = Some s' \<and> s' = put_macro (macroBuffer s') (macroCurrent s') (macroTimeout s') s2
    \<and> pendingMacro s' = wait \<and> (wait \<noteq> [] \<longrightarrow> macroTimeout s' = Some (macroMaxTime s)) \<and> kbd_ok s'"
proof -
  let ?ps = "if tooLate e p s then [] else pendingMacro s"
  obtain s1 s2 s' where *: "dispatchAll e (if tooLate e p s then pendingMacro s else []) s = Some s1"
    "dispatchAll e (fst (macroStep (PS2modifierState s1) ms ?ps p)) s1 = Some s2" "inputPacket e p s = Some s'"
    "s' = put_macro (macroBuffer s') (macroCurrent s') (macroTimeout s') s2"
    "pendingMacro s' = snd (macroStep (PS2modifierState s1) ms ?ps p)" "kbd_ok s'"
    "pendingMacro s' \<noteq> [] \<longrightarrow> macroTimeout s' = Some (macroMaxTime s)"
    using inputPacket_macros [OF assms] by blast
  obtain out wait where R: "macroStep (PS2modifierState s1) ms ?ps p = (out, wait)" by fastforce
  have "out @ wait = ?ps @ [p]
       \<or> wait = [] \<and> (\<exists>m \<in> set ms. keyData (?ps @ [p]) = drop 8 m \<and> out = [[m ! 2, m ! 3] @ drop 2 (hd (?ps @ [p]))])"
    using macroStep_conserves [where w = "PS2modifierState s1" and ms = ms and ps = ?ps and p = p] unfolding R prod.case .
  then show ?thesis unfolding Let_def
    using * R by (intro exI [of _ s1] exI [of _ s2] exI [of _ s'] exI [of _ out] exI [of _ wait]) (simp only: fst_conv snd_conv simp_thms)
qed

lemma demo_macro_ok: "kbd_ok demo_macro"
  using demo_kbd_ok
  by (simp add: demo_macro_def kbd_ok_def input_ok_def tables_ok_def levels_ok_def actions_ok_def macros_ok_def validMacro_def
      demo_kbd_def init_kbd_def)

lemma demo_macro_fields:
  "macroTimer demo_macro" "macroBuffer demo_macro = Some (replicate 64 0)" "pendingMacro demo_macro = []"
  "macroInversion demo_macro = Some [[0xff, 0xff, 0x02, 0x5e, 0, 0, 0, 0, 1, 0x1e, 1, 0x30]]"
  "\<not> tooLate e p demo_macro" "hid_out demo_macro = []"
  by (simp_all add: demo_macro_def demo_kbd_def init_kbd_def pendingMacro_def macroPackets_def tooLate_def)

lemma demo_macroStep:
  "macroStep w [[0xff, 0xff, 0x02, 0x5e, 0, 0, 0, 0, 1, 0x1e, 1, 0x30]] [] (key_packet 1 0x1e (replicate 6 0) 5)
     = ([], [key_packet 1 0x1e (replicate 6 0) 5])"
  by (simp add: macroStep_def macroMatches_def keyData_def key_packet_def)

theorem macro_inversion_refines_witness:
  "\<exists>s'. inputPacket demo_env (key_packet 1 0x1e (replicate 6 0) 5) demo_macro = Some s'
    \<and> pendingMacro s' = [key_packet 1 0x1e (replicate 6 0) 5] \<and> kbd_ok s'"
  using macro_inversion_refines [OF demo_macro_ok demo_macro_fields(1) _ demo_macro_fields(4), of "key_packet 1 0x1e (replicate 6 0) 5" demo_env]
  by (simp add: demo_macro_fields demo_macroStep Let_def) blast

text \<open>
  C28: Packets held back for a macro are not held forever: when the macro timer fires after the maximal
  time they are all sent, in order, and none remains.
\<close>

theorem macro_timer_flushes:
  assumes "kbd_ok s" "queued s = []" "pendingMacro s \<noteq> []" "clock_get_uptime e (plat s) = (now, p')"
    and "absolutetime_to_nanoseconds e now - absolutetime_to_nanoseconds e (packet_time (last (pendingMacro s))) > macroMaxTime s"
  shows "\<exists>s2. dispatchAll e (pendingMacro s) (s\<lparr>plat := p'\<rparr>) = Some s2
    \<and> onMacroTimer e s = Some (put_macro (macroBuffer s) 0 None s2) \<and> pendingMacro (put_macro (macroBuffer s) 0 None s2) = []"
proof -
  obtain buf where buf: "macroBuffer s = Some buf" using assms(3) by (auto simp: pendingMacro_def split: option.splits)
  let ?s = "s\<lparr>plat := p'\<rparr>"
  have ok: "kbd_ok ?s" using assms(1) by simp
  have pend: "pendingMacro ?s = pendingMacro s" by (simp add: pendingMacro_def split: option.split)
  have cur: "0 < macroCurrent s" using assms(3) pendingMacro_Nil [OF buf] by simp
  obtain ms where "length buf = nat (macroMax s) * 16" "macroCurrent s < nat (macroMax s)"
    using macros_okD [OF assms(1) buf] by blast
  then have room: "16 * macroCurrent s \<le> length buf" by linarith
  have "\<not> 16 \<le> ring_count (ringBuffer s)"
    using assms(1,2) byte_ring.avail_iff [of 16 "ringBuffer s"] by (simp add: queued_def kbd_ok_def input_ok_def)
  then have "packetReady e s = Some s" by (simp add: packetReady_def loop.simps)
  moreover have "macroExpired e now ?s = Some True"
    using pendingMacro_last [of s buf] buf room cur assms(5) by (simp add: macroExpired_def)
  ultimately have "onMacroTimer e s = dispatchInvertBuffer e ?s"
    using assms(4) cur by (simp add: onMacroTimer_def lift_plat_def flushExpired_def)
  moreover obtain s2 where "dispatchAll e (pendingMacro s) ?s = Some s2"
    using dispatchAll_defined [OF ok pendingMacro_lengths [OF ok], of e] pend by auto
  ultimately show ?thesis
    using dispatchInvertBuffer_eq [of ?s buf e] buf room pend
    by (intro exI [of _ s2]) (simp add: pendingMacro_def macroPackets_def)
qed

theorem macro_timer_flushes_witness:
  "\<exists>s'. onMacroTimer demo_env demo_waiting = Some s' \<and> pendingMacro s' = []"
proof -
  have "kbd_ok demo_waiting"
    using demo_macro_ok by (simp add: demo_waiting_def kbd_ok_def input_ok_def tables_ok_def levels_ok_def actions_ok_def macros_ok_def
      demo_macro_def key_packet_def)
  moreover have pend: "pendingMacro demo_waiting = [key_packet 1 0x1e (replicate 6 0) 5]"
    by (simp add: demo_waiting_def pendingMacro_def macroPackets_def key_packet_def window_def)
  moreover have "queued demo_waiting = []"
    by (simp add: demo_waiting_def demo_macro_def demo_kbd_def init_kbd_def queued_def ring_init_def ring_reset_def ring_packets_def ring_count_def ring_count_of_def)
  moreover have "clock_get_uptime demo_env (plat demo_waiting) = (10 ^ 9, Suc (10 ^ 9))"
    by (simp add: demo_env_def demo_waiting_def)
  moreover have "absolutetime_to_nanoseconds demo_env (10 ^ 9) - absolutetime_to_nanoseconds demo_env
      (packet_time (last (pendingMacro demo_waiting))) > macroMaxTime demo_waiting"
    unfolding pend by (simp add: demo_env_def demo_waiting_def demo_macro_def demo_kbd_def init_kbd_def)
  ultimately show ?thesis
    using macro_timer_flushes [of demo_waiting demo_env "10 ^ 9" "Suc (10 ^ 9)"] by auto
qed

end
