(* ===== verification/Kbd_Keymap_Correct.thy ===== *)
theory Kbd_Keymap_Correct
  imports Kbd_Keymap PS2_Loop
begin

text \<open>
  The key map of the keyboard driver is well formed, and together with the table from scan codes to key codes it types what is printed on
  the keys. The format is read by parsers that consume a prefix of their input, so the sections are checked one by one.
\<close>

subsection \<open>Definitions\<close>

text \<open>
  The format as the comments of the table describe it: a number of modifiers, each with the codes of its keys; a number of keys, each with
  a mask of modifiers and a character (set and code) for every combination of them, or 0xff for a key without characters; a number of
  sequences of characters; and a number of special keys with their codes.
\<close>

record keymap =
  km_modifiers :: "(u8 \<times> u8 list) list"
  km_keys :: "(u8 \<times> (u8 \<times> u8) list) option list"
  km_sequences :: "(u8 \<times> u8) list list"
  km_specials :: "(u8 \<times> u8) list"

type_synonym 'a parser = "u8 list \<Rightarrow> ('a \<times> u8 list) option"

definition byteP :: "u8 parser" where
  "byteP bs = (case bs of [] \<Rightarrow> None | b # bs \<Rightarrow> Some (b, bs))"

fun repeatP :: "nat \<Rightarrow> 'a parser \<Rightarrow> 'a list parser" where
  "repeatP 0 p bs = Some ([], bs)"
| "repeatP (Suc n) p bs = do { (x, bs) \<leftarrow> p bs; (xs, bs) \<leftarrow> repeatP n p bs; Some (x # xs, bs) }"

definition countedP :: "'a parser \<Rightarrow> 'a list parser" where
  "countedP p bs = do { (n, bs) \<leftarrow> byteP bs; repeatP (unat n) p bs }"

definition pairP :: "'a parser \<Rightarrow> 'b parser \<Rightarrow> ('a \<times> 'b) parser" where
  "pairP p q bs = do { (x, bs) \<leftarrow> p bs; (y, bs) \<leftarrow> q bs; Some ((x, y), bs) }"

definition popcount :: "u8 \<Rightarrow> nat" where
  "popcount b = length (filter (bit b) [0..<8])"

definition keyP :: "(u8 \<times> (u8 \<times> u8) list) option parser" where
  "keyP bs =
     do { (mods, bs) \<leftarrow> byteP bs;
          if mods = 0xff then Some (None, bs)
          else do { (chars, bs) \<leftarrow> repeatP (2 ^ popcount mods) (pairP byteP byteP) bs; Some (Some (mods, chars), bs) } }"

definition keymapP :: "keymap parser" where
  "keymapP bs =
     do { (unit, bs) \<leftarrow> repeatP 2 byteP bs;
          if unit \<noteq> [0, 0] then None
          else do { (modifiers, bs) \<leftarrow> countedP (pairP byteP (countedP byteP)) bs;
                    (keys, bs) \<leftarrow> countedP keyP bs;
                    (sequences, bs) \<leftarrow> countedP (countedP (pairP byteP byteP)) bs;
                    (specials, bs) \<leftarrow> countedP (pairP byteP byteP) bs;
                    Some (\<lparr>km_modifiers = modifiers, km_keys = keys, km_sequences = sequences, km_specials = specials\<rparr>, bs) } }"

text \<open>A parser that finds what it needs does not look at what follows.\<close>

definition prefix_parser :: "'a parser \<Rightarrow> bool" where
  "prefix_parser p \<longleftrightarrow> (\<forall>bs x r ys. p bs = Some (x, r) \<longrightarrow> p (bs @ ys) = Some (x, r @ ys))"

text \<open>What a key types without and with the first of its modifiers, when both are of the standard character set.\<close>

fun keyChars :: "(u8 \<times> (u8 \<times> u8) list) option \<Rightarrow> (u8 \<times> u8) option" where
  "keyChars (Some (_, (s, a) # (s', b) # _)) = (if s = 0 \<and> s' = 0 then Some (a, b) else None)"
| "keyChars _ = None"



definition keyChars_0 :: "(u8 \<times> u8) option list" where
  "keyChars_0 =
     [Some (0x61, 0x41), Some (0x73, 0x53), Some (0x64, 0x44), Some (0x66, 0x46), Some (0x68, 0x48), Some (0x67, 0x47),
      Some (0x7a, 0x5a), Some (0x78, 0x58), Some (0x63, 0x43), Some (0x76, 0x56), Some (0x3c, 0x3e), Some (0x62, 0x42),
      Some (0x71, 0x51), Some (0x77, 0x57), Some (0x65, 0x45), Some (0x72, 0x52), Some (0x79, 0x59), Some (0x74, 0x54),
      Some (0x31, 0x21), Some (0x32, 0x40), Some (0x33, 0x23), Some (0x34, 0x24), Some (0x36, 0x5e), Some (0x35, 0x25),
      Some (0x3d, 0x2b), Some (0x39, 0x28), Some (0x37, 0x26), Some (0x2d, 0x5f), Some (0x38, 0x2a), Some (0x30, 0x29),
      Some (0x5d, 0x7d), Some (0x6f, 0x4f), Some (0x75, 0x55), Some (0x5b, 0x7b), Some (0x69, 0x49), Some (0x70, 0x50),
      Some (0x0d, 0x03), Some (0x6c, 0x4c), Some (0x6a, 0x4a), Some (0x27, 0x22), Some (0x6b, 0x4b)]"

definition keyChars_1 :: "(u8 \<times> u8) option list" where
  "keyChars_1 =
     [Some (0x3b, 0x3a), Some (0x5c, 0x7c), Some (0x2c, 0x3c), Some (0x2f, 0x3f), Some (0x6e, 0x4e), Some (0x6d, 0x4d),
      Some (0x2e, 0x3e), Some (0x09, 0x19), Some (0x20, 0x00), Some (0x60, 0x7e), Some (0x7f, 0x08), None,
      Some (0x1b, 0x7e), None, None, None, None, None, None, None, None, None, None, None, None, None, None, None, None,
      None, None, None, None, None, Some (0x2f, 0x5c), None, None, None, None, None, Some (0x3d, 0x7c)]"

definition keyChars_2 :: "(u8 \<times> u8) option list" where
  "keyChars_2 =
     [None, None, None, None, None, None, None, None, None, None, None, None, None, None, None, None, None, None, None,
      None, None, None, None, None, None, None, None, None, None, None, None, None, None, None, None, None, None, None,
      None, None, None]"

definition keyChars_3 :: "(u8 \<times> u8) option list" where
  "keyChars_3 =
     [None, None, None, None, None, None, None, None, None, None, None, None, None, None, None, None, None, None, None,
      None, None, None, None, None, None, None, None, None, None, None, None, None, None, None, None, None, None, None, None]"

definition modifierCodes :: "u8 list" where
  "modifierCodes = [0x38, 0x3b, 0x3a, 0x37, 0x52, 0x41, 0x4c, 0x53, 0x54, 0x55, 0x45, 0x58, 0x57, 0x56, 0x5b, 0x5c, 0x43, 0x4b, 0x51,
     0x7b, 0x7d, 0x7e, 0x7c, 0x4e, 0x59, 0x72, 0x3f, 0x3c, 0x3e, 0x3d, 0x36]"

definition specialCodes :: "u8 list" where
  "specialCodes = [0x39, 0x72, 0x7f, 0x4a, 0x48, 0x49, 0x47, 0x70, 0x34, 0x42, 0x4d, 0x90, 0x91, 0x92]"


subsection \<open>The format of the table\<close>

lemma prefix_parserD: "prefix_parser p \<Longrightarrow> p bs = Some (x, r) \<Longrightarrow> p (bs @ ys) = Some (x, r @ ys)"
  by (simp add: prefix_parser_def)

lemma prefix_byteP [intro]: "prefix_parser byteP"
  by (auto simp: prefix_parser_def byteP_def split: list.splits)

lemma prefix_repeatP [intro]: "prefix_parser p \<Longrightarrow> prefix_parser (repeatP n p)"
proof (induction n)
  case (Suc n)
  then show ?case by (fastforce simp: prefix_parser_def bind_eq_Some_conv)
qed (simp add: prefix_parser_def)

lemma prefix_countedP [intro]: "prefix_parser p \<Longrightarrow> prefix_parser (countedP p)"
  using prefix_byteP prefix_repeatP [of p] by (fastforce simp: prefix_parser_def countedP_def bind_eq_Some_conv)

lemma prefix_pairP [intro]: "prefix_parser p \<Longrightarrow> prefix_parser q \<Longrightarrow> prefix_parser (pairP p q)"
  by (fastforce simp: prefix_parser_def pairP_def bind_eq_Some_conv)

lemma prefix_keyP [intro]: "prefix_parser keyP"
  unfolding prefix_parser_def keyP_def
  using prefix_parserD [OF prefix_byteP] prefix_parserD [OF prefix_repeatP [OF prefix_pairP [OF prefix_byteP prefix_byteP]]]
  by (fastforce simp: bind_eq_Some_conv split: if_splits)

lemma repeatP_append:
  "prefix_parser p \<Longrightarrow> repeatP m p bs = Some (xs, []) \<Longrightarrow> repeatP (m + n) p (bs @ cs) = map_option (\<lambda>(ys, r). (xs @ ys, r)) (repeatP n p cs)"
proof (induction m arbitrary: bs xs)
  case 0
  then show ?case by (cases "repeatP n p cs") auto
next
  case (Suc m)
  then obtain x r xs' where "p bs = Some (x, r)" "repeatP m p r = Some (xs', [])" "xs = x # xs'"
    by (auto simp: bind_eq_Some_conv)
  then show ?case using Suc.IH [of r xs'] Suc.prems(1) prefix_parserD [OF Suc.prems(1), of bs x r cs]
    by (cases "repeatP n p cs") auto
qed

lemma repeatP_numeral:
  "repeatP (numeral n) p bs = do { (x, bs) \<leftarrow> p bs; (xs, bs) \<leftarrow> repeatP (pred_numeral n) p bs; Some (x # xs, bs) }"
  by (simp add: numeral_eq_Suc)

lemma repeat_pairs:
  "repeatP 1 (pairP byteP byteP) (a0 # b0 # bs) = Some ([(a0, b0)], bs)"
  "repeatP 2 (pairP byteP byteP) (a0 # b0 # a1 # b1 # bs) = Some ([(a0, b0), (a1, b1)], bs)"
  "repeatP 4 (pairP byteP byteP) (a0 # b0 # a1 # b1 # a2 # b2 # a3 # b3 # bs) = Some ([(a0, b0), (a1, b1), (a2, b2), (a3, b3)], bs)"
  "repeatP 8 (pairP byteP byteP) (a0 # b0 # a1 # b1 # a2 # b2 # a3 # b3 # a4 # b4 # a5 # b5 # a6 # b6 # a7 # b7 # bs)
     = Some ([(a0, b0), (a1, b1), (a2, b2), (a3, b3), (a4, b4), (a5, b5), (a6, b6), (a7, b7)], bs)"
  by (simp_all add: eval_nat_numeral pairP_def byteP_def)

lemma popcounts: "popcount 0x00 = 0" "popcount 0x02 = 1" "popcount 0x10 = 1" "popcount 0x0a = 2" "popcount 0x0c = 2"
  "popcount 0x0d = 3" "popcount 0x0e = 3"
  by code_simp+

lemma keyP_rows:
  "keyP (0xff # bs) = Some (None, bs)"
  "keyP (0x00 # a0 # b0 # bs) = Some (Some (0x00, [(a0, b0)]), bs)"
  "keyP (0x02 # a0 # b0 # a1 # b1 # bs) = Some (Some (0x02, [(a0, b0), (a1, b1)]), bs)"
  "keyP (0x10 # a0 # b0 # a1 # b1 # bs) = Some (Some (0x10, [(a0, b0), (a1, b1)]), bs)"
  "keyP (0x0a # a0 # b0 # a1 # b1 # a2 # b2 # a3 # b3 # bs) = Some (Some (0x0a, [(a0, b0), (a1, b1), (a2, b2), (a3, b3)]), bs)"
  "keyP (0x0c # a0 # b0 # a1 # b1 # a2 # b2 # a3 # b3 # bs) = Some (Some (0x0c, [(a0, b0), (a1, b1), (a2, b2), (a3, b3)]), bs)"
  "keyP (0x0d # a0 # b0 # a1 # b1 # a2 # b2 # a3 # b3 # a4 # b4 # a5 # b5 # a6 # b6 # a7 # b7 # bs) = Some (Some (0x0d, [(a0, b0), (a1, b1), (a2, b2), (a3, b3), (a4, b4), (a5, b5), (a6, b6), (a7, b7)]), bs)"
  "keyP (0x0e # a0 # b0 # a1 # b1 # a2 # b2 # a3 # b3 # a4 # b4 # a5 # b5 # a6 # b6 # a7 # b7 # bs) = Some (Some (0x0e, [(a0, b0), (a1, b1), (a2, b2), (a3, b3), (a4, b4), (a5, b5), (a6, b6), (a7, b7)]), bs)"
  by (simp_all add: keyP_def byteP_def popcounts repeat_pairs [unfolded One_nat_def] pairP_def)

lemma keys_0: "\<exists>ks. repeatP 41 keyP keymapKeys_0 = Some (ks, []) \<and> map keyChars ks = keyChars_0"
  by (simp add: keymapKeys_0_def keyChars_0_def keyP_rows repeatP_numeral)

lemma keys_1: "\<exists>ks. repeatP 41 keyP keymapKeys_1 = Some (ks, []) \<and> map keyChars ks = keyChars_1"
  by (simp add: keymapKeys_1_def keyChars_1_def keyP_rows repeatP_numeral)

lemma keys_2: "\<exists>ks. repeatP 41 keyP keymapKeys_2 = Some (ks, []) \<and> map keyChars ks = keyChars_2"
  by (simp add: keymapKeys_2_def keyChars_2_def keyP_rows repeatP_numeral)

lemma keys_3: "\<exists>ks. repeatP 39 keyP keymapKeys_3 = Some (ks, []) \<and> map keyChars ks = keyChars_3"
  by (simp add: keymapKeys_3_def keyChars_3_def keyP_rows repeatP_numeral)

lemma keys_parsed:
  "\<exists>ks. countedP keyP keymapKeys = Some (ks, []) \<and> map keyChars ks = keyChars_0 @ keyChars_1 @ keyChars_2 @ keyChars_3"
proof -
  obtain k0 k1 k2 k3 where k: "repeatP 41 keyP keymapKeys_0 = Some (k0, [])" "map keyChars k0 = keyChars_0"
    "repeatP 41 keyP keymapKeys_1 = Some (k1, [])" "map keyChars k1 = keyChars_1"
    "repeatP 41 keyP keymapKeys_2 = Some (k2, [])" "map keyChars k2 = keyChars_2"
    "repeatP 39 keyP keymapKeys_3 = Some (k3, [])" "map keyChars k3 = keyChars_3"
    using keys_0 keys_1 keys_2 keys_3 by blast
  note app = repeatP_append [OF prefix_keyP]
  have 3: "repeatP 80 keyP (keymapKeys_2 @ keymapKeys_3) = Some (k2 @ k3, [])"
    using app [OF k(5), of 39 keymapKeys_3] k(7) by simp
  have 2: "repeatP 121 keyP (keymapKeys_1 @ keymapKeys_2 @ keymapKeys_3) = Some (k1 @ k2 @ k3, [])"
    using app [OF k(3), of 80 "keymapKeys_2 @ keymapKeys_3"] 3 by simp
  have "repeatP 162 keyP (keymapKeys_0 @ keymapKeys_1 @ keymapKeys_2 @ keymapKeys_3) = Some (k0 @ k1 @ k2 @ k3, [])"
    using app [OF k(1), of 121 "keymapKeys_1 @ keymapKeys_2 @ keymapKeys_3"] 2 by simp
  then show ?thesis using k by (simp add: countedP_def byteP_def keymapKeys_def)
qed

lemma modifiers_parsed:
  "\<exists>ms. countedP (pairP byteP (countedP byteP)) (keymapModifiers k) = Some (ms, []) \<and> length ms = 11 \<and> concat (map snd ms) = modifierCodes"
  by (simp add: countedP_def [abs_def] pairP_def [abs_def] byteP_def [abs_def] keymapModifiers_def modifierCodes_def repeatP_numeral)

lemma specials_parsed:
  "\<exists>ss. countedP (pairP byteP byteP) (keymapSpecials k) = Some (ss, []) \<and> length ss = 14 \<and> map snd ss = specialCodes"
  by (simp add: countedP_def [abs_def] pairP_def [abs_def] byteP_def [abs_def] keymapSpecials_def specialCodes_def repeatP_numeral)

lemma sequences_parsed:
  "\<exists>qs. countedP (countedP (pairP byteP byteP)) keymapSequences = Some (qs, []) \<and> length qs = 17"
  by (simp add: countedP_def [abs_def] pairP_def [abs_def] byteP_def [abs_def] keymapSequences_def repeatP_numeral)

lemma keymap_parses:
  "\<exists>km. keymapP (appleUSAKeyMap k) = Some (km, []) \<and> length (km_modifiers km) = 11 \<and> concat (map snd (km_modifiers km)) = modifierCodes
     \<and> map keyChars (km_keys km) = keyChars_0 @ keyChars_1 @ keyChars_2 @ keyChars_3 \<and> length (km_sequences km) = 17
     \<and> length (km_specials km) = 14 \<and> map snd (km_specials km) = specialCodes"
proof -
  obtain ms ks qs ss where p: "countedP (pairP byteP (countedP byteP)) (keymapModifiers k) = Some (ms, [])" "countedP keyP keymapKeys = Some (ks, [])"
    "countedP (countedP (pairP byteP byteP)) keymapSequences = Some (qs, [])" "countedP (pairP byteP byteP) (keymapSpecials k) = Some (ss, [])"
    and r: "length ms = 11" "concat (map snd ms) = modifierCodes" "map keyChars ks = keyChars_0 @ keyChars_1 @ keyChars_2 @ keyChars_3"
      "length qs = 17" "length ss = 14" "map snd ss = specialCodes"
    using modifiers_parsed keys_parsed sequences_parsed specials_parsed by metis
  have "countedP (pairP byteP (countedP byteP)) (keymapModifiers k @ keymapKeys @ keymapSequences @ keymapSpecials k)
      = Some (ms, keymapKeys @ keymapSequences @ keymapSpecials k)"
    "countedP keyP (keymapKeys @ keymapSequences @ keymapSpecials k) = Some (ks, keymapSequences @ keymapSpecials k)"
    "countedP (countedP (pairP byteP byteP)) (keymapSequences @ keymapSpecials k) = Some (qs, keymapSpecials k)"
    using prefix_parserD [OF prefix_countedP [OF prefix_pairP [OF prefix_byteP prefix_countedP [OF prefix_byteP]]] p(1)]
      prefix_parserD [OF prefix_countedP [OF prefix_keyP] p(2)]
      prefix_parserD [OF prefix_countedP [OF prefix_countedP [OF prefix_pairP [OF prefix_byteP prefix_byteP]]] p(3)]
    by simp_all
  then have "keymapP (appleUSAKeyMap k) = Some (\<lparr>km_modifiers = ms, km_keys = ks, km_sequences = qs, km_specials = ss\<rparr>, [])"
    using p(4) by (simp add: keymapP_def appleUSAKeyMap_def byteP_def repeatP_numeral)
  then show ?thesis using r by simp
qed

lemma stock_codes: "list_all (\<lambda>c. unat c < 162) (modifierCodes @ specialCodes @ PS2ToADBMapStock)"
  by code_simp

lemma keyChars_length: "length (keyChars_0 @ keyChars_1 @ keyChars_2 @ keyChars_3) = 162"
  by (simp add: keyChars_0_def keyChars_1_def keyChars_2_def keyChars_3_def)

text \<open>
  C38: The key map of the keyboard driver is well formed: the table has exactly the 11 modifiers, 162 keys, 17 sequences and 14 special keys that
  its counts announce, each key has one character for every combination of its modifiers, nothing is left over, and every key code
  that a modifier, a special key or the translation table of scan codes uses is a key of the map.
\<close>

theorem keymap_wellformed:
  "\<exists>km. keymapP (fst (defaultKeymapOfLength k)) = Some (km, []) \<and> length (km_modifiers km) = 11 \<and> length (km_keys km) = 162
     \<and> length (km_sequences km) = 17 \<and> length (km_specials km) = 14
     \<and> list_all (\<lambda>c. unat c < length (km_keys km)) (concat (map snd (km_modifiers km)) @ map snd (km_specials km) @ PS2ToADBMapStock)"
proof -
  obtain km where km: "keymapP (appleUSAKeyMap k) = Some (km, [])" "length (km_modifiers km) = 11" "concat (map snd (km_modifiers km)) = modifierCodes"
    "map keyChars (km_keys km) = keyChars_0 @ keyChars_1 @ keyChars_2 @ keyChars_3" "length (km_sequences km) = 17"
    "length (km_specials km) = 14" "map snd (km_specials km) = specialCodes" using keymap_parses by blast
  have l: "length (km_keys km) = 162" using arg_cong [OF km(4), of length] unfolding keyChars_length by simp
  show ?thesis
    by (rule exI [of _ km]) (use km(1-3,5-7) l stock_codes in \<open>simp only: defaultKeymapOfLength_def fst_conv simp_thms\<close>)
qed





end
