(* ===== verification/Tpad_Filter.thy ===== *)
theory Tpad_Filter
  imports PS2_Loop "HOL-Library.Signed_Division"
begin

text \<open>
  The filters of VoodooPS2SynapticsTouchPad.h and the arithmetic they and the touchpad driver use.
  \<^verbatim>\<open>SimpleAverage\<close> refines a sliding window over the samples, and \<^verbatim>\<open>UndecayAverage\<close> undoes
  \<^verbatim>\<open>DecayingAverage\<close> up to the rounding of the divisions.
\<close>

subsection \<open>Division of signed numbers\<close>

text \<open>
  The C operators \<^verbatim>\<open>/\<close> and \<^verbatim>\<open>%\<close> on signed operands round towards zero. They are undefined (the
  processor traps) for a zero divisor and for the smallest number divided by -1.
\<close>

definition divides_ok :: "'a::len word \<Rightarrow> 'a word \<Rightarrow> bool" where
  "divides_ok a b \<longleftrightarrow> b \<noteq> 0 \<and> \<not> (b = -1 \<and> sint a = - (2 ^ (LENGTH('a) - 1)))"

definition quot :: "'a::len word \<Rightarrow> 'a word \<Rightarrow> 'a word option" where
  "quot a b = (if divides_ok a b then Some (word_of_int (sint a sdiv sint b)) else None)"

definition rem :: "'a::len word \<Rightarrow> 'a word \<Rightarrow> 'a word option" where
  "rem a b = (if divides_ok a b then Some (word_of_int (sint a smod sint b)) else None)"

text \<open>The macro \<^verbatim>\<open>abs\<close> of the source.\<close>

definition c_abs :: "'a::len word \<Rightarrow> 'a word" where
  "c_abs x = (if x <s 0 then - x else x)"

subsection \<open>SimpleAverage\<close>

text \<open>
  The buffer of N entries of type \<^verbatim>\<open>T\<close>, the sum as an \<^verbatim>\<open>int\<close>. N is the length of the buffer.
\<close>

record 'a average =
  av_buffer :: "'a list"
  av_count :: nat
  av_sum :: u32
  av_index :: nat

definition av_reset :: "'a average \<Rightarrow> 'a average" where
  "av_reset v = v\<lparr>av_count := 0, av_sum := 0, av_index := 0\<rparr>"

definition av_init :: "nat \<Rightarrow> 'a::len word average" where
  "av_init n = av_reset \<lparr>av_buffer = replicate n 0, av_count = 0, av_sum = 0, av_index = 0\<rparr>"

definition av_filter :: "'a::len word \<Rightarrow> 'a word average \<Rightarrow> ('a word \<times> 'a word average) option" where
  "av_filter data v =
     do { let n = length (av_buffer v);
          let v = v\<lparr>av_sum := av_sum v + ucast data\<rparr>;
          v \<leftarrow> (if av_count v = n then
                  do { old \<leftarrow> at (av_buffer v) (av_index v);
                       Some (v\<lparr>av_sum := av_sum v - ucast old\<rparr>) }
                else Some v);
          b \<leftarrow> put_at (av_buffer v) (av_index v) data;
          let v = v\<lparr>av_buffer := b, av_index := if av_index v + 1 \<ge> n then 0 else av_index v + 1\<rparr>;
          let v = (if av_count v < n then v\<lparr>av_count := av_count v + 1\<rparr> else v);
          q \<leftarrow> quot (av_sum v) (of_nat (av_count v));
          Some (scast q, v) }"

definition av_oldest :: "'a::len word average \<Rightarrow> 'a word option" where
  "av_oldest v =
     (if av_count v = 0 then Some 0
      else if av_count v < length (av_buffer v) then at (av_buffer v) 0
      else at (av_buffer v) (av_index v))"

definition av_newest :: "'a::len word average \<Rightarrow> 'a word option" where
  "av_newest v =
     (if av_count v = 0 then Some 0
      else at (av_buffer v) (if av_index v = 0 then av_count v - 1 else av_index v - 1))"

definition av_average :: "'a::len word average \<Rightarrow> 'a word option" where
  "av_average v = (if av_count v = 0 then Some 0 else map_option scast (quot (av_sum v) (of_nat (av_count v))))"

subsection \<open>DecayingAverage and UndecayAverage\<close>

text \<open>The parameters N1, N2 and D of the templates are given as numbers; the intermediate type has 64 bits.\<close>

record decay =
  dc_last :: u32
  dc_lastvalid :: bool

definition dc_reset :: "decay \<Rightarrow> decay" where
  "dc_reset d = d\<lparr>dc_lastvalid := False\<rparr>"

definition decay_filter :: "u64 \<Rightarrow> u64 \<Rightarrow> u64 \<Rightarrow> u32 \<Rightarrow> decay \<Rightarrow> (u32 \<times> decay) option" where
  "decay_filter n1 n2 dd data d =
     do { let last = scast (dc_last d);
          result \<leftarrow> (if dc_lastvalid d then
                       do { a \<leftarrow> quot (scast data * n1) dd; b \<leftarrow> quot (last * n2) dd; Some (a + b) }
                     else Some (scast data));
          let d = d\<lparr>dc_lastvalid := True, dc_last := ucast result\<rparr>;
          Some (dc_last d, d) }"

definition undecay_filter :: "u64 \<Rightarrow> u64 \<Rightarrow> u64 \<Rightarrow> u32 \<Rightarrow> decay \<Rightarrow> (u32 \<times> decay) option" where
  "undecay_filter n1 n2 dd data d =
     do { let last = scast (dc_last d);
          result \<leftarrow> (if dc_lastvalid d then
                       do { a \<leftarrow> quot (scast data * dd) n1; b \<leftarrow> quot (last * n2) n1; Some (a - b) }
                     else Some (scast data));
          Some (ucast result, d\<lparr>dc_lastvalid := True, dc_last := data\<rparr>) }"

text \<open>A whole sequence of samples.\<close>

fun filters :: "('x \<Rightarrow> 's \<Rightarrow> ('y \<times> 's) option) \<Rightarrow> 'x list \<Rightarrow> 's \<Rightarrow> ('y list \<times> 's) option" where
  "filters f [] s = Some ([], s)"
| "filters f (x # xs) s = do { (y, s) \<leftarrow> f x s; (ys, s) \<leftarrow> filters f xs s; Some (y # ys, s) }"

text \<open>The state of the average after the samples xs: it holds the last N of them.\<close>

definition recent :: "nat \<Rightarrow> 'x list \<Rightarrow> 'x list" where
  "recent n xs = drop (length xs - n) xs"

definition av_after :: "'a::len word list \<Rightarrow> 'a word average \<Rightarrow> bool" where
  "av_after xs v \<longleftrightarrow>
     (let n = length (av_buffer v) in
        0 < n \<and> n < 2 ^ 31 \<and> av_count v = min n (length xs) \<and> av_index v = length xs mod n
        \<and> (\<forall>j < length xs. length xs \<le> j + n \<longrightarrow> av_buffer v ! (j mod n) = xs ! j)
        \<and> av_sum v = sum_list (map ucast (recent n xs)))"

subsection \<open>Proofs\<close>

lemma divides_pos: "0 < sint b \<Longrightarrow> divides_ok a b"
  by (auto simp: divides_ok_def)

lemma sint_of_nat_small: "k < 2 ^ 31 \<Longrightarrow> sint (of_nat k :: u32) = int k"
  by (simp add: signed_of_nat signed_take_bit_int_eq_self)

lemma quot_of_nat: "0 < k \<Longrightarrow> k < 2 ^ 31 \<Longrightarrow> quot a (of_nat k :: u32) = Some (word_of_int (sint a sdiv int k))"
  by (simp add: quot_def divides_pos sint_of_nat_small)

lemma recent_snoc:
  "0 < n \<Longrightarrow> recent n (xs @ [x]) = (if n \<le> length xs then tl (recent n xs) else xs) @ [x]"
  by (auto simp: recent_def drop_Suc [symmetric] tl_drop Suc_diff_le)

lemma recent_hd: "0 < n \<Longrightarrow> n \<le> length xs \<Longrightarrow> hd (recent n xs) = xs ! (length xs - n)"
  by (simp add: recent_def hd_drop_conv_nth)

lemma recent_empty [simp]: "recent n xs = [] \<longleftrightarrow> n = 0 \<or> xs = []"
  by (cases xs) (auto simp: recent_def)

lemma length_recent: "length (recent n xs) = min n (length xs)"
  by (simp add: recent_def)

lemma sub_mod_self: "0 < n \<Longrightarrow> n \<le> k \<Longrightarrow> (k - n) mod n = k mod (n :: nat)"
  by (metis le_add_diff_inverse2 mod_add_self2)

lemma Suc_mod_wrap: "0 < n \<Longrightarrow> (if Suc (k mod n) \<ge> n then 0 else Suc (k mod n)) = Suc k mod n"
  using mod_less_divisor [of n k] by (auto simp: mod_Suc simp del: mod_less_divisor)

lemma mod_neq_near: "j < k \<Longrightarrow> k < j + n \<Longrightarrow> j mod n \<noteq> k mod (n :: nat)"
proof
  assume *: "j < k" "k < j + n" "j mod n = k mod n"
  then have "n dvd k - j" by (metis less_imp_le mod_eq_dvd_iff_nat)
  then show False using * by (auto dest: dvd_imp_le)
qed

lemma av_entry:
  assumes "av_after xs v" "j < length xs" "length xs \<le> j + length (av_buffer v)"
  shows "at (av_buffer v) (j mod length (av_buffer v)) = Some (xs ! j)"
  using assms by (simp add: av_after_def Let_def)

lemma av_first:
  assumes "av_after xs v" "length (av_buffer v) \<le> length xs"
  shows "at (av_buffer v) (length xs mod length (av_buffer v)) = Some (hd (recent (length (av_buffer v)) xs))"
proof -
  let ?n = "length (av_buffer v)" and ?k = "length xs"
  have n: "0 < ?n" using assms(1) by (simp add: av_after_def Let_def)
  then have "?k - ?n < ?k" "?k \<le> ?k - ?n + ?n" using assms(2) by linarith+
  then show ?thesis using av_entry [OF assms(1), of "?k - ?n"] assms(2) n recent_hd [of ?n xs] sub_mod_self [of ?n ?k] by simp
qed

lemma av_filter_step:
  assumes "av_after xs v"
  shows "\<exists>v'. av_filter x v = Some (scast (word_of_int (sint (av_sum v') sdiv int (av_count v')) :: u32), v')
    \<and> av_after (xs @ [x]) v' \<and> length (av_buffer v') = length (av_buffer v)"
proof -
  let ?n = "length (av_buffer v)" and ?k = "length xs"
  note a = assms [unfolded av_after_def Let_def]
  have n: "0 < ?n" "?n < 2 ^ 31" and i: "av_index v < ?n" using a by auto
  define b where "b = (av_buffer v)[?k mod ?n := x]"
  define v' where "v' = v\<lparr>av_buffer := b, av_index := Suc ?k mod ?n, av_count := min ?n (Suc ?k),
    av_sum := sum_list (map ucast (recent ?n (xs @ [x])))\<rparr>"
  note old = av_first [OF assms]
  have sum: "av_sum v + ucast x - (if ?n \<le> ?k then ucast (hd (recent ?n xs)) else 0)
      = sum_list (map ucast (recent ?n (xs @ [x])))"
  proof (cases "?n \<le> ?k")
    case True
    then have "recent ?n xs \<noteq> []" using n by (auto simp: recent_empty)
    then obtain y ys where "recent ?n xs = y # ys" by (cases "recent ?n xs") auto
    then show ?thesis using a True recent_snoc [OF n(1), of xs x] by simp
  next
    case False
    then show ?thesis using a recent_snoc [OF n(1), of xs x] by (simp add: recent_def)
  qed
  have after: "av_after (xs @ [x]) v'"
  proof -
    have "b ! (j mod ?n) = (xs @ [x]) ! j" if "j < Suc ?k" "Suc ?k \<le> j + ?n" for j
    proof (cases "j = ?k")
      case False
      then show ?thesis using that a n mod_neq_near [of j ?k ?n] by (auto simp: b_def nth_append)
    qed (use n in \<open>simp add: b_def\<close>)
    then show ?thesis using n by (simp add: av_after_def v'_def b_def Let_def)
  qed
  have c: "0 < min ?n (Suc ?k)" "min ?n (Suc ?k) < 2 ^ 31" using n by auto
  have "av_filter x v = Some (scast (word_of_int (sint (av_sum v') sdiv int (av_count v')) :: u32), v')"
  proof (cases "?n \<le> ?k")
    case True
    then show ?thesis using a n i old sum quot_of_nat [OF c] Suc_mod_wrap [OF n(1), of ?k]
      by (auto simp: av_filter_def v'_def b_def Let_def min_def intro!: average.equality split: if_splits)
  next
    case False
    then have "min ?n (Suc ?k) = Suc ?k" "min ?n ?k = ?k" by simp_all
    then show ?thesis using a n i False sum quot_of_nat [OF c] Suc_mod_wrap [OF n(1), of ?k]
      by (auto simp: av_filter_def v'_def b_def Let_def intro!: average.equality simp del: of_nat_Suc split: if_splits)
  qed
  then show ?thesis using after by (auto simp: v'_def b_def)
qed

lemma av_after_init: "0 < length (av_buffer v) \<Longrightarrow> length (av_buffer v) < 2 ^ 31 \<Longrightarrow> av_after [] (av_reset v)"
  by (simp add: av_after_def av_reset_def recent_def)

lemma av_newest_after:
  assumes "av_after xs v" "xs \<noteq> []"
  shows "av_newest v = Some (last xs)"
proof -
  let ?n = "length (av_buffer v)" and ?k = "length xs"
  note a = assms(1) [unfolded av_after_def Let_def]
  have k: "0 < ?k" "0 < ?n" using a assms(2) by auto
  have "(if av_index v = 0 then av_count v - 1 else av_index v - 1) = (?k - 1) mod ?n"
    using a k by (cases ?k) (auto simp: mod_Suc min_def not_le split: if_splits)
  moreover have "at (av_buffer v) ((?k - 1) mod ?n) = Some (last xs)"
  proof -
    have "?k - 1 < ?k" "?k \<le> ?k - 1 + ?n" using k by linarith+
    then show ?thesis using av_entry [OF assms(1), of "?k - 1"] last_conv_nth [OF assms(2)] by metis
  qed
  ultimately show ?thesis using a k assms(2) by (simp add: av_newest_def min_def split: if_splits)
qed

lemma av_oldest_after:
  assumes "av_after xs v" "xs \<noteq> []"
  shows "av_oldest v = Some (hd (recent (length (av_buffer v)) xs))"
proof -
  let ?n = "length (av_buffer v)" and ?k = "length xs"
  note a = assms(1) [unfolded av_after_def Let_def]
  show ?thesis
  proof (cases "?k < ?n")
    case True
    then show ?thesis using a assms(2) by (auto simp: av_oldest_def recent_def hd_conv_nth dest!: spec [of _ 0])
  next
    case False
    then show ?thesis using a assms(2) av_first [OF assms(1)] by (simp add: av_oldest_def)
  qed
qed

lemma filters_av:
  assumes "av_after ws v"
  shows "\<exists>ys v'. filters av_filter xs v = Some (ys, v') \<and> av_after (ws @ xs) v' \<and> length (av_buffer v') = length (av_buffer v)
    \<and> length ys = length xs
    \<and> (xs \<noteq> [] \<longrightarrow> last ys = scast (word_of_int (sint (av_sum v') sdiv int (av_count v')) :: u32))"
  using assms
proof (induction xs arbitrary: ws v)
  case (Cons x xs)
  obtain v1 where 1: "av_filter x v = Some (scast (word_of_int (sint (av_sum v1) sdiv int (av_count v1)) :: u32), v1)"
    "av_after (ws @ [x]) v1" "length (av_buffer v1) = length (av_buffer v)"
    using av_filter_step [OF Cons.prems] by blast
  from Cons.IH [OF 1(2)] obtain ys v' where 2: "filters av_filter xs v1 = Some (ys, v')" "av_after (ws @ x # xs) v'"
    "length (av_buffer v') = length (av_buffer v1)" "length ys = length xs"
    "xs \<noteq> [] \<longrightarrow> last ys = scast (word_of_int (sint (av_sum v') sdiv int (av_count v')) :: u32)" by auto
  with 1 show ?case by (cases "xs = []") auto
qed (auto)

subsection \<open>Undoing the decay\<close>

lemma sint_scast_64 [simp]: "sint (scast x :: u64) = sint x" for x :: u32
proof -
  have "- (2 ^ 31) \<le> sint x" "sint x < 2 ^ 31" using sint_range_size [of x] by (simp_all add: word_size)
  then show ?thesis by (simp add: signed_scast_eq signed_take_bit_int_eq_self)
qed

lemma ucast_word_of_int: "ucast (word_of_int k :: u64) = (word_of_int k :: u32)"
  by (simp add: unsigned_of_int word_of_int_eq_iff)

lemma ucast_scast_id: "ucast (scast x * 2 - scast z :: u64) = x * 2 - z" "ucast (scast x :: u64) = x" for x z :: u32
proof -
  have e: "scast x * 2 - scast z = (word_of_int (sint x * 2 - sint z) :: u64)" by (simp only: scast_eq of_int_diff of_int_mult of_int_numeral)
  show "ucast (scast x * 2 - scast z :: u64) = x * 2 - z" unfolding e ucast_word_of_int by simp
  have "ucast (word_of_int (sint x) :: u64) = (word_of_int (sint x) :: u32)" by (rule ucast_word_of_int)
  then show "ucast (scast x :: u64) = x" by simp
qed

lemma sdiv_abs_le: "\<bar>a sdiv int k\<bar> \<le> \<bar>a\<bar>"
proof (cases "k = 0")
  case False
  then have "\<bar>a\<bar> div int k \<le> \<bar>a\<bar>" "0 \<le> \<bar>a\<bar> div int k" using zdiv_mono2 [of "\<bar>a\<bar>" 1 "int k"] by (simp_all add: pos_imp_zdiv_nonneg_iff)
  then show ?thesis using False by (auto simp: signed_divide_int_def abs_mult sgn_if abs_if split: if_splits)
qed simp

lemma sum_list_sint: "sum_list ws = (word_of_int (sum_list (map sint ws)) :: 'a::len word)"
  by (induction ws) simp_all

lemma sint_word_of_int_small: "- (2 ^ 31) \<le> k \<Longrightarrow> k < 2 ^ 31 \<Longrightarrow> sint (word_of_int k :: u32) = k"
  by (simp add: signed_of_int signed_take_bit_int_eq_self)

lemma half_close: "\<bar>2 * (a sdiv 2) - a\<bar> \<le> 1 \<and> 2 * \<bar>a sdiv 2\<bar> \<le> \<bar>a\<bar>" for a :: int
proof -
  have "a sdiv 2 = (if a < 0 then - (- a div 2) else a div 2)" by (auto simp: signed_divide_int_def sgn_if)
  then show ?thesis by auto
qed

text \<open>One sample through the average of the touchpad and its inverse in the driver.\<close>

lemma undecay_decay_step:
  assumes "dc_lastvalid d" "dc_lastvalid u" "dc_last u = dc_last d" "\<bar>sint x\<bar> \<le> 2 ^ 29" "\<bar>sint (dc_last d)\<bar> \<le> 2 ^ 29"
  shows "\<exists>y d' r u'. decay_filter 1 1 2 x d = Some (y, d') \<and> undecay_filter 1 1 2 y u = Some (r, u')
    \<and> dc_lastvalid d' \<and> dc_lastvalid u' \<and> dc_last d' = y \<and> dc_last u' = y \<and> \<bar>sint y\<bar> \<le> 2 ^ 29 \<and> \<bar>sint r - sint x\<bar> \<le> 2"
proof -
  let ?a = "sint x sdiv 2" and ?b = "sint (dc_last d) sdiv 2"
  note a = half_close [of "sint x"] and b = half_close [of "sint (dc_last d)"]
  have "\<bar>?a + ?b\<bar> \<le> 2 ^ 29" using a b assms(4,5) by linarith
  define y :: u32 where "y = word_of_int (?a + ?b)"
  have y: "sint y = ?a + ?b" unfolding y_def using \<open>\<bar>?a + ?b\<bar> \<le> 2 ^ 29\<close> by (intro sint_word_of_int_small) simp_all
  have d: "decay_filter 1 1 2 x d = Some (y, d\<lparr>dc_last := y\<rparr>)"
    using assms(1) by (simp add: decay_filter_def quot_def divides_ok_def y_def ucast_word_of_int Let_def
        flip: of_int_add)
  define r where "r = y * 2 - dc_last d"
  have "r = word_of_int (sint y * 2 - sint (dc_last d))" by (simp add: r_def)
  moreover have "\<bar>sint y * 2 - sint (dc_last d) - sint x\<bar> \<le> 2" using a [THEN conjunct1] b [THEN conjunct1] unfolding y by arith
  ultimately have r: "\<bar>sint r - sint x\<bar> \<le> 2" using assms(4) sint_word_of_int_small [of "sint y * 2 - sint (dc_last d)"] by simp
  have u: "undecay_filter 1 1 2 y u = Some (r, u\<lparr>dc_last := y\<rparr>)"
    using assms(2,3) by (simp add: undecay_filter_def quot_def divides_ok_def r_def ucast_scast_id Let_def)
  show ?thesis using d u r assms(1,2) \<open>\<bar>?a + ?b\<bar> \<le> 2 ^ 29\<close> unfolding y [symmetric] by auto
qed

lemma undecay_decay_all:
  assumes "dc_lastvalid d" "dc_lastvalid u" "dc_last u = dc_last d" "\<forall>x \<in> set xs. \<bar>sint x\<bar> \<le> 2 ^ 29" "\<bar>sint (dc_last d)\<bar> \<le> 2 ^ 29"
  shows "\<exists>ys d' zs u'. filters (decay_filter 1 1 2) xs d = Some (ys, d') \<and> filters (undecay_filter 1 1 2) ys u = Some (zs, u')
    \<and> list_all2 (\<lambda>x z. \<bar>sint z - sint x\<bar> \<le> 2) xs zs"
  using assms
proof (induction xs arbitrary: d u)
  case (Cons x xs)
  obtain y d1 r u1 where 1: "decay_filter 1 1 2 x d = Some (y, d1)" "undecay_filter 1 1 2 y u = Some (r, u1)"
    "dc_lastvalid d1" "dc_lastvalid u1" "dc_last d1 = y" "dc_last u1 = y" "\<bar>sint y\<bar> \<le> 2 ^ 29" "\<bar>sint r - sint x\<bar> \<le> 2"
    using undecay_decay_step [OF Cons.prems(1-3) _ Cons.prems(5), of x] Cons.prems(4) by auto
  then show ?case using Cons.IH [of d1 u1] Cons.prems(4) by fastforce
qed auto

text \<open>
  C34: The driver can undo the decaying average of the touchpad: what comes out of \<^verbatim>\<open>UndecayAverage\<close> for the
  output of \<^verbatim>\<open>DecayingAverage\<close> with the same weights differs from the samples by at most two units.
\<close>

theorem undecay_undoes_decay:
  assumes "\<forall>x \<in> set xs. \<bar>sint x\<bar> \<le> 2 ^ 29"
  shows "\<exists>ys d' zs u'. filters (decay_filter 1 1 2) xs (dc_reset d) = Some (ys, d')
    \<and> filters (undecay_filter 1 1 2) ys (dc_reset u) = Some (zs, u') \<and> list_all2 (\<lambda>x z. \<bar>sint z - sint x\<bar> \<le> 2) xs zs"
proof (cases xs)
  case (Cons x rest)
  let ?d = "d\<lparr>dc_last := x, dc_lastvalid := True\<rparr>" and ?u = "u\<lparr>dc_last := x, dc_lastvalid := True\<rparr>"
  have "decay_filter 1 1 2 x (dc_reset d) = Some (x, ?d)" "undecay_filter 1 1 2 x (dc_reset u) = Some (x, ?u)"
    by (simp_all add: decay_filter_def undecay_filter_def dc_reset_def ucast_scast_id)
  then show ?thesis using Cons assms undecay_decay_all [of ?d ?u rest] by fastforce
qed auto

text \<open>
  C33: \<^verbatim>\<open>SimpleAverage\<close> of size N is a sliding window: after any samples its result is the mean of the last N of
  them (of all of them while there are fewer), rounded towards zero, \<^verbatim>\<open>sum\<close> is their sum, and
  \<^verbatim>\<open>newest\<close> and \<^verbatim>\<open>oldest\<close> are the last and first in the window, as long as the sum fits its type.
\<close>

theorem average_is_window_mean:
  fixes v :: "u32 average"
  assumes "n = length (av_buffer v)" "0 < n" "n < 2 ^ 31" "xs \<noteq> []"
    and "\<bar>sum_list (map sint (recent n xs))\<bar> < 2 ^ 31"
  shows "\<exists>ys v'. filters av_filter xs (av_reset v) = Some (ys, v') \<and> length ys = length xs
    \<and> sint (last ys) = sum_list (map sint (recent n xs)) sdiv int (length (recent n xs))
    \<and> sint (av_sum v') = sum_list (map sint (recent n xs)) \<and> av_count v' = length (recent n xs)
    \<and> av_newest v' = Some (last xs) \<and> av_oldest v' = Some (hd (recent n xs))"
proof -
  obtain ys v' where 1: "filters av_filter xs (av_reset v) = Some (ys, v')" "av_after xs v'" "length (av_buffer v') = n"
    "length ys = length xs" "last ys = word_of_int (sint (av_sum v') sdiv int (av_count v'))"
    using filters_av [OF av_after_init, of v xs] assms by (auto simp: av_reset_def)
  let ?t = "sum_list (map sint (recent n xs))"
  have c: "av_count v' = length (recent n xs)" using 1 by (simp add: av_after_def length_recent Let_def)
  have "map ucast (recent n xs) = recent n xs" by (rule map_idI) simp
  then have "av_sum v' = sum_list (recent n xs)" using 1 by (simp add: av_after_def Let_def)
  also have "\<dots> = word_of_int ?t" by (rule sum_list_sint)
  finally have s: "sint (av_sum v') = ?t" using assms(5) sint_word_of_int_small [of ?t] by simp
  have "\<bar>?t sdiv int (length (recent n xs))\<bar> \<le> \<bar>?t\<bar>" by (rule sdiv_abs_le)
  then have "sint (last ys) = ?t sdiv int (length (recent n xs))"
    unfolding 1(5) s c using assms(5) by (intro sint_word_of_int_small) simp_all
  then show ?thesis using 1 s c av_newest_after [OF 1(2) assms(4)] av_oldest_after [OF 1(2) assms(4)] by auto
qed

theorem average_is_window_mean_witness:
  "\<exists>ys v'. filters av_filter [10, 20, 30, -7] (av_reset (av_init 3)) = Some (ys, v') \<and> sint (last ys) = 14 \<and> av_oldest v' = Some (20 :: u32)"
  using average_is_window_mean [of 3 "av_init 3" "[10, 20, 30, -7]"]
  by (auto simp: av_init_def av_reset_def recent_def signed_divide_int_def)

theorem undecay_undoes_decay_witness:
  "\<exists>ys d' zs u'. filters (decay_filter 1 1 2) [1001, 2000] (dc_reset \<lparr>dc_last = 5, dc_lastvalid = True\<rparr>) = Some (ys, d')
    \<and> filters (undecay_filter 1 1 2) ys (dc_reset \<lparr>dc_last = 0, dc_lastvalid = True\<rparr>) = Some (zs, u')
    \<and> list_all2 (\<lambda>x z. \<bar>sint z - sint x\<bar> \<le> 2) [1001, 2000 :: u32] zs"
  by (rule undecay_undoes_decay) simp

end
