(* ===== verification/Mouse_State.thy ===== *)
theory Mouse_State
  imports PS2_Loop PS2_Request PS2_Constants PS2_Config
begin

text \<open>
  The state of the mouse driver (class \<^verbatim>\<open>ApplePS2Mouse\<close>, VoodooPS2Mouse.h). The fields keep the names of
  the class, without the underscore, and with \<open>m_\<close> in front where another driver or the controller has
  a field of that name. A C \<^verbatim>\<open>int\<close> is a 32 bit word, read as signed where the code compares it. What
  the driver hands to the system is logged in \<open>m_out\<close>.
\<close>

definition kPacketLengthMax :: nat where
  "kPacketLengthMax = 4"

definition kPacketLengthStandard :: u32 where
  "kPacketLengthStandard = 3"

definition kPacketLengthIntellimouse :: u32 where
  "kPacketLengthIntellimouse = 4"

datatype PS2MouseId = kMouseTypeStandard | kMouseTypeIntellimouse | kMouseTypeIntellimouseExplorer

lemmas mouse_nums [simp] =
  kPacketLengthMax_def kPacketLengthStandard_def kPacketLengthIntellimouse_def

text \<open>The states of the middle button simulation, and who asks it.\<close>

datatype mbuttonstate = STATE_NOBUTTONS | STATE_MIDDLE | STATE_WAIT4TWO | STATE_WAIT4NONE | STATE_NOOP

datatype MBComingFrom = fromTimer | fromMouse

text \<open>Movement (dx, dy) with the buttons that are down, and movement of the wheel, each with its time.\<close>

datatype mouse_out =
    RelativePointer u32 u32 u32 u64
  | ScrollWheel u16 u64

text \<open>The notifications of other pointing devices, and the devices that are there.\<close>

datatype hid_notify = usb_hid_publish | usb_hid_terminate | bluetooth_hid_publish | bluetooth_hid_terminate

record 'p mouse =
  m_device :: bool \<comment> \<open>the pointer is not null, as for the gate and the timer\<close>
  m_interruptHandlerInstalled :: bool
  m_powerControlHandlerInstalled :: bool
  m_ringBuffer :: "u8 ring"
  packetByteCount :: u32
  m_lastdata :: u8
  packetLength :: u32
  resolution :: u32
  mtype :: PS2MouseId \<comment> \<open>\<^verbatim>\<open>_type\<close>\<close>
  buttonCount :: u32
  mouseInfoBytes :: u32
  mouseResetCount :: u32
  m_cmdGate :: bool
  defres :: u32
  forceres :: bool
  mouseyinverter :: u32
  scrollyinverter :: u32
  forcesetres :: bool
  resmode :: u32
  scrollres :: u32
  actliketrackpad :: bool
  keytime :: u64
  maxaftertyping :: u64
  buttonmask :: u32
  outzone_wt :: bool
  palm :: bool
  palm_wt :: bool
  scroll :: bool
  ignoreall :: bool
  ledpresent :: bool
  noled :: bool
  m_wakedelay :: u32
  usb_mouse_stops_trackpad :: bool
  processusbmouse :: bool
  processbluetoothmouse :: bool
  attachedHIDPointerDevices :: "objref list option" \<comment> \<open>a set, unless the pointer is null\<close>
  hidNotifiers :: "hid_notify list" \<comment> \<open>the notifiers that are registered\<close>
  mbuttonstate :: mbuttonstate
  lastbuttons :: u32
  pendingbuttons :: u32
  buttontime :: u64
  buttonTimer :: bool
  buttonTimeout :: "u64 option" \<comment> \<open>the delay \<^verbatim>\<open>_buttonTimer\<close> is armed with\<close>
  maxmiddleclicktime :: u64
  fakemiddlebutton :: bool
  m_out :: "mouse_out list"
  m_plat :: 'p

text \<open>The clock of the kernel and the conversion of its time.\<close>

record 'p mouse_env =
  m_clock_get_uptime :: "'p \<Rightarrow> u64 \<times> 'p"
  m_absolutetime_to_nanoseconds :: "u64 \<Rightarrow> u64"

definition uptime :: "'p mouse_env \<Rightarrow> 'p mouse \<Rightarrow> u64 \<times> 'p mouse" where
  "uptime e s = (let (t, p) = m_clock_get_uptime e (m_plat s) in (t, s\<lparr>m_plat := p\<rparr>))"

definition dispatchRelativePointerEventX :: "u32 \<Rightarrow> u32 \<Rightarrow> u32 \<Rightarrow> u64 \<Rightarrow> 'p mouse \<Rightarrow> 'p mouse" where
  "dispatchRelativePointerEventX dx dy buttonState now s = s\<lparr>m_out := m_out s @ [RelativePointer dx dy buttonState now]\<rparr>"

definition dispatchScrollWheelEventX :: "u16 \<Rightarrow> u64 \<Rightarrow> 'p mouse \<Rightarrow> 'p mouse" where
  "dispatchScrollWheelEventX delta now s = s\<lparr>m_out := m_out s @ [ScrollWheel delta now]\<rparr>"

text \<open>Calls of the timer object; the driver does not test the pointer.\<close>

definition setButtonTimer :: "u64 \<Rightarrow> 'p mouse \<Rightarrow> 'p mouse option" where
  "setButtonTimer time s = (if buttonTimer s then Some (s\<lparr>buttonTimeout := Some time\<rparr>) else None)"

definition cancelButtonTimer :: "'p mouse \<Rightarrow> 'p mouse option" where
  "cancelButtonTimer s = (if buttonTimer s then Some (s\<lparr>buttonTimeout := None\<rparr>) else None)"

text \<open>The defaults of \<^verbatim>\<open>init\<close>; what it does not set is zero.\<close>

definition init_mouse :: "'p \<Rightarrow> 'p mouse" where
  "init_mouse p = \<lparr>m_device = False, m_interruptHandlerInstalled = False, m_powerControlHandlerInstalled = False,
     m_ringBuffer = ring_init (kPacketLengthMax * 32), packetByteCount = 0, m_lastdata = 0,
     packetLength = kPacketLengthStandard, resolution = 0, mtype = kMouseTypeStandard, buttonCount = 3,
     mouseInfoBytes = -1, mouseResetCount = 0, m_cmdGate = False, defres = push_bit 16 150, forceres = False,
     mouseyinverter = 1, scrollyinverter = 1, forcesetres = False, resmode = -1, scrollres = 10,
     actliketrackpad = False, keytime = 0, maxaftertyping = 500000000, buttonmask = NOT 0, outzone_wt = False,
     palm = False, palm_wt = False, scroll = True, ignoreall = False, ledpresent = False, noled = False,
     m_wakedelay = 1000, usb_mouse_stops_trackpad = True, processusbmouse = True, processbluetoothmouse = True,
     attachedHIDPointerDevices = None, hidNotifiers = [], mbuttonstate = STATE_NOBUTTONS, lastbuttons = 0,
     pendingbuttons = 0, buttontime = 0, buttonTimer = False, buttonTimeout = None,
     maxmiddleclicktime = 100000000, fakemiddlebutton = False, m_out = [], m_plat = p\<rparr>"

end
