(* ===== verification/Mouse_Input.thy ===== *)
theory Mouse_Input
  imports Mouse_State
begin

text \<open>
  The way of a byte through the mouse driver: \<^verbatim>\<open>interruptOccurred\<close> collects packets in the ring buffer at
  interrupt time, \<^verbatim>\<open>packetReady\<close> decodes them in the work loop, and \<^verbatim>\<open>middleButton\<close> simulates a middle
  button with the other two.
\<close>

subsection \<open>Interrupt time\<close>

text \<open>A byte of the packet at the head of the ring buffer; undefined beyond the end of the buffer.\<close>

definition pokePacket :: "nat \<Rightarrow> u8 \<Rightarrow> 'p mouse \<Rightarrow> 'p mouse option" where
  "pokePacket i v s =
     (if m_head (m_ringBuffer s) + i < ring_N (m_ringBuffer s)
      then Some (s\<lparr>m_ringBuffer := ring_head_write i v (m_ringBuffer s)\<rparr>) else None)"

definition commitPacket :: "'p mouse \<Rightarrow> 'p mouse" where
  "commitPacket s = s\<lparr>m_ringBuffer := ring_advanceHead kPacketLengthMax (m_ringBuffer s)\<rparr>"

definition interruptOccurred_mouse :: "u8 \<Rightarrow> 'p mouse \<Rightarrow> (PS2InterruptResult \<times> 'p mouse) option" where
  "interruptOccurred_mouse data s =
     (if m_lastdata s = kSC_Reset \<and> data = 0 then
        do { s \<leftarrow> pokePacket 0 0 s; s \<leftarrow> pokePacket 1 kSC_Reset s;
             Some (kPS2IR_packetReady, (commitPacket s)\<lparr>packetByteCount := 0\<rparr>) }
      else
        let s = s\<lparr>m_lastdata := data\<rparr>
        in if packetByteCount s = 0 \<and> (data = kSC_Acknowledge \<or> \<not> tst data 0x08) then
             (if mouseResetCount s < 5 then
                do { let s = s\<lparr>mouseResetCount := mouseResetCount s + 1\<rparr>;
                     s \<leftarrow> pokePacket 0 0 s; s \<leftarrow> pokePacket 1 kSC_Acknowledge s;
                     Some (kPS2IR_packetReady, commitPacket s) }
              else Some (kPS2IR_packetBuffering, s))
           else
             do { s \<leftarrow> pokePacket (unat (packetByteCount s)) data s;
                  let s = s\<lparr>packetByteCount := packetByteCount s + 1\<rparr>;
                  if packetByteCount s = packetLength s then
                    Some (kPS2IR_packetReady, (commitPacket (s\<lparr>mouseResetCount := 0\<rparr>))\<lparr>packetByteCount := 0\<rparr>)
                  else Some (kPS2IR_packetBuffering, s) })"

subsection \<open>The simulated middle button\<close>

text \<open>The switch on the state.\<close>

definition middleSwitch :: "u32 \<Rightarrow> u64 \<Rightarrow> u64 \<Rightarrow> bool \<Rightarrow> MBComingFrom \<Rightarrow> 'p mouse \<Rightarrow> 'p mouse option" where
  "middleSwitch buttons now_abs now_ns timeout from s =
     (case mbuttonstate s of
        STATE_NOBUTTONS \<Rightarrow>
          if tst buttons 0x4 then Some (s\<lparr>mbuttonstate := STATE_NOOP\<rparr>)
          else if buttons = 0x3 then Some (s\<lparr>mbuttonstate := STATE_MIDDLE\<rparr>)
          else if buttons \<noteq> 0 then
            do { let s = s\<lparr>pendingbuttons := buttons, buttontime := now_ns\<rparr>;
                 s \<leftarrow> setButtonTimer (maxmiddleclicktime s) s;
                 Some (s\<lparr>mbuttonstate := STATE_WAIT4TWO\<rparr>) }
          else Some s
      | STATE_WAIT4TWO \<Rightarrow>
          if \<not> timeout \<and> buttons = 0x3 then
            do { s \<leftarrow> cancelButtonTimer (s\<lparr>pendingbuttons := 0\<rparr>);
                 Some (s\<lparr>mbuttonstate := STATE_MIDDLE\<rparr>) }
          else if timeout \<or> buttons \<noteq> pendingbuttons s then
            do { let s = (if from = fromTimer \<or> \<not> tst buttons (pendingbuttons s)
                          then dispatchRelativePointerEventX 0 0 (buttons OR pendingbuttons s) now_abs s else s);
                 s \<leftarrow> cancelButtonTimer (s\<lparr>pendingbuttons := 0\<rparr>);
                 Some (s\<lparr>mbuttonstate := if buttons = 0 then STATE_NOBUTTONS else STATE_NOOP\<rparr>) }
          else Some s
      | STATE_MIDDLE \<Rightarrow>
          if buttons = 0 then Some (s\<lparr>mbuttonstate := STATE_NOBUTTONS\<rparr>)
          else if buttons AND 0x3 \<noteq> 0x3 then
            do { let s = s\<lparr>pendingbuttons := buttons, buttontime := now_ns\<rparr>;
                 s \<leftarrow> setButtonTimer (maxmiddleclicktime s) s;
                 Some (s\<lparr>mbuttonstate := STATE_WAIT4NONE\<rparr>) }
          else Some s
      | STATE_WAIT4NONE \<Rightarrow>
          if \<not> timeout \<and> buttons = 0 then
            do { s \<leftarrow> cancelButtonTimer (s\<lparr>pendingbuttons := 0\<rparr>);
                 Some (s\<lparr>mbuttonstate := STATE_NOBUTTONS\<rparr>) }
          else if timeout \<or> buttons \<noteq> pendingbuttons s then
            do { let s = (if from = fromTimer
                          then dispatchRelativePointerEventX 0 0 (buttons OR pendingbuttons s) now_abs s else s);
                 s \<leftarrow> cancelButtonTimer (s\<lparr>pendingbuttons := 0\<rparr>);
                 Some (s\<lparr>mbuttonstate := if buttons = 0 then STATE_NOBUTTONS else STATE_NOOP\<rparr>) }
          else Some s
      | STATE_NOOP \<Rightarrow> Some (if buttons = 0 then s\<lparr>mbuttonstate := STATE_NOBUTTONS\<rparr> else s))"

text \<open>What is reported in the new state.\<close>

definition middleReport :: "mbuttonstate \<Rightarrow> u32 \<Rightarrow> u32" where
  "middleReport st buttons =
     (case st of
        STATE_MIDDLE \<Rightarrow> 0x4
      | STATE_WAIT4NONE \<Rightarrow> buttons AND NOT 0x3
      | STATE_WAIT4TWO \<Rightarrow> buttons AND NOT 0x3
      | _ \<Rightarrow> buttons)"

definition middleButton :: "'p mouse_env \<Rightarrow> u32 \<Rightarrow> u64 \<Rightarrow> MBComingFrom \<Rightarrow> 'p mouse \<Rightarrow> (u32 \<times> 'p mouse) option" where
  "middleButton e buttons now_abs from s =
     (if \<not> fakemiddlebutton s \<or> sint (buttonCount s) \<le> 2 \<or> ignoreall s \<and> from = fromMouse then Some (buttons, s)
      else
        do { let now_ns = m_absolutetime_to_nanoseconds e now_abs;
             let timeout = (from = fromTimer \<or> now_ns - buttontime s > maxmiddleclicktime s);
             s \<leftarrow> middleSwitch buttons now_abs now_ns timeout from s;
             Some (middleReport (mbuttonstate s) buttons, s) })"

definition onButtonTimer :: "'p mouse_env \<Rightarrow> 'p mouse \<Rightarrow> 'p mouse option" where
  "onButtonTimer e s =
     do { let (now_abs, s) = uptime e s;
          (_, s) \<leftarrow> middleButton e (lastbuttons s) now_abs fromTimer s;
          Some s }"

subsection \<open>Decoding\<close>

text \<open>The nine bit coordinates: the byte with the sign bit that the first byte of the packet holds.\<close>

definition delta9 :: "bool \<Rightarrow> u8 \<Rightarrow> u32" where
  "delta9 negative b = (if negative then 0xffffff00 else 0) OR ucast b"

text \<open>The low four bits of the fourth byte as a signed number.\<close>

definition delta4 :: "u8 \<Rightarrow> u16" where
  "delta4 b = scast (signed_drop_bit 4 (push_bit 4 b))"

text \<open>Buttons four and five, and the movement of the wheel, when the packet has a fourth byte.\<close>

definition fourthByte :: "u8 list \<Rightarrow> u32 \<Rightarrow> u32 \<Rightarrow> 'p mouse \<Rightarrow> (u32 \<times> u16) option" where
  "fourthByte packet packetSize buttons s =
     (if packetSize > 3 then
        do { b3 \<leftarrow> at packet 3;
             Some (if mtype s = kMouseTypeIntellimouseExplorer
                   then buttons OR ucast (drop_bit 1 (b3 AND 0x30)) else buttons,
                   if \<not> actliketrackpad s \<or> scroll s then delta4 b3 else 0) }
      else Some (buttons, 0))"

text \<open>Buttons one and two are ignored just after typing.\<close>

definition maskTyping :: "u64 \<Rightarrow> u32 \<Rightarrow> 'p mouse \<Rightarrow> u32 \<times> 'p mouse" where
  "maskTyping now_ns buttons s =
     (if palm_wt s \<or> outzone_wt s then
        let s = s\<lparr>buttonmask := if now_ns - keytime s \<le> maxaftertyping s then NOT (buttons AND 0x3) else NOT 0\<rparr>
        in (buttons AND buttonmask s, s)
      else (buttons, s))"

text \<open>The events for a decoded packet: the movement with the buttons, and the wheel unless just after typing.\<close>

definition dispatchMovement :: "u32 \<Rightarrow> u32 \<Rightarrow> u16 \<Rightarrow> u32 \<Rightarrow> u64 \<Rightarrow> u64 \<Rightarrow> 'p mouse \<Rightarrow> 'p mouse" where
  "dispatchMovement dx dy dz buttons now_abs now_ns s =
     (let s = s\<lparr>lastbuttons := buttons\<rparr>;
          (buttons, s) = maskTyping now_ns buttons s;
          s = (if \<not> ignoreall s then dispatchRelativePointerEventX dx (mouseyinverter s * dy) buttons now_abs s else s)
      in if dz \<noteq> 0 \<and> (\<not> (palm_wt s \<or> outzone_wt s) \<or> now_ns - keytime s > maxaftertyping s) \<and> \<not> ignoreall s
         then dispatchScrollWheelEventX (ucast (- scrollyinverter s * scast dz)) now_abs s else s)"

definition dispatchRelativePointerEventWithPacket :: "'p mouse_env \<Rightarrow> u8 list \<Rightarrow> u32 \<Rightarrow> 'p mouse \<Rightarrow> 'p mouse option" where
  "dispatchRelativePointerEventWithPacket e packet packetSize s =
     do { b0 \<leftarrow> at packet 0; b1 \<leftarrow> at packet 1; b2 \<leftarrow> at packet 2;
          let buttons = ucast (b0 AND 0x7);
          let dx = delta9 (tst b0 0x10) b1;
          let dy = - delta9 (tst b0 0x20) b2;
          let (now_abs, s) = uptime e s;
          let now_ns = m_absolutetime_to_nanoseconds e now_abs;
          (buttons, dz) \<leftarrow> fourthByte packet packetSize buttons s;
          (buttons, s) \<leftarrow> middleButton e buttons now_abs fromMouse s;
          Some (dispatchMovement dx dy dz buttons now_abs now_ns s) }"

subsection \<open>The work loop\<close>

definition handleMousePacket :: "'p mouse_env \<Rightarrow> u8 list \<Rightarrow> 'p mouse \<Rightarrow> 'p mouse option" where
  "handleMousePacket e packet s =
     do { b0 \<leftarrow> at packet 0;
          if b0 \<noteq> 0 then dispatchRelativePointerEventWithPacket e packet (packetLength s) s else Some s }"

definition packetReady_mouse :: "'p mouse_env \<Rightarrow> 'p mouse \<Rightarrow> 'p mouse option" where
  "packetReady_mouse e =
     loop (\<lambda>s. kPacketLengthMax \<le> ring_count (m_ringBuffer s))
       (\<lambda>s. do { s \<leftarrow> handleMousePacket e (ring_front kPacketLengthMax (m_ringBuffer s)) s;
                 Some (s\<lparr>m_ringBuffer := ring_advanceTail kPacketLengthMax (m_ringBuffer s)\<rparr>) })"

end
