(* ===== verification/Mouse_Control.thy ===== *)
theory Mouse_Control
  imports Mouse_Input PS2_Power
begin

text \<open>
  The operations of the mouse driver that send requests to the controller, its parameters and messages,
  and its life cycle. They run in the whole system, in which the state of the mouse driver is a part of
  the state of the drivers, read and written by the two functions of a \<open>mouse_part\<close>.
\<close>

record ('d, 'p) mouse_part =
  mget :: "'d \<Rightarrow> 'p mouse"
  mput :: "'p mouse \<Rightarrow> 'd \<Rightarrow> 'd"

definition mouse_of :: "('d, 'p) mouse_part \<Rightarrow> ('h, 'd) sys \<Rightarrow> 'p mouse" where
  "mouse_of L s = mget L (drv s)"

definition upd_mouse :: "('d, 'p) mouse_part \<Rightarrow> ('p mouse \<Rightarrow> 'p mouse) \<Rightarrow> ('h, 'd) sys \<Rightarrow> ('h, 'd) sys" where
  "upd_mouse L f s = s\<lparr>drv := mput L (f (mouse_of L s)) (drv s)\<rparr>"

subsection \<open>Requests\<close>

text \<open>A byte sent to the mouse with the three commands of the older requests, and with the one of the newer.\<close>

definition toMouse :: "u8 \<Rightarrow> PS2Command list" where
  "toMouse v = [cmd kPS2C_WriteCommandPort kCP_TransmitToMouse, cmd kPS2C_WriteDataPort v,
     cmd kPS2C_ReadDataPortAndCompare kSC_Acknowledge]"

definition toMouseAck :: "u8 \<Rightarrow> PS2Command" where
  "toMouseAck v = cmd kPS2C_SendMouseCommandAndCompareAck v"

definition setMouseEnable :: "('h, 'd) env \<Rightarrow> bool \<Rightarrow> ('h, 'd) sys \<Rightarrow> ('h, 'd) sys option" where
  "setMouseEnable e enable s =
     do { (_, s) \<leftarrow> submitRequestAndBlock e
            (TPS2Request (toMouse (if enable then kDP_Enable else kDP_SetDefaultsAndDisable))) s;
          Some s }"

definition setMouseSampleRate :: "('h, 'd) env \<Rightarrow> u8 \<Rightarrow> ('h, 'd) sys \<Rightarrow> ('h, 'd) sys option" where
  "setMouseSampleRate e sampleRate s =
     do { (_, s) \<leftarrow> submitRequestAndBlock e
            (TPS2Request (toMouse kDP_SetMouseSampleRate @ toMouse sampleRate)) s;
          Some s }"

definition setMouseResolution :: "('h, 'd) env \<Rightarrow> u8 \<Rightarrow> ('h, 'd) sys \<Rightarrow> ('h, 'd) sys option" where
  "setMouseResolution e res s =
     do { (_, s) \<leftarrow> submitRequestAndBlock e
            (TPS2Request (toMouse kDP_SetMouseResolution @ toMouse res)) s;
          Some s }"

definition informationRequest :: PS2Request where
  "informationRequest = TPS2Request (toMouse kDP_GetMouseInformation @ replicate 3 (cmd kPS2C_ReadDataPort 0))"

definition getMouseInformation :: "('h, 'd) env \<Rightarrow> ('h, 'd) sys \<Rightarrow> (u32 \<times> ('h, 'd) sys) option" where
  "getMouseInformation e s =
     do { (rq, s) \<leftarrow> submitRequestAndBlock e informationRequest s;
          Some (if commandsCount rq = 6 then
                  push_bit 16 (ucast (inOrOut (commands rq ! 3))) OR push_bit 8 (ucast (inOrOut (commands rq ! 4)))
                    OR ucast (inOrOut (commands rq ! 5))
                else -1, s) }"

definition getMouseID :: "('h, 'd) env \<Rightarrow> ('h, 'd) sys \<Rightarrow> (u8 \<times> ('h, 'd) sys) option" where
  "getMouseID e s =
     do { (rq, s) \<leftarrow> submitRequestAndBlock e (TPS2Request (toMouse kDP_GetId @ [cmd kPS2C_ReadDataPort 0])) s;
          Some (if commandsCount rq = 4 then inOrOut (commands rq ! 3) else -1, s) }"

definition setSampleRates :: "('h, 'd) env \<Rightarrow> u8 list \<Rightarrow> ('h, 'd) sys \<Rightarrow> ('h, 'd) sys option" where
  "setSampleRates e = foldM (setMouseSampleRate e)"

definition setIntellimouseMode ::
  "('h, 'd) env \<Rightarrow> ('d, 'p) mouse_part \<Rightarrow> ('h, 'd) sys \<Rightarrow> (PS2MouseId \<times> ('h, 'd) sys) option" where
  "setIntellimouseMode e L s =
     do { s \<leftarrow> setSampleRates e [200, 100, 80] s;
          (mouseIDByte, s) \<leftarrow> getMouseID e (IOSleep 50 s);
          let mouseID = (if mouseIDByte = 4 then kMouseTypeIntellimouseExplorer
                         else if mouseIDByte = 3 then kMouseTypeIntellimouse else kMouseTypeStandard);
          (mouseID, s) \<leftarrow> (if mouseID = kMouseTypeIntellimouse then
                              do { s \<leftarrow> setSampleRates e [200, 200, 80] s;
                                   (mouseIDByte, s) \<leftarrow> getMouseID e (IOSleep 50 s);
                                   Some (if mouseIDByte = 4 then kMouseTypeIntellimouseExplorer
                                         else kMouseTypeIntellimouse, s) }
                            else Some (mouseID, s));
          s \<leftarrow> setMouseSampleRate e (ucast (mouseInfoBytes (mouse_of L s) AND 0x0000FF)) s;
          Some (mouseID, s) }"

subsection \<open>Synaptics touchpads that act like a mouse\<close>

text \<open>The special command sequences encode a byte as four resolutions of two bits.\<close>

definition specialSequence :: "u8 \<Rightarrow> PS2Command list" where
  "specialSequence v = concat (map (\<lambda>n. [toMouseAck kDP_SetMouseResolution, toMouseAck (drop_bit n v AND 0x3)]) [6, 4, 2, 0])"

definition setTouchpadLED :: "('h, 'd) env \<Rightarrow> u8 \<Rightarrow> ('h, 'd) sys \<Rightarrow> (bool \<times> ('h, 'd) sys) option" where
  "setTouchpadLED e touchLED s =
     do { (rq, s) \<leftarrow> submitRequestAndBlock e
            (TPS2Request ([toMouseAck kDP_SetMouseScaling1To1] @ specialSequence touchLED @
               [toMouseAck kDP_SetMouseSampleRate, toMouseAck 10, toMouseAck kDP_SetMouseScaling1To1])) s;
          Some (commandsCount rq = 12, s) }"

definition updateTouchpadLED :: "('h, 'd) env \<Rightarrow> ('d, 'p) mouse_part \<Rightarrow> ('h, 'd) sys \<Rightarrow> ('h, 'd) sys option" where
  "updateTouchpadLED e L s =
     (if ledpresent (mouse_of L s) \<and> \<not> noled (mouse_of L s) then
        do { (_, s) \<leftarrow> setTouchpadLED e (if ignoreall (mouse_of L s) then 0x88 else 0x10) s; Some s }
      else Some s)"

definition getTouchPadData :: "('h, 'd) env \<Rightarrow> u8 \<Rightarrow> ('h, 'd) sys \<Rightarrow> ((u8 \<times> u8 \<times> u8) option \<times> ('h, 'd) sys) option" where
  "getTouchPadData e dataSelector s =
     do { (rq, s) \<leftarrow> submitRequestAndBlock e
            (TPS2Request ([toMouseAck kDP_SetDefaultsAndDisable] @ specialSequence dataSelector @
               [toMouseAck kDP_GetMouseInformation] @ replicate 3 (cmd kPS2C_ReadDataPort 0) @
               [toMouseAck kDP_SetDefaultsAndDisable])) s;
          Some (if commandsCount rq \<noteq> 14 then None
                else Some (inOrOut (commands rq ! 10), inOrOut (commands rq ! 11), inOrOut (commands rq ! 12)), s) }"

text \<open>Whether the touchpad is from Synaptics and has a light.\<close>

definition probeLED :: "('h, 'd) env \<Rightarrow> ('h, 'd) sys \<Rightarrow> (bool \<times> ('h, 'd) sys) option" where
  "probeLED e s =
     do { (ident, s) \<leftarrow> getTouchPadData e 0x0 s;
          case ident of
            None \<Rightarrow> Some (False, s)
          | Some (_, b1, _) \<Rightarrow>
              if b1 \<noteq> 0x46 \<and> b1 \<noteq> 0x47 then Some (False, s)
              else
                do { (caps, s) \<leftarrow> getTouchPadData e 0x2 s;
                     case caps of
                       None \<Rightarrow> Some (False, s)
                     | Some (c0, _, _) \<Rightarrow>
                         if \<not> tst c0 0x80 then Some (False, s)
                         else if drop_bit 4 (c0 AND 0x70) \<ge> 1 then
                           do { (ext, s) \<leftarrow> getTouchPadData e 0x9 s;
                                Some (case ext of None \<Rightarrow> False | Some (x0, _, _) \<Rightarrow> drop_bit 6 x0 AND 1 \<noteq> 0, s) }
                         else Some (False, s) } }"

subsection \<open>Reset\<close>

definition resetRequest :: PS2Request where
  "resetRequest = TPS2Request ([cmd kPS2C_WriteCommandPort kCP_TransmitToMouse, cmd kPS2C_WriteDataPort kDP_SetDefaults] @
     toMouse kDP_GetMouseInformation @ replicate 3 (cmd kPS2C_ReadDataPort 0))"

definition resolutionOf :: "u32 \<Rightarrow> u32" where
  "resolutionOf info =
     (let r = info AND 0x00FF00
      in push_bit 16 (if r = 0x0000 then 25 else if r = 0x0100 then 50 else if r = 0x0200 then 100
                      else if r = 0x0300 then 200 else 150))"

definition resetResolution :: "('h, 'd) env \<Rightarrow> ('d, 'p) mouse_part \<Rightarrow> ('h, 'd) sys \<Rightarrow> ('h, 'd) sys option" where
  "resetResolution e L s =
     (if mouseInfoBytes (mouse_of L s) = -1 then
        do { s \<leftarrow> (if forcesetres (mouse_of L s) \<and> resmode (mouse_of L s) \<noteq> -1
                   then setMouseResolution e (ucast (resmode (mouse_of L s))) s else Some s);
             (info, s) \<leftarrow> getMouseInformation e s;
             Some (upd_mouse L (\<lambda>m. m\<lparr>mouseInfoBytes := info,
               resolution := if forceres m then defres m else resolutionOf info\<rparr>) s) }
      else setMouseResolution e (ucast (drop_bit 8 (mouseInfoBytes (mouse_of L s)) AND 3)) s)"

text \<open>The packet format and the number of buttons that follow from the type, and the empty buffer.\<close>

definition setMouseType :: "PS2MouseId \<Rightarrow> 'p mouse \<Rightarrow> 'p mouse" where
  "setMouseType t m =
     (let m = m\<lparr>mtype := t\<rparr>;
          m = (if t \<noteq> kMouseTypeStandard then
                 m\<lparr>packetLength := kPacketLengthIntellimouse,
                   buttonCount := if t = kMouseTypeIntellimouseExplorer then 5 else 3\<rparr>
               else m\<lparr>packetLength := kPacketLengthStandard\<rparr>)
      in if buttonCount m = 2 \<and> fakemiddlebutton m \<and> buttonTimer m then m\<lparr>buttonCount := 3\<rparr> else m)"

definition resetPackets :: "'p mouse \<Rightarrow> 'p mouse" where
  "resetPackets m = m\<lparr>packetByteCount := 0, m_ringBuffer := ring_reset (m_ringBuffer m)\<rparr>"

definition resetMouse :: "('h, 'd) env \<Rightarrow> ('d, 'p) mouse_part \<Rightarrow> ('h, 'd) sys \<Rightarrow> ('h, 'd) sys option" where
  "resetMouse e L s =
     do { (_, s) \<leftarrow> submitRequestAndBlock e resetRequest s;
          let s = upd_mouse L (\<lambda>m. m\<lparr>ledpresent := False\<rparr>) s;
          s \<leftarrow> (if actliketrackpad (mouse_of L s) \<and> \<not> noled (mouse_of L s) then
                  do { (led, s) \<leftarrow> probeLED e s;
                       Some (if led then upd_mouse L (\<lambda>m. m\<lparr>ledpresent := True\<rparr>) s else s) }
                else Some s);
          s \<leftarrow> resetResolution e L s;
          (t, s) \<leftarrow> setIntellimouseMode e L s;
          let s = upd_mouse L (\<lambda>m. resetPackets (setMouseType t m)) s;
          setMouseEnable e True s }"

definition initMouse :: "('h, 'd) env \<Rightarrow> ('d, 'p) mouse_part \<Rightarrow> ('h, 'd) sys \<Rightarrow> ('h, 'd) sys option" where
  "initMouse e L s = do { s \<leftarrow> setMouseEnable e False s; resetMouse e L s }"

definition setDevicePowerState_mouse ::
  "('h, 'd) env \<Rightarrow> ('d, 'p) mouse_part \<Rightarrow> PS2PowerAction \<Rightarrow> ('h, 'd) sys \<Rightarrow> ('h, 'd) sys option" where
  "setDevicePowerState_mouse e L whatToDo s =
     (case whatToDo of
        kPS2C_DisableDevice \<Rightarrow> setMouseEnable e False s
      | kPS2C_EnableDevice \<Rightarrow>
          do { s \<leftarrow> resetMouse e L (IOSleep (m_wakedelay (mouse_of L s)) s); updateTouchpadLED e L s })"

end
