(* ===== verification/Mouse_Config.thy ===== *)
theory Mouse_Config
  imports Mouse_Control
begin

text \<open>
  Parameters, messages, notifications about other pointing devices, and the life cycle of the mouse
  driver. The tables of parameters are lists of names with what they set, as in the source. Properties
  that are only published in the registry are left out.
\<close>

subsection \<open>Parameters\<close>

definition int64vars :: "(string \<times> (u64 \<Rightarrow> 'p mouse \<Rightarrow> 'p mouse)) list" where
  "int64vars = [(''MiddleClickTime'', \<lambda>v m. m\<lparr>maxmiddleclicktime := v\<rparr>),
     (''QuietTimeAfterTyping'', \<lambda>v m. m\<lparr>maxaftertyping := v\<rparr>)]"

definition boolvars :: "(string \<times> (bool \<Rightarrow> 'p mouse \<Rightarrow> 'p mouse)) list" where
  "boolvars = [(''ForceDefaultResolution'', \<lambda>v m. m\<lparr>forceres := v\<rparr>),
     (''ForceSetResolution'', \<lambda>v m. m\<lparr>forcesetres := v\<rparr>),
     (''ActLikeTrackpad'', \<lambda>v m. m\<lparr>actliketrackpad := v\<rparr>),
     (''DisableLEDUpdating'', \<lambda>v m. m\<lparr>noled := v\<rparr>),
     (''FakeMiddleButton'', \<lambda>v m. m\<lparr>fakemiddlebutton := v\<rparr>),
     (''ProcessUSBMouseStopsTrackpad'', \<lambda>v m. m\<lparr>processusbmouse := v\<rparr>),
     (''ProcessBluetoothMouseStopsTrackpad'', \<lambda>v m. m\<lparr>processbluetoothmouse := v\<rparr>)]"

definition lowbitvars :: "(string \<times> (bool \<Rightarrow> 'p mouse \<Rightarrow> 'p mouse)) list" where
  "lowbitvars = [(''TrackpadScroll'', \<lambda>v m. m\<lparr>scroll := v\<rparr>),
     (''OutsidezoneNoAction When Typing'', \<lambda>v m. m\<lparr>outzone_wt := v\<rparr>),
     (''PalmNoAction Permanent'', \<lambda>v m. m\<lparr>palm := v\<rparr>),
     (''PalmNoAction When Typing'', \<lambda>v m. m\<lparr>palm_wt := v\<rparr>),
     (''USBMouseStopsTrackpad'', \<lambda>v m. m\<lparr>usb_mouse_stops_trackpad := v\<rparr>)]"

definition int32vars :: "(string \<times> (u32 \<Rightarrow> 'p mouse \<Rightarrow> 'p mouse)) list" where
  "int32vars = [(''DefaultResolution'', \<lambda>v m. m\<lparr>defres := v\<rparr>),
     (''ResolutionMode'', \<lambda>v m. m\<lparr>resmode := v\<rparr>),
     (''ScrollResolution'', \<lambda>v m. m\<lparr>scrollres := v\<rparr>),
     (''MouseYInverter'', \<lambda>v m. m\<lparr>mouseyinverter := v\<rparr>),
     (''ScrollYInverter'', \<lambda>v m. m\<lparr>scrollyinverter := v\<rparr>),
     (''WakeDelay'', \<lambda>v m. m\<lparr>m_wakedelay := v\<rparr>),
     (''ButtonCount'', \<lambda>v m. m\<lparr>buttonCount := v\<rparr>)]"

text \<open>A loop over such a table, with the conversion of the value found in the configuration.\<close>

definition loadVars :: "(osobj option \<Rightarrow> 'v option) \<Rightarrow> (string \<times> ('v \<Rightarrow> 'p mouse \<Rightarrow> 'p mouse)) list \<Rightarrow> dict \<Rightarrow> 'p mouse \<Rightarrow> 'p mouse" where
  "loadVars val vars config m =
     fold (\<lambda>(name, set) m. case val (getObject config name) of None \<Rightarrow> m | Some v \<Rightarrow> set v m) vars m"

definition loadParams :: "dict \<Rightarrow> 'p mouse \<Rightarrow> 'p mouse" where
  "loadParams config m =
     loadVars (\<lambda>x. map_option ucast (asNumber x)) int32vars config
       (loadVars (\<lambda>x. map_option (\<lambda>n. tst n 0x1) (asNumber x)) lowbitvars config
         (loadVars asBoolean boolvars config
           (loadVars asNumber int64vars config m)))"

definition hasPointerDevices :: "'p mouse \<Rightarrow> bool" where
  "hasPointerDevices m \<longleftrightarrow> (case attachedHIDPointerDevices m of None \<Rightarrow> False | Some ds \<Rightarrow> ds \<noteq> [])"

definition setParamPropertiesGated_mouse ::
  "('h, 'd) env \<Rightarrow> ('d, 'p) mouse_part \<Rightarrow> dict option \<Rightarrow> ('h, 'd) sys \<Rightarrow> ('h, 'd) sys option" where
  "setParamPropertiesGated_mouse e L config s =
     (case config of
        None \<Rightarrow> Some s
      | Some d \<Rightarrow>
          do { let s = upd_mouse L (loadParams d) s;
               s \<leftarrow> (if hasPointerDevices (mouse_of L s)
                     then updateTouchpadLED e L (upd_mouse L (\<lambda>m. m\<lparr>ignoreall := usb_mouse_stops_trackpad m\<rparr>) s)
                     else Some s);
               Some (upd_mouse L (\<lambda>m. m\<lparr>defres := push_bit 16 (defres m)\<rparr>) s) })"

subsection \<open>Messages of the keyboard driver\<close>

definition modifierADB :: "u16 \<Rightarrow> bool" where
  "modifierADB code \<longleftrightarrow> code \<in> {0x38, 0x3c, 0x3b, 0x3e, 0x3a, 0x3d, 0x37, 0x36}"

definition message_mouse ::
  "('h, 'd) env \<Rightarrow> ('d, 'p) mouse_part \<Rightarrow> PS2Message \<Rightarrow> ('h, 'd) sys \<Rightarrow> (PS2Message \<times> ('h, 'd) sys) option" where
  "message_mouse e L msg s =
     (case msg of
        kPS2M_getDisableTouchpad _ \<Rightarrow> Some (kPS2M_getDisableTouchpad (\<not> ignoreall (mouse_of L s)), s)
      | kPS2M_setDisableTouchpad enable \<Rightarrow>
          if enable = ignoreall (mouse_of L s) then
            do { s \<leftarrow> updateTouchpadLED e L (upd_mouse L (\<lambda>m. m\<lparr>ignoreall := \<not> enable\<rparr>) s); Some (msg, s) }
          else Some (msg, s)
      | kPS2M_notifyKeyPressed info \<Rightarrow>
          Some (msg, if modifierADB (adbKeyCode info) \<and> goingDown info then s
                     else upd_mouse L (\<lambda>m. m\<lparr>keytime := ki_time info\<rparr>) s)
      | _ \<Rightarrow> Some (msg, s))"

subsection \<open>Other pointing devices\<close>

text \<open>
  The classes of Bluetooth devices are constants of the system headers: the major class of peripherals,
  the minor classes that point, and the minor classes of mouse, tablet and pen.
\<close>

record bt_classes =
  majorPeripheral :: u32
  minorPointing :: u32
  minorCombo :: u32
  minorUnclassified :: u32
  minorDigitizerTablet :: u32
  minorDigitalPen :: u32

definition btPointer :: "bt_classes \<Rightarrow> u32 \<Rightarrow> bool" where
  "btPointer bt classOfDevice =
     (let major = drop_bit 8 (classOfDevice AND 0x1F00); minor = drop_bit 2 (classOfDevice AND 0xFF);
          minor1 = minor AND 0x30; minor2 = minor AND 0x0F
      in major = majorPeripheral bt \<and> (minor1 = minorPointing bt \<or> minor1 = minorCombo bt)
         \<and> (minor2 = minorUnclassified bt \<or> minor2 = minorDigitizerTablet bt \<or> minor2 = minorDigitalPen bt))"

definition registerHIDPointerNotifications :: "'p mouse \<Rightarrow> 'p mouse" where
  "registerHIDPointerNotifications m =
     m\<lparr>hidNotifiers := hidNotifiers m @ (if processusbmouse m then [usb_hid_publish, usb_hid_terminate] else [])
         @ (if processbluetoothmouse m then [bluetooth_hid_publish, bluetooth_hid_terminate] else [])\<rparr>"

definition unregisterHIDPointerNotifications :: "'p mouse \<Rightarrow> 'p mouse option" where
  "unregisterHIDPointerNotifications m =
     (case attachedHIDPointerDevices m of
        None \<Rightarrow> None
      | Some _ \<Rightarrow> Some (m\<lparr>hidNotifiers := [], attachedHIDPointerDevices := Some []\<rparr>))"

text \<open>The set of devices after a notification; the class of the device is a property it may lack.\<close>

definition pointerDevices :: "bt_classes \<Rightarrow> objref \<Rightarrow> u32 option \<Rightarrow> hid_notify \<Rightarrow> objref list \<Rightarrow> objref list" where
  "pointerDevices bt dev cod n ds =
     (case n of
        usb_hid_publish \<Rightarrow> List.insert dev ds
      | usb_hid_terminate \<Rightarrow> removeAll dev ds
      | bluetooth_hid_publish \<Rightarrow>
          (case cod of None \<Rightarrow> ds | Some c \<Rightarrow> if btPointer bt c then List.insert dev ds else ds)
      | bluetooth_hid_terminate \<Rightarrow> removeAll dev ds)"

definition notificationHIDAttachedHandlerGated ::
  "bt_classes \<Rightarrow> objref \<Rightarrow> u32 option \<Rightarrow> hid_notify \<Rightarrow> 'p mouse \<Rightarrow> 'p mouse option" where
  "notificationHIDAttachedHandlerGated bt dev cod n m =
     do { ds \<leftarrow> attachedHIDPointerDevices m;
          let ds = pointerDevices bt dev cod n ds;
          let m = m\<lparr>attachedHIDPointerDevices := Some ds\<rparr>;
          Some (if n = usb_hid_publish \<or> n = bluetooth_hid_publish then
                  (if usb_mouse_stops_trackpad m \<and> ds \<noteq> [] then m\<lparr>ignoreall := True\<rparr> else m)
                else (if usb_mouse_stops_trackpad m \<and> ds = [] then m\<lparr>ignoreall := False\<rparr> else m)) }"

subsection \<open>Probe, start and stop\<close>

definition probe_mouse ::
  "('h, 'd) env \<Rightarrow> ('d, 'p) mouse_part \<Rightarrow> bool \<Rightarrow> dict option \<Rightarrow> ('h, 'd) sys \<Rightarrow> (bool \<times> ('h, 'd) sys) option" where
  "probe_mouse e L superProbe config s =
     (if \<not> superProbe \<or> (case config of None \<Rightarrow> False | Some d \<Rightarrow> asBoolean (getObject d ''DisableDevice'') = Some True)
      then Some (False, s)
      else
        do { s \<leftarrow> setParamPropertiesGated_mouse e L config s;
             (rq, s) \<leftarrow> submitRequestAndBlock e informationRequest s;
             Some (commandsCount rq = 6, s) })"

record mouse_resources =
  mgot_super :: bool
  mgot_workLoop :: bool
  mgot_cmdGate :: bool
  mgot_set :: bool
  mgot_timer :: bool

record mouse_refs =
  mref_this :: objref
  mref_interrupt :: funref
  mref_packet :: funref
  mref_power :: funref

definition start_mouse ::
  "('h, 'd) env \<Rightarrow> ('d, 'p) mouse_part \<Rightarrow> mouse_refs \<Rightarrow> mouse_resources \<Rightarrow> ('h, 'd) sys \<Rightarrow> (bool \<times> ('h, 'd) sys) option" where
  "start_mouse e L f r s =
     (if \<not> mgot_super r then Some (False, s)
      else
        let s = upd_mouse L (\<lambda>m. m\<lparr>m_device := True, m_cmdGate := mgot_cmdGate r\<rparr>) s
        in if \<not> mgot_workLoop r \<or> \<not> mgot_cmdGate r then Some (False, s)
           else
             do { let s = upd_mouse L (\<lambda>m. registerHIDPointerNotifications
                            (m\<lparr>attachedHIDPointerDevices := if mgot_set r then Some [] else None\<rparr>)) s;
                  let s = upd_mouse L (\<lambda>m. m\<lparr>buttonTimer := mgot_timer r\<rparr>) s;
                  s \<leftarrow> resetMouse e L s;
                  s \<leftarrow> installInterruptAction e kDT_Mouse (mref_this f) (mref_interrupt f) (mref_packet f) s;
                  let s = upd_mouse L (\<lambda>m. m\<lparr>m_interruptHandlerInstalled := True\<rparr>) s;
                  let s = installPowerControlAction kDT_Mouse (mref_this f) (mref_power f) s;
                  Some (True, upd_mouse L (\<lambda>m. m\<lparr>m_powerControlHandlerInstalled := True\<rparr>) s) })"

definition stop_mouse :: "('h, 'd) env \<Rightarrow> ('d, 'p) mouse_part \<Rightarrow> bool \<Rightarrow> ('h, 'd) sys \<Rightarrow> ('h, 'd) sys option" where
  "stop_mouse e L workLoopThere s =
     do { m \<leftarrow> unregisterHIDPointerNotifications (mouse_of L s);
          let s = upd_mouse L (\<lambda>_. m\<lparr>attachedHIDPointerDevices := None\<rparr>) s;
          s \<leftarrow> setMouseEnable e False s;
          let s = (if workLoopThere
                   then upd_mouse L (\<lambda>m. m\<lparr>m_cmdGate := False, buttonTimer := False, buttonTimeout := None\<rparr>) s else s);
          s \<leftarrow> (if m_interruptHandlerInstalled (mouse_of L s) then uninstallInterruptAction e kDT_Mouse s else Some s);
          let s = upd_mouse L (\<lambda>m. m\<lparr>m_interruptHandlerInstalled := False\<rparr>) s;
          s \<leftarrow> (if m_powerControlHandlerInstalled (mouse_of L s) then uninstallPowerControlAction kDT_Mouse s else Some s);
          Some (upd_mouse L (\<lambda>m. m\<lparr>m_powerControlHandlerInstalled := False, m_device := False\<rparr>) s) }"

end
