(* ===== verification/Tpad_State.thy ===== *)
theory Tpad_State
  imports Tpad_Filter Mouse_Config
begin

text \<open>
  The state of the Synaptics touchpad driver (class \<^verbatim>\<open>ApplePS2SynapticsTouchPad\<close>,
  VoodooPS2SynapticsTouchPad.h). The fields keep the names of the class without the underscore: with \<open>c_\<close> in
  front for the numbers that the configuration sets, \<open>k_\<close> for its switches and times, and \<open>t_\<close> for
  the rest. A C \<^verbatim>\<open>int\<close> is a 32 bit word, read as signed where the code compares or divides it; an
  \<^verbatim>\<open>int\<close> that is only set to true or false is a Boolean. What the driver hands to the system is logged in
  \<open>t_out\<close>: events, but also the requests that the packet handler sends to the device without looking at
  the outcome, messages to the keyboard driver, and calls of the ACPI method \<^verbatim>\<open>TPDN\<close>.
\<close>

definition tp_packetLength :: nat where [simp]:
  "tp_packetLength = 6"

text \<open>The modes of the touch state machine, with their numbers: the odd ones are those with a finger down.\<close>

datatype touchmode =
    MODE_NOTOUCH | MODE_PREDRAG | MODE_DRAGNOTOUCH
  | MODE_MOVE | MODE_VSCROLL | MODE_HSCROLL | MODE_CSCROLL | MODE_MTOUCH | MODE_DRAG | MODE_DRAGLOCK
  | MODE_WAIT1RELEASE | MODE_WAIT2TAP | MODE_WAIT2RELEASE

fun modeValue :: "touchmode \<Rightarrow> u32" where
  "modeValue MODE_NOTOUCH = 0"
| "modeValue MODE_PREDRAG = 2"
| "modeValue MODE_DRAGNOTOUCH = 4"
| "modeValue MODE_MOVE = 1"
| "modeValue MODE_VSCROLL = 3"
| "modeValue MODE_HSCROLL = 5"
| "modeValue MODE_CSCROLL = 7"
| "modeValue MODE_MTOUCH = 9"
| "modeValue MODE_DRAG = 11"
| "modeValue MODE_DRAGLOCK = 13"
| "modeValue MODE_WAIT1RELEASE = 101"
| "modeValue MODE_WAIT2TAP = 102"
| "modeValue MODE_WAIT2RELEASE = 103"

datatype TPComingFrom = fromPassthru | fromButtonTimer | fromTrackpad | fromCancel

datatype tp_out =
    TpPointer u32 u32 u32 u64
  | TpScroll u16 u16 u16 u64
  | TpRequest PS2Request
  | TpMessage PS2Message u64
  | TpTPDN bool

subsection \<open>Parameters\<close>

record tp_params =
  c_z_finger :: u32
  c_divisorx :: u32
  c_divisory :: u32
  c_redge :: u32
  c_ledge :: u32
  c_tedge :: u32
  c_bedge :: u32
  c_vscrolldivisor :: u32
  c_hscrolldivisor :: u32
  c_cscrolldivisor :: u32
  c_centerx :: u32
  c_centery :: u32
  c_ctrigger :: u32
  c_wlimit :: u32
  c_wvdivisor :: u32
  c_whdivisor :: u32
  c_zlimit :: u32
  c_mousemultiplierx :: u32
  c_mousemultipliery :: u32
  c_mousescrollmultiplierx :: u32
  c_mousescrollmultipliery :: u32
  c_wakedelay :: u32
  c_tapthreshx :: u32
  c_tapthreshy :: u32
  c_dblthreshx :: u32
  c_dblthreshy :: u32
  c_zonel :: u32
  c_zoner :: u32
  c_zonet :: u32
  c_zoneb :: u32
  c_diszl :: u32
  c_diszr :: u32
  c_diszt :: u32
  c_diszb :: u32
  c_diszctrl :: u32
  c_resolution :: u32
  c_scrollresolution :: u32
  c_swipedx :: u32
  c_swipedy :: u32
  c_rczl :: u32
  c_rczr :: u32
  c_rczt :: u32
  c_rczb :: u32
  c_scrollzoommask :: u32
  c_buttonCount :: u32
  c_draglocktempmask :: u32
  c_momentumscrollthreshy :: u32
  c_momentumscrollmultiplier :: u32
  c_momentumscrolldivisor :: u32
  c_momentumscrollsamplesmin :: u32
  c_ignoredeltasstart :: u32
  c_bogusdxthresh :: u32
  c_bogusdythresh :: u32
  c_xupmm :: u32
  c_yupmm :: u32
  c_scrolldxthresh :: u32
  c_scrolldythresh :: u32
  c_rightclick_corner :: u32
  c_thinkpadNubScrollXMultiplier :: u32
  c_thinkpadNubScrollYMultiplier :: u32

record tp_switches =
  k_hsticky :: bool
  k_vsticky :: bool
  k_wsticky :: bool
  k_tapstable :: bool
  k_noled :: bool
  k_smoothinput :: bool
  k_unsmoothinput :: bool
  k_skippassthru :: bool
  k_forcepassthru :: bool
  k_isthinkpad :: bool
  k_hwresetonstart :: bool
  k_swapdoubletriple :: bool
  k_clickpadtrackboth :: bool
  k_immediateclick :: bool
  k_mousemiddlescroll :: bool
  k_fakemiddlebutton :: bool
  k_dynamicEW :: bool
  k_processusbmouse :: bool
  k_processbluetoothmouse :: bool
  k_rtap :: bool
  k_clicking :: bool
  k_dragging :: bool
  k_draglock :: bool
  k_hscroll :: bool
  k_scroll :: bool
  k_outzone_wt :: bool
  k_palm :: bool
  k_palm_wt :: bool
  k_usb_mouse_stops_trackpad :: bool
  k_momentumscroll :: bool
  k_maxdragtime :: u64
  k_maxtaptime :: u64
  k_maxdbltaptime :: u64
  k_maxaftertyping :: u64
  k_momentumscrolltimer :: u64
  k_clickpadclicktime :: u64
  k_maxmiddleclicktime :: u64
  k_dragexitdelay :: u64

text \<open>The defaults of \<^verbatim>\<open>init\<close>; what it does not set is zero.\<close>

definition init_params :: tp_params where
  "init_params = \<lparr>
     c_z_finger = 45, c_divisorx = 1, c_divisory = 1, c_redge = 5200, c_ledge = 1700, c_tedge = 4200,
     c_bedge = 1700, c_vscrolldivisor = 30, c_hscrolldivisor = 30, c_cscrolldivisor = 0, c_centerx = 3000,
     c_centery = 3000, c_ctrigger = 0, c_wlimit = 9, c_wvdivisor = 30, c_whdivisor = 30, c_zlimit = 100,
     c_mousemultiplierx = 20, c_mousemultipliery = 20, c_mousescrollmultiplierx = 20,
     c_mousescrollmultipliery = 20, c_wakedelay = 1000, c_tapthreshx = 50, c_tapthreshy = 50,
     c_dblthreshx = 100, c_dblthreshy = 100, c_zonel = 1700, c_zoner = 5200, c_zonet = 99999, c_zoneb = 0,
     c_diszl = 0, c_diszr = 1700, c_diszt = 99999, c_diszb = 4200, c_diszctrl = 0, c_resolution = 2300,
     c_scrollresolution = 2300, c_swipedx = 800, c_swipedy = 800, c_rczl = 3800, c_rczr = 99999,
     c_rczt = 2000, c_rczb = 0, c_scrollzoommask = 0, c_buttonCount = 2, c_draglocktempmask = 0x0100010,
     c_momentumscrollthreshy = 7, c_momentumscrollmultiplier = 98, c_momentumscrolldivisor = 100,
     c_momentumscrollsamplesmin = 3, c_ignoredeltasstart = 0, c_bogusdxthresh = 400, c_bogusdythresh = 350,
     c_xupmm = 50, c_yupmm = 50, c_scrolldxthresh = 10, c_scrolldythresh = 10, c_rightclick_corner = 2,
     c_thinkpadNubScrollXMultiplier = 1, c_thinkpadNubScrollYMultiplier = 1\<rparr>"

definition init_switches :: tp_switches where
  "init_switches = \<lparr>
     k_hsticky = False, k_vsticky = False, k_wsticky = False, k_tapstable = True, k_noled = False,
     k_smoothinput = False, k_unsmoothinput = False, k_skippassthru = False, k_forcepassthru = False,
     k_isthinkpad = False, k_hwresetonstart = False, k_swapdoubletriple = False, k_clickpadtrackboth = True,
     k_immediateclick = True, k_mousemiddlescroll = True, k_fakemiddlebutton = True, k_dynamicEW = False,
     k_processusbmouse = True, k_processbluetoothmouse = True, k_rtap = False, k_clicking = True,
     k_dragging = True, k_draglock = False, k_hscroll = False, k_scroll = True, k_outzone_wt = False,
     k_palm = False, k_palm_wt = False, k_usb_mouse_stops_trackpad = True, k_momentumscroll = True,
     k_maxdragtime = 230000000, k_maxtaptime = 130000000, k_maxdbltaptime = 0, k_maxaftertyping = 500000000,
     k_momentumscrolltimer = 10000000, k_clickpadclicktime = 300000000, k_maxmiddleclicktime = 100000000,
     k_dragexitdelay = 100000000\<rparr>"

subsection \<open>The driver\<close>

text \<open>The filters of one finger: \<^verbatim>\<open>x_undo\<close>, \<^verbatim>\<open>y_undo\<close>, \<^verbatim>\<open>x_avg\<close>, \<^verbatim>\<open>y_avg\<close>, and those with a 2 for the second finger.\<close>

record axis_filters =
  x_undo :: decay
  y_undo :: decay
  x_avg :: "u32 average"
  y_avg :: "u32 average"

definition init_filters :: axis_filters where
  "init_filters = \<lparr>x_undo = \<lparr>dc_last = 0, dc_lastvalid = False\<rparr>, y_undo = \<lparr>dc_last = 0, dc_lastvalid = False\<rparr>,
     x_avg = av_init 5, y_avg = av_init 5\<rparr>"

record 'p tpad =
  t_device :: bool
  t_interruptHandlerInstalled :: bool
  t_powerControlHandlerInstalled :: bool
  t_ringBuffer :: "u8 ring"
  t_packetByteCount :: u32
  t_lastdata :: u8
  t_touchPadVersion :: u16
  t_touchPadType :: u8
  t_touchPadModeByte :: u8
  t_cmdGate :: bool
  t_provider :: bool
  t_draglocktemp :: u32
  t_thinkpadButtonState :: u32
  t_thinkpadMiddleScrolled :: bool
  t_thinkpadMiddleButtonPressed :: bool
  t_inSwipeLeft :: bool
  t_inSwipeRight :: bool
  t_inSwipeUp :: bool
  t_inSwipeDown :: bool
  t_xmoved :: u32
  t_ymoved :: u32
  t_lastx2 :: u32
  t_lasty2 :: u32
  t_tracksecondary :: bool
  t_xrest2 :: u32
  t_yrest2 :: u32
  t_clickedprimary :: bool
  t_extendedwmode :: bool
  t_extendedwmodeSupported :: bool
  t_lastx :: u32
  t_lasty :: u32
  t_lastf :: u32
  t_lastbuttons :: u32
  t_ignoredeltas :: u32
  t_xrest :: u32
  t_yrest :: u32
  t_scrollrest :: u32
  t_touchx :: u32
  t_touchy :: u32
  t_touchtime :: u64
  t_untouchtime :: u64
  t_wasdouble :: bool
  t_wastriple :: bool
  t_keytime :: u64
  t_ignoreall :: bool
  t_passbuttons :: u32
  t_passthru :: bool
  t_ledpresent :: bool
  t_reportsv :: bool
  t_clickpadtype :: u32
  t_clickbuttons :: u32
  t_attachedHIDPointerDevices :: "objref list option"
  t_hidNotifiers :: "hid_notify list"
  t_modifierdown :: u32
  t_mbuttonstate :: mbuttonstate
  t_pendingbuttons :: u32
  t_buttontime :: u64
  t_buttonTimer :: bool
  t_buttonTimeout :: "u64 option"
  t_dy_history :: "u32 average"
  t_time_history :: "u64 average"
  t_scrollTimer :: bool
  t_scrollTimeout :: "u64 option"
  t_momentumscrollinterval :: u64
  t_momentumscrollsum :: u32
  t_momentumscrollcurrent :: u64
  t_momentumscrollrest1 :: u64
  t_momentumscrollrest2 :: u32
  t_dragTimer :: bool
  t_dragTimeout :: "u64 option"
  t_touchmode :: touchmode
  t_filters1 :: axis_filters
  t_filters2 :: axis_filters
  t_par :: tp_params
  t_sw :: tp_switches
  t_out :: "tp_out list"
  t_plat :: 'p

definition init_tpad :: "'p \<Rightarrow> 'p tpad" where
  "init_tpad p = \<lparr>
     t_device = False, t_interruptHandlerInstalled = False, t_powerControlHandlerInstalled = False,
     t_ringBuffer = ring_init (tp_packetLength * 32), t_packetByteCount = 0, t_lastdata = 0,
     t_touchPadVersion = 0, t_touchPadType = 0, t_touchPadModeByte = 0x80, t_cmdGate = False,
     t_provider = False, t_draglocktemp = 0, t_thinkpadButtonState = 0, t_thinkpadMiddleScrolled = False,
     t_thinkpadMiddleButtonPressed = False, t_inSwipeLeft = False, t_inSwipeRight = False,
     t_inSwipeUp = False, t_inSwipeDown = False, t_xmoved = 0, t_ymoved = 0, t_lastx2 = 0, t_lasty2 = 0,
     t_tracksecondary = False, t_xrest2 = 0, t_yrest2 = 0, t_clickedprimary = False, t_extendedwmode = False,
     t_extendedwmodeSupported = False, t_lastx = 0, t_lasty = 0, t_lastf = 0, t_lastbuttons = 0,
     t_ignoredeltas = 0, t_xrest = 0, t_yrest = 0, t_scrollrest = 0, t_touchx = 0, t_touchy = 0,
     t_touchtime = 0, t_untouchtime = 0, t_wasdouble = False, t_wastriple = False, t_keytime = 0,
     t_ignoreall = False, t_passbuttons = 0, t_passthru = False, t_ledpresent = False, t_reportsv = False,
     t_clickpadtype = 0, t_clickbuttons = 0, t_attachedHIDPointerDevices = None, t_hidNotifiers = [],
     t_modifierdown = 0, t_mbuttonstate = STATE_NOBUTTONS, t_pendingbuttons = 0, t_buttontime = 0,
     t_buttonTimer = False, t_buttonTimeout = None, t_dy_history = av_init 32, t_time_history = av_init 32,
     t_scrollTimer = False, t_scrollTimeout = None, t_momentumscrollinterval = 0, t_momentumscrollsum = 0,
     t_momentumscrollcurrent = 0, t_momentumscrollrest1 = 0, t_momentumscrollrest2 = 0, t_dragTimer = False,
     t_dragTimeout = None, t_touchmode = MODE_NOTOUCH, t_filters1 = init_filters, t_filters2 = init_filters,
     t_par = init_params, t_sw = init_switches, t_out = [], t_plat = p\<rparr>"

text \<open>The clock of the kernel and the conversion of its time.\<close>

record 'p tp_env =
  t_clock_get_uptime :: "'p \<Rightarrow> u64 \<times> 'p"
  t_absolutetime_to_nanoseconds :: "u64 \<Rightarrow> u64"

definition tp_uptime :: "'p tp_env \<Rightarrow> 'p tpad \<Rightarrow> u64 \<times> 'p tpad" where
  "tp_uptime e s = (let (t, p) = t_clock_get_uptime e (t_plat s) in (t, s\<lparr>t_plat := p\<rparr>))"

definition emit :: "tp_out \<Rightarrow> 'p tpad \<Rightarrow> 'p tpad" where
  "emit v s = s\<lparr>t_out := t_out s @ [v]\<rparr>"

definition tpPointer :: "u32 \<Rightarrow> u32 \<Rightarrow> u32 \<Rightarrow> u64 \<Rightarrow> 'p tpad \<Rightarrow> 'p tpad" where
  "tpPointer dx dy buttonState now = emit (TpPointer dx dy buttonState now)"

text \<open>The deltas of the wheel are \<^verbatim>\<open>short\<close>.\<close>

definition tpScroll :: "u32 \<Rightarrow> u32 \<Rightarrow> u32 \<Rightarrow> u64 \<Rightarrow> 'p tpad \<Rightarrow> 'p tpad" where
  "tpScroll d1 d2 d3 now = emit (TpScroll (ucast d1) (ucast d2) (ucast d3) now)"

text \<open>Calls of the timers; the driver does not test the pointers here.\<close>

definition setTpButtonTimer :: "u64 \<Rightarrow> 'p tpad \<Rightarrow> 'p tpad option" where
  "setTpButtonTimer time s = (if t_buttonTimer s then Some (s\<lparr>t_buttonTimeout := Some time\<rparr>) else None)"

definition cancelTpButtonTimer :: "'p tpad \<Rightarrow> 'p tpad option" where
  "cancelTpButtonTimer s = (if t_buttonTimer s then Some (s\<lparr>t_buttonTimeout := None\<rparr>) else None)"

definition setScrollTimer :: "u64 \<Rightarrow> 'p tpad \<Rightarrow> 'p tpad option" where
  "setScrollTimer time s = (if t_scrollTimer s then Some (s\<lparr>t_scrollTimeout := Some time\<rparr>) else None)"

definition setDragTimer :: "u64 \<Rightarrow> 'p tpad \<Rightarrow> 'p tpad option" where
  "setDragTimer time s = (if t_dragTimer s then Some (s\<lparr>t_dragTimeout := Some time\<rparr>) else None)"

definition cancelDragTimer :: "'p tpad \<Rightarrow> 'p tpad option" where
  "cancelDragTimer s = (if t_dragTimer s then Some (s\<lparr>t_dragTimeout := None\<rparr>) else None)"

definition isTouchMode :: "'p tpad \<Rightarrow> bool" where
  "isTouchMode s \<longleftrightarrow> tst (modeValue (t_touchmode s)) 1"

definition isInDisableZone :: "u32 \<Rightarrow> u32 \<Rightarrow> 'p tpad \<Rightarrow> bool" where
  "isInDisableZone x y s \<longleftrightarrow> c_diszl (t_par s) <s x \<and> x <s c_diszr (t_par s) \<and> c_diszb (t_par s) <s y \<and> y <s c_diszt (t_par s)"

definition isInRightClickZone :: "u32 \<Rightarrow> u32 \<Rightarrow> 'p tpad \<Rightarrow> bool" where
  "isInRightClickZone x y s \<longleftrightarrow> c_rczl (t_par s) <s x \<and> x <s c_rczr (t_par s) \<and> c_rczb (t_par s) <s y \<and> y <s c_rczt (t_par s)"

definition isInLeftClickZone :: "u32 \<Rightarrow> u32 \<Rightarrow> 'p tpad \<Rightarrow> bool" where
  "isInLeftClickZone x y s \<longleftrightarrow> x \<le>s c_rczl (t_par s) \<and> x \<le>s c_rczr (t_par s) \<and> c_rczb (t_par s) <s y \<and> y <s c_rczt (t_par s)"

definition isFingerTouch :: "u32 \<Rightarrow> 'p tpad \<Rightarrow> bool" where
  "isFingerTouch z s \<longleftrightarrow> c_z_finger (t_par s) <s z \<and> z <s c_zlimit (t_par s)"

end
