(* ===== verification/Tpad_Input.thy ===== *)
theory Tpad_Input
  imports Tpad_State
begin

text \<open>
  Input of the touchpad driver up to the decoded packet: \<^verbatim>\<open>interruptOccurred\<close>, the simulated middle button,
  the timers, requests that switch the mode of the touchpad and its light, packets of a mouse behind the touchpad, and
  the buttons of click pads.
\<close>

subsection \<open>Interrupt time\<close>

definition pokeTp :: "nat \<Rightarrow> u8 \<Rightarrow> 'p tpad \<Rightarrow> 'p tpad option" where
  "pokeTp i v s =
     (if m_head (t_ringBuffer s) + i < ring_N (t_ringBuffer s)
      then Some (s\<lparr>t_ringBuffer := ring_head_write i v (t_ringBuffer s)\<rparr>) else None)"

definition commitTp :: "'p tpad \<Rightarrow> 'p tpad" where
  "commitTp s = s\<lparr>t_ringBuffer := ring_advanceHead tp_packetLength (t_ringBuffer s)\<rparr>"

definition interruptOccurred_tp :: "u8 \<Rightarrow> 'p tpad \<Rightarrow> (PS2InterruptResult \<times> 'p tpad) option" where
  "interruptOccurred_tp data s =
     (if t_lastdata s = kSC_Reset \<and> data = 0 then
        do { s \<leftarrow> pokeTp 0 0 s; s \<leftarrow> pokeTp 1 kSC_Reset s;
             Some (kPS2IR_packetReady, (commitTp s)\<lparr>t_packetByteCount := 0\<rparr>) }
      else
        let s = s\<lparr>t_lastdata := data\<rparr>
        in if t_packetByteCount s = 0 \<and> data AND 0xc8 \<noteq> 0x80 then
             do { s \<leftarrow> pokeTp 0 0 s; s \<leftarrow> pokeTp 1 0 s; Some (kPS2IR_packetReady, commitTp s) }
           else if t_packetByteCount s = 3 \<and> data AND 0xc8 \<noteq> 0xc0 then
             do { s \<leftarrow> pokeTp 0 0 s; s \<leftarrow> pokeTp 1 3 s;
                  Some (kPS2IR_packetReady, (commitTp s)\<lparr>t_packetByteCount := 0\<rparr>) }
           else
             do { s \<leftarrow> pokeTp (unat (t_packetByteCount s)) data s;
                  let s = s\<lparr>t_packetByteCount := t_packetByteCount s + 1\<rparr>;
                  if of_nat tp_packetLength = t_packetByteCount s then
                    Some (kPS2IR_packetReady, (commitTp s)\<lparr>t_packetByteCount := 0\<rparr>)
                  else Some (kPS2IR_packetBuffering, s) })"

subsection \<open>The simulated middle button\<close>

text \<open>As in the mouse driver, except that a finger that goes down cancels the wait.\<close>

definition tpMiddleSwitch :: "u32 \<Rightarrow> u64 \<Rightarrow> u64 \<Rightarrow> bool \<Rightarrow> TPComingFrom \<Rightarrow> 'p tpad \<Rightarrow> 'p tpad option" where
  "tpMiddleSwitch buttons now_abs now_ns timeout from s =
     (case t_mbuttonstate s of
        STATE_NOBUTTONS \<Rightarrow>
          if from \<noteq> fromCancel then
            (if tst buttons 0x4 then Some (s\<lparr>t_mbuttonstate := STATE_NOOP\<rparr>)
             else if buttons = 0x3 then Some (s\<lparr>t_mbuttonstate := STATE_MIDDLE\<rparr>)
             else if buttons \<noteq> 0 then
               do { let s = s\<lparr>t_pendingbuttons := buttons, t_buttontime := now_ns\<rparr>;
                    s \<leftarrow> setTpButtonTimer (k_maxmiddleclicktime (t_sw s)) s;
                    Some (s\<lparr>t_mbuttonstate := STATE_WAIT4TWO\<rparr>) }
             else Some s)
          else Some s
      | STATE_WAIT4TWO \<Rightarrow>
          if \<not> timeout \<and> buttons = 0x3 then
            do { s \<leftarrow> cancelTpButtonTimer (s\<lparr>t_pendingbuttons := 0\<rparr>);
                 Some (s\<lparr>t_mbuttonstate := STATE_MIDDLE\<rparr>) }
          else if timeout \<or> buttons \<noteq> t_pendingbuttons s then
            do { let s = (if from = fromButtonTimer \<or> \<not> tst buttons (t_pendingbuttons s)
                          then tpPointer 0 0 (buttons OR t_pendingbuttons s) now_abs s else s);
                 s \<leftarrow> cancelTpButtonTimer (s\<lparr>t_pendingbuttons := 0\<rparr>);
                 Some (s\<lparr>t_mbuttonstate := if buttons = 0 then STATE_NOBUTTONS else STATE_NOOP\<rparr>) }
          else Some s
      | STATE_MIDDLE \<Rightarrow>
          if buttons = 0 then Some (s\<lparr>t_mbuttonstate := STATE_NOBUTTONS\<rparr>)
          else if buttons AND 0x3 \<noteq> 0x3 then
            do { let s = s\<lparr>t_pendingbuttons := buttons, t_buttontime := now_ns\<rparr>;
                 s \<leftarrow> setTpButtonTimer (k_maxmiddleclicktime (t_sw s)) s;
                 Some (s\<lparr>t_mbuttonstate := STATE_WAIT4NONE\<rparr>) }
          else Some s
      | STATE_WAIT4NONE \<Rightarrow>
          if \<not> timeout \<and> buttons = 0 then
            do { s \<leftarrow> cancelTpButtonTimer (s\<lparr>t_pendingbuttons := 0\<rparr>);
                 Some (s\<lparr>t_mbuttonstate := STATE_NOBUTTONS\<rparr>) }
          else if timeout \<or> buttons \<noteq> t_pendingbuttons s then
            do { let s = (if from = fromButtonTimer
                          then tpPointer 0 0 (buttons OR t_pendingbuttons s) now_abs s else s);
                 s \<leftarrow> cancelTpButtonTimer (s\<lparr>t_pendingbuttons := 0\<rparr>);
                 Some (s\<lparr>t_mbuttonstate := if buttons = 0 then STATE_NOBUTTONS else STATE_NOOP\<rparr>) }
          else Some s
      | STATE_NOOP \<Rightarrow> Some (if buttons = 0 then s\<lparr>t_mbuttonstate := STATE_NOBUTTONS\<rparr> else s))"

definition tpMiddleButton :: "'p tp_env \<Rightarrow> u32 \<Rightarrow> u64 \<Rightarrow> TPComingFrom \<Rightarrow> 'p tpad \<Rightarrow> (u32 \<times> 'p tpad) option" where
  "tpMiddleButton e buttons now_abs from s =
     (if \<not> k_fakemiddlebutton (t_sw s) \<or> c_buttonCount (t_par s) \<le>s 2 \<or> t_ignoreall s \<and> from = fromTrackpad
      then Some (buttons, s)
      else
        do { let now_ns = t_absolutetime_to_nanoseconds e now_abs;
             let timeout = (from = fromButtonTimer \<or> from = fromCancel
                            \<or> now_ns - t_buttontime s > k_maxmiddleclicktime (t_sw s));
             s \<leftarrow> tpMiddleSwitch buttons now_abs now_ns timeout from s;
             Some (middleReport (t_mbuttonstate s) buttons, s) })"

subsection \<open>Timers\<close>

definition onButtonTimer_tp :: "'p tp_env \<Rightarrow> 'p tpad \<Rightarrow> 'p tpad option" where
  "onButtonTimer_tp e s =
     do { let (now_abs, s) = tp_uptime e s;
          (_, s) \<leftarrow> tpMiddleButton e (t_lastbuttons s) now_abs fromButtonTimer s;
          Some s }"

definition onDragTimer :: "'p tp_env \<Rightarrow> 'p tpad \<Rightarrow> 'p tpad option" where
  "onDragTimer e s =
     do { let (now_abs, s) = tp_uptime e (s\<lparr>t_touchmode := MODE_NOTOUCH\<rparr>);
          (buttons, s) \<leftarrow> tpMiddleButton e (t_lastbuttons s) now_abs fromPassthru s;
          Some (if k_isthinkpad (t_sw s) \<and> k_mousemiddlescroll (t_sw s) \<and> buttons = 4 then s
                else tpPointer 0 0 buttons now_abs s) }"

text \<open>A C division guarded by a test of the divisor.\<close>

definition quot0 :: "u32 \<Rightarrow> u32 \<Rightarrow> u32 option" where
  "quot0 a b = (if b \<noteq> 0 then quot a b else Some 0)"

definition rem0 :: "u32 \<Rightarrow> u32 \<Rightarrow> u32 option" where
  "rem0 a b = (if b \<noteq> 0 then rem a b else Some 0)"

definition onScrollTimer :: "'p tp_env \<Rightarrow> 'p tpad \<Rightarrow> 'p tpad option" where
  "onScrollTimer e s =
     (if t_momentumscrollcurrent s = 0 then Some s
      else
        do { let c = t_par s;
             let (now_abs, s) = tp_uptime e s;
             q \<leftarrow> quot (t_momentumscrollcurrent s) (t_momentumscrollinterval s);
             let dy = (ucast (q + scast (t_momentumscrollrest2 s)) :: u32);
             if c_momentumscrollthreshy c <s c_abs dy then
               do { d \<leftarrow> quot0 dy (c_wvdivisor c);
                    r2 \<leftarrow> rem0 dy (c_wvdivisor c);
                    let s = (tpScroll d 0 0 now_abs s)\<lparr>t_momentumscrollrest2 := r2\<rparr>;
                    let cur = t_momentumscrollcurrent s * scast (c_momentumscrollmultiplier c) + t_momentumscrollrest1 s;
                    r1 \<leftarrow> rem cur (scast (c_momentumscrolldivisor c));
                    cur \<leftarrow> quot cur (scast (c_momentumscrolldivisor c));
                    setScrollTimer (k_momentumscrolltimer (t_sw s))
                      (s\<lparr>t_momentumscrollrest1 := r1, t_momentumscrollcurrent := cur\<rparr>) }
             else Some (s\<lparr>t_momentumscrollcurrent := 0\<rparr>) })"

subsection \<open>Requests the packet handler sends\<close>

definition modeSequence :: "u8 \<Rightarrow> u8 list" where
  "modeSequence v = [kDP_SetDefaultsAndDisable, kDP_SetDefaultsAndDisable, kDP_SetMouseScaling1To1, kDP_SetMouseScaling1To1]
     @ concat (map (\<lambda>n. [kDP_SetMouseResolution, drop_bit n v AND 0x3]) [6, 4, 2, 0])
     @ [kDP_SetMouseSampleRate, 20, kDP_SetMouseScaling1To1]"

definition modeByteRequest :: "u8 \<Rightarrow> PS2Request" where
  "modeByteRequest v = TPS2Request (map toMouseAck (modeSequence v @ [kDP_Enable]))"

definition setModeByte :: "'p tpad \<Rightarrow> 'p tpad" where
  "setModeByte s =
     (if \<not> k_dynamicEW (t_sw s) \<or> \<not> t_extendedwmodeSupported s then s
      else
        let s = s\<lparr>t_touchPadModeByte := if t_clickbuttons s \<noteq> 0 then t_touchPadModeByte s OR 4
                                        else t_touchPadModeByte s AND NOT 4,
                  t_extendedwmode := t_clickbuttons s \<noteq> 0\<rparr>
        in if t_device s then emit (TpRequest (modeByteRequest (t_touchPadModeByte s))) s else s)"

definition setClickButtons :: "u32 \<Rightarrow> 'p tpad \<Rightarrow> 'p tpad" where
  "setClickButtons clickButtons s =
     (let old = t_clickbuttons s; s = s\<lparr>t_clickbuttons := clickButtons\<rparr>
      in if (old \<noteq> 0) \<noteq> (clickButtons \<noteq> 0) then setModeByte s else s)"

definition ledRequest :: "u8 \<Rightarrow> PS2Request" where
  "ledRequest v = TPS2Request (map toMouseAck ([kDP_SetMouseScaling1To1]
     @ concat (map (\<lambda>n. [kDP_SetMouseResolution, drop_bit n v AND 0x3]) [6, 4, 2, 0])
     @ [kDP_SetMouseSampleRate, 10, kDP_SetMouseScaling1To1]))"

definition updateTouchpadLED_tp :: "'p tpad \<Rightarrow> 'p tpad" where
  "updateTouchpadLED_tp s =
     (let s = (if t_ledpresent s \<and> \<not> k_noled (t_sw s)
               then emit (TpRequest (ledRequest (if t_ignoreall s then 0x88 else 0x10))) s else s)
      in if t_provider s then emit (TpTPDN (t_ignoreall s)) s else s)"

subsection \<open>Packets of a mouse behind the touchpad\<close>

text \<open>Movement while the middle button is down scrolls.\<close>

definition passthruScroll :: "u8 \<Rightarrow> u32 \<Rightarrow> u32 \<Rightarrow> u64 \<Rightarrow> 'p tpad \<Rightarrow> u32 \<times> u32 \<times> 'p tpad" where
  "passthruScroll b1 dx dy now_abs s =
     (let c = t_par s in
      if k_mousemiddlescroll (t_sw s) \<and> (tst b1 0x4 \<or> t_thinkpadButtonState s = 4) then
        let s = (if dx \<noteq> 0 \<or> dy \<noteq> 0 then s\<lparr>t_thinkpadMiddleScrolled := True\<rparr> else s);
            (scrollx, scrolly) = (if c_abs dy <s c_abs dx then (dx * c_mousescrollmultiplierx c, 0)
                                  else (0, dy * c_mousescrollmultipliery c));
            (scrollx, scrolly) = (if k_isthinkpad (t_sw s) \<and> t_thinkpadMiddleButtonPressed s
                                  then (scrollx * c_thinkpadNubScrollXMultiplier c, scrolly * c_thinkpadNubScrollYMultiplier c)
                                  else (scrollx, scrolly))
        in (0, 0, tpScroll scrolly (- scrollx) 0 now_abs s)
      else (dx, dy, s))"

definition passthruPacket :: "u8 list \<Rightarrow> u32 \<Rightarrow> u64 \<Rightarrow> 'p tpad \<Rightarrow> 'p tpad" where
  "passthruPacket p buttons now_abs s =
     (let combined = buttons OR ucast ((p ! 0 AND 0x3) OR (p ! 3 AND 0x3)) OR t_clickbuttons s OR t_thinkpadButtonState s;
          (dx, dy, s) = passthruScroll (p ! 1) (delta9 (tst (p ! 1) 0x10) (p ! 4)) (delta9 (tst (p ! 1) 0x20) (p ! 5)) now_abs s;
          dx = dx * c_mousemultiplierx (t_par s);
          dy = dy * c_mousemultipliery (t_par s)
      in if k_isthinkpad (t_sw s) then
           (if k_mousemiddlescroll (t_sw s) \<and> combined = 4 then s\<lparr>t_thinkpadMiddleButtonPressed := True\<rparr>
            else
              let s = (if t_thinkpadMiddleButtonPressed s \<and> \<not> t_thinkpadMiddleScrolled s
                       then tpPointer dx (- dy) 4 now_abs s else s);
                  s = tpPointer dx (- dy) combined now_abs s
              in s\<lparr>t_thinkpadMiddleButtonPressed := False, t_thinkpadMiddleScrolled := False\<rparr>)
         else tpPointer dx (- dy) combined now_abs s)"

subsection \<open>A touch\<close>

text \<open>What the handler computes from a packet: the W value, pressure, number of fingers, position and time.\<close>

record touch =
  l_w :: u32
  l_z :: u32
  l_f :: u32
  l_xraw :: u32
  l_yraw :: u32
  l_x :: u32
  l_y :: u32
  l_now :: u64
  l_ns :: u64

definition packetW :: "u8 list \<Rightarrow> u32" where
  "packetW p = ucast (drop_bit 2 (p ! 3 AND 0x4) OR drop_bit 1 (p ! 0 AND 0x4) OR drop_bit 2 (p ! 0 AND 0x30))"

definition scaleAxes :: "u32 \<Rightarrow> u32 \<Rightarrow> tp_params \<Rightarrow> (u32 \<times> u32) option" where
  "scaleAxes xraw yraw c =
     (if c_xupmm c <s c_yupmm c then do { x \<leftarrow> quot (xraw * c_yupmm c) (c_xupmm c); Some (x, yraw) }
      else if c_yupmm c <s c_xupmm c then do { y \<leftarrow> quot (yraw * c_xupmm c) (c_yupmm c); Some (xraw, y) }
      else Some (xraw, yraw))"

definition packetX :: "u8 list \<Rightarrow> u32" where
  "packetX p = ucast (p ! 4) OR push_bit 8 (ucast (p ! 1 AND 0x0f)) OR push_bit 8 (ucast (p ! 3 AND 0x10))"

definition packetY :: "u8 list \<Rightarrow> u32" where
  "packetY p = ucast (p ! 5) OR push_bit 4 (ucast (p ! 1 AND 0xf0)) OR push_bit 7 (ucast (p ! 3 AND 0x20))"

definition fingersOf :: "u32 \<Rightarrow> u32 \<Rightarrow> 'p tpad \<Rightarrow> u32" where
  "fingersOf w z s = (if c_z_finger (t_par s) <s z then (if 4 \<le>s w then 1 else w + 2) else 0)"

definition parseTouch :: "u8 list \<Rightarrow> u64 \<Rightarrow> u64 \<Rightarrow> 'p tpad \<Rightarrow> touch option" where
  "parseTouch p now_abs now_ns s =
     do { (xraw, yraw) \<leftarrow> scaleAxes (packetX p) (packetY p) (t_par s);
          let w = packetW p; let z = ucast (p ! 2);
          let f = fingersOf w z s;
          let (xraw, yraw, z) = (if t_extendedwmode s \<and> t_reportsv s \<and> 1 <s f
                                 then (xraw AND NOT 2, yraw AND NOT 2, z AND NOT 1) else (xraw, yraw, z));
          Some \<lparr>l_w = w, l_z = z, l_f = f, l_xraw = xraw, l_yraw = yraw, l_x = xraw, l_y = yraw, l_now = now_abs, l_ns = now_ns\<rparr> }"

subsection \<open>Filters\<close>

definition resetFilters :: "axis_filters \<Rightarrow> axis_filters" where
  "resetFilters a = \<lparr>x_undo = dc_reset (x_undo a), y_undo = dc_reset (y_undo a),
     x_avg = av_reset (x_avg a), y_avg = av_reset (y_avg a)\<rparr>"

definition filterAxes :: "tp_switches \<Rightarrow> u32 \<Rightarrow> u32 \<Rightarrow> axis_filters \<Rightarrow> (u32 \<times> u32 \<times> axis_filters) option" where
  "filterAxes k x y a =
     do { (x, y, a) \<leftarrow> (if k_unsmoothinput k then
                           do { (x, u) \<leftarrow> undecay_filter 1 1 2 x (x_undo a);
                                (y, v) \<leftarrow> undecay_filter 1 1 2 y (y_undo a);
                                Some (x, y, a\<lparr>x_undo := u, y_undo := v\<rparr>) }
                         else Some (x, y, a));
          if k_smoothinput k then
            do { (x, u) \<leftarrow> av_filter x (x_avg a); (y, v) \<leftarrow> av_filter y (y_avg a);
                 Some (x, y, a\<lparr>x_avg := u, y_avg := v\<rparr>) }
          else Some (x, y, a) }"

text \<open>What changes when the number of fingers does, then the filters, then the deltas to ignore.\<close>

definition fingerChange :: "u32 \<Rightarrow> 'p tpad \<Rightarrow> 'p tpad" where
  "fingerChange f s =
     (let s = (if 0 <s t_lastf s \<and> 0 <s f \<and> t_lastf s \<noteq> f then s\<lparr>t_ignoredeltas := c_ignoredeltasstart (t_par s)\<rparr> else s)
      in if t_lastf s \<noteq> f then s\<lparr>t_filters1 := resetFilters (t_filters1 s)\<rparr> else s)"

definition skipDeltas :: "u32 \<Rightarrow> u32 \<Rightarrow> 'p tpad \<Rightarrow> 'p tpad" where
  "skipDeltas x y s =
     (if t_ignoredeltas s \<noteq> 0 then
        let s = s\<lparr>t_lastx := x, t_lasty := y, t_ignoredeltas := t_ignoredeltas s - 1\<rparr>
        in if t_ignoredeltas s = 0 then s\<lparr>t_filters1 := resetFilters (t_filters1 s)\<rparr> else s
      else s)"

definition filterTouch :: "touch \<Rightarrow> 'p tpad \<Rightarrow> (touch \<times> 'p tpad) option" where
  "filterTouch l s =
     do { let s = fingerChange (l_f l) s;
          (x, y, a) \<leftarrow> filterAxes (t_sw s) (l_x l) (l_y l) (t_filters1 s);
          Some (l\<lparr>l_x := x, l_y := y\<rparr>, skipDeltas x y (s\<lparr>t_filters1 := a\<rparr>)) }"

subsection \<open>Click pads\<close>

text \<open>The buttons of a click pad; a ThinkPad puts its own buttons into the same packets.\<close>

definition thinkpadClick :: "u8 list \<Rightarrow> u32 \<Rightarrow> 'p tpad \<Rightarrow> u32 \<times> u32 \<times> 'p tpad" where
  "thinkpadClick p buttons s =
     (let bp = p ! 3 AND 0x3; lb = p ! 4 AND 0x3; rb = p ! 5 AND 0x3
      in if k_isthinkpad (t_sw s) \<and> bp = 2 then
           let clickbuttons = (if lb = 1 then 0x1 else if rb = 1 then 0x2 else if lb = 2 then 0x4 else 0)
           in (clickbuttons, clickbuttons, setClickButtons clickbuttons (s\<lparr>t_thinkpadButtonState := clickbuttons\<rparr>))
         else (ucast bp, buttons, s))"

definition rememberThinkpad :: "'p tpad \<Rightarrow> 'p tpad" where
  "rememberThinkpad s =
     (if k_isthinkpad (t_sw s) \<and> t_thinkpadButtonState s \<noteq> 0 then s\<lparr>t_clickbuttons := t_thinkpadButtonState s\<rparr> else s)"

definition rightClick :: "touch \<Rightarrow> 'p tpad \<Rightarrow> bool" where
  "rightClick l s =
     (let (xx, yy) = (if t_extendedwmode s \<and> \<not> t_clickedprimary s \<and> t_tracksecondary s
                      then (t_lastx2 s, t_lasty2 s) else (l_x l, l_y l))
      in isFingerTouch (l_z l) s \<and>
         (c_rightclick_corner (t_par s) = 2 \<and> isInRightClickZone xx yy s
          \<or> c_rightclick_corner (t_par s) = 1 \<and> isInLeftClickZone xx yy s
          \<or> l_w l = 0 \<and> (l_ns l - t_touchtime s < k_clickpadclicktime (t_sw s) \<or> t_touchmode s = MODE_NOTOUCH)))"

definition clickPad :: "u8 list \<Rightarrow> touch \<Rightarrow> u32 \<Rightarrow> 'p tpad \<Rightarrow> u32 \<times> 'p tpad" where
  "clickPad p l buttons s =
     (let (clickbuttons, buttons, s) = thinkpadClick p buttons s;
          (clickbuttons, s) =
            (if t_clickbuttons s = 0 \<and> clickbuttons \<noteq> 0 then
               let s = s\<lparr>t_clickedprimary := t_touchmode s \<noteq> MODE_MTOUCH\<rparr>;
                   clickbuttons = (if rightClick l s then 0x2 else clickbuttons)
               in (clickbuttons, setClickButtons clickbuttons s)
             else (clickbuttons, s));
          s = (if clickbuttons = 0 then setClickButtons 0 s else s);
          s = rememberThinkpad s;
          buttons = buttons OR t_clickbuttons s
      in (buttons, s\<lparr>t_lastbuttons := buttons\<rparr>))"

end
