(* ===== verification/Tpad_Touch.thy ===== *)
theory Tpad_Touch
  imports Tpad_Input
begin

text \<open>
  The touch state machine of \<^verbatim>\<open>dispatchEventsWithPacket\<close>, in the order of the code: the double tap that switches the touchpad
  off, a finger that goes up, movement and scrolling by mode, taps, the change of modes, and the event; then the
  packets of a second finger (\<^verbatim>\<open>dispatchEventsWithPacketEW\<close>) and the work loop.
\<close>

subsection \<open>The disable zone\<close>

definition outsideZone :: "u32 \<Rightarrow> u32 \<Rightarrow> u32 \<Rightarrow> u64 \<Rightarrow> 'p tpad \<Rightarrow> bool" where
  "outsideZone x y z now_ns s \<longleftrightarrow>
     k_outzone_wt (t_sw s) \<and> c_z_finger (t_par s) <s z \<and> now_ns - t_keytime s < k_maxaftertyping (t_sw s)
     \<and> (x <s c_zonel (t_par s) \<or> c_zoner (t_par s) <s x \<or> y <s c_zoneb (t_par s) \<or> c_zonet (t_par s) <s y)"

definition fingerUp :: "touch \<Rightarrow> 'p tpad \<Rightarrow> bool" where
  "fingerUp l s \<longleftrightarrow> l_z l <s c_z_finger (t_par s)"

definition zoneWatched :: "'p tpad \<Rightarrow> bool" where
  "zoneWatched s \<longleftrightarrow> c_diszctrl (t_par s) = 0 \<and> t_ledpresent s \<or> c_diszctrl (t_par s) = 1"

definition oneFinger :: "touch \<Rightarrow> bool" where
  "oneFinger l \<longleftrightarrow> 4 \<le>s l_w l \<and> l_w l \<le>s 5"

definition disableZone :: "touch \<Rightarrow> 'p tpad \<Rightarrow> 'p tpad" where
  "disableZone l s =
     (let inside = isInDisableZone (l_x l) (l_y l) s in
      case t_touchmode s of
        MODE_NOTOUCH \<Rightarrow>
          if isFingerTouch (l_z l) s \<and> oneFinger l \<and> inside
          then s\<lparr>t_touchtime := l_ns l, t_touchmode := MODE_WAIT1RELEASE\<rparr> else s
      | MODE_WAIT1RELEASE \<Rightarrow>
          if fingerUp l s then
            (if l_ns l - t_touchtime s < k_maxtaptime (t_sw s)
             then s\<lparr>t_untouchtime := l_ns l, t_touchmode := MODE_WAIT2TAP\<rparr>
             else s\<lparr>t_touchmode := MODE_NOTOUCH\<rparr>)
          else if \<not> inside then s\<lparr>t_touchmode := MODE_NOTOUCH\<rparr> else s
      | MODE_WAIT2TAP \<Rightarrow>
          if isFingerTouch (l_z l) s then
            (if inside \<and> oneFinger l then
               (if l_ns l - t_untouchtime s < k_maxdragtime (t_sw s)
                then s\<lparr>t_touchtime := l_ns l, t_touchmode := MODE_WAIT2RELEASE\<rparr>
                else s\<lparr>t_touchmode := MODE_NOTOUCH\<rparr>)
             else s\<lparr>t_touchmode := MODE_NOTOUCH\<rparr>)
          else s
      | MODE_WAIT2RELEASE \<Rightarrow>
          if fingerUp l s then
            (if l_ns l - t_touchtime s < k_maxtaptime (t_sw s)
             then (updateTouchpadLED_tp (s\<lparr>t_ignoreall := \<not> t_ignoreall s\<rparr>))\<lparr>t_touchmode := MODE_NOTOUCH\<rparr>
             else s\<lparr>t_touchmode := MODE_NOTOUCH\<rparr>)
          else if \<not> inside then s\<lparr>t_touchmode := MODE_NOTOUCH\<rparr> else s
      | _ \<Rightarrow> s)"

subsection \<open>A finger goes up\<close>

definition startMomentum :: "'p tpad \<Rightarrow> 'p tpad option" where
  "startMomentum s =
     (if t_touchmode s = MODE_MTOUCH \<and> k_momentumscroll (t_sw s) \<and> k_momentumscrolltimer (t_sw s) \<noteq> 0
         \<and> c_momentumscrollsamplesmin (t_par s) <s of_nat (av_count (t_dy_history s)) then
        do { newest \<leftarrow> av_newest (t_time_history s);
             oldest \<leftarrow> av_oldest (t_time_history s);
             let s = s\<lparr>t_momentumscrollinterval := newest - oldest\<rparr>;
             if t_momentumscrollinterval s \<noteq> 0 then
               setScrollTimer (k_momentumscrolltimer (t_sw s))
                 (s\<lparr>t_momentumscrollsum := av_sum (t_dy_history s),
                    t_momentumscrollcurrent := k_momentumscrolltimer (t_sw s) * scast (av_sum (t_dy_history s)),
                    t_momentumscrollrest1 := 0, t_momentumscrollrest2 := 0\<rparr>)
             else Some s }
      else Some s)"

text \<open>The button a tap stands for.\<close>

definition tapButton :: "'p tpad \<Rightarrow> u32" where
  "tapButton s =
     (if t_wastriple s \<and> k_rtap (t_sw s) then (if \<not> k_swapdoubletriple (t_sw s) then 0x4 else 0x2)
      else if t_wasdouble s \<and> k_rtap (t_sw s) then (if \<not> k_swapdoubletriple (t_sw s) then 0x2 else 0x4)
      else 0x1)"

definition tapRelease :: "touch \<Rightarrow> u32 \<Rightarrow> 'p tpad \<Rightarrow> u32 \<times> 'p tpad" where
  "tapRelease l buttons s =
     (case t_touchmode s of
        MODE_DRAG \<Rightarrow>
          let (buttons, s) =
                (if \<not> k_immediateclick (t_sw s) then
                   let buttons = buttons AND NOT 0x7
                   in (buttons, if k_isthinkpad (t_sw s) \<and> k_mousemiddlescroll (t_sw s) \<and> buttons = 4 then s
                                else tpPointer 0 0 buttons (l_now l) (tpPointer 0 0 (buttons OR 0x1) (l_now l) s))
                 else (buttons, s))
          in (buttons OR tapButton s, s\<lparr>t_touchmode := MODE_NOTOUCH\<rparr>)
      | MODE_DRAGLOCK \<Rightarrow> (buttons, s\<lparr>t_touchmode := MODE_NOTOUCH\<rparr>)
      | _ \<Rightarrow> (buttons OR tapButton s,
          s\<lparr>t_touchmode := if \<not> ((t_wastriple s \<or> t_wasdouble s) \<and> k_rtap (t_sw s)) \<and> k_dragging (t_sw s)
                            then MODE_PREDRAG else MODE_NOTOUCH\<rparr>))"

definition dragRelease :: "'p tpad \<Rightarrow> 'p tpad option" where
  "dragRelease s =
     (let k = t_sw s in
      if (t_touchmode s = MODE_DRAG \<or> t_touchmode s = MODE_DRAGLOCK)
         \<and> (k_draglock k \<or> t_draglocktemp s \<noteq> 0 \<or> t_dragTimer s \<and> k_dragexitdelay k \<noteq> 0) then
        let s = s\<lparr>t_touchmode := MODE_DRAGNOTOUCH\<rparr>
        in if \<not> k_draglock k \<and> t_draglocktemp s = 0
           then do { s \<leftarrow> cancelDragTimer s; setDragTimer (k_dragexitdelay k) s } else Some s
      else Some (s\<lparr>t_touchmode := MODE_NOTOUCH, t_draglocktemp := 0\<rparr>))"

definition releaseTouch :: "touch \<Rightarrow> u32 \<Rightarrow> 'p tpad \<Rightarrow> (u32 \<times> 'p tpad) option" where
  "releaseTouch l buttons s =
     (if fingerUp l s \<and> isTouchMode s then
        do { let s = s\<lparr>t_xrest := 0, t_yrest := 0, t_scrollrest := 0, t_inSwipeLeft := False, t_inSwipeRight := False,
                       t_inSwipeUp := False, t_inSwipeDown := False, t_xmoved := 0, t_ymoved := 0,
                       t_untouchtime := l_ns l, t_tracksecondary := False\<rparr>;
             s \<leftarrow> startMomentum s;
             let s = s\<lparr>t_time_history := av_reset (t_time_history s), t_dy_history := av_reset (t_dy_history s)\<rparr>;
             (buttons, s) \<leftarrow> (if l_ns l - t_touchtime s < k_maxtaptime (t_sw s) \<and> k_clicking (t_sw s)
                               then Some (tapRelease l buttons s)
                               else do { s \<leftarrow> dragRelease s; Some (buttons, s) });
             Some (buttons, s\<lparr>t_wasdouble := False, t_wastriple := False\<rparr>) }
      else Some (buttons, s))"

text \<open>The second tap comes too late, or the finger moved too far for a tap.\<close>

definition cancelTap :: "touch \<Rightarrow> 'p tpad \<Rightarrow> 'p tpad" where
  "cancelTap l s =
     (let c = t_par s;
          s = (if t_touchmode s = MODE_PREDRAG \<and> k_maxdragtime (t_sw s) \<le> l_ns l - t_untouchtime s
               then s\<lparr>t_touchmode := MODE_NOTOUCH\<rparr> else s)
      in if isTouchMode s \<and> isFingerTouch (l_z l) s then
           let dx = (if t_touchx s <s l_xraw l then l_xraw l - t_touchx s else t_touchx s - l_xraw l);
               dy = (if t_touchy s <s l_yraw l then l_yraw l - t_touchy s else t_touchy s - l_yraw l)
           in if \<not> t_wasdouble s \<and> \<not> t_wastriple s \<and> (c_tapthreshx c <s dx \<or> c_tapthreshy c <s dy)
                 \<or> c_dblthreshx c <s dx \<or> c_dblthreshy c <s dy
              then s\<lparr>t_touchtime := 0\<rparr> else s
         else s)"

subsection \<open>Movement\<close>

definition typing :: "touch \<Rightarrow> 'p tpad \<Rightarrow> bool" where
  "typing l s \<longleftrightarrow> k_palm_wt (t_sw s) \<and> l_ns l - t_keytime s < k_maxaftertyping (t_sw s)"

text \<open>The movement of the pointer in device units, with the rest that the division by the divisor leaves.\<close>

definition pointerDelta :: "touch \<Rightarrow> 'p tpad \<Rightarrow> (u32 \<times> u32 \<times> 'p tpad) option" where
  "pointerDelta l s =
     do { let dx = l_x l - t_lastx s + t_xrest s;
          let dy = t_lasty s - l_y l + t_yrest s;
          xr \<leftarrow> rem dx (c_divisorx (t_par s));
          yr \<leftarrow> rem dy (c_divisory (t_par s));
          Some (if c_bogusdxthresh (t_par s) <s c_abs dx \<or> c_bogusdythresh (t_par s) <s c_abs dy
                then (0, 0, s\<lparr>t_xrest := 0, t_yrest := 0\<rparr>)
                else (dx, dy, s\<lparr>t_xrest := xr, t_yrest := yr\<rparr>)) }"

definition noPalm :: "touch \<Rightarrow> 'p tpad \<Rightarrow> bool" where
  "noPalm l s \<longleftrightarrow> \<not> k_palm (t_sw s) \<or> l_w l \<le>s c_wlimit (t_par s) \<and> l_z l \<le>s c_zlimit (t_par s)"

definition movePointer :: "touch \<Rightarrow> 'p tpad \<Rightarrow> (u32 \<times> u32 \<times> 'p tpad) option" where
  "movePointer l s =
     (if t_lastf s = l_f l \<and> noPalm l s
         \<and> (t_touchmode s \<noteq> MODE_MOVE \<or> \<not> k_clicking (t_sw s) \<or> k_maxtaptime (t_sw s) \<le> l_ns l - t_touchtime s)
      then pointerDelta l s else Some (0, 0, s))"

text \<open>Scrolling with two fingers.\<close>

definition scrollHistory :: "touch \<Rightarrow> u32 \<Rightarrow> 'p tpad \<Rightarrow> 'p tpad option" where
  "scrollHistory l dy s =
     do { newest \<leftarrow> av_newest (t_dy_history s);
          let s = (if (dy <s 0) \<noteq> (newest <s 0) \<or> dy = 0
                   then s\<lparr>t_dy_history := av_reset (t_dy_history s), t_time_history := av_reset (t_time_history s)\<rparr> else s);
          (_, dh) \<leftarrow> av_filter dy (t_dy_history s);
          (_, th) \<leftarrow> av_filter (l_ns l) (t_time_history s);
          Some (s\<lparr>t_dy_history := dh, t_time_history := th\<rparr>) }"

definition twoFingerScroll :: "touch \<Rightarrow> 'p tpad \<Rightarrow> 'p tpad option" where
  "twoFingerScroll l s =
     do { let c = t_par s;
          let wh = (if k_hscroll (t_sw s) then c_whdivisor c else 0);
          let dy = (if c_wvdivisor c \<noteq> 0 then l_y l - t_lasty s + t_yrest s else 0);
          let dx = (if wh \<noteq> 0 then t_lastx s - l_x l + t_xrest s else 0);
          yr \<leftarrow> rem0 dy (c_wvdivisor c);
          xr \<leftarrow> rem0 dx wh;
          s \<leftarrow> scrollHistory l dy (s\<lparr>t_yrest := yr, t_xrest := xr\<rparr>);
          let (dx, s) = (if c_abs dx <s c_scrolldxthresh c then (0, s\<lparr>t_xrest := dx\<rparr>) else (dx, s));
          let (dy, s) = (if c_abs dy <s c_scrolldythresh c then (0, s\<lparr>t_yrest := dy\<rparr>) else (dy, s));
          if dy \<noteq> 0 \<or> dx \<noteq> 0 then
            do { v \<leftarrow> quot0 dy (c_wvdivisor c); h \<leftarrow> quot0 dx wh; Some (tpScroll v h 0 (l_now l) s) }
          else Some s }"

definition multiTouch :: "touch \<Rightarrow> 'p tpad \<Rightarrow> (u32 \<times> u32 \<times> 'p tpad) option" where
  "multiTouch l s =
     (if t_extendedwmode s \<and> l_w l = 0 \<and> t_clickbuttons s \<noteq> 0 then
        (if (k_clickpadtrackboth (t_sw s) \<or> \<not> t_clickedprimary s) \<and> t_lastf s = l_f l \<and> noPalm l s
         then pointerDelta l s else Some (0, 0, s))
      else if t_lastf s \<noteq> l_f l \<or> k_palm (t_sw s) \<and> c_zlimit (t_par s) <s l_z l then Some (0, 0, s)
      else if \<not> k_wsticky (t_sw s) \<and> l_w l \<le>s c_wlimit (t_par s) \<and> 3 <s l_w l then
        Some (0, 0, s\<lparr>t_dy_history := av_reset (t_dy_history s), t_time_history := av_reset (t_time_history s),
                      t_clickedprimary := t_clickbuttons s \<noteq> 0, t_tracksecondary := False, t_touchmode := MODE_MOVE\<rparr>)
      else if typing l s then Some (0, 0, s)
      else do { s \<leftarrow> twoFingerScroll l s; Some (0, 0, s) })"

text \<open>Three fingers: a swipe in one of four directions.\<close>

definition swipe :: "touch \<Rightarrow> 'p tpad \<Rightarrow> 'p tpad" where
  "swipe l s =
     (let c = t_par s;
          s = s\<lparr>t_xmoved := t_xmoved s + (t_lastx s - l_x l), t_ymoved := t_ymoved s + (l_y l - t_lasty s)\<rparr>
      in if c_swipedy c <s t_ymoved s \<and> \<not> t_inSwipeUp s then
           emit (TpMessage kPS2M_swipeUp (l_now l)) (s\<lparr>t_inSwipeUp := True, t_inSwipeDown := False, t_ymoved := 0\<rparr>)
         else if t_ymoved s <s - c_swipedy c \<and> \<not> t_inSwipeDown s then
           emit (TpMessage kPS2M_swipeDown (l_now l)) (s\<lparr>t_inSwipeDown := True, t_inSwipeUp := False, t_ymoved := 0\<rparr>)
         else if t_xmoved s <s - c_swipedx c \<and> \<not> t_inSwipeRight s then
           emit (TpMessage kPS2M_swipeRight (l_now l)) (s\<lparr>t_inSwipeRight := True, t_inSwipeLeft := False, t_xmoved := 0\<rparr>)
         else if c_swipedx c <s t_xmoved s \<and> \<not> t_inSwipeLeft s then
           emit (TpMessage kPS2M_swipeLeft (l_now l)) (s\<lparr>t_inSwipeLeft := True, t_inSwipeRight := False, t_xmoved := 0\<rparr>)
         else s)"

text \<open>Scrolling with one finger along an edge or in circles: a distance, the divisor and the threshold.\<close>

definition edgeScroll :: "u32 \<Rightarrow> u32 \<Rightarrow> u32 \<Rightarrow> (u32 \<Rightarrow> 'p tpad \<Rightarrow> 'p tpad) \<Rightarrow> 'p tpad \<Rightarrow> 'p tpad option" where
  "edgeScroll d divisor thresh send s =
     do { r \<leftarrow> rem d divisor;
          let (d, s) = (if c_abs d <s thresh then (0, s\<lparr>t_scrollrest := d\<rparr>) else (d, s\<lparr>t_scrollrest := r\<rparr>));
          if d \<noteq> 0 then do { q \<leftarrow> quot d divisor; Some (send q s) } else Some s }"

definition circleDelta :: "touch \<Rightarrow> 'p tpad \<Rightarrow> u32" where
  "circleDelta l s =
     (if l_y l <s c_centery (t_par s) then l_x l - t_lastx s else t_lastx s - l_x l)
     + (if l_x l <s c_centerx (t_par s) then t_lasty s - l_y l else l_y l - t_lasty s)
     + t_scrollrest s"

definition withBig :: "touch \<Rightarrow> 'p tpad \<Rightarrow> bool" where
  "withBig l s \<longleftrightarrow> c_wlimit (t_par s) <s l_w l \<or> c_zlimit (t_par s) <s l_z l"

definition moveTouch :: "touch \<Rightarrow> u32 \<Rightarrow> 'p tpad \<Rightarrow> (u32 \<times> u32 \<times> u32 \<times> 'p tpad) option" where
  "moveTouch l buttons s =
     (let c = t_par s; k = t_sw s in
      case t_touchmode s of
        MODE_MOVE \<Rightarrow> do { (dx, dy, s) \<leftarrow> movePointer l s; Some (dx, dy, buttons, s) }
      | MODE_DRAG \<Rightarrow>
          do { (dx, dy, s') \<leftarrow> movePointer l s;
               Some (dx, dy, if \<not> k_immediateclick k \<or> k_maxdbltaptime k < l_ns l - t_touchtime s then buttons OR 0x1 else buttons, s') }
      | MODE_DRAGLOCK \<Rightarrow> do { (dx, dy, s) \<leftarrow> movePointer l s; Some (dx, dy, buttons OR 0x1, s) }
      | MODE_MTOUCH \<Rightarrow>
          if l_w l = 1 then Some (0, 0, buttons, swipe l s)
          else do { (dx, dy, s) \<leftarrow> multiTouch l s; Some (dx, dy, buttons, s) }
      | MODE_VSCROLL \<Rightarrow>
          if \<not> k_vsticky k \<and> (l_x l <s c_redge c \<or> withBig l s) then Some (0, 0, buttons, s\<lparr>t_touchmode := MODE_NOTOUCH\<rparr>)
          else if typing l s then Some (0, 0, buttons, s)
          else do { s \<leftarrow> edgeScroll (l_y l - t_lasty s + t_scrollrest s) (c_vscrolldivisor c) (c_scrolldythresh c)
                           (\<lambda>q. tpScroll q 0 0 (l_now l)) s;
                    Some (0, 0, buttons, s) }
      | MODE_HSCROLL \<Rightarrow>
          if \<not> k_hsticky k \<and> (c_bedge c <s l_y l \<or> withBig l s) then Some (0, 0, buttons, s\<lparr>t_touchmode := MODE_NOTOUCH\<rparr>)
          else if typing l s then Some (0, 0, buttons, s)
          else do { s \<leftarrow> edgeScroll (t_lastx s - l_x l + t_scrollrest s) (c_hscrolldivisor c) (c_scrolldxthresh c)
                           (\<lambda>q. tpScroll 0 q 0 (l_now l)) s;
                    Some (0, 0, buttons, s) }
      | MODE_CSCROLL \<Rightarrow>
          if typing l s then Some (0, 0, buttons, s)
          else do { s \<leftarrow> edgeScroll (circleDelta l s) (c_cscrolldivisor c) (c_scrolldxthresh c)
                           (\<lambda>q. tpScroll q 0 0 (l_now l)) s;
                    Some (0, 0, buttons, s) }
      | MODE_DRAGNOTOUCH \<Rightarrow> Some (0, 0, buttons OR 0x1, s)
      | MODE_PREDRAG \<Rightarrow> Some (0, 0, if \<not> k_immediateclick k \<and> \<not> typing l s then buttons OR 0x1 else buttons, s)
      | _ \<Rightarrow> Some (0, 0, buttons, s))"

subsection \<open>Taps and the change of modes\<close>

definition tapTime :: "touch \<Rightarrow> 'p tpad \<Rightarrow> 'p tpad" where
  "tapTime l s =
     (if isFingerTouch (l_z l) s then
        let s = (if \<not> typing l s \<and> t_momentumscrollcurrent s = 0 then
                   let s = (if \<not> isTouchMode s then s\<lparr>t_touchtime := l_ns l, t_touchx := l_x l, t_touchy := l_y l\<rparr> else s)
                   in if l_w l = 0 then s\<lparr>t_wasdouble := True\<rparr>
                      else if 3 \<le>s c_buttonCount (t_par s) \<and> l_w l = 1 then s\<lparr>t_wastriple := True\<rparr> else s
                 else s)
        in s\<lparr>t_momentumscrollcurrent := 0\<rparr>
      else s)"

definition dragModes :: "touch \<Rightarrow> 'p tpad \<Rightarrow> 'p tpad" where
  "dragModes l s =
     (let finger = isFingerTouch (l_z l) s;
          s = (if t_touchmode s = MODE_PREDRAG \<and> finger
               then s\<lparr>t_touchmode := MODE_DRAG, t_draglocktemp := t_modifierdown s AND c_draglocktempmask (t_par s)\<rparr> else s);
          s = (if t_touchmode s = MODE_DRAGNOTOUCH \<and> finger
               then (if t_dragTimer s then s\<lparr>t_dragTimeout := None\<rparr> else s)\<lparr>t_touchmode := MODE_DRAGLOCK\<rparr> else s)
      in if t_touchmode s \<noteq> MODE_MTOUCH \<and> (c_wlimit (t_par s) <s l_w l \<or> l_w l <s 2) \<and> finger
         then s\<lparr>t_touchmode := MODE_MTOUCH, t_tracksecondary := False\<rparr> else s)"

text \<open>The corners and edges that start to scroll in circles.\<close>

definition circleTrigger :: "touch \<Rightarrow> tp_params \<Rightarrow> bool" where
  "circleTrigger l c =
     (let top = c_tedge c <s l_y l; right = c_redge c <s l_x l; bottom = l_y l <s c_bedge c; left = l_x l <s c_ledge c;
          t = c_ctrigger c
      in top \<and> (t = 1 \<or> t = 9) \<or> top \<and> right \<and> t = 2 \<or> right \<and> (t = 3 \<or> t = 9) \<or> right \<and> bottom \<and> t = 4
         \<or> bottom \<and> (t = 5 \<or> t = 9) \<or> bottom \<and> left \<and> t = 6 \<or> left \<and> (t = 7 \<or> t = 9) \<or> left \<and> top \<and> t = 8)"

definition scrollModes :: "touch \<Rightarrow> 'p tpad \<Rightarrow> 'p tpad" where
  "scrollModes l s =
     (let c = t_par s; k = t_sw s; down = c_z_finger c <s l_z l;
          s = (if k_scroll k \<and> c_cscrolldivisor c \<noteq> 0 \<and> t_touchmode s = MODE_NOTOUCH \<and> down \<and> circleTrigger l c
               then s\<lparr>t_touchmode := MODE_CSCROLL\<rparr> else s);
          s = (if (t_touchmode s = MODE_NOTOUCH \<or> t_touchmode s = MODE_HSCROLL \<and> c_bedge c \<le>s l_y l)
                  \<and> down \<and> c_redge c <s l_x l \<and> c_vscrolldivisor c \<noteq> 0 \<and> k_scroll k
               then s\<lparr>t_touchmode := MODE_VSCROLL, t_scrollrest := 0\<rparr> else s);
          s = (if (t_touchmode s = MODE_NOTOUCH \<or> t_touchmode s = MODE_VSCROLL \<and> l_x l \<le>s c_redge c)
                  \<and> down \<and> l_y l <s c_bedge c \<and> c_hscrolldivisor c \<noteq> 0 \<and> k_hscroll k \<and> k_scroll k
               then s\<lparr>t_touchmode := MODE_HSCROLL, t_scrollrest := 0\<rparr> else s)
      in if t_touchmode s = MODE_NOTOUCH \<and> down then s\<lparr>t_touchmode := MODE_MOVE\<rparr> else s)"

subsection \<open>The event\<close>

definition sendTouch :: "touch \<Rightarrow> u32 \<Rightarrow> u32 \<Rightarrow> u32 \<Rightarrow> 'p tpad \<Rightarrow> 'p tpad option" where
  "sendTouch l dx dy buttons s =
     (if \<not> k_isthinkpad (t_sw s) then
        do { qx \<leftarrow> quot dx (c_divisorx (t_par s)); qy \<leftarrow> quot dy (c_divisory (t_par s));
             Some (tpPointer qx qy buttons (l_now l) s) }
      else if k_mousemiddlescroll (t_sw s) \<and> buttons = 4 then Some (s\<lparr>t_thinkpadMiddleButtonPressed := True\<rparr>)
      else
        do { s \<leftarrow> (if t_thinkpadMiddleButtonPressed s then
                     (if \<not> t_thinkpadMiddleScrolled s then
                        do { qx \<leftarrow> quot dx (c_divisorx (t_par s)); qy \<leftarrow> quot dy (c_divisory (t_par s));
                             Some (tpPointer qx qy 4 (l_now l) s) }
                      else Some s)
                   else
                     do { qx \<leftarrow> quot dx (c_divisorx (t_par s)); qy \<leftarrow> quot dy (c_divisory (t_par s));
                          Some (tpPointer qx qy buttons (l_now l) s) });
             Some (s\<lparr>t_thinkpadMiddleButtonPressed := False, t_thinkpadMiddleScrolled := False\<rparr>) })"

definition activeTouch :: "touch \<Rightarrow> u32 \<Rightarrow> 'p tpad \<Rightarrow> 'p tpad option" where
  "activeTouch l buttons s =
     do { (buttons, s) \<leftarrow> releaseTouch l buttons s;
          (dx, dy, buttons, s) \<leftarrow> moveTouch l buttons (cancelTap l s);
          s \<leftarrow> sendTouch l dx dy buttons (scrollModes l (dragModes l (tapTime l s)));
          Some (s\<lparr>t_lastx := l_x l, t_lasty := l_y l, t_lastf := l_f l\<rparr>) }"

text \<open>The zones: touches to ignore just after typing, the zone that switches the touchpad off, and a touchpad that is off.\<close>

definition zoneTouch :: "touch \<Rightarrow> u32 \<Rightarrow> 'p tpad \<Rightarrow> 'p tpad option" where
  "zoneTouch l buttons s =
     (if outsideZone (l_x l) (l_y l) (l_z l) (l_ns l) s then Some s
      else
        let s' = (if zoneWatched s then disableZone l s else s)
        in if zoneWatched s \<and> modeValue (t_touchmode s') \<ge> modeValue MODE_WAIT1RELEASE then Some s'
           else if t_ignoreall s' then Some s' else activeTouch l buttons s')"

text \<open>A packet of the touchpad itself.\<close>

definition touchPacket :: "'p tp_env \<Rightarrow> u8 list \<Rightarrow> u32 \<Rightarrow> u64 \<Rightarrow> u64 \<Rightarrow> 'p tpad \<Rightarrow> 'p tpad option" where
  "touchPacket e p buttons now_abs now_ns s =
     do { l \<leftarrow> parseTouch p now_abs now_ns s;
          (buttons, s) \<leftarrow> (if t_lastf s = 0 \<and> 0 <s l_f l
                            then tpMiddleButton e (ucast (p ! 0 AND 0x3) OR t_passbuttons s) now_abs fromCancel s
                            else Some (buttons, s));
          (l, s) \<leftarrow> filterTouch l s;
          let (buttons, s) = (if t_clickpadtype s \<noteq> 0 then clickPad p l buttons s else (buttons, s));
          zoneTouch l buttons s }"

subsection \<open>The second finger\<close>

definition ewX :: "u8 list \<Rightarrow> u32" where
  "ewX p = push_bit 1 (ucast (p ! 1)) OR push_bit 9 (ucast (p ! 4 AND 0x0F))"

definition ewY :: "u8 list \<Rightarrow> u32" where
  "ewY p = push_bit 1 (ucast (p ! 2)) OR push_bit 5 (ucast (p ! 4 AND 0xF0))"

definition ewZ :: "u8 list \<Rightarrow> u32" where
  "ewZ p = push_bit 1 (ucast (p ! 5 AND 0x0F)) OR push_bit 1 (ucast (p ! 3 AND 0x30))"

definition quietMiddle :: "u32 \<Rightarrow> 'p tpad \<Rightarrow> bool" where
  "quietMiddle buttons s \<longleftrightarrow> k_isthinkpad (t_sw s) \<and> k_mousemiddlescroll (t_sw s) \<and> buttons = 4"

text \<open>The second finger moves the pointer while the first holds the button.\<close>

definition ewMove :: "u32 \<Rightarrow> u32 \<Rightarrow> u32 \<Rightarrow> u64 \<Rightarrow> 'p tpad \<Rightarrow> 'p tpad option" where
  "ewMove x y buttons now_abs s =
     (if t_tracksecondary s then
        do { let dx = x - t_lastx2 s + t_xrest2 s;
             let dy = t_lasty2 s - y + t_yrest2 s;
             xr \<leftarrow> rem dx (c_divisorx (t_par s));
             yr \<leftarrow> rem dy (c_divisory (t_par s));
             let s = s\<lparr>t_xrest2 := xr, t_yrest2 := yr\<rparr>;
             let (dx, dy, s) = (if c_bogusdxthresh (t_par s) <s c_abs dx \<or> c_bogusdythresh (t_par s) <s c_abs dy
                                then (0, 0, s\<lparr>t_xrest := 0, t_yrest := 0\<rparr>) else (dx, dy, s));
             if quietMiddle (buttons OR t_clickbuttons s) s then Some s
             else
               do { qx \<leftarrow> quot dx (c_divisorx (t_par s)); qy \<leftarrow> quot dy (c_divisory (t_par s));
                    Some (tpPointer qx qy (buttons OR t_clickbuttons s) now_abs s) } }
      else Some s)"

text \<open>The second finger presses the click pad.\<close>

definition ewClick :: "u8 list \<Rightarrow> u32 \<Rightarrow> u32 \<Rightarrow> u32 \<Rightarrow> u64 \<Rightarrow> u64 \<Rightarrow> 'p tpad \<Rightarrow> 'p tpad" where
  "ewClick p x y buttons now_abs now_ns s =
     (let (buttons, s) =
            (if t_clickpadtype s \<noteq> 0 then
               let (clickbuttons, buttons, s) = thinkpadClick p buttons s;
                   (clickbuttons, s) =
                     (if t_clickbuttons s = 0 \<and> clickbuttons \<noteq> 0 then
                        let clickbuttons = (if isInRightClickZone x y s
                                               \<or> now_ns - t_touchtime s < k_clickpadclicktime (t_sw s)
                                               \<or> t_touchmode s = MODE_NOTOUCH then 0x2 else clickbuttons)
                        in (clickbuttons, (setClickButtons clickbuttons s)\<lparr>t_clickedprimary := False\<rparr>)
                      else (clickbuttons, s));
                   s = (if clickbuttons = 0 then setClickButtons 0 s else s);
                   s = rememberThinkpad s
               in (buttons OR t_clickbuttons s, s)
             else (buttons, s))
      in if quietMiddle buttons s then s else tpPointer 0 0 buttons now_abs s)"

definition dispatchEventsWithPacketEW :: "'p tp_env \<Rightarrow> u8 list \<Rightarrow> 'p tpad \<Rightarrow> 'p tpad option" where
  "dispatchEventsWithPacketEW e p s =
     (if t_ignoreall s \<or> drop_bit 4 (p ! 5) \<noteq> 1 then Some s
      else
        do { (xraw, yraw) \<leftarrow> scaleAxes (ewX p) (ewY p) (t_par s);
             let z = ewZ p;
             if \<not> isFingerTouch z s then Some s
             else
               do { let (x, y, z) = (if t_reportsv s then (xraw AND NOT 2, yraw AND NOT 2, z AND NOT 2) else (xraw, yraw, z));
                    let (now_abs, s) = tp_uptime e s;
                    let now_ns = t_absolutetime_to_nanoseconds e now_abs;
                    let buttons = ucast (p ! 0 AND 0x3) OR t_passbuttons s;
                    let s = (if \<not> t_tracksecondary s
                             then s\<lparr>t_filters2 := resetFilters (t_filters2 s), t_xrest2 := 0, t_yrest2 := 0\<rparr> else s);
                    (x, y, a) \<leftarrow> filterAxes (t_sw s) x y (t_filters2 s);
                    let s = s\<lparr>t_filters2 := a\<rparr>;
                    if outsideZone x y z now_ns s then Some s
                    else
                      do { s \<leftarrow> (if (k_clickpadtrackboth (t_sw s) \<or> t_clickedprimary s) \<and> t_clickbuttons s \<noteq> 0
                                then ewMove x y buttons now_abs s
                                else Some (ewClick p x y buttons now_abs now_ns s));
                           Some (s\<lparr>t_lastx2 := x, t_lasty2 := y, t_tracksecondary := True\<rparr>) } } })"

subsection \<open>The work loop\<close>

definition dispatchEventsWithPacket :: "'p tp_env \<Rightarrow> u8 list \<Rightarrow> 'p tpad \<Rightarrow> 'p tpad option" where
  "dispatchEventsWithPacket e p s =
     do { _ \<leftarrow> at p 5;
          let (now_abs, s) = tp_uptime e s;
          let now_ns = t_absolutetime_to_nanoseconds e now_abs;
          let w = packetW p;
          if t_extendedwmode s \<and> w = 2 then dispatchEventsWithPacketEW e p s
          else
            do { let s = (if t_passthru s \<and> w = 3 then s\<lparr>t_passbuttons := ucast (p ! 1 AND 0x7)\<rparr> else s);
                 let buttons = ucast (p ! 0 AND 0x3) OR t_passbuttons s;
                 let s = s\<lparr>t_lastbuttons := buttons\<rparr>;
                 (buttons, s) \<leftarrow> (if t_clickpadtype s = 0 \<or> w = 3
                                   then tpMiddleButton e buttons now_abs (if w = 3 then fromPassthru else fromTrackpad) s
                                   else Some (buttons, s));
                 if t_passthru s \<and> w = 3 then Some (passthruPacket p buttons now_abs s)
                 else touchPacket e p buttons now_abs now_ns s } }"

definition handleTpPacket :: "'p tp_env \<Rightarrow> u8 list \<Rightarrow> 'p tpad \<Rightarrow> 'p tpad option" where
  "handleTpPacket e p s =
     do { b0 \<leftarrow> at p 0; if b0 \<noteq> 0 then dispatchEventsWithPacket e p s else Some s }"

definition packetReady_tp :: "'p tp_env \<Rightarrow> 'p tpad \<Rightarrow> 'p tpad option" where
  "packetReady_tp e =
     loop (\<lambda>s. tp_packetLength \<le> ring_count (t_ringBuffer s))
       (\<lambda>s. do { s \<leftarrow> handleTpPacket e (ring_front tp_packetLength (t_ringBuffer s)) s;
                 Some (s\<lparr>t_ringBuffer := ring_advanceTail tp_packetLength (t_ringBuffer s)\<rparr>) })"

end
