(* ===== verification/Tpad_Control.thy ===== *)
theory Tpad_Control
  imports Tpad_Touch
begin

text \<open>
  Parameters, messages, requests, power and life cycle of the touchpad driver. An operation that only sends requests
  without using their outcome is a function of the driver's state that logs them; \<open>runTp\<close> performs the logged
  requests and messages on the system, in order. The identification of the touchpad needs the answers of the device and runs in
  the system. The calls that the driver makes while it runs have a device: the pointer is set from start to stop.
\<close>

subsection \<open>Parameters\<close>

definition tp_int32vars :: "(string \<times> (u32 \<Rightarrow> tp_params \<Rightarrow> tp_params)) list" where
  "tp_int32vars = [(''FingerZ'', \<lambda>v c. c\<lparr>c_z_finger := v\<rparr>),
     (''DivisorX'', \<lambda>v c. c\<lparr>c_divisorx := v\<rparr>),
     (''DivisorY'', \<lambda>v c. c\<lparr>c_divisory := v\<rparr>),
     (''EdgeRight'', \<lambda>v c. c\<lparr>c_redge := v\<rparr>),
     (''EdgeLeft'', \<lambda>v c. c\<lparr>c_ledge := v\<rparr>),
     (''EdgeTop'', \<lambda>v c. c\<lparr>c_tedge := v\<rparr>),
     (''EdgeBottom'', \<lambda>v c. c\<lparr>c_bedge := v\<rparr>),
     (''VerticalScrollDivisor'', \<lambda>v c. c\<lparr>c_vscrolldivisor := v\<rparr>),
     (''HorizontalScrollDivisor'', \<lambda>v c. c\<lparr>c_hscrolldivisor := v\<rparr>),
     (''CircularScrollDivisor'', \<lambda>v c. c\<lparr>c_cscrolldivisor := v\<rparr>),
     (''CenterX'', \<lambda>v c. c\<lparr>c_centerx := v\<rparr>),
     (''CenterY'', \<lambda>v c. c\<lparr>c_centery := v\<rparr>),
     (''CircularScrollTrigger'', \<lambda>v c. c\<lparr>c_ctrigger := v\<rparr>),
     (''MultiFingerWLimit'', \<lambda>v c. c\<lparr>c_wlimit := v\<rparr>),
     (''MultiFingerVerticalDivisor'', \<lambda>v c. c\<lparr>c_wvdivisor := v\<rparr>),
     (''MultiFingerHorizontalDivisor'', \<lambda>v c. c\<lparr>c_whdivisor := v\<rparr>),
     (''ZLimit'', \<lambda>v c. c\<lparr>c_zlimit := v\<rparr>),
     (''MouseMultiplierX'', \<lambda>v c. c\<lparr>c_mousemultiplierx := v\<rparr>),
     (''MouseMultiplierY'', \<lambda>v c. c\<lparr>c_mousemultipliery := v\<rparr>),
     (''MouseScrollMultiplierX'', \<lambda>v c. c\<lparr>c_mousescrollmultiplierx := v\<rparr>),
     (''MouseScrollMultiplierY'', \<lambda>v c. c\<lparr>c_mousescrollmultipliery := v\<rparr>),
     (''WakeDelay'', \<lambda>v c. c\<lparr>c_wakedelay := v\<rparr>),
     (''TapThresholdX'', \<lambda>v c. c\<lparr>c_tapthreshx := v\<rparr>),
     (''TapThresholdY'', \<lambda>v c. c\<lparr>c_tapthreshy := v\<rparr>),
     (''DoubleTapThresholdX'', \<lambda>v c. c\<lparr>c_dblthreshx := v\<rparr>),
     (''DoubleTapThresholdY'', \<lambda>v c. c\<lparr>c_dblthreshy := v\<rparr>),
     (''ZoneLeft'', \<lambda>v c. c\<lparr>c_zonel := v\<rparr>),
     (''ZoneRight'', \<lambda>v c. c\<lparr>c_zoner := v\<rparr>),
     (''ZoneTop'', \<lambda>v c. c\<lparr>c_zonet := v\<rparr>),
     (''ZoneBottom'', \<lambda>v c. c\<lparr>c_zoneb := v\<rparr>),
     (''DisableZoneLeft'', \<lambda>v c. c\<lparr>c_diszl := v\<rparr>),
     (''DisableZoneRight'', \<lambda>v c. c\<lparr>c_diszr := v\<rparr>),
     (''DisableZoneTop'', \<lambda>v c. c\<lparr>c_diszt := v\<rparr>),
     (''DisableZoneBottom'', \<lambda>v c. c\<lparr>c_diszb := v\<rparr>),
     (''DisableZoneControl'', \<lambda>v c. c\<lparr>c_diszctrl := v\<rparr>),
     (''Resolution'', \<lambda>v c. c\<lparr>c_resolution := v\<rparr>),
     (''ScrollResolution'', \<lambda>v c. c\<lparr>c_scrollresolution := v\<rparr>),
     (''SwipeDeltaX'', \<lambda>v c. c\<lparr>c_swipedx := v\<rparr>),
     (''SwipeDeltaY'', \<lambda>v c. c\<lparr>c_swipedy := v\<rparr>),
     (''RightClickZoneLeft'', \<lambda>v c. c\<lparr>c_rczl := v\<rparr>),
     (''RightClickZoneRight'', \<lambda>v c. c\<lparr>c_rczr := v\<rparr>),
     (''RightClickZoneTop'', \<lambda>v c. c\<lparr>c_rczt := v\<rparr>),
     (''RightClickZoneBottom'', \<lambda>v c. c\<lparr>c_rczb := v\<rparr>),
     (''HIDScrollZoomModifierMask'', \<lambda>v c. c\<lparr>c_scrollzoommask := v\<rparr>),
     (''ButtonCount'', \<lambda>v c. c\<lparr>c_buttonCount := v\<rparr>),
     (''DragLockTempMask'', \<lambda>v c. c\<lparr>c_draglocktempmask := v\<rparr>),
     (''MomentumScrollThreshY'', \<lambda>v c. c\<lparr>c_momentumscrollthreshy := v\<rparr>),
     (''MomentumScrollMultiplier'', \<lambda>v c. c\<lparr>c_momentumscrollmultiplier := v\<rparr>),
     (''MomentumScrollDivisor'', \<lambda>v c. c\<lparr>c_momentumscrolldivisor := v\<rparr>),
     (''MomentumScrollSamplesMin'', \<lambda>v c. c\<lparr>c_momentumscrollsamplesmin := v\<rparr>),
     (''FingerChangeIgnoreDeltas'', \<lambda>v c. c\<lparr>c_ignoredeltasstart := v\<rparr>),
     (''BogusDeltaThreshX'', \<lambda>v c. c\<lparr>c_bogusdxthresh := v\<rparr>),
     (''BogusDeltaThreshY'', \<lambda>v c. c\<lparr>c_bogusdythresh := v\<rparr>),
     (''UnitsPerMMX'', \<lambda>v c. c\<lparr>c_xupmm := v\<rparr>),
     (''UnitsPerMMY'', \<lambda>v c. c\<lparr>c_yupmm := v\<rparr>),
     (''ScrollDeltaThreshX'', \<lambda>v c. c\<lparr>c_scrolldxthresh := v\<rparr>),
     (''ScrollDeltaThreshY'', \<lambda>v c. c\<lparr>c_scrolldythresh := v\<rparr>),
     (''TrackpadCornerSecondaryClick'', \<lambda>v c. c\<lparr>c_rightclick_corner := v\<rparr>),
     (''TrackpointScrollXMultiplier'', \<lambda>v c. c\<lparr>c_thinkpadNubScrollXMultiplier := v\<rparr>),
     (''TrackpointScrollYMultiplier'', \<lambda>v c. c\<lparr>c_thinkpadNubScrollYMultiplier := v\<rparr>)]"

definition tp_boolvars :: "(string \<times> (bool \<Rightarrow> tp_switches \<Rightarrow> tp_switches)) list" where
  "tp_boolvars = [(''StickyHorizontalScrolling'', \<lambda>v c. c\<lparr>k_hsticky := v\<rparr>),
     (''StickyVerticalScrolling'', \<lambda>v c. c\<lparr>k_vsticky := v\<rparr>),
     (''StickyMultiFingerScrolling'', \<lambda>v c. c\<lparr>k_wsticky := v\<rparr>),
     (''StabilizeTapping'', \<lambda>v c. c\<lparr>k_tapstable := v\<rparr>),
     (''DisableLEDUpdate'', \<lambda>v c. c\<lparr>k_noled := v\<rparr>),
     (''SmoothInput'', \<lambda>v c. c\<lparr>k_smoothinput := v\<rparr>),
     (''UnsmoothInput'', \<lambda>v c. c\<lparr>k_unsmoothinput := v\<rparr>),
     (''SkipPassThrough'', \<lambda>v c. c\<lparr>k_skippassthru := v\<rparr>),
     (''ForcePassThrough'', \<lambda>v c. c\<lparr>k_forcepassthru := v\<rparr>),
     (''Thinkpad'', \<lambda>v c. c\<lparr>k_isthinkpad := v\<rparr>),
     (''HWResetOnStart'', \<lambda>v c. c\<lparr>k_hwresetonstart := v\<rparr>),
     (''SwapDoubleTriple'', \<lambda>v c. c\<lparr>k_swapdoubletriple := v\<rparr>),
     (''ClickPadTrackBoth'', \<lambda>v c. c\<lparr>k_clickpadtrackboth := v\<rparr>),
     (''ImmediateClick'', \<lambda>v c. c\<lparr>k_immediateclick := v\<rparr>),
     (''MouseMiddleScroll'', \<lambda>v c. c\<lparr>k_mousemiddlescroll := v\<rparr>),
     (''FakeMiddleButton'', \<lambda>v c. c\<lparr>k_fakemiddlebutton := v\<rparr>),
     (''DynamicEWMode'', \<lambda>v c. c\<lparr>k_dynamicEW := v\<rparr>),
     (''ProcessUSBMouseStopsTrackpad'', \<lambda>v c. c\<lparr>k_processusbmouse := v\<rparr>),
     (''ProcessBluetoothMouseStopsTrackpad'', \<lambda>v c. c\<lparr>k_processbluetoothmouse := v\<rparr>)]"

definition tp_lowbitvars :: "(string \<times> (bool \<Rightarrow> tp_switches \<Rightarrow> tp_switches)) list" where
  "tp_lowbitvars = [(''TrackpadRightClick'', \<lambda>v c. c\<lparr>k_rtap := v\<rparr>),
     (''Clicking'', \<lambda>v c. c\<lparr>k_clicking := v\<rparr>),
     (''Dragging'', \<lambda>v c. c\<lparr>k_dragging := v\<rparr>),
     (''DragLock'', \<lambda>v c. c\<lparr>k_draglock := v\<rparr>),
     (''TrackpadHorizScroll'', \<lambda>v c. c\<lparr>k_hscroll := v\<rparr>),
     (''TrackpadScroll'', \<lambda>v c. c\<lparr>k_scroll := v\<rparr>),
     (''OutsidezoneNoAction When Typing'', \<lambda>v c. c\<lparr>k_outzone_wt := v\<rparr>),
     (''PalmNoAction Permanent'', \<lambda>v c. c\<lparr>k_palm := v\<rparr>),
     (''PalmNoAction When Typing'', \<lambda>v c. c\<lparr>k_palm_wt := v\<rparr>),
     (''USBMouseStopsTrackpad'', \<lambda>v c. c\<lparr>k_usb_mouse_stops_trackpad := v\<rparr>),
     (''TrackpadMomentumScroll'', \<lambda>v c. c\<lparr>k_momentumscroll := v\<rparr>)]"

definition tp_int64vars :: "(string \<times> (u64 \<Rightarrow> tp_switches \<Rightarrow> tp_switches)) list" where
  "tp_int64vars = [(''MaxDragTime'', \<lambda>v c. c\<lparr>k_maxdragtime := v\<rparr>),
     (''MaxTapTime'', \<lambda>v c. c\<lparr>k_maxtaptime := v\<rparr>),
     (''HIDClickTime'', \<lambda>v c. c\<lparr>k_maxdbltaptime := v\<rparr>),
     (''QuietTimeAfterTyping'', \<lambda>v c. c\<lparr>k_maxaftertyping := v\<rparr>),
     (''MomentumScrollTimer'', \<lambda>v c. c\<lparr>k_momentumscrolltimer := v\<rparr>),
     (''ClickPadClickTime'', \<lambda>v c. c\<lparr>k_clickpadclicktime := v\<rparr>),
     (''MiddleClickTime'', \<lambda>v c. c\<lparr>k_maxmiddleclicktime := v\<rparr>),
     (''DragExitDelayTime'', \<lambda>v c. c\<lparr>k_dragexitdelay := v\<rparr>)]"

text \<open>A loop over such a table, with the conversion of the value found in the configuration.\<close>

definition tpLoadVars :: "(osobj option \<Rightarrow> 'v option) \<Rightarrow> (string \<times> ('v \<Rightarrow> 'c \<Rightarrow> 'c)) list \<Rightarrow> dict \<Rightarrow> 'c \<Rightarrow> 'c" where
  "tpLoadVars val vars config c =
     fold (\<lambda>(name, set) c. case val (getObject config name) of None \<Rightarrow> c | Some v \<Rightarrow> set v c) vars c"

definition lowbit :: "osobj option \<Rightarrow> bool option" where
  "lowbit x = (case asNumber x of Some n \<Rightarrow> Some (tst n 0x1) | None \<Rightarrow> asBoolean x)"

definition tpLoadParams :: "dict \<Rightarrow> tp_params \<Rightarrow> tp_params" where
  "tpLoadParams config c =
     (let c = tpLoadVars (\<lambda>x. map_option ucast (asNumber x)) tp_int32vars config c;
          c = (if c_divisorx c = 0 then c\<lparr>c_divisorx := 1\<rparr> else c);
          c = (if c_divisory c = 0 then c\<lparr>c_divisory := 1\<rparr> else c);
          c = (if c_bogusdxthresh c = 0 then c\<lparr>c_bogusdxthresh := 0x7FFFFFFF\<rparr> else c)
      in if c_bogusdythresh c = 0 then c\<lparr>c_bogusdythresh := 0x7FFFFFFF\<rparr> else c)"

definition tpLoadSwitches :: "dict \<Rightarrow> tp_switches \<Rightarrow> tp_switches" where
  "tpLoadSwitches config k =
     tpLoadVars lowbit tp_lowbitvars config (tpLoadVars asBoolean tp_boolvars config (tpLoadVars asNumber tp_int64vars config k))"

subsection \<open>Requests\<close>

definition initRequest :: "u8 \<Rightarrow> PS2Request" where
  "initRequest v = TPS2Request (map toMouseAck (modeSequence v
     @ [kDP_SetMouseScaling1To1] @ concat (map (\<lambda>r. [kDP_SetMouseResolution, r]) [0, 0, 0, 3])
     @ [kDP_SetMouseSampleRate, 200, kDP_Enable]))"

definition setTouchPadModeByte :: "u8 \<Rightarrow> 'p tpad \<Rightarrow> 'p tpad" where
  "setTouchPadModeByte v s = (if t_device s then emit (TpRequest (initRequest v)) s else s)"

definition setTouchpadModeByte :: "'p tpad \<Rightarrow> 'p tpad" where
  "setTouchpadModeByte s =
     (let s = (if \<not> k_dynamicEW (t_sw s)
               then s\<lparr>t_touchPadModeByte := if t_extendedwmodeSupported s then t_touchPadModeByte s OR 4
                                            else t_touchPadModeByte s AND NOT 4,
                      t_extendedwmode := t_extendedwmodeSupported s\<rparr> else s)
      in setTouchPadModeByte (t_touchPadModeByte s) s)"

definition setTouchPadEnable :: "bool \<Rightarrow> 'p tpad \<Rightarrow> 'p tpad" where
  "setTouchPadEnable enable = emit (TpRequest (TPS2Request [toMouseAck (if enable then kDP_Enable else kDP_SetDefaultsAndDisable)]))"

definition doHardwareReset :: "'p tpad \<Rightarrow> 'p tpad" where
  "doHardwareReset s = emit (TpRequest (TPS2Request
     [toMouseAck kDP_SetDefaultsAndDisable, toMouseAck kDP_SetDefaultsAndDisable,
      cmd kPS2C_WriteCommandPort kCP_TransmitToMouse, cmd kPS2C_WriteDataPort kDP_Reset,
      cmd kPS2C_ReadDataPortAndCompare kSC_Acknowledge,
      set_inOrOut32 (c_wakedelay (t_par s) * 2) (cmd kPS2C_SleepMS 0),
      cmd kPS2C_ReadMouseDataPortAndCompare 0xAA, cmd kPS2C_ReadMouseDataPortAndCompare 0x00])) s"

definition initTouchPad :: "'p tpad \<Rightarrow> 'p tpad" where
  "initTouchPad s =
     updateTouchpadLED_tp (setTouchpadModeByte
       (s\<lparr>t_packetByteCount := 0, t_ringBuffer := ring_reset (t_ringBuffer s), t_passbuttons := 0, t_clickbuttons := 0,
          t_tracksecondary := False, t_modifierdown := 0\<rparr>))"

definition setParamPropertiesGated_tp :: "dict option \<Rightarrow> 'p tpad \<Rightarrow> 'p tpad" where
  "setParamPropertiesGated_tp config s =
     (case config of
        None \<Rightarrow> s
      | Some d \<Rightarrow>
          let oldmode = t_touchPadModeByte s;
              s = (case asBoolean (getObject d ''UseHighRate'') of
                     None \<Rightarrow> s
                   | Some b \<Rightarrow> s\<lparr>t_touchPadModeByte := if b then t_touchPadModeByte s OR 0x40 else t_touchPadModeByte s AND NOT 0x40\<rparr>);
              s = s\<lparr>t_sw := tpLoadSwitches d (t_sw s), t_par := tpLoadParams d (t_par s)\<rparr>;
              s = s\<lparr>t_touchPadModeByte := t_touchPadModeByte s OR 1\<rparr>;
              s = (if \<not> k_dynamicEW (t_sw s)
                   then s\<lparr>t_touchPadModeByte := if t_extendedwmodeSupported s then t_touchPadModeByte s OR 4
                                                else t_touchPadModeByte s AND NOT 4\<rparr> else s);
              s = (if t_touchPadModeByte s \<noteq> oldmode
                   then (setTouchpadModeByte s)\<lparr>t_packetByteCount := 0, t_ringBuffer := ring_reset (t_ringBuffer s)\<rparr> else s);
              s = s\<lparr>t_touchmode := MODE_NOTOUCH\<rparr>
          in if t_attachedHIDPointerDevices s \<noteq> None \<and> t_attachedHIDPointerDevices s \<noteq> Some []
             then updateTouchpadLED_tp (s\<lparr>t_ignoreall := k_usb_mouse_stops_trackpad (t_sw s)\<rparr>) else s)"

subsection \<open>Messages and notifications\<close>

text \<open>The keys that are modifiers, with their mask.\<close>

definition modifierMask :: "u16 \<Rightarrow> u32 option" where
  "modifierMask code = map_of [(0x36, 0x10), (0x37, 0x100000), (0x38, 0), (0x3a, 0x080000), (0x3b, 0x040000), (0x3c, 0),
     (0x3d, 0x08), (0x3e, 0x04), (0x3f, 0x200000)] code"

definition message_tp :: "PS2Message \<Rightarrow> 'p tpad \<Rightarrow> PS2Message \<times> 'p tpad" where
  "message_tp msg s =
     (case msg of
        kPS2M_getDisableTouchpad _ \<Rightarrow> (kPS2M_getDisableTouchpad (\<not> t_ignoreall s), s)
      | kPS2M_setDisableTouchpad enable \<Rightarrow>
          (msg, if enable = t_ignoreall s then updateTouchpadLED_tp (s\<lparr>t_ignoreall := \<not> enable\<rparr>) else s)
      | kPS2M_notifyKeyPressed info \<Rightarrow>
          (msg, case modifierMask (adbKeyCode info) of
                  Some m \<Rightarrow> if goingDown info then s\<lparr>t_modifierdown := t_modifierdown s OR m\<rparr>
                            else s\<lparr>t_modifierdown := t_modifierdown s AND NOT m, t_keytime := ki_time info\<rparr>
                | None \<Rightarrow> s\<lparr>t_momentumscrollcurrent := 0, t_keytime := ki_time info\<rparr>)
      | _ \<Rightarrow> (msg, s))"

definition registerHIDPointerNotifications_tp :: "'p tpad \<Rightarrow> 'p tpad" where
  "registerHIDPointerNotifications_tp s =
     s\<lparr>t_hidNotifiers := t_hidNotifiers s @ (if k_processusbmouse (t_sw s) then [usb_hid_publish, usb_hid_terminate] else [])
         @ (if k_processbluetoothmouse (t_sw s) then [bluetooth_hid_publish, bluetooth_hid_terminate] else [])\<rparr>"

definition unregisterHIDPointerNotifications_tp :: "'p tpad \<Rightarrow> 'p tpad option" where
  "unregisterHIDPointerNotifications_tp s =
     (case t_attachedHIDPointerDevices s of
        None \<Rightarrow> None
      | Some _ \<Rightarrow> Some (s\<lparr>t_hidNotifiers := [], t_attachedHIDPointerDevices := Some []\<rparr>))"

definition notificationHIDAttachedHandlerGated_tp ::
  "bt_classes \<Rightarrow> objref \<Rightarrow> u32 option \<Rightarrow> hid_notify \<Rightarrow> 'p tpad \<Rightarrow> 'p tpad option" where
  "notificationHIDAttachedHandlerGated_tp bt dev cod n s =
     do { ds \<leftarrow> t_attachedHIDPointerDevices s;
          let ds = pointerDevices bt dev cod n ds;
          let s = s\<lparr>t_attachedHIDPointerDevices := Some ds\<rparr>;
          Some (if n = usb_hid_publish \<or> n = bluetooth_hid_publish then
                  (if k_usb_mouse_stops_trackpad (t_sw s) \<and> ds \<noteq> [] then updateTouchpadLED_tp (s\<lparr>t_ignoreall := True\<rparr>) else s)
                else (if k_usb_mouse_stops_trackpad (t_sw s) \<and> ds = [] then updateTouchpadLED_tp (s\<lparr>t_ignoreall := False\<rparr>) else s)) }"

subsection \<open>In the system\<close>

record ('d, 'p) tpad_part =
  tget :: "'d \<Rightarrow> 'p tpad"
  tput :: "'p tpad \<Rightarrow> 'd \<Rightarrow> 'd"

definition tpad_of :: "('d, 'p) tpad_part \<Rightarrow> ('h, 'd) sys \<Rightarrow> 'p tpad" where
  "tpad_of L s = tget L (drv s)"

definition set_tpad :: "('d, 'p) tpad_part \<Rightarrow> 'p tpad \<Rightarrow> ('h, 'd) sys \<Rightarrow> ('h, 'd) sys" where
  "set_tpad L t s = s\<lparr>drv := tput L t (drv s)\<rparr>"

definition performTp :: "('h, 'd) env \<Rightarrow> tp_out \<Rightarrow> ('h, 'd) sys \<Rightarrow> ('h, 'd) sys option" where
  "performTp e v s =
     (case v of
        TpRequest rq \<Rightarrow> do { (_, s) \<leftarrow> submitRequestAndBlock e rq s; Some s }
      | TpMessage msg _ \<Rightarrow> do { (_, s) \<leftarrow> dispatchMessageGated e msg s; Some s }
      | _ \<Rightarrow> Some s)"

definition runTpM :: "('h, 'd) env \<Rightarrow> ('d, 'p) tpad_part \<Rightarrow> ('p tpad \<Rightarrow> 'p tpad option) \<Rightarrow> ('h, 'd) sys \<Rightarrow> ('h, 'd) sys option" where
  "runTpM e L f s =
     do { t \<leftarrow> f (tpad_of L s);
          foldM (performTp e) (drop (length (t_out (tpad_of L s))) (t_out t)) (set_tpad L t s) }"

definition runTp :: "('h, 'd) env \<Rightarrow> ('d, 'p) tpad_part \<Rightarrow> ('p tpad \<Rightarrow> 'p tpad) \<Rightarrow> ('h, 'd) sys \<Rightarrow> ('h, 'd) sys option" where
  "runTp e L f = runTpM e L (\<lambda>t. Some (f t))"

definition setDevicePowerState_tp ::
  "('h, 'd) env \<Rightarrow> ('d, 'p) tpad_part \<Rightarrow> PS2PowerAction \<Rightarrow> ('h, 'd) sys \<Rightarrow> ('h, 'd) sys option" where
  "setDevicePowerState_tp e L whatToDo s =
     (case whatToDo of
        kPS2C_DisableDevice \<Rightarrow> runTp e L (setTouchPadEnable False) s
      | kPS2C_EnableDevice \<Rightarrow> runTp e L initTouchPad (IOSleep (c_wakedelay (t_par (tpad_of L s))) s))"

definition getTouchPadStatus :: "('h, 'd) env \<Rightarrow> ('h, 'd) sys \<Rightarrow> ((u8 \<times> u8 \<times> u8) option \<times> ('h, 'd) sys) option" where
  "getTouchPadStatus e s =
     do { (rq, s) \<leftarrow> submitRequestAndBlock e
            (TPS2Request ([toMouseAck kDP_SetDefaultsAndDisable, toMouseAck kDP_GetMouseInformation]
               @ replicate 3 (cmd kPS2C_ReadDataPort 0) @ [toMouseAck kDP_SetDefaultsAndDisable])) s;
          Some (if commandsCount rq \<noteq> 6 then None
                else Some (inOrOut (commands rq ! 2), inOrOut (commands rq ! 3), inOrOut (commands rq ! 4)), s) }"

definition getTouchPadData_tp :: "('h, 'd) env \<Rightarrow> u8 \<Rightarrow> ('h, 'd) sys \<Rightarrow> ((u8 \<times> u8 \<times> u8) option \<times> ('h, 'd) sys) option" where
  "getTouchPadData_tp e dataSelector s =
     do { (rq, s) \<leftarrow> submitRequestAndBlock e
            (TPS2Request ([toMouseAck kDP_SetDefaultsAndDisable]
               @ map toMouseAck (concat (map (\<lambda>n. [kDP_SetMouseResolution, drop_bit n dataSelector AND 0x3]) [6, 4, 2, 0]))
               @ [toMouseAck kDP_GetMouseInformation] @ replicate 3 (cmd kPS2C_ReadDataPort 0)
               @ [toMouseAck kDP_SetDefaultsAndDisable])) s;
          Some (if commandsCount rq \<noteq> 14 then None
                else Some (inOrOut (commands rq ! 10), inOrOut (commands rq ! 11), inOrOut (commands rq ! 12)), s) }"

definition upd_tpad :: "('d, 'p) tpad_part \<Rightarrow> ('p tpad \<Rightarrow> 'p tpad) \<Rightarrow> ('h, 'd) sys \<Rightarrow> ('h, 'd) sys" where
  "upd_tpad L f s = set_tpad L (f (tpad_of L s)) s"

definition queryPassthru :: "('h, 'd) env \<Rightarrow> ('d, 'p) tpad_part \<Rightarrow> u8 \<Rightarrow> ('h, 'd) sys \<Rightarrow> ('h, 'd) sys option" where
  "queryPassthru e L b2 s =
     do { s \<leftarrow> (if \<not> k_skippassthru (t_sw (tpad_of L s)) then
                  do { (guest, s) \<leftarrow> getTouchPadData_tp e 0x1 s;
                       let passthru1 = (case guest of None \<Rightarrow> 0 | Some (g0, _, _) \<Rightarrow> g0 AND 0x01);
                       Some (upd_tpad L (\<lambda>t. t\<lparr>t_passthru := passthru1 AND drop_bit 7 b2 \<noteq> 0\<rparr>) s) }
                else Some s);
          Some (if k_forcepassthru (t_sw (tpad_of L s)) then upd_tpad L (\<lambda>t. t\<lparr>t_passthru := True\<rparr>) s else s) }"

definition queryLED :: "('h, 'd) env \<Rightarrow> ('d, 'p) tpad_part \<Rightarrow> u8 \<Rightarrow> ('h, 'd) sys \<Rightarrow> ('h, 'd) sys option" where
  "queryLED e L n s =
     (if t_touchPadType (tpad_of L s) = 0x46 then Some (upd_tpad L (\<lambda>t. t\<lparr>t_ledpresent := True\<rparr>) s)
      else if n \<ge> 1 then
        do { (r, s) \<leftarrow> getTouchPadData_tp e 0x9 s;
             Some (case r of None \<Rightarrow> s | Some (r0, _, _) \<Rightarrow> upd_tpad L (\<lambda>t. t\<lparr>t_ledpresent := drop_bit 6 r0 AND 1 \<noteq> 0\<rparr>) s) }
      else Some s)"

definition queryClickpad :: "('h, 'd) env \<Rightarrow> ('d, 'p) tpad_part \<Rightarrow> u8 \<Rightarrow> bool \<Rightarrow> ('h, 'd) sys \<Rightarrow> ('h, 'd) sys option" where
  "queryClickpad e L n supportsEW s =
     (if n \<ge> 4 then
        do { (r, s) \<leftarrow> getTouchPadData_tp e 0xC s;
             Some (case r of
                     None \<Rightarrow> s
                   | Some (r0, r1, _) \<Rightarrow>
                       upd_tpad L (\<lambda>t.
                         let t = t\<lparr>t_clickpadtype := ucast (drop_bit 4 (r0 AND 0x10) OR push_bit 1 (r1 AND 0x01)),
                                   t_reportsv := drop_bit 3 r1 AND 0x01 \<noteq> 0\<rparr>
                         in if supportsEW \<and> t_clickpadtype t \<noteq> 0 then t\<lparr>t_extendedwmodeSupported := True\<rparr> else t) s) }
      else Some s)"

definition queryResolution :: "('h, 'd) env \<Rightarrow> ('d, 'p) tpad_part \<Rightarrow> ('h, 'd) sys \<Rightarrow> ('h, 'd) sys option" where
  "queryResolution e L s =
     (let c = t_par (tpad_of L s) in
      if c_xupmm c <s 0 \<or> c_yupmm c <s 0 then
        do { (r, s) \<leftarrow> getTouchPadData_tp e 0x8 s;
             Some (case r of
                     None \<Rightarrow> s
                   | Some (r0, r1, r2) \<Rightarrow>
                       if tst r1 0x80 \<and> r0 \<noteq> 0 \<and> r2 \<noteq> 0 then
                         upd_tpad L (\<lambda>t. t\<lparr>t_par := (t_par t)\<lparr>
                           c_xupmm := if c_xupmm (t_par t) <s 0 then ucast r0 else c_xupmm (t_par t),
                           c_yupmm := if c_yupmm (t_par t) <s 0 then ucast r2 else c_yupmm (t_par t)\<rparr>\<rparr>) s
                       else s) }
      else Some s)"

definition queryCapabilities :: "('h, 'd) env \<Rightarrow> ('d, 'p) tpad_part \<Rightarrow> ('h, 'd) sys \<Rightarrow> ('h, 'd) sys option" where
  "queryCapabilities e L s =
     do { (caps, s) \<leftarrow> getTouchPadData_tp e 0x2 s;
          let (b0, b2) = (case caps of None \<Rightarrow> (0, 0) | Some (c0, _, c2) \<Rightarrow> if tst c0 0x80 then (c0, c2) else (0, 0));
          let nExtendedQueries = drop_bit 4 (b0 AND 0x70);
          s \<leftarrow> queryPassthru e L b2 s;
          s \<leftarrow> queryLED e L nExtendedQueries s;
          s \<leftarrow> queryClickpad e L nExtendedQueries (tst b2 0x20) s;
          queryResolution e L s }"

subsection \<open>Probe, start and stop\<close>

fun decimal :: "nat \<Rightarrow> string" where
  "decimal n = (if n < 10 then [''0123456789'' ! n] else decimal (n div 10) @ [''0123456789'' ! (n mod 10)])"

text \<open>The properties that \<^verbatim>\<open>injectVersionDependentProperties\<close> publishes for the running version of the system.\<close>

definition versionProperties :: "nat \<Rightarrow> nat \<Rightarrow> dict \<Rightarrow> dict" where
  "versionProperties major minor config =
     (case asDictionary (getObject config (''Darwin '' @ decimal major @ ''.'' @ decimal minor)) of
        Some d \<Rightarrow> d
      | None \<Rightarrow>
          case asDictionary (getObject config (''Darwin '' @ decimal major @ ''.x'')) of
            Some d \<Rightarrow> d
          | None \<Rightarrow>
              if major \<ge> 16 then (case asDictionary (getObject config ''Darwin 16+'') of Some d \<Rightarrow> d | None \<Rightarrow> [])
              else [])"

definition identified :: "bool \<Rightarrow> u8 \<Rightarrow> u16 \<Rightarrow> bool" where
  "identified force ident version \<longleftrightarrow>
     (if force then True else ident = 0x47 \<and> version \<ge> 0x400 \<or> ident = 0x46 \<and> version \<ge> 0x200)"

text \<open>The version properties are read from the configuration without a test that there is one.\<close>

definition probe_tp ::
  "('h, 'd) env \<Rightarrow> ('d, 'p) tpad_part \<Rightarrow> bool \<Rightarrow> dict option \<Rightarrow> ('h, 'd) sys \<Rightarrow> (bool \<times> ('h, 'd) sys) option" where
  "probe_tp e L superProbe config s =
     (if \<not> superProbe then Some (False, s)
      else
        let s = upd_tpad L (\<lambda>t. t\<lparr>t_device := True\<rparr>) s
        in if (case config of None \<Rightarrow> False | Some d \<Rightarrow> asBoolean (getObject d ''DisableDevice'') = Some True) then Some (False, s)
           else
             do { s \<leftarrow> runTp e L (setParamPropertiesGated_tp config) s;
                  d \<leftarrow> config;
                  let force = (asBoolean (getObject d ''ForceSynapticsDetect'') = Some True);
                  (ident, s) \<leftarrow> getTouchPadData_tp e 0x0 s;
                  let (success, s) =
                    (case ident of
                       None \<Rightarrow> (False, s)
                     | Some (b0, b1, b2) \<Rightarrow>
                         let version = push_bit 8 (ucast (b2 AND 0x0f)) OR ucast b0
                         in (identified force b1 version, upd_tpad L (\<lambda>t. t\<lparr>t_touchPadType := b1, t_touchPadVersion := version\<rparr>) s));
                  Some (success, upd_tpad L (\<lambda>t. t\<lparr>t_device := False\<rparr>) s) })"

record tp_resources =
  tgot_super :: bool
  tgot_workLoop :: bool
  tgot_cmdGate :: bool
  tgot_set :: bool
  tgot_buttonTimer :: bool
  tgot_scrollTimer :: bool
  tgot_dragTimer :: bool
  tgot_TPDN :: bool

record tp_refs =
  tref_this :: objref
  tref_interrupt :: funref
  tref_packet :: funref
  tref_power :: funref

definition startTimers :: "tp_resources \<Rightarrow> 'p tpad \<Rightarrow> 'p tpad" where
  "startTimers r t =
     (let t = t\<lparr>t_scrollTimer := tgot_scrollTimer r\<rparr>
      in if k_dragexitdelay (t_sw t) \<noteq> 0 then t\<lparr>t_dragTimer := tgot_dragTimer r\<rparr> else t)"

definition start_tp ::
  "('h, 'd) env \<Rightarrow> ('d, 'p) tpad_part \<Rightarrow> tp_refs \<Rightarrow> tp_resources \<Rightarrow> ('h, 'd) sys \<Rightarrow> (bool \<times> ('h, 'd) sys) option" where
  "start_tp e L f r s =
     (if \<not> tgot_super r then Some (False, s)
      else
        let s = upd_tpad L (\<lambda>t. t\<lparr>t_device := True, t_cmdGate := tgot_cmdGate r\<rparr>) s
        in if \<not> tgot_workLoop r \<or> \<not> tgot_cmdGate r then Some (False, s)
           else
             let s = upd_tpad L (\<lambda>t. registerHIDPointerNotifications_tp
                       (t\<lparr>t_attachedHIDPointerDevices := if tgot_set r then Some [] else None\<rparr>)) s;
                 wantTimer = (3 \<le>s c_buttonCount (t_par (tpad_of L s)))
             in if wantTimer \<and> \<not> tgot_buttonTimer r then Some (False, upd_tpad L (\<lambda>t. t\<lparr>t_buttonTimer := False\<rparr>) s)
                else
                  do { let s = (if wantTimer then upd_tpad L (\<lambda>t. t\<lparr>t_buttonTimer := True\<rparr>) s else s);
                       let s = upd_tpad L (startTimers r) s;
                       s \<leftarrow> (if k_hwresetonstart (t_sw (tpad_of L s)) then runTp e L doHardwareReset s else Some s);
                       s \<leftarrow> queryCapabilities e L s;
                       s \<leftarrow> runTp e L setTouchpadModeByte s;
                       s \<leftarrow> installInterruptAction e kDT_Mouse (tref_this f) (tref_interrupt f) (tref_packet f) s;
                       let s = upd_tpad L (\<lambda>t. t\<lparr>t_interruptHandlerInstalled := True\<rparr>) s;
                       let s = installPowerControlAction kDT_Mouse (tref_this f) (tref_power f) s;
                       let s = upd_tpad L (\<lambda>t. t\<lparr>t_powerControlHandlerInstalled := True, t_provider := tgot_TPDN r\<rparr>) s;
                       s \<leftarrow> runTp e L updateTouchpadLED_tp s;
                       Some (True, s) })"

definition stop_tp :: "('h, 'd) env \<Rightarrow> ('d, 'p) tpad_part \<Rightarrow> bool \<Rightarrow> ('h, 'd) sys \<Rightarrow> ('h, 'd) sys option" where
  "stop_tp e L workLoopThere s =
     do { t \<leftarrow> unregisterHIDPointerNotifications_tp (tpad_of L s);
          let s = set_tpad L (t\<lparr>t_attachedHIDPointerDevices := None, t_ignoreall := False\<rparr>) s;
          s \<leftarrow> runTp e L (\<lambda>t. setTouchPadEnable False (updateTouchpadLED_tp t)) s;
          let s = (if workLoopThere
                   then upd_tpad L (\<lambda>t. t\<lparr>t_scrollTimer := False, t_scrollTimeout := None, t_buttonTimer := False,
                          t_buttonTimeout := None, t_cmdGate := False\<rparr>) s else s);
          s \<leftarrow> (if t_interruptHandlerInstalled (tpad_of L s) then uninstallInterruptAction e kDT_Mouse s else Some s);
          let s = upd_tpad L (\<lambda>t. t\<lparr>t_interruptHandlerInstalled := False\<rparr>) s;
          s \<leftarrow> (if t_powerControlHandlerInstalled (tpad_of L s) then uninstallPowerControlAction kDT_Mouse s else Some s);
          Some (upd_tpad L (\<lambda>t. t\<lparr>t_powerControlHandlerInstalled := False, t_device := False, t_provider := False\<rparr>) s) }"

end
