(* ===== verification/Tpad_Safe.thy ===== *)
theory Tpad_Safe
  imports Tpad_Control
begin

text \<open>
  Safety of the packet handler of the touchpad driver, stage by stage. \<open>tp_good\<close> is the invariant: parameters that can divide, timers that
  exist, a scrolling mode only with its divisor, a momentum only with its interval, and filters in a state that
  samples lead to. \<open>ok s s'\<close> says that a step from \<open>s\<close> returned \<open>s'\<close>, which is good and has the same ring buffer; each stage of
  \<^verbatim>\<open>dispatchEventsWithPacket\<close> returns such a state from any good one.
\<close>

subsection \<open>Definitions\<close>

definition sane_par :: "tp_params \<Rightarrow> bool" where
  "sane_par c \<longleftrightarrow> c_divisorx c \<noteq> 0 \<and> c_divisorx c \<noteq> -1 \<and> c_divisory c \<noteq> 0 \<and> c_divisory c \<noteq> -1
     \<and> c_vscrolldivisor c \<noteq> -1 \<and> c_hscrolldivisor c \<noteq> -1 \<and> c_cscrolldivisor c \<noteq> -1
     \<and> c_wvdivisor c \<noteq> -1 \<and> c_whdivisor c \<noteq> -1
     \<and> c_xupmm c \<noteq> 0 \<and> c_xupmm c \<noteq> -1 \<and> c_yupmm c \<noteq> 0 \<and> c_yupmm c \<noteq> -1 \<and> 2 \<le>s c_momentumscrolldivisor c"

definition sane_sw :: "tp_switches \<Rightarrow> bool" where
  "sane_sw k \<longleftrightarrow> k_momentumscrolltimer k < 2 ^ 31"

definition mode_ok :: "'p tpad \<Rightarrow> bool" where
  "mode_ok s \<longleftrightarrow> (t_touchmode s = MODE_VSCROLL \<longrightarrow> c_vscrolldivisor (t_par s) \<noteq> 0)
     \<and> (t_touchmode s = MODE_HSCROLL \<longrightarrow> c_hscrolldivisor (t_par s) \<noteq> 0)
     \<and> (t_touchmode s = MODE_CSCROLL \<longrightarrow> c_cscrolldivisor (t_par s) \<noteq> 0)"

definition momentum_ok :: "'p tpad \<Rightarrow> bool" where
  "momentum_ok s \<longleftrightarrow> (t_momentumscrollcurrent s \<noteq> 0 \<longrightarrow> t_touchmode s \<noteq> MODE_MTOUCH
     \<and> t_momentumscrollinterval s \<noteq> 0 \<and> - (2 ^ 62) \<le> sint (t_momentumscrollcurrent s))"

definition avg_ok :: "'a::len word average \<Rightarrow> bool" where
  "avg_ok v \<longleftrightarrow> (\<exists>xs. av_after xs v)"

definition filters_ok :: "axis_filters \<Rightarrow> bool" where
  "filters_ok a \<longleftrightarrow> avg_ok (x_avg a) \<and> avg_ok (y_avg a)"

definition tp_good :: "'p tpad \<Rightarrow> bool" where
  "tp_good s \<longleftrightarrow> sane_par (t_par s) \<and> sane_sw (t_sw s) \<and> t_buttonTimer s \<and> t_scrollTimer s \<and> mode_ok s \<and> momentum_ok s
     \<and> avg_ok (t_dy_history s) \<and> avg_ok (t_time_history s) \<and> filters_ok (t_filters1 s) \<and> filters_ok (t_filters2 s)"

definition same :: "'p tpad \<Rightarrow> 'p tpad \<Rightarrow> bool" where
  "same s s' \<longleftrightarrow> t_ringBuffer s' = t_ringBuffer s \<and> t_packetByteCount s' = t_packetByteCount s \<and> t_lastdata s' = t_lastdata s"

definition ok :: "'p tpad \<Rightarrow> 'p tpad \<Rightarrow> bool" where
  "ok s s' \<longleftrightarrow> tp_good s' \<and> same s s'"

text \<open>The same except that the mode is about to change.\<close>

definition okm :: "'p tpad \<Rightarrow> 'p tpad \<Rightarrow> bool" where
  "okm s s' \<longleftrightarrow> ok s (s'\<lparr>t_touchmode := MODE_NOTOUCH\<rparr>)"

lemmas tp_defs = ok_def tp_good_def same_def mode_ok_def momentum_ok_def filters_ok_def

lemma ok_trans: "ok a b \<Longrightarrow> ok b c \<Longrightarrow> ok a c"
  by (simp add: ok_def same_def)

lemma ok_refl: "tp_good s \<Longrightarrow> ok s s"
  by (simp add: ok_def same_def)

lemma ok_good: "ok s s' \<Longrightarrow> tp_good s'"
  by (simp add: ok_def)

lemma good_upd [simp]:
  "tp_good (s\<lparr>t_device := v1\<rparr>) = tp_good s" "tp_good (s\<lparr>t_interruptHandlerInstalled := v2\<rparr>) = tp_good s"
  "tp_good (s\<lparr>t_powerControlHandlerInstalled := v3\<rparr>) = tp_good s" "tp_good (s\<lparr>t_touchPadVersion := v4\<rparr>) = tp_good s"
  "tp_good (s\<lparr>t_touchPadType := v5\<rparr>) = tp_good s" "tp_good (s\<lparr>t_touchPadModeByte := v6\<rparr>) = tp_good s"
  "tp_good (s\<lparr>t_cmdGate := v7\<rparr>) = tp_good s" "tp_good (s\<lparr>t_provider := v8\<rparr>) = tp_good s"
  "tp_good (s\<lparr>t_draglocktemp := v9\<rparr>) = tp_good s" "tp_good (s\<lparr>t_thinkpadButtonState := v10\<rparr>) = tp_good s"
  "tp_good (s\<lparr>t_thinkpadMiddleScrolled := v11\<rparr>) = tp_good s" "tp_good (s\<lparr>t_thinkpadMiddleButtonPressed := v12\<rparr>) = tp_good s"
  "tp_good (s\<lparr>t_inSwipeLeft := v13\<rparr>) = tp_good s" "tp_good (s\<lparr>t_inSwipeRight := v14\<rparr>) = tp_good s"
  "tp_good (s\<lparr>t_inSwipeUp := v15\<rparr>) = tp_good s" "tp_good (s\<lparr>t_inSwipeDown := v16\<rparr>) = tp_good s"
  "tp_good (s\<lparr>t_xmoved := v17\<rparr>) = tp_good s" "tp_good (s\<lparr>t_ymoved := v18\<rparr>) = tp_good s"
  "tp_good (s\<lparr>t_lastx2 := v19\<rparr>) = tp_good s" "tp_good (s\<lparr>t_lasty2 := v20\<rparr>) = tp_good s"
  "tp_good (s\<lparr>t_tracksecondary := v21\<rparr>) = tp_good s" "tp_good (s\<lparr>t_xrest2 := v22\<rparr>) = tp_good s"
  "tp_good (s\<lparr>t_yrest2 := v23\<rparr>) = tp_good s" "tp_good (s\<lparr>t_clickedprimary := v24\<rparr>) = tp_good s"
  "tp_good (s\<lparr>t_extendedwmode := v25\<rparr>) = tp_good s" "tp_good (s\<lparr>t_extendedwmodeSupported := v26\<rparr>) = tp_good s"
  "tp_good (s\<lparr>t_lastx := v27\<rparr>) = tp_good s" "tp_good (s\<lparr>t_lasty := v28\<rparr>) = tp_good s"
  "tp_good (s\<lparr>t_lastf := v29\<rparr>) = tp_good s" "tp_good (s\<lparr>t_lastbuttons := v30\<rparr>) = tp_good s"
  "tp_good (s\<lparr>t_ignoredeltas := v31\<rparr>) = tp_good s" "tp_good (s\<lparr>t_xrest := v32\<rparr>) = tp_good s"
  "tp_good (s\<lparr>t_yrest := v33\<rparr>) = tp_good s" "tp_good (s\<lparr>t_scrollrest := v34\<rparr>) = tp_good s"
  "tp_good (s\<lparr>t_touchx := v35\<rparr>) = tp_good s" "tp_good (s\<lparr>t_touchy := v36\<rparr>) = tp_good s"
  "tp_good (s\<lparr>t_touchtime := v37\<rparr>) = tp_good s" "tp_good (s\<lparr>t_untouchtime := v38\<rparr>) = tp_good s"
  "tp_good (s\<lparr>t_wasdouble := v39\<rparr>) = tp_good s" "tp_good (s\<lparr>t_wastriple := v40\<rparr>) = tp_good s"
  "tp_good (s\<lparr>t_keytime := v41\<rparr>) = tp_good s" "tp_good (s\<lparr>t_ignoreall := v42\<rparr>) = tp_good s"
  "tp_good (s\<lparr>t_passbuttons := v43\<rparr>) = tp_good s" "tp_good (s\<lparr>t_passthru := v44\<rparr>) = tp_good s"
  "tp_good (s\<lparr>t_ledpresent := v45\<rparr>) = tp_good s" "tp_good (s\<lparr>t_reportsv := v46\<rparr>) = tp_good s"
  "tp_good (s\<lparr>t_clickpadtype := v47\<rparr>) = tp_good s" "tp_good (s\<lparr>t_clickbuttons := v48\<rparr>) = tp_good s"
  "tp_good (s\<lparr>t_attachedHIDPointerDevices := v49\<rparr>) = tp_good s" "tp_good (s\<lparr>t_hidNotifiers := v50\<rparr>) = tp_good s"
  "tp_good (s\<lparr>t_modifierdown := v51\<rparr>) = tp_good s" "tp_good (s\<lparr>t_mbuttonstate := v52\<rparr>) = tp_good s"
  "tp_good (s\<lparr>t_pendingbuttons := v53\<rparr>) = tp_good s" "tp_good (s\<lparr>t_buttontime := v54\<rparr>) = tp_good s"
  "tp_good (s\<lparr>t_buttonTimeout := v55\<rparr>) = tp_good s" "tp_good (s\<lparr>t_scrollTimeout := v56\<rparr>) = tp_good s"
  "tp_good (s\<lparr>t_momentumscrollsum := v57\<rparr>) = tp_good s" "tp_good (s\<lparr>t_momentumscrollrest1 := v58\<rparr>) = tp_good s"
  "tp_good (s\<lparr>t_momentumscrollrest2 := v59\<rparr>) = tp_good s" "tp_good (s\<lparr>t_dragTimer := v60\<rparr>) = tp_good s"
  "tp_good (s\<lparr>t_dragTimeout := v61\<rparr>) = tp_good s" "tp_good (s\<lparr>t_out := v62\<rparr>) = tp_good s"
  "tp_good (s\<lparr>t_plat := v63\<rparr>) = tp_good s"
  by (simp_all add: tp_defs)

lemma ok_upd [simp]:
  "ok r (s\<lparr>t_device := v64\<rparr>) = ok r s" "ok r (s\<lparr>t_interruptHandlerInstalled := v65\<rparr>) = ok r s"
  "ok r (s\<lparr>t_powerControlHandlerInstalled := v66\<rparr>) = ok r s" "ok r (s\<lparr>t_touchPadVersion := v67\<rparr>) = ok r s"
  "ok r (s\<lparr>t_touchPadType := v68\<rparr>) = ok r s" "ok r (s\<lparr>t_touchPadModeByte := v69\<rparr>) = ok r s"
  "ok r (s\<lparr>t_cmdGate := v70\<rparr>) = ok r s" "ok r (s\<lparr>t_provider := v71\<rparr>) = ok r s"
  "ok r (s\<lparr>t_draglocktemp := v72\<rparr>) = ok r s" "ok r (s\<lparr>t_thinkpadButtonState := v73\<rparr>) = ok r s"
  "ok r (s\<lparr>t_thinkpadMiddleScrolled := v74\<rparr>) = ok r s" "ok r (s\<lparr>t_thinkpadMiddleButtonPressed := v75\<rparr>) = ok r s"
  "ok r (s\<lparr>t_inSwipeLeft := v76\<rparr>) = ok r s" "ok r (s\<lparr>t_inSwipeRight := v77\<rparr>) = ok r s"
  "ok r (s\<lparr>t_inSwipeUp := v78\<rparr>) = ok r s" "ok r (s\<lparr>t_inSwipeDown := v79\<rparr>) = ok r s"
  "ok r (s\<lparr>t_xmoved := v80\<rparr>) = ok r s" "ok r (s\<lparr>t_ymoved := v81\<rparr>) = ok r s" "ok r (s\<lparr>t_lastx2 := v82\<rparr>) = ok r s"
  "ok r (s\<lparr>t_lasty2 := v83\<rparr>) = ok r s" "ok r (s\<lparr>t_tracksecondary := v84\<rparr>) = ok r s"
  "ok r (s\<lparr>t_xrest2 := v85\<rparr>) = ok r s" "ok r (s\<lparr>t_yrest2 := v86\<rparr>) = ok r s"
  "ok r (s\<lparr>t_clickedprimary := v87\<rparr>) = ok r s" "ok r (s\<lparr>t_extendedwmode := v88\<rparr>) = ok r s"
  "ok r (s\<lparr>t_extendedwmodeSupported := v89\<rparr>) = ok r s" "ok r (s\<lparr>t_lastx := v90\<rparr>) = ok r s"
  "ok r (s\<lparr>t_lasty := v91\<rparr>) = ok r s" "ok r (s\<lparr>t_lastf := v92\<rparr>) = ok r s"
  "ok r (s\<lparr>t_lastbuttons := v93\<rparr>) = ok r s" "ok r (s\<lparr>t_ignoredeltas := v94\<rparr>) = ok r s"
  "ok r (s\<lparr>t_xrest := v95\<rparr>) = ok r s" "ok r (s\<lparr>t_yrest := v96\<rparr>) = ok r s" "ok r (s\<lparr>t_scrollrest := v97\<rparr>) = ok r s"
  "ok r (s\<lparr>t_touchx := v98\<rparr>) = ok r s" "ok r (s\<lparr>t_touchy := v99\<rparr>) = ok r s"
  "ok r (s\<lparr>t_touchtime := v100\<rparr>) = ok r s" "ok r (s\<lparr>t_untouchtime := v101\<rparr>) = ok r s"
  "ok r (s\<lparr>t_wasdouble := v102\<rparr>) = ok r s" "ok r (s\<lparr>t_wastriple := v103\<rparr>) = ok r s"
  "ok r (s\<lparr>t_keytime := v104\<rparr>) = ok r s" "ok r (s\<lparr>t_ignoreall := v105\<rparr>) = ok r s"
  "ok r (s\<lparr>t_passbuttons := v106\<rparr>) = ok r s" "ok r (s\<lparr>t_passthru := v107\<rparr>) = ok r s"
  "ok r (s\<lparr>t_ledpresent := v108\<rparr>) = ok r s" "ok r (s\<lparr>t_reportsv := v109\<rparr>) = ok r s"
  "ok r (s\<lparr>t_clickpadtype := v110\<rparr>) = ok r s" "ok r (s\<lparr>t_clickbuttons := v111\<rparr>) = ok r s"
  "ok r (s\<lparr>t_attachedHIDPointerDevices := v112\<rparr>) = ok r s" "ok r (s\<lparr>t_hidNotifiers := v113\<rparr>) = ok r s"
  "ok r (s\<lparr>t_modifierdown := v114\<rparr>) = ok r s" "ok r (s\<lparr>t_mbuttonstate := v115\<rparr>) = ok r s"
  "ok r (s\<lparr>t_pendingbuttons := v116\<rparr>) = ok r s" "ok r (s\<lparr>t_buttontime := v117\<rparr>) = ok r s"
  "ok r (s\<lparr>t_buttonTimeout := v118\<rparr>) = ok r s" "ok r (s\<lparr>t_scrollTimeout := v119\<rparr>) = ok r s"
  "ok r (s\<lparr>t_momentumscrollsum := v120\<rparr>) = ok r s" "ok r (s\<lparr>t_momentumscrollrest1 := v121\<rparr>) = ok r s"
  "ok r (s\<lparr>t_momentumscrollrest2 := v122\<rparr>) = ok r s" "ok r (s\<lparr>t_dragTimer := v123\<rparr>) = ok r s"
  "ok r (s\<lparr>t_dragTimeout := v124\<rparr>) = ok r s" "ok r (s\<lparr>t_out := v125\<rparr>) = ok r s" "ok r (s\<lparr>t_plat := v126\<rparr>) = ok r s"
  by (simp_all add: ok_def same_def)

lemma okm_upd [simp]:
  "okm r (s\<lparr>t_device := v64\<rparr>) = okm r s" "okm r (s\<lparr>t_interruptHandlerInstalled := v65\<rparr>) = okm r s"
  "okm r (s\<lparr>t_powerControlHandlerInstalled := v66\<rparr>) = okm r s" "okm r (s\<lparr>t_touchPadVersion := v67\<rparr>) = okm r s"
  "okm r (s\<lparr>t_touchPadType := v68\<rparr>) = okm r s" "okm r (s\<lparr>t_touchPadModeByte := v69\<rparr>) = okm r s"
  "okm r (s\<lparr>t_cmdGate := v70\<rparr>) = okm r s" "okm r (s\<lparr>t_provider := v71\<rparr>) = okm r s"
  "okm r (s\<lparr>t_draglocktemp := v72\<rparr>) = okm r s" "okm r (s\<lparr>t_thinkpadButtonState := v73\<rparr>) = okm r s"
  "okm r (s\<lparr>t_thinkpadMiddleScrolled := v74\<rparr>) = okm r s" "okm r (s\<lparr>t_thinkpadMiddleButtonPressed := v75\<rparr>) = okm r s"
  "okm r (s\<lparr>t_inSwipeLeft := v76\<rparr>) = okm r s" "okm r (s\<lparr>t_inSwipeRight := v77\<rparr>) = okm r s"
  "okm r (s\<lparr>t_inSwipeUp := v78\<rparr>) = okm r s" "okm r (s\<lparr>t_inSwipeDown := v79\<rparr>) = okm r s"
  "okm r (s\<lparr>t_xmoved := v80\<rparr>) = okm r s" "okm r (s\<lparr>t_ymoved := v81\<rparr>) = okm r s" "okm r (s\<lparr>t_lastx2 := v82\<rparr>) = okm r s"
  "okm r (s\<lparr>t_lasty2 := v83\<rparr>) = okm r s" "okm r (s\<lparr>t_tracksecondary := v84\<rparr>) = okm r s"
  "okm r (s\<lparr>t_xrest2 := v85\<rparr>) = okm r s" "okm r (s\<lparr>t_yrest2 := v86\<rparr>) = okm r s"
  "okm r (s\<lparr>t_clickedprimary := v87\<rparr>) = okm r s" "okm r (s\<lparr>t_extendedwmode := v88\<rparr>) = okm r s"
  "okm r (s\<lparr>t_extendedwmodeSupported := v89\<rparr>) = okm r s" "okm r (s\<lparr>t_lastx := v90\<rparr>) = okm r s"
  "okm r (s\<lparr>t_lasty := v91\<rparr>) = okm r s" "okm r (s\<lparr>t_lastf := v92\<rparr>) = okm r s"
  "okm r (s\<lparr>t_lastbuttons := v93\<rparr>) = okm r s" "okm r (s\<lparr>t_ignoredeltas := v94\<rparr>) = okm r s"
  "okm r (s\<lparr>t_xrest := v95\<rparr>) = okm r s" "okm r (s\<lparr>t_yrest := v96\<rparr>) = okm r s" "okm r (s\<lparr>t_scrollrest := v97\<rparr>) = okm r s"
  "okm r (s\<lparr>t_touchx := v98\<rparr>) = okm r s" "okm r (s\<lparr>t_touchy := v99\<rparr>) = okm r s"
  "okm r (s\<lparr>t_touchtime := v100\<rparr>) = okm r s" "okm r (s\<lparr>t_untouchtime := v101\<rparr>) = okm r s"
  "okm r (s\<lparr>t_wasdouble := v102\<rparr>) = okm r s" "okm r (s\<lparr>t_wastriple := v103\<rparr>) = okm r s"
  "okm r (s\<lparr>t_keytime := v104\<rparr>) = okm r s" "okm r (s\<lparr>t_ignoreall := v105\<rparr>) = okm r s"
  "okm r (s\<lparr>t_passbuttons := v106\<rparr>) = okm r s" "okm r (s\<lparr>t_passthru := v107\<rparr>) = okm r s"
  "okm r (s\<lparr>t_ledpresent := v108\<rparr>) = okm r s" "okm r (s\<lparr>t_reportsv := v109\<rparr>) = okm r s"
  "okm r (s\<lparr>t_clickpadtype := v110\<rparr>) = okm r s" "okm r (s\<lparr>t_clickbuttons := v111\<rparr>) = okm r s"
  "okm r (s\<lparr>t_attachedHIDPointerDevices := v112\<rparr>) = okm r s" "okm r (s\<lparr>t_hidNotifiers := v113\<rparr>) = okm r s"
  "okm r (s\<lparr>t_modifierdown := v114\<rparr>) = okm r s" "okm r (s\<lparr>t_mbuttonstate := v115\<rparr>) = okm r s"
  "okm r (s\<lparr>t_pendingbuttons := v116\<rparr>) = okm r s" "okm r (s\<lparr>t_buttontime := v117\<rparr>) = okm r s"
  "okm r (s\<lparr>t_buttonTimeout := v118\<rparr>) = okm r s" "okm r (s\<lparr>t_scrollTimeout := v119\<rparr>) = okm r s"
  "okm r (s\<lparr>t_momentumscrollsum := v120\<rparr>) = okm r s" "okm r (s\<lparr>t_momentumscrollrest1 := v121\<rparr>) = okm r s"
  "okm r (s\<lparr>t_momentumscrollrest2 := v122\<rparr>) = okm r s" "okm r (s\<lparr>t_dragTimer := v123\<rparr>) = okm r s"
  "okm r (s\<lparr>t_dragTimeout := v124\<rparr>) = okm r s" "okm r (s\<lparr>t_out := v125\<rparr>) = okm r s" "okm r (s\<lparr>t_plat := v126\<rparr>) = okm r s"
  by (simp_all add: okm_def tp_defs)

lemma ok_if [simp]: "ok r (if b then x else y) = (if b then ok r x else ok r y)" "okm r (if b then x else y) = (if b then okm r x else okm r y)"
  by simp_all

lemma ok_okm [simp]: "ok r s \<Longrightarrow> okm r s"
  by (simp add: okm_def tp_defs)

lemma emit_ok [simp]: "ok r (emit v s) = ok r s" "okm r (emit v s) = okm r s"
  by (simp_all add: emit_def)

lemma out_ok [simp]: "ok r (tpPointer dx dy b t s) = ok r s" "ok r (tpScroll a b' c t s) = ok r s" "okm r (tpPointer dx dy b t s) = okm r s"
  by (simp_all add: tpPointer_def tpScroll_def)

lemma emit_sel [simp]:
  "t_buttonTimer (tpPointer dx dy b t s) = t_buttonTimer s" "t_pendingbuttons (tpPointer dx dy b t s) = t_pendingbuttons s"
  by (simp_all add: tpPointer_def emit_def)

subsection \<open>Divisions\<close>

lemma divides_word: "b \<noteq> 0 \<Longrightarrow> b \<noteq> -1 \<Longrightarrow> divides_ok a b"
  by (simp add: divides_ok_def)

lemma quot_rem_ok [simp]: "b \<noteq> 0 \<Longrightarrow> b \<noteq> -1 \<Longrightarrow> \<exists>q. quot a b = Some q" "b \<noteq> 0 \<Longrightarrow> b \<noteq> -1 \<Longrightarrow> \<exists>r. rem a b = Some r"
  by (simp_all add: quot_def rem_def divides_word)

lemma quot0_rem0_ok: "b \<noteq> -1 \<Longrightarrow> \<exists>q. quot0 a b = Some q" "b \<noteq> -1 \<Longrightarrow> \<exists>r. rem0 a b = Some r"
  by (simp_all add: quot0_def rem0_def)

lemma av_filter_ok: "avg_ok v \<Longrightarrow> \<exists>y v'. av_filter x v = Some (y, v') \<and> avg_ok v'"
  unfolding avg_ok_def using av_filter_step by blast

lemma av_reset_ok [simp]: "avg_ok v \<Longrightarrow> avg_ok (av_reset v)"
  unfolding avg_ok_def using av_after_init by (metis av_after_def)

lemma av_newest_ok: "avg_ok v \<Longrightarrow> \<exists>y. av_newest v = Some y"
proof -
  assume "avg_ok v"
  then obtain xs where xs: "av_after xs v" by (auto simp: avg_ok_def)
  then show ?thesis using av_newest_after [OF xs] by (cases "xs = []") (auto simp: av_newest_def av_after_def Let_def)
qed

lemma av_oldest_ok: "avg_ok v \<Longrightarrow> \<exists>y. av_oldest v = Some y"
proof -
  assume "avg_ok v"
  then obtain xs where xs: "av_after xs v" by (auto simp: avg_ok_def)
  then show ?thesis using av_oldest_after [OF xs] by (cases "xs = []") (auto simp: av_oldest_def av_after_def Let_def)
qed

lemma undecay_ok: "\<exists>y d'. undecay_filter 1 1 2 x d = Some (y, d')"
  by (simp add: undecay_filter_def quot_def divides_ok_def Let_def)

lemma filterAxes_ok: "filters_ok a \<Longrightarrow> \<exists>x' y' a'. filterAxes k x y a = Some (x', y', a') \<and> filters_ok a'"
proof -
  assume a: "filters_ok a"
  obtain x1 u y1 v where u: "undecay_filter 1 1 2 x (x_undo a) = Some (x1, u)" "undecay_filter 1 1 2 y (y_undo a) = Some (y1, v)"
    using undecay_ok by metis
  have "\<exists>x' y' a'. (do { (x, u) \<leftarrow> av_filter p (x_avg b); (y, v) \<leftarrow> av_filter q (y_avg b);
                 Some (x, y, b\<lparr>x_avg := u, y_avg := v\<rparr>) }) = Some (x', y', a') \<and> filters_ok a'" if fb: "filters_ok b" for p q b
  proof -
    obtain x' c where "av_filter p (x_avg b) = Some (x', c)" "avg_ok c" using fb av_filter_ok filters_ok_def by metis
    moreover obtain y' d where "av_filter q (y_avg b) = Some (y', d)" "avg_ok d" using fb av_filter_ok filters_ok_def by metis
    ultimately show ?thesis by (simp add: filters_ok_def)
  qed
  from this [OF a] this [of "a\<lparr>x_undo := u, y_undo := v\<rparr>"] a u show ?thesis
    by (auto simp: filterAxes_def filters_ok_def)
qed

lemma resetFilters_ok [simp]: "filters_ok a \<Longrightarrow> filters_ok (resetFilters a)"
  by (simp add: filters_ok_def resetFilters_def)

subsection \<open>Middle button and timers\<close>

lemma good_timer: "tp_good s \<Longrightarrow> t_buttonTimer s" "tp_good s \<Longrightarrow> t_scrollTimer s"
  by (simp_all add: tp_good_def)

lemma tpMiddleSwitch_ok: "tp_good s \<Longrightarrow> \<exists>s'. tpMiddleSwitch b t n to f s = Some s' \<and> ok s s'"
  by (cases "t_mbuttonstate s")
    (simp_all add: tpMiddleSwitch_def setTpButtonTimer_def cancelTpButtonTimer_def good_timer ok_refl)

lemma tpMiddleButton_ok: "tp_good s \<Longrightarrow> \<exists>b' s'. tpMiddleButton e b t f s = Some (b', s') \<and> ok s s'"
proof -
  assume s: "tp_good s"
  show ?thesis
  proof (cases "\<not> k_fakemiddlebutton (t_sw s) \<or> c_buttonCount (t_par s) \<le>s 2 \<or> t_ignoreall s \<and> f = fromTrackpad")
    case True
    then show ?thesis using ok_refl [OF s] by (auto simp: tpMiddleButton_def)
  next
    case False
    obtain s' where "tpMiddleSwitch b t (t_absolutetime_to_nanoseconds e t) (f = fromButtonTimer \<or> f = fromCancel
        \<or> t_absolutetime_to_nanoseconds e t - t_buttontime s > k_maxmiddleclicktime (t_sw s)) f s = Some s' \<and> ok s s'"
      using tpMiddleSwitch_ok [OF s] by blast
    then show ?thesis using False by (auto simp: tpMiddleButton_def Let_def)
  qed
qed

lemma uptime_ok [simp]: "ok r (s\<lparr>t_plat := p\<rparr>) = ok r s" "tp_good (s\<lparr>t_plat := p\<rparr>) = tp_good s"
  by (simp_all add: tp_defs)

text \<open>Changes of the fields the invariant does talk about.\<close>

lemma ok_mode [simp]:
  "okm r s \<Longrightarrow> ok r (s\<lparr>t_touchmode := MODE_NOTOUCH\<rparr>)"
  "okm r s \<Longrightarrow> ok r (s\<lparr>t_touchmode := MODE_PREDRAG\<rparr>)"
  "okm r s \<Longrightarrow> ok r (s\<lparr>t_touchmode := MODE_DRAGNOTOUCH\<rparr>)"
  "okm r s \<Longrightarrow> ok r (s\<lparr>t_touchmode := MODE_MOVE\<rparr>)"
  "okm r s \<Longrightarrow> ok r (s\<lparr>t_touchmode := MODE_DRAG\<rparr>)"
  "okm r s \<Longrightarrow> ok r (s\<lparr>t_touchmode := MODE_DRAGLOCK\<rparr>)"
  "okm r s \<Longrightarrow> ok r (s\<lparr>t_touchmode := MODE_WAIT1RELEASE\<rparr>)"
  "okm r s \<Longrightarrow> ok r (s\<lparr>t_touchmode := MODE_WAIT2TAP\<rparr>)"
  "okm r s \<Longrightarrow> ok r (s\<lparr>t_touchmode := MODE_WAIT2RELEASE\<rparr>)"
  "okm r s \<Longrightarrow> t_momentumscrollcurrent s = 0 \<Longrightarrow> ok r (s\<lparr>t_touchmode := MODE_MTOUCH\<rparr>)"
  by (simp_all add: okm_def tp_defs)

lemma ok_core [simp]:
  "ok r s \<Longrightarrow> ok r (s\<lparr>t_momentumscrollcurrent := 0\<rparr>)"
  "ok r s \<Longrightarrow> avg_ok d \<Longrightarrow> ok r (s\<lparr>t_dy_history := d\<rparr>)"
  "ok r s \<Longrightarrow> avg_ok h \<Longrightarrow> ok r (s\<lparr>t_time_history := h\<rparr>)"
  "okm r s \<Longrightarrow> avg_ok d \<Longrightarrow> okm r (s\<lparr>t_dy_history := d\<rparr>)"
  "okm r s \<Longrightarrow> avg_ok h \<Longrightarrow> okm r (s\<lparr>t_time_history := h\<rparr>)"
  "ok r s \<Longrightarrow> filters_ok a \<Longrightarrow> ok r (s\<lparr>t_filters1 := a\<rparr>)"
  "ok r s \<Longrightarrow> filters_ok a \<Longrightarrow> ok r (s\<lparr>t_filters2 := a\<rparr>)"
  by (simp_all add: okm_def tp_defs)

lemma good_avg:
  "tp_good s \<Longrightarrow> avg_ok (t_dy_history s)" "tp_good s \<Longrightarrow> avg_ok (t_time_history s)"
  "tp_good s \<Longrightarrow> filters_ok (t_filters1 s)" "tp_good s \<Longrightarrow> filters_ok (t_filters2 s)"
  by (simp_all add: tp_good_def)

lemma good_par:
  assumes "tp_good s"
  shows "c_divisorx (t_par s) \<noteq> 0" "c_divisorx (t_par s) \<noteq> -1" "c_divisory (t_par s) \<noteq> 0" "c_divisory (t_par s) \<noteq> -1"
    "c_wvdivisor (t_par s) \<noteq> -1" "c_whdivisor (t_par s) \<noteq> -1" "c_vscrolldivisor (t_par s) \<noteq> -1"
    "c_hscrolldivisor (t_par s) \<noteq> -1" "c_cscrolldivisor (t_par s) \<noteq> -1"
    "c_xupmm (t_par s) \<noteq> 0" "c_xupmm (t_par s) \<noteq> -1" "c_yupmm (t_par s) \<noteq> 0" "c_yupmm (t_par s) \<noteq> -1"
  using assms by (simp_all add: tp_good_def sane_par_def)

subsection \<open>The packet handler, stage by stage\<close>

lemma LED_ok [simp]: "ok r (updateTouchpadLED_tp s) = ok r s"
  by (simp add: updateTouchpadLED_tp_def Let_def)

lemma modeByte_ok [simp]: "ok r (setModeByte s) = ok r s"
  by (simp add: setModeByte_def Let_def)

lemma clickButtons_ok [simp]: "ok r (setClickButtons b s) = ok r s"
  by (simp add: setClickButtons_def Let_def)

lemma thinkpad_ok [simp]: "ok r (rememberThinkpad s) = ok r s" "ok r (snd (snd (thinkpadClick p b s))) = ok r s"
  by (simp_all add: rememberThinkpad_def thinkpadClick_def Let_def)

lemma clickPad_ok [simp]: "ok r (snd (clickPad p l b s)) = ok r s"
  by (simp add: clickPad_def Let_def case_prod_beta)

lemma passthruScroll_ok [simp]: "ok r (snd (snd (passthruScroll b dx dy t s))) = ok r s"
  by (simp add: passthruScroll_def Let_def case_prod_beta)

lemma passthru_ok [simp]: "ok r (passthruPacket p b t s) = ok r s"
  by (simp add: passthruPacket_def Let_def case_prod_beta)

lemma disableZone_ok [simp]: "ok r s \<Longrightarrow> ok r (disableZone l s)"
  by (cases "t_touchmode s") (simp_all add: disableZone_def Let_def)

lemma fingerChange_ok: "tp_good s \<Longrightarrow> ok s (fingerChange f s)"
  by (simp add: fingerChange_def Let_def ok_refl good_avg)

lemma skipDeltas_ok: "ok r s \<Longrightarrow> ok r (skipDeltas x y s)"
  by (frule ok_good) (simp add: skipDeltas_def Let_def good_avg)

lemma filterTouch_ok: "tp_good s \<Longrightarrow> \<exists>l' s'. filterTouch l s = Some (l', s') \<and> ok s s'"
proof -
  assume s: "tp_good s"
  let ?s = "fingerChange (l_f l) s"
  have o: "ok s ?s" using s by (rule fingerChange_ok)
  obtain x y a where a: "filterAxes (t_sw ?s) (l_x l) (l_y l) (t_filters1 ?s) = Some (x, y, a)" "filters_ok a"
    using filterAxes_ok good_avg(3) [OF ok_good [OF o]] by metis
  then have "ok s (skipDeltas x y (?s\<lparr>t_filters1 := a\<rparr>))" using o by (intro skipDeltas_ok) simp
  then show ?thesis using a by (simp add: filterTouch_def Let_def)
qed

lemma scaleAxes_ok: "tp_good s \<Longrightarrow> \<exists>x' y'. scaleAxes x y (t_par s) = Some (x', y')"
  using good_par [of s] by (auto simp: scaleAxes_def quot_def divides_word)

lemma sint_u64_bounds: "- (2 ^ 63) \<le> sint x" "sint x < 2 ^ 63" for x :: u64
  using sint_range_size [of x] by (simp_all add: word_size)

lemma sint_u32_bounds: "- (2 ^ 31) \<le> sint x" "sint x < 2 ^ 31" for x :: u32
  using sint_range_size [of x] by (simp_all add: word_size)

lemma sint_word_of_int_64: "- (2 ^ 63) \<le> k \<Longrightarrow> k < 2 ^ 63 \<Longrightarrow> sint (word_of_int k :: u64) = k"
  by (simp add: signed_of_int signed_take_bit_int_eq_self)

lemma sint_product: "k < 2 ^ 31 \<Longrightarrow> - (2 ^ 62) \<le> sint (k * scast x)" for k :: u64 and x :: u32
proof -
  assume "k < 2 ^ 31"
  then have k: "uint k < 2 ^ 31" by (simp add: word_less_def)
  then have kb: "0 \<le> uint k" "uint k \<le> 2 ^ 31" by simp_all
  have x: "- (2 ^ 31) \<le> sint x" "sint x < 2 ^ 31" by (rule sint_u32_bounds)+
  have b: "- (2 ^ 62) \<le> uint k * sint x" "uint k * sint x < 2 ^ 62"
  proof -
    have "uint k * (- (2 ^ 31)) \<le> uint k * sint x" using x kb by (intro mult_left_mono) simp_all
    then show "- (2 ^ 62) \<le> uint k * sint x" using kb by simp
    have "uint k * sint x \<le> uint k * (2 ^ 31)" using x kb by (intro mult_left_mono) simp_all
    then show "uint k * sint x < 2 ^ 62" using k by simp
  qed
  have "k * scast x = word_of_int (uint k * sint x)" by simp
  moreover have "sint (word_of_int (uint k * sint x) :: u64) = uint k * sint x"
    using b by (intro sint_word_of_int_64) simp_all
  ultimately show ?thesis using b by simp
qed

lemma okm_momentum:
  assumes "ok r s" "i \<noteq> 0" "- (2 ^ 62) \<le> sint c"
  shows "okm r (s\<lparr>t_momentumscrollinterval := i, t_momentumscrollsum := m, t_momentumscrollcurrent := c\<rparr>)"
  using assms by (simp add: okm_def tp_defs)

lemma ok_interval: "ok r s \<Longrightarrow> t_touchmode s = MODE_MTOUCH \<Longrightarrow> ok r (s\<lparr>t_momentumscrollinterval := i\<rparr>)"
  by (simp add: tp_defs)

lemma startMomentum_ok: "ok r s \<Longrightarrow> \<exists>s'. startMomentum s = Some s' \<and> okm r s'"
proof -
  assume o: "ok r s"
  note s = ok_good [OF o]
  obtain a b where n: "av_newest (t_time_history s) = Some a" "av_oldest (t_time_history s) = Some b"
    using av_newest_ok av_oldest_ok good_avg(2) [OF s] by metis
  let ?c = "k_momentumscrolltimer (t_sw s) * scast (av_sum (t_dy_history s))"
  have "- (2 ^ 62) \<le> sint ?c" using s by (intro sint_product) (simp add: tp_good_def sane_sw_def)
  then have "okm r (s\<lparr>t_momentumscrollinterval := a - b, t_momentumscrollsum := av_sum (t_dy_history s), t_momentumscrollcurrent := ?c,
      t_momentumscrollrest1 := 0, t_momentumscrollrest2 := 0\<rparr>)" if "a - b \<noteq> 0"
    using okm_momentum [OF o that] by simp
  then show ?thesis using n good_timer(2) [OF s] o
    by (simp add: startMomentum_def setScrollTimer_def Let_def ok_interval)
qed

lemma tapRelease_ok: "okm r s \<Longrightarrow> ok r (snd (tapRelease l b s))"
  by (cases "t_touchmode s") (simp_all add: tapRelease_def Let_def)

lemma dragRelease_ok: "okm r s \<Longrightarrow> \<exists>s'. dragRelease s = Some s' \<and> ok r s'"
  by (auto simp: dragRelease_def cancelDragTimer_def setDragTimer_def Let_def)

lemma release_choice:
  assumes "okm r s"
  shows "\<exists>b' s'. (if c then Some (tapRelease l b s) else do { s \<leftarrow> dragRelease s; Some (b, s) }) = Some (b', s') \<and> ok r s'"
proof (cases c)
  case True
  then show ?thesis using tapRelease_ok [OF assms, of l b] by (cases "tapRelease l b s") simp
next
  case False
  then show ?thesis using dragRelease_ok [OF assms] by auto
qed

lemma releaseTouch_ok: "ok r s \<Longrightarrow> \<exists>b' s'. releaseTouch l b s = Some (b', s') \<and> ok r s'"
proof (cases "fingerUp l s \<and> isTouchMode s")
  case True
  assume o: "ok r s"
  let ?s = "s\<lparr>t_xrest := 0, t_yrest := 0, t_scrollrest := 0, t_inSwipeLeft := False, t_inSwipeRight := False,
    t_inSwipeUp := False, t_inSwipeDown := False, t_xmoved := 0, t_ymoved := 0, t_untouchtime := l_ns l, t_tracksecondary := False\<rparr>"
  obtain s1 where 1: "startMomentum ?s = Some s1" "okm r s1" using startMomentum_ok [of r ?s] o by auto
  let ?s1 = "s1\<lparr>t_time_history := av_reset (t_time_history s1), t_dy_history := av_reset (t_dy_history s1)\<rparr>"
  have "avg_ok (t_time_history s1)" "avg_ok (t_dy_history s1)" using 1(2) by (simp_all add: okm_def ok_def tp_good_def)
  then have o1: "okm r ?s1" using 1(2) by simp
  obtain b' s2 where 2: "(if l_ns l - t_touchtime ?s1 < k_maxtaptime (t_sw ?s1) \<and> k_clicking (t_sw ?s1) then Some (tapRelease l b ?s1)
      else do { s \<leftarrow> dragRelease ?s1; Some (b, s) }) = Some (b', s2)" "ok r s2"
    using release_choice [OF o1] by blast
  then show ?thesis using True 1 by (simp add: releaseTouch_def Let_def)
qed (auto simp: releaseTouch_def)

lemma cancelTap_ok: "ok r s \<Longrightarrow> ok r (cancelTap l s)"
  by (simp add: cancelTap_def Let_def)

lemma pointerDelta_ok: "ok r s \<Longrightarrow> \<exists>dx dy s'. pointerDelta l s = Some (dx, dy, s') \<and> ok r s'"
  using good_par [OF ok_good, of r s] by (auto simp: pointerDelta_def rem_def divides_word Let_def)

lemma movePointer_ok: "ok r s \<Longrightarrow> \<exists>dx dy s'. movePointer l s = Some (dx, dy, s') \<and> ok r s'"
  using pointerDelta_ok [of r s l] by (simp add: movePointer_def)

lemma scrollHistory_ok: "ok r s \<Longrightarrow> \<exists>s'. scrollHistory l dy s = Some s' \<and> ok r s'"
proof -
  assume o: "ok r s"
  note g = good_avg [OF ok_good [OF o]]
  obtain n where n: "av_newest (t_dy_history s) = Some n" using av_newest_ok [OF g(1)] by blast
  let ?s = "if (dy <s 0) \<noteq> (n <s 0) \<or> dy = 0
    then s\<lparr>t_dy_history := av_reset (t_dy_history s), t_time_history := av_reset (t_time_history s)\<rparr> else s"
  have o1: "ok r ?s" using o g by simp
  note g1 = good_avg [OF ok_good [OF o1]]
  obtain y v where "av_filter dy (t_dy_history ?s) = Some (y, v)" "avg_ok v" using av_filter_ok [OF g1(1)] by blast
  moreover obtain z w where "av_filter (l_ns l) (t_time_history ?s) = Some (z, w)" "avg_ok w" using av_filter_ok [OF g1(2)] by blast
  ultimately show ?thesis using n o1 unfolding scrollHistory_def by (simp only: Let_def bind.bind_lunit case_prod_conv) simp
qed

lemma twoFingerScroll_ok: "ok r s \<Longrightarrow> \<exists>s'. twoFingerScroll l s = Some s' \<and> ok r s'"
proof -
  assume o: "ok r s"
  let ?wv = "c_wvdivisor (t_par s)" and ?wh = "if k_hscroll (t_sw s) then c_whdivisor (t_par s) else 0"
  let ?dy = "if ?wv \<noteq> 0 then l_y l - t_lasty s + t_yrest s else 0" and ?dx = "if ?wh \<noteq> 0 then t_lastx s - l_x l + t_xrest s else 0"
  have d: "\<exists>q. quot0 a ?wv = Some q" "\<exists>q. rem0 a ?wv = Some q" "\<exists>q. quot0 a ?wh = Some q" "\<exists>q. rem0 a ?wh = Some q" for a
    using good_par [OF ok_good [OF o]] by (simp_all add: quot0_rem0_ok)
  obtain yr xr where yr: "rem0 ?dy ?wv = Some yr" "rem0 ?dx ?wh = Some xr" using d by metis
  obtain s1 where s1: "scrollHistory l ?dy (s\<lparr>t_yrest := yr, t_xrest := xr\<rparr>) = Some s1" "ok r s1"
    using scrollHistory_ok [of r "s\<lparr>t_yrest := yr, t_xrest := xr\<rparr>" l ?dy] o by auto
  let ?q = "if c_abs ?dx <s c_scrolldxthresh (t_par s) then (0, s1\<lparr>t_xrest := ?dx\<rparr>) else (?dx, s1)"
  let ?p = "if c_abs ?dy <s c_scrolldythresh (t_par s) then (0, (snd ?q)\<lparr>t_yrest := ?dy\<rparr>) else (?dy, snd ?q)"
  obtain v h where "quot0 (fst ?p) ?wv = Some v" "quot0 (fst ?q) ?wh = Some h" using d by metis
  moreover have "ok r (snd ?p)" using s1(2) by simp
  ultimately show ?thesis using yr s1 unfolding twoFingerScroll_def by (simp add: Let_def case_prod_beta)
qed

lemma ok_scroll_mode [simp]:
  "okm r s \<Longrightarrow> c_vscrolldivisor (t_par s) \<noteq> 0 \<Longrightarrow> ok r (s\<lparr>t_touchmode := MODE_VSCROLL\<rparr>)"
  "okm r s \<Longrightarrow> c_hscrolldivisor (t_par s) \<noteq> 0 \<Longrightarrow> ok r (s\<lparr>t_touchmode := MODE_HSCROLL\<rparr>)"
  "okm r s \<Longrightarrow> c_cscrolldivisor (t_par s) \<noteq> 0 \<Longrightarrow> ok r (s\<lparr>t_touchmode := MODE_CSCROLL\<rparr>)"
  by (simp_all add: okm_def tp_defs)

lemma multiTouch_ok: "ok r s \<Longrightarrow> \<exists>dx dy s'. multiTouch l s = Some (dx, dy, s') \<and> ok r s'"
  using pointerDelta_ok [of r s l] twoFingerScroll_ok [of r s l] good_avg [OF ok_good, of r s]
  by (auto simp: multiTouch_def)

lemma swipe_ok [simp]: "ok r (swipe l s) = ok r s"
  by (simp add: swipe_def Let_def)

lemma edgeScroll_ok:
  assumes "ok r s" "v \<noteq> 0" "v \<noteq> -1" "\<And>q s. ok r s \<Longrightarrow> ok r (send q s)"
  shows "\<exists>s'. edgeScroll d v th send s = Some s' \<and> ok r s'"
  using assms by (simp add: edgeScroll_def quot_def rem_def divides_word Let_def)

lemma good_mode:
  "ok r s \<Longrightarrow> t_touchmode s = MODE_VSCROLL \<Longrightarrow> c_vscrolldivisor (t_par s) \<noteq> 0"
  "ok r s \<Longrightarrow> t_touchmode s = MODE_HSCROLL \<Longrightarrow> c_hscrolldivisor (t_par s) \<noteq> 0"
  "ok r s \<Longrightarrow> t_touchmode s = MODE_CSCROLL \<Longrightarrow> c_cscrolldivisor (t_par s) \<noteq> 0"
  by (simp_all add: ok_def tp_good_def mode_ok_def)

lemma moveTouch_ok:
  assumes "ok r s"
  shows "\<exists>dx dy b' s'. moveTouch l b s = Some (dx, dy, b', s') \<and> ok r s'"
proof (cases "t_touchmode s")
  case MODE_VSCROLL
  then show ?thesis using assms good_par [OF ok_good [OF assms]] good_mode(1) [OF assms]
      edgeScroll_ok [OF assms, of "c_vscrolldivisor (t_par s)" "\<lambda>q. tpScroll q 0 0 (l_now l)"
        "l_y l - t_lasty s + t_scrollrest s" "c_scrolldythresh (t_par s)"]
    by (auto simp: moveTouch_def Let_def)
next
  case MODE_HSCROLL
  then show ?thesis using assms good_par [OF ok_good [OF assms]] good_mode(2) [OF assms]
      edgeScroll_ok [OF assms, of "c_hscrolldivisor (t_par s)" "\<lambda>q. tpScroll 0 q 0 (l_now l)"
        "t_lastx s - l_x l + t_scrollrest s" "c_scrolldxthresh (t_par s)"]
    by (auto simp: moveTouch_def Let_def)
next
  case MODE_CSCROLL
  then show ?thesis using assms good_par [OF ok_good [OF assms]] good_mode(3) [OF assms]
      edgeScroll_ok [OF assms, of "c_cscrolldivisor (t_par s)" "\<lambda>q. tpScroll q 0 0 (l_now l)"
        "circleDelta l s" "c_scrolldxthresh (t_par s)"]
    by (auto simp: moveTouch_def Let_def)
next
  case MODE_MTOUCH
  then show ?thesis using assms multiTouch_ok [OF assms, of l] by (auto simp: moveTouch_def Let_def)
qed (use assms movePointer_ok [OF assms, of l] in \<open>auto simp: moveTouch_def Let_def\<close>)

lemma tapTime_ok: "ok r s \<Longrightarrow> ok r (tapTime l s)"
  by (simp add: tapTime_def Let_def)

lemma tapTime_calm: "isFingerTouch (l_z l) (tapTime l s) \<longrightarrow> t_momentumscrollcurrent (tapTime l s) = 0"
  by (auto simp: tapTime_def isFingerTouch_def Let_def)

lemma dragModes_ok: "ok r s \<Longrightarrow> (isFingerTouch (l_z l) s \<longrightarrow> t_momentumscrollcurrent s = 0) \<Longrightarrow> ok r (dragModes l s)"
  by (auto simp: dragModes_def isFingerTouch_def Let_def)

lemma scrollModes_ok: "ok r s \<Longrightarrow> ok r (scrollModes l s)"
  by (simp add: scrollModes_def Let_def)

lemma sendTouch_ok: "ok r s \<Longrightarrow> \<exists>s'. sendTouch l dx dy b s = Some s' \<and> ok r s'"
  using good_par [OF ok_good, of r s] by (simp add: sendTouch_def quot_def divides_word)

lemma activeTouch_ok: "ok r s \<Longrightarrow> \<exists>s'. activeTouch l b s = Some s' \<and> ok r s'"
proof -
  assume "ok r s"
  then obtain b1 s1 where 1: "releaseTouch l b s = Some (b1, s1)" "ok r s1" using releaseTouch_ok by blast
  obtain dx dy b2 s2 where 2: "moveTouch l b1 (cancelTap l s1) = Some (dx, dy, b2, s2)" "ok r s2"
    using moveTouch_ok [OF cancelTap_ok [OF 1(2)]] by blast
  have "ok r (scrollModes l (dragModes l (tapTime l s2)))"
    using 2(2) by (intro scrollModes_ok dragModes_ok tapTime_ok tapTime_calm)
  then obtain s3 where "sendTouch l dx dy b2 (scrollModes l (dragModes l (tapTime l s2))) = Some s3" "ok r s3"
    using sendTouch_ok by blast
  then show ?thesis using 1 2 by (simp add: activeTouch_def)
qed

lemma parseTouch_ok: "tp_good s \<Longrightarrow> \<exists>l. parseTouch p t n s = Some l"
  using scaleAxes_ok [of s "packetX p" "packetY p"] by (auto simp: parseTouch_def Let_def)

lemma zoneTouch_ok: "ok r s \<Longrightarrow> \<exists>s'. zoneTouch l b s = Some s' \<and> ok r s'"
  using activeTouch_ok [of r s l b] activeTouch_ok [OF disableZone_ok [of r s l], of l b] by (simp add: zoneTouch_def Let_def)

lemma touchPacket_ok: "ok r s \<Longrightarrow> \<exists>s'. touchPacket e p b t n s = Some s' \<and> ok r s'"
proof -
  assume o: "ok r s"
  obtain l where l: "parseTouch p t n s = Some l" using parseTouch_ok [OF ok_good [OF o]] by blast
  obtain b1 s1 where 1: "(if t_lastf s = 0 \<and> 0 <s l_f l
      then tpMiddleButton e (ucast (p ! 0 AND 0x3) OR t_passbuttons s) t fromCancel s else Some (b, s)) = Some (b1, s1)" "ok r s1"
    using tpMiddleButton_ok [OF ok_good [OF o]] o ok_trans [OF o] by (metis (no_types, lifting))
  obtain l2 s2 where 2: "filterTouch l s1 = Some (l2, s2)" "ok r s2"
    using filterTouch_ok [OF ok_good [OF 1(2)]] ok_trans [OF 1(2)] by blast
  obtain b3 s3 where 3: "(if t_clickpadtype s2 \<noteq> 0 then clickPad p l2 b1 s2 else (b1, s2)) = (b3, s3)" by fastforce
  then have "ok r s3" using 2(2) clickPad_ok [of r p l2 b1 s2] by (metis snd_conv)
  then show ?thesis using l 1(1) 2(1) 3 zoneTouch_ok unfolding touchPacket_def by simp
qed

lemma tpad_uptime: "ok r s \<Longrightarrow> ok r (snd (tp_uptime e s))"
  by (simp add: tp_uptime_def case_prod_beta Let_def)

lemma ewMove_ok: "ok r s \<Longrightarrow> \<exists>s'. ewMove x y b t s = Some s' \<and> ok r s'"
  using good_par [OF ok_good, of r s] by (simp add: ewMove_def quot_def rem_def divides_word Let_def case_prod_beta)

lemma ewClick_ok [simp]: "ok r (ewClick p x y b t n s) = ok r s"
  by (simp add: ewClick_def Let_def case_prod_beta)

lemma ewPacket_ok: "ok r s \<Longrightarrow> \<exists>s'. dispatchEventsWithPacketEW e p s = Some s' \<and> ok r s'"
proof -
  assume o: "ok r s"
  obtain xr yr where xy: "scaleAxes (ewX p) (ewY p) (t_par s) = Some (xr, yr)" using scaleAxes_ok [OF ok_good [OF o]] by blast
  obtain x y z where m: "(if t_reportsv s then (xr AND NOT 2, yr AND NOT 2, ewZ p AND NOT 2) else (xr, yr, ewZ p)) = (x, y, z)"
    by (metis prod_cases3)
  obtain t s1 where 1: "tp_uptime e s = (t, s1)" "ok r s1" using tpad_uptime [OF o, of e] by (metis prod.collapse)
  let ?s2 = "if \<not> t_tracksecondary s1 then s1\<lparr>t_filters2 := resetFilters (t_filters2 s1), t_xrest2 := 0, t_yrest2 := 0\<rparr> else s1"
  have 2: "ok r ?s2" using 1(2) good_avg [OF ok_good [OF 1(2)]] by simp
  obtain x' y' a where 3: "filterAxes (t_sw ?s2) x y (t_filters2 ?s2) = Some (x', y', a)" "filters_ok a"
    using filterAxes_ok [OF good_avg(4) [OF ok_good [OF 2]]] by blast
  let ?s3 = "?s2\<lparr>t_filters2 := a\<rparr>"
  have s3: "ok r ?s3" using 2 3(2) by (intro ok_core)
  let ?b = "ucast (p ! 0 AND 0x3) OR t_passbuttons s1"
  obtain s4 where 4: "(if (k_clickpadtrackboth (t_sw ?s3) \<or> t_clickedprimary ?s3) \<and> t_clickbuttons ?s3 \<noteq> 0
      then ewMove x' y' ?b t ?s3 else Some (ewClick p x' y' ?b t (t_absolutetime_to_nanoseconds e t) ?s3)) = Some s4" "ok r s4"
    using ewMove_ok [OF s3, of x' y' ?b t] s3 ewClick_ok by (metis (no_types, lifting))
  show ?thesis
    unfolding dispatchEventsWithPacketEW_def using o xy m 1(1) 3(1) 4 s3
    by (simp only: Let_def bind.bind_lunit case_prod_conv) (auto simp: Let_def)
qed

lemma dispatch_ok: "ok r s \<Longrightarrow> length p = 6 \<Longrightarrow> \<exists>s'. dispatchEventsWithPacket e p s = Some s' \<and> ok r s'"
proof -
  assume o: "ok r s" and p: "length p = 6"
  obtain t s1 where 1: "tp_uptime e s = (t, s1)" "ok r s1" using tpad_uptime [OF o, of e] by (metis prod.collapse)
  let ?w = "packetW p"
  let ?s2 = "if t_passthru s1 \<and> ?w = 3 then s1\<lparr>t_passbuttons := ucast (p ! 1 AND 0x7)\<rparr> else s1"
  let ?b = "ucast (p ! 0 AND 0x3) OR t_passbuttons ?s2"
  let ?s3 = "?s2\<lparr>t_lastbuttons := ?b\<rparr>"
  have 3: "ok r ?s3" using 1(2) by simp
  obtain b4 s4 where 4: "(if t_clickpadtype ?s3 = 0 \<or> ?w = 3 then tpMiddleButton e ?b t (if ?w = 3 then fromPassthru else fromTrackpad) ?s3
      else Some (?b, ?s3)) = Some (b4, s4)" "ok r s4"
    using tpMiddleButton_ok [OF ok_good [OF 3]] 3 ok_trans [OF 3] by (metis (no_types, lifting))
  show ?thesis
    unfolding dispatchEventsWithPacket_def
    using p 1 4 ewPacket_ok [OF 1(2), of e p] touchPacket_ok [OF 4(2), of e p b4 t "t_absolutetime_to_nanoseconds e t"]
    by (simp only: Let_def case_prod_conv) (auto simp: Let_def simp del: numeral_eq_Suc)
qed

end
