(* ===== verification/Mouse_Spec.thy ===== *)
theory Mouse_Spec
  imports Mouse_Control
begin

text \<open>
  The mouse driver at interrupt time as an abstract decoder of the byte stream, and the buffer between
  interrupt time and the work loop: \<open>mouse_client\<close> is the interface \<open>packet_client\<close> for this driver.
\<close>

subsection \<open>Definitions\<close>

text \<open>Well-formed states: an aligned buffer, and fewer bytes collected than a packet has.\<close>

definition mouse_ok :: "'p mouse \<Rightarrow> bool" where
  "mouse_ok s \<longleftrightarrow> ring_aligned 4 (m_ringBuffer s) \<and> ring_N (m_ringBuffer s) = 128
     \<and> packetByteCount s < packetLength s \<and> packetLength s \<le> 4"

text \<open>
  The abstract decoder: it remembers the last byte, the resets asked for and the bytes of the packet so
  far, and emits whole packets, or one of the two requests for a reset.
\<close>

datatype mouse_packet = LostSync | SpontaneousReset | Movement "u8 list"

definition mouseStep :: "nat \<Rightarrow> u8 \<Rightarrow> u8 \<times> u32 \<times> u8 list \<Rightarrow> mouse_packet option \<times> u8 \<times> u32 \<times> u8 list" where
  "mouseStep n data = (\<lambda>(last, resets, bytes).
     if last = kSC_Reset \<and> data = 0 then (Some SpontaneousReset, last, resets, [])
     else if bytes = [] \<and> (data = kSC_Acknowledge \<or> \<not> tst data 0x08) then
       (if resets < 5 then (Some LostSync, data, resets + 1, []) else (None, data, resets, []))
     else if length bytes + 1 = n then (Some (Movement (bytes @ [data])), data, 0, [])
     else (None, data, resets, bytes @ [data]))"

fun packetBytes :: "mouse_packet \<Rightarrow> u8 list" where
  "packetBytes LostSync = [0, kSC_Acknowledge]"
| "packetBytes SpontaneousReset = [0, kSC_Reset]"
| "packetBytes (Movement bs) = bs"

definition mouseState :: "'p mouse \<Rightarrow> u8 \<times> u32 \<times> u8 list" where
  "mouseState s = (m_lastdata s, mouseResetCount s, take (unat (packetByteCount s)) (ring_pending 4 (m_ringBuffer s)))"

definition queuedMouse :: "'p mouse \<Rightarrow> u8 list list" where
  "queuedMouse s = ring_packets 4 (m_ringBuffer s)"

text \<open>A packet of the queue, of fixed length, that starts with what the decoder emitted.\<close>

definition carries :: "u8 list \<Rightarrow> mouse_packet \<Rightarrow> bool" where
  "carries packet p \<longleftrightarrow> length packet = 4 \<and> take (length (packetBytes p)) packet = packetBytes p"

definition mouseRefines :: "'p mouse \<Rightarrow> mouse_packet option \<times> u8 \<times> u32 \<times> u8 list \<Rightarrow> PS2InterruptResult \<times> 'p mouse \<Rightarrow> bool" where
  "mouseRefines s a r \<longleftrightarrow> mouseState (snd r) = snd a \<and>
     (case fst a of
        None \<Rightarrow> fst r = kPS2IR_packetBuffering \<and> queuedMouse (snd r) = queuedMouse s
      | Some p \<Rightarrow> fst r = kPS2IR_packetReady \<and>
          (if ring_full 4 (m_ringBuffer s) then queuedMouse (snd r) = queuedMouse s
           else \<exists>packet. queuedMouse (snd r) = queuedMouse s @ [packet] \<and> carries packet p))"

definition put_mring :: "u8 ring \<Rightarrow> 'p mouse \<Rightarrow> 'p mouse" where
  "put_mring r s = s\<lparr>m_ringBuffer := r\<rparr>"

lemma pokePacket_Some:
  assumes "ring_aligned 4 (m_ringBuffer s)" "i < 4"
  shows "pokePacket i v s = Some (s\<lparr>m_ringBuffer := ring_head_write i v (m_ringBuffer s)\<rparr>)"
proof -
  have "m_head (m_ringBuffer s) + 4 \<le> ring_N (m_ringBuffer s)"
    using assms(1) multiple_fits [of 4 "ring_N (m_ringBuffer s)" "m_head (m_ringBuffer s)"] by (auto simp: ring_aligned_def ring_ok_def)
  then show ?thesis using assms(2) by (simp add: pokePacket_def)
qed

lemma two_pokes:
  fixes a b :: u8
  assumes "ring_aligned 4 r" "ring_N r = 128"
  defines "r' \<equiv> ring_head_write 1 b (ring_head_write 0 a r)"
  shows "ring_aligned 4 r'" "ring_N r' = 128" "ring_packets 4 r' = ring_packets 4 r" "ring_full 4 r' = ring_full 4 r"
    "ring_pending 4 r' = (ring_pending 4 r)[0 := a, 1 := b]"
  using assms by (simp_all add: byte_ring.pending_poke byte_ring.packets_poke ring_full_def)

lemma packet_of_two: "length p = 4 \<Longrightarrow> take (Suc (Suc 0)) (p[0 := a, Suc 0 := b]) = [a, b]"
  by (auto simp: length_Suc_conv numeral_eq_Suc)

lemma interruptOccurred_mouse_step:
  assumes ok: "mouse_ok s"
  shows "\<exists>r. interruptOccurred_mouse data s = Some r \<and> mouse_ok (snd r)
    \<and> mouseRefines s (mouseStep (unat (packetLength s)) data (mouseState s)) r"
proof -
  let ?r = "m_ringBuffer s" and ?n = "unat (packetByteCount s)"
  have al: "ring_aligned 4 ?r" "ring_N ?r = 128" and n: "?n < unat (packetLength s)" "unat (packetLength s) \<le> 4"
    using ok by (auto simp: mouse_ok_def word_less_nat_alt word_le_nat_alt)
  note p2 = two_pokes [OF al]
  note lp = length_ring_pending [OF al(1)]
  have pl: "0 < packetLength s" "packetLength s \<le> 4" using n ok by (auto simp: mouse_ok_def word_gt_0)
  have z: "take ?n (ring_pending 4 ?r) = [] \<longleftrightarrow> packetByteCount s = 0"
    using lp by (auto simp: unat_eq_zero)
  consider (reset) "m_lastdata s = kSC_Reset \<and> data = 0"
    | (lost) "\<not> (m_lastdata s = kSC_Reset \<and> data = 0)" "packetByteCount s = 0 \<and> (data = kSC_Acknowledge \<or> \<not> tst data 0x08)"
    | (byte) "\<not> (m_lastdata s = kSC_Reset \<and> data = 0)" "\<not> (packetByteCount s = 0 \<and> (data = kSC_Acknowledge \<or> \<not> tst data 0x08))"
    by blast
  then show ?thesis
  proof cases
    case reset
    have "interruptOccurred_mouse data s = Some (kPS2IR_packetReady, (commitPacket (s\<lparr>m_ringBuffer :=
        ring_head_write 1 kSC_Reset (ring_head_write 0 0 ?r)\<rparr>))\<lparr>packetByteCount := 0\<rparr>)"
      using reset al p2(1) by (simp add: interruptOccurred_mouse_def pokePacket_Some)
    then show ?thesis using al p2 [where a = 0 and b = kSC_Reset] pl lp reset
      by (auto simp: mouse_ok_def mouseRefines_def mouseState_def mouseStep_def queuedMouse_def commitPacket_def carries_def
        byte_ring.packets_commit byte_ring.inv_commit packet_of_two)
  next
    case lost
    then have "interruptOccurred_mouse data s = (if mouseResetCount s < 5 then Some (kPS2IR_packetReady,
        commitPacket (s\<lparr>m_lastdata := data, mouseResetCount := mouseResetCount s + 1,
          m_ringBuffer := ring_head_write 1 kSC_Acknowledge (ring_head_write 0 0 ?r)\<rparr>))
        else Some (kPS2IR_packetBuffering, s\<lparr>m_lastdata := data\<rparr>))"
      using al p2(1) by (auto simp: interruptOccurred_mouse_def pokePacket_Some Let_def)
    then show ?thesis using al p2 [where a = 0 and b = kSC_Acknowledge] pl lp lost ok
      by (auto simp: mouse_ok_def mouseRefines_def mouseState_def mouseStep_def queuedMouse_def commitPacket_def carries_def
        byte_ring.packets_commit byte_ring.inv_commit packet_of_two)
  next
    case byte
    let ?r1 = "ring_head_write ?n data ?r"
    have r1: "ring_aligned 4 ?r1" "ring_N ?r1 = 128" "ring_packets 4 ?r1 = ring_packets 4 ?r" "ring_full 4 ?r1 = ring_full 4 ?r"
      "ring_pending 4 ?r1 = (ring_pending 4 ?r)[?n := data]"
      using al n by (simp_all add: byte_ring.pending_poke byte_ring.packets_poke ring_full_def)
    have suc: "unat (packetByteCount s + 1) = Suc ?n" using n by (intro unat_Suc_small) linarith
    have tk: "take (Suc ?n) ((ring_pending 4 ?r)[?n := data]) = take ?n (ring_pending 4 ?r) @ [data]"
      using lp n by (simp add: take_Suc_conv_app_nth)
    have e: "packetByteCount s + 1 = packetLength s \<longleftrightarrow> Suc ?n = unat (packetLength s)"
      using suc by (metis word_unat_eq_iff)
    have "interruptOccurred_mouse data s = Some (if Suc ?n = unat (packetLength s)
        then (kPS2IR_packetReady, (commitPacket (s\<lparr>m_lastdata := data, m_ringBuffer := ?r1, mouseResetCount := 0\<rparr>))\<lparr>packetByteCount := 0\<rparr>)
        else (kPS2IR_packetBuffering, s\<lparr>m_lastdata := data, m_ringBuffer := ?r1, packetByteCount := packetByteCount s + 1\<rparr>))"
      using byte al n e by (auto simp: interruptOccurred_mouse_def pokePacket_Some Let_def commitPacket_def)
    moreover have "mouseStep (unat (packetLength s)) data (mouseState s) =
        (if Suc ?n = unat (packetLength s) then (Some (Movement (take ?n (ring_pending 4 ?r) @ [data])), data, 0, [])
         else (None, data, mouseResetCount s, take ?n (ring_pending 4 ?r) @ [data]))"
      using byte z lp n by (auto simp: mouseStep_def mouseState_def)
    ultimately show ?thesis using r1 tk suc n lp pl
      by (cases "Suc ?n = unat (packetLength s)")
        (auto simp: mouse_ok_def mouseRefines_def mouseState_def queuedMouse_def commitPacket_def carries_def
          byte_ring.packets_commit byte_ring.inv_commit word_less_nat_alt word_le_nat_alt)
  qed
qed

subsection \<open>The work loop does not look at the buffer\<close>

lemma put_mring_sel [simp]:
  "m_ringBuffer (put_mring r s) = r" "mbuttonstate (put_mring r s) = mbuttonstate s" "pendingbuttons (put_mring r s) = pendingbuttons s"
  "buttontime (put_mring r s) = buttontime s" "buttonTimer (put_mring r s) = buttonTimer s"
  "maxmiddleclicktime (put_mring r s) = maxmiddleclicktime s" "fakemiddlebutton (put_mring r s) = fakemiddlebutton s"
  "buttonCount (put_mring r s) = buttonCount s" "ignoreall (put_mring r s) = ignoreall s" "m_plat (put_mring r s) = m_plat s"
  "mtype (put_mring r s) = mtype s" "actliketrackpad (put_mring r s) = actliketrackpad s" "scroll (put_mring r s) = scroll s"
  "palm_wt (put_mring r s) = palm_wt s" "outzone_wt (put_mring r s) = outzone_wt s" "keytime (put_mring r s) = keytime s"
  "maxaftertyping (put_mring r s) = maxaftertyping s" "mouseyinverter (put_mring r s) = mouseyinverter s"
  "scrollyinverter (put_mring r s) = scrollyinverter s" "packetLength (put_mring r s) = packetLength s" "m_out (put_mring r s) = m_out s"
  by (simp_all add: put_mring_def)

lemma put_mring_upd:
  "(put_mring r s)\<lparr>mbuttonstate := a\<rparr> = put_mring r (s\<lparr>mbuttonstate := a\<rparr>)"
  "(put_mring r s)\<lparr>pendingbuttons := b\<rparr> = put_mring r (s\<lparr>pendingbuttons := b\<rparr>)"
  "(put_mring r s)\<lparr>buttontime := c\<rparr> = put_mring r (s\<lparr>buttontime := c\<rparr>)"
  "(put_mring r s)\<lparr>buttonTimeout := d\<rparr> = put_mring r (s\<lparr>buttonTimeout := d\<rparr>)"
  "(put_mring r s)\<lparr>m_out := f\<rparr> = put_mring r (s\<lparr>m_out := f\<rparr>)"
  "(put_mring r s)\<lparr>m_plat := g\<rparr> = put_mring r (s\<lparr>m_plat := g\<rparr>)"
  "(put_mring r s)\<lparr>lastbuttons := h\<rparr> = put_mring r (s\<lparr>lastbuttons := h\<rparr>)"
  "(put_mring r s)\<lparr>buttonmask := i\<rparr> = put_mring r (s\<lparr>buttonmask := i\<rparr>)"
  by (simp_all add: put_mring_def)

lemma middleSwitch_put:
  "middleSwitch b t n to fr (put_mring r s) = map_option (put_mring r) (middleSwitch b t n to fr s)"
  by (cases "mbuttonstate s")
    (auto simp: middleSwitch_def setButtonTimer_def cancelButtonTimer_def dispatchRelativePointerEventX_def put_mring_upd Let_def)

lemma middleButton_put:
  "middleButton e b t fr (put_mring r s) = map_option (map_prod id (put_mring r)) (middleButton e b t fr s)"
  unfolding middleButton_def Let_def
  by (cases "middleSwitch b t (m_absolutetime_to_nanoseconds e t)
      (fr = fromTimer \<or> m_absolutetime_to_nanoseconds e t - buttontime s > maxmiddleclicktime s) fr s")
    (simp_all add: middleSwitch_put)

lemma put_mring_ops:
  "uptime e (put_mring r s) = map_prod id (put_mring r) (uptime e s)"
  "fourthByte p n b (put_mring r s) = fourthByte p n b s"
  "maskTyping tm b (put_mring r s) = map_prod id (put_mring r) (maskTyping tm b s)"
  "dispatchRelativePointerEventX dx dy b t (put_mring r s) = put_mring r (dispatchRelativePointerEventX dx dy b t s)"
  "dispatchScrollWheelEventX z t (put_mring r s) = put_mring r (dispatchScrollWheelEventX z t s)"
  by (simp_all add: uptime_def case_prod_beta fourthByte_def maskTyping_def Let_def
      dispatchRelativePointerEventX_def dispatchScrollWheelEventX_def put_mring_upd) (simp add: put_mring_def)

lemma dispatchMovement_put: "dispatchMovement dx dy dz b t n (put_mring r s) = put_mring r (dispatchMovement dx dy dz b t n s)"
proof -
  obtain b' s1 where m: "maskTyping n b (s\<lparr>lastbuttons := b\<rparr>) = (b', s1)" by fastforce
  have D: "dispatchMovement dx dy dz b t n s = (let s = (if \<not> ignoreall s1 then dispatchRelativePointerEventX dx (mouseyinverter s1 * dy) b' t s1 else s1)
      in if dz \<noteq> 0 \<and> (\<not> (palm_wt s \<or> outzone_wt s) \<or> n - keytime s > maxaftertyping s) \<and> \<not> ignoreall s
         then dispatchScrollWheelEventX (ucast (- scrollyinverter s * scast dz)) t s else s)"
    using m by (simp only: dispatchMovement_def Let_def prod.case)
  show ?thesis
  proof (cases "ignoreall s1")
    case True
    then show ?thesis unfolding D using m by (simp add: dispatchMovement_def Let_def put_mring_upd put_mring_ops)
  next
    case False
    then show ?thesis unfolding D using m
      by (simp add: dispatchMovement_def Let_def put_mring_upd put_mring_ops)
  qed
qed

lemma handleMousePacket_put:
  "handleMousePacket e p (put_mring r s) = map_option (put_mring r) (handleMousePacket e p s)"
proof -
  have "dispatchRelativePointerEventWithPacket e p n (put_mring r s) =
      map_option (put_mring r) (dispatchRelativePointerEventWithPacket e p n s)" for n
  proof (cases "at p 0 = None \<or> at p 1 = None \<or> at p 2 = None")
    case False
    then obtain b0 b1 b2 where b: "at p 0 = Some b0" "at p (Suc 0) = Some b1" "at p 2 = Some b2" by auto
    obtain t s1 where t: "uptime e s = (t, s1)" by fastforce
    note D = dispatchRelativePointerEventWithPacket_def
    show ?thesis
    proof (cases "fourthByte p n (ucast (b0 AND 7)) s1")
      case None
      then show ?thesis using b t by (simp add: D Let_def put_mring_ops)
    next
      case (Some bz)
      then show ?thesis
        by (cases "middleButton e (fst bz) t fromMouse s1")
          (use b t in \<open>simp_all add: D Let_def middleButton_put put_mring_ops dispatchMovement_put case_prod_beta\<close>)
    qed
  qed (auto simp: dispatchRelativePointerEventWithPacket_def Let_def bind_eq_None_conv)
  then show ?thesis by (cases "at p 0") (simp_all add: handleMousePacket_def)
qed

interpretation mouse_client: packet_client 4 "\<lambda>r. ring_aligned 4 r \<and> ring_N r = 128" "ring_packets 4" "ring_pending 4" "ring_full 4"
  "\<lambda>r. 4 \<le> ring_count r" "ring_front 4" "ring_advanceTail 4" ring_head_write "ring_advanceHead 4"
  m_ringBuffer put_mring "handleMousePacket e" for e :: "'p mouse_env"
  by unfold_locales (simp_all add: handleMousePacket_put, simp_all add: put_mring_def)

end
