(* ===== verification/Tpad_Spec.thy ===== *)
theory Tpad_Spec
  imports Tpad_Safe Mouse_Spec
begin

text \<open>
  The running touchpad driver: the work loop is an interpretation of \<open>packet_worker\<close>, the interrupt handler refines an abstract
  decoder of packets, parameters keep the invariant, and the whole driver is safe through any sequence of events.
\<close>

subsection \<open>Definitions\<close>

definition put_tring :: "u8 ring \<Rightarrow> 'p tpad \<Rightarrow> 'p tpad" where
  "put_tring r s = s\<lparr>t_ringBuffer := r\<rparr>"

definition tp_ring_ok :: "'p tpad \<Rightarrow> bool" where
  "tp_ring_ok s \<longleftrightarrow> ring_aligned 6 (t_ringBuffer s) \<and> ring_N (t_ringBuffer s) = 192 \<and> t_packetByteCount s < 6"

definition tp_ok :: "'p tpad \<Rightarrow> bool" where
  "tp_ok s \<longleftrightarrow> tp_good s \<and> tp_ring_ok s"

text \<open>
  The abstract decoder at interrupt time: it remembers the last byte and the bytes of the packet so far, and emits whole
  packets, or a mark for a reset of the device, a bad first byte, or a bad fourth byte.
\<close>

definition tpStep :: "u8 \<Rightarrow> u8 \<times> u8 list \<Rightarrow> u8 list option \<times> u8 \<times> u8 list" where
  "tpStep data = (\<lambda>(last, bytes).
     if last = kSC_Reset \<and> data = 0 then (Some [0, kSC_Reset], last, [])
     else if bytes = [] \<and> data AND 0xc8 \<noteq> 0x80 then (Some [0, 0], data, [])
     else if length bytes = 3 \<and> data AND 0xc8 \<noteq> 0xc0 then (Some [0, 3], data, [])
     else if length bytes = 5 then (Some (bytes @ [data]), data, [])
     else (None, data, bytes @ [data]))"

definition tpState :: "'p tpad \<Rightarrow> u8 \<times> u8 list" where
  "tpState s = (t_lastdata s, take (unat (t_packetByteCount s)) (ring_pending 6 (t_ringBuffer s)))"

definition tpQueue :: "'p tpad \<Rightarrow> u8 list list" where
  "tpQueue s = ring_packets 6 (t_ringBuffer s)"

definition tpRefines :: "'p tpad \<Rightarrow> u8 list option \<times> u8 \<times> u8 list \<Rightarrow> PS2InterruptResult \<times> 'p tpad \<Rightarrow> bool" where
  "tpRefines s a r \<longleftrightarrow> tpState (snd r) = snd a \<and>
     (case fst a of
        None \<Rightarrow> fst r = kPS2IR_packetBuffering \<and> tpQueue (snd r) = tpQueue s
      | Some p \<Rightarrow> fst r = kPS2IR_packetReady \<and>
          (if ring_full 6 (t_ringBuffer s) then tpQueue (snd r) = tpQueue s
           else \<exists>packet. tpQueue (snd r) = tpQueue s @ [packet] \<and> length packet = 6 \<and> take (length p) packet = p))"

definition param :: "dict \<Rightarrow> string \<Rightarrow> u32 option" where
  "param d n = map_option ucast (asNumber (getObject d n))"

definition sane_config :: "dict \<Rightarrow> bool" where
  "sane_config d \<longleftrightarrow>
     (\<forall>n \<in> set [''DivisorX'', ''DivisorY'', ''VerticalScrollDivisor'', ''HorizontalScrollDivisor'', ''CircularScrollDivisor'',
        ''MultiFingerVerticalDivisor'', ''MultiFingerHorizontalDivisor'', ''UnitsPerMMX'', ''UnitsPerMMY'']. param d n \<noteq> Some (-1))
     \<and> (\<forall>n \<in> set [''UnitsPerMMX'', ''UnitsPerMMY'']. param d n \<noteq> Some 0)
     \<and> (\<forall>v. param d ''MomentumScrollDivisor'' = Some v \<longrightarrow> 2 \<le>s v)
     \<and> (\<forall>v. asNumber (getObject d ''MomentumScrollTimer'') = Some v \<longrightarrow> v < 2 ^ 31)"

definition nearly_sane :: "tp_params \<Rightarrow> bool" where
  "nearly_sane c \<longleftrightarrow> c_divisorx c \<noteq> -1 \<and> c_divisory c \<noteq> -1
     \<and> c_vscrolldivisor c \<noteq> -1 \<and> c_hscrolldivisor c \<noteq> -1 \<and> c_cscrolldivisor c \<noteq> -1 \<and> c_wvdivisor c \<noteq> -1 \<and> c_whdivisor c \<noteq> -1
     \<and> c_xupmm c \<noteq> 0 \<and> c_xupmm c \<noteq> -1 \<and> c_yupmm c \<noteq> 0 \<and> c_yupmm c \<noteq> -1 \<and> 2 \<le>s c_momentumscrolldivisor c"

text \<open>What happens to the running driver: a byte, the work loop, the three timers, a message of another driver, new
  parameters, and the wake up after sleep.\<close>

datatype tp_event = TpByte u8 | TpWorkLoop | TpButtonTimer | TpDragTimer | TpScrollTimer | TpTell PS2Message | TpParams dict | TpWake

fun tp_apply :: "'p tp_env \<Rightarrow> tp_event \<Rightarrow> 'p tpad \<Rightarrow> 'p tpad option" where
  "tp_apply e (TpByte data) s = map_option snd (interruptOccurred_tp data s)"
| "tp_apply e TpWorkLoop s = packetReady_tp e s"
| "tp_apply e TpButtonTimer s = onButtonTimer_tp e s"
| "tp_apply e TpDragTimer s = onDragTimer e s"
| "tp_apply e TpScrollTimer s = onScrollTimer e s"
| "tp_apply e (TpTell m) s = Some (snd (message_tp m s))"
| "tp_apply e (TpParams d) s = Some (setParamPropertiesGated_tp (Some d) s)"
| "tp_apply e TpWake s = Some (initTouchPad s)"

fun sane_event :: "tp_event \<Rightarrow> bool" where
  "sane_event (TpParams d) = sane_config d"
| "sane_event _ = True"

text \<open>Good once the mode is reset, as it is at the end of a change of parameters.\<close>

definition goodm :: "'p tpad \<Rightarrow> bool" where
  "goodm s \<longleftrightarrow> tp_good (s\<lparr>t_touchmode := MODE_NOTOUCH\<rparr>)"

text \<open>
  A packet as the touchpad sends it: six bytes, with the marks of the first and the fourth; the driver takes a byte AA followed
  by 00 for the announcement of a reset wherever it is.
\<close>

definition tp_packet :: "u8 list \<Rightarrow> bool" where
  "tp_packet p \<longleftrightarrow> length p = 6 \<and> p ! 0 AND 0xc8 = 0x80 \<and> p ! 3 AND 0xc8 = 0xc0
     \<and> \<not> (p ! 1 = kSC_Reset \<and> p ! 2 = 0) \<and> \<not> (p ! 4 = kSC_Reset \<and> p ! 5 = 0)"

definition tpFeed :: "u8 list \<Rightarrow> 'p tpad \<Rightarrow> 'p tpad option" where
  "tpFeed bs s = foldM (\<lambda>b s. map_option snd (interruptOccurred_tp b s)) bs s"

fun tpSteps :: "u8 list \<Rightarrow> u8 \<times> u8 list \<Rightarrow> u8 list list \<times> u8 \<times> u8 list" where
  "tpSteps [] a = ([], a)"
| "tpSteps (b # bs) a =
     (let (o1, a) = tpStep b a; (os, a) = tpSteps bs a in ((case o1 of None \<Rightarrow> [] | Some p \<Rightarrow> [p]) @ os, a))"

lemma handleTp_ok: "ok r s \<Longrightarrow> length p = 6 \<Longrightarrow> \<exists>s'. handleTpPacket e p s = Some s' \<and> ok r s'"
  using dispatch_ok [of r s p e] by (simp add: handleTpPacket_def)

interpretation tpad_worker: packet_worker 6 "\<lambda>r. ring_aligned 6 r \<and> ring_N r = 192" "ring_packets 6" "ring_pending 6" "ring_full 6"
  "\<lambda>r. 6 \<le> ring_count r" "ring_front 6" "ring_advanceTail 6" ring_head_write "ring_advanceHead 6"
  t_ringBuffer put_tring "handleTpPacket e" "\<lambda>s. tp_good s \<and> t_packetByteCount s < 6" for e :: "'p tp_env"
proof unfold_locales
  fix s :: "'p tpad" and p :: "u8 list"
  assume "tp_good s \<and> t_packetByteCount s < 6" "length p = 6"
  then show "\<exists>s'. handleTpPacket e p s = Some s' \<and> (tp_good s' \<and> t_packetByteCount s' < 6) \<and> t_ringBuffer s' = t_ringBuffer s"
    using handleTp_ok [of s s p e] ok_refl by (auto simp: ok_def same_def)
qed (auto simp: put_tring_def tp_good_def mode_ok_def momentum_ok_def intro: ring_packets_lengths)

lemma ok_tp_ok: "tp_ok s \<Longrightarrow> ok s s' \<Longrightarrow> tp_ok s'"
  by (simp add: tp_ok_def tp_ring_ok_def ok_def same_def)

lemma packetReady_tp_ok: "tp_ok s \<Longrightarrow> \<exists>s'. packetReady_tp e s = Some s' \<and> tp_ok s' \<and> ring_packets 6 (t_ringBuffer s') = []"
  using tpad_worker.drain_good [of s e] by (auto simp: tp_ok_def tp_ring_ok_def packetReady_tp_def put_tring_def)

lemma onButtonTimer_tp_ok: "tp_good s \<Longrightarrow> \<exists>s'. onButtonTimer_tp e s = Some s' \<and> ok s s'"
proof -
  assume s: "tp_good s"
  obtain t s1 where 1: "tp_uptime e s = (t, s1)" "ok s s1" using tpad_uptime [OF ok_refl [OF s], of e] by (metis prod.collapse)
  then show ?thesis using tpMiddleButton_ok [OF ok_good [OF 1(2)], of e "t_lastbuttons s1" t fromButtonTimer] ok_trans [OF 1(2)]
    by (auto simp: onButtonTimer_tp_def)
qed

lemma onDragTimer_ok: "tp_good s \<Longrightarrow> \<exists>s'. onDragTimer e s = Some s' \<and> ok s s'"
proof -
  assume s: "tp_good s"
  obtain t s1 where 1: "tp_uptime e (s\<lparr>t_touchmode := MODE_NOTOUCH\<rparr>) = (t, s1)" "ok s s1"
    using tpad_uptime [of s "s\<lparr>t_touchmode := MODE_NOTOUCH\<rparr>" e] ok_refl [OF s] by (metis ok_mode(1) ok_okm prod.collapse)
  obtain b s2 where "tpMiddleButton e (t_lastbuttons s1) t fromPassthru s1 = Some (b, s2)" "ok s s2"
    using tpMiddleButton_ok [OF ok_good [OF 1(2)]] ok_trans [OF 1(2)] by blast
  then show ?thesis using 1 by (simp add: onDragTimer_def)
qed

lemma sdiv_halves: "\<bar>a\<bar> \<le> 2 ^ 63 \<Longrightarrow> 2 \<le> d \<Longrightarrow> \<bar>a sdiv d\<bar> \<le> 2 ^ 62" for a d :: int
proof -
  assume a: "\<bar>a\<bar> \<le> 2 ^ 63" "2 \<le> d"
  have "\<bar>a\<bar> div d \<le> \<bar>a\<bar> div 2" using a(2) by (intro zdiv_mono2) simp_all
  also have "\<dots> \<le> 2 ^ 62" using a(1) by simp
  finally have "\<bar>a\<bar> div d \<le> 2 ^ 62" .
  moreover have "0 \<le> \<bar>a\<bar> div d" using a(2) by (simp add: pos_imp_zdiv_nonneg_iff)
  moreover have "\<bar>a sdiv d\<bar> = \<bar>a\<bar> div d \<or> a sdiv d = 0" using a(2) calculation(2) by (auto simp: signed_divide_int_def abs_mult sgn_if)
  ultimately show ?thesis by auto
qed

lemma ok_current:
  assumes "ok r s" "- (2 ^ 62) \<le> sint c" "t_touchmode s \<noteq> MODE_MTOUCH" "t_momentumscrollinterval s \<noteq> 0"
  shows "ok r (s\<lparr>t_momentumscrollcurrent := c\<rparr>)"
  using assms by (simp add: tp_defs)

lemma momentum_divisor:
  fixes d :: u32
  assumes "2 \<le>s d"
  shows "\<exists>q r. quot c (scast d :: u64) = Some q \<and> rem c (scast d :: u64) = Some r \<and> - (2 ^ 62) \<le> sint q"
proof -
  have d: "2 \<le> sint d" using assms by (simp add: word_sle_eq)
  then have nz: "scast d \<noteq> (0 :: u64)" "scast d \<noteq> (-1 :: u64)" using sint_scast_64 [of d] by (auto simp del: sint_scast_64)
  have b: "\<bar>sint c sdiv sint d\<bar> \<le> 2 ^ 62" using sint_u64_bounds [of c] d by (intro sdiv_halves) auto
  then have "sint (word_of_int (sint c sdiv sint d) :: u64) = sint c sdiv sint d" by (intro sint_word_of_int_64) auto
  then show ?thesis using b by (simp add: quot_def rem_def divides_word nz)
qed

lemma onScrollTimer_ok: "tp_good s \<Longrightarrow> \<exists>s'. onScrollTimer e s = Some s' \<and> ok s s'"
proof (cases "t_momentumscrollcurrent s = 0")
  case True
  assume "tp_good s"
  then show ?thesis using True ok_refl by (auto simp: onScrollTimer_def)
next
  case False
  assume s: "tp_good s"
  obtain t s1 where 1: "tp_uptime e s = (t, s1)" "ok s s1" using tpad_uptime [OF ok_refl [OF s], of e] by (metis prod.collapse)
  have f: "t_momentumscrollcurrent s1 = t_momentumscrollcurrent s" "t_momentumscrollinterval s1 = t_momentumscrollinterval s"
    "t_touchmode s1 = t_touchmode s" "t_par s1 = t_par s" "t_sw s1 = t_sw s"
    using 1(1) by (auto simp: tp_uptime_def case_prod_beta Let_def)
  have m: "t_touchmode s \<noteq> MODE_MTOUCH" "t_momentumscrollinterval s \<noteq> 0" "- (2 ^ 62) \<le> sint (t_momentumscrollcurrent s)"
    using s False by (simp_all add: tp_good_def momentum_ok_def)
  then obtain q where q: "quot (t_momentumscrollcurrent s) (t_momentumscrollinterval s) = Some q" by (auto simp: quot_def divides_ok_def)
  obtain d r2 where d: "quot0 (ucast (q + scast (t_momentumscrollrest2 s1))) (c_wvdivisor (t_par s)) = Some d"
    "rem0 (ucast (q + scast (t_momentumscrollrest2 s1))) (c_wvdivisor (t_par s)) = Some r2"
    using quot0_rem0_ok good_par(5) [OF s] by metis
  let ?c = "t_momentumscrollcurrent s1 * scast (c_momentumscrollmultiplier (t_par s)) + t_momentumscrollrest1 s1"
  obtain c r1 where c: "quot ?c (scast (c_momentumscrolldivisor (t_par s))) = Some c" "rem ?c (scast (c_momentumscrolldivisor (t_par s))) = Some r1"
    "- (2 ^ 62) \<le> sint c"
    using momentum_divisor [of "c_momentumscrolldivisor (t_par s)" ?c] s by (auto simp: tp_good_def sane_par_def)
  let ?s2 = "(tpScroll d 0 0 t s1)\<lparr>t_momentumscrollrest2 := r2, t_momentumscrollrest1 := r1\<rparr>"
  have "ok s (?s2\<lparr>t_momentumscrollcurrent := c\<rparr>)"
    using 1(2) c(3) m f by (intro ok_current) (simp_all add: tpScroll_def emit_def)
  then show ?thesis using False 1 f q d c good_timer(2) [OF ok_good [OF 1(2)]]
    by (simp add: onScrollTimer_def setScrollTimer_def Let_def tpScroll_def emit_def)
qed

lemma pokeTp_Some:
  assumes "ring_aligned 6 (t_ringBuffer s)" "i < 6"
  shows "pokeTp i v s = Some (s\<lparr>t_ringBuffer := ring_head_write i v (t_ringBuffer s)\<rparr>)"
proof -
  have "m_head (t_ringBuffer s) + 6 \<le> ring_N (t_ringBuffer s)"
    using assms(1) multiple_fits [of 6 "ring_N (t_ringBuffer s)" "m_head (t_ringBuffer s)"] by (auto simp: ring_aligned_def ring_ok_def)
  then show ?thesis using assms(2) by (simp add: pokeTp_def)
qed

lemma two_tp_pokes:
  fixes a b :: u8
  assumes "ring_aligned 6 r" "ring_N r = 192"
  defines "r' \<equiv> ring_head_write 1 b (ring_head_write 0 a r)"
  shows "ring_aligned 6 r'" "ring_N r' = 192" "ring_packets 6 r' = ring_packets 6 r" "ring_full 6 r' = ring_full 6 r"
    "ring_pending 6 r' = (ring_pending 6 r)[0 := a, 1 := b]"
  using assms by (simp_all add: byte_ring.pending_poke byte_ring.packets_poke ring_full_def)

lemma six_of_two: "length p = 6 \<Longrightarrow> take (Suc (Suc 0)) (p[0 := a, Suc 0 := b]) = [a, b]"
  by (auto simp: length_Suc_conv numeral_eq_Suc)

text \<open>A mark of two bytes is queued.\<close>

lemma commit_mark:
  assumes "ring_aligned 6 (t_ringBuffer s)" "ring_N (t_ringBuffer s) = 192" "t_packetByteCount s' = 0"
    and "t_ringBuffer s' = ring_advanceHead 6 (ring_head_write 1 b (ring_head_write 0 a (t_ringBuffer s)))"
  shows "tp_ring_ok s' \<and> tpRefines s (Some [a, b], t_lastdata s', []) (kPS2IR_packetReady, s')"
  using two_tp_pokes [OF assms(1,2), of b a] length_ring_pending [OF assms(1)] assms
  by (auto simp: tp_ring_ok_def tpRefines_def tpState_def tpQueue_def byte_ring.packets_commit byte_ring.inv_commit six_of_two)

lemma tp_interrupt_step:
  assumes ok: "tp_ring_ok s"
  shows "\<exists>r. interruptOccurred_tp data s = Some r \<and> tp_ring_ok (snd r) \<and> tpRefines s (tpStep data (tpState s)) r"
proof -
  let ?r = "t_ringBuffer s" and ?n = "unat (t_packetByteCount s)" and ?s = "s\<lparr>t_lastdata := data\<rparr>"
  have al: "ring_aligned 6 ?r" "ring_N ?r = 192" and n: "?n < 6"
    using ok by (auto simp: tp_ring_ok_def word_less_nat_alt)
  note lp = length_ring_pending [OF al(1)]
  have c: "t_packetByteCount s = 0 \<longleftrightarrow> ?n = 0" "t_packetByteCount s = 3 \<longleftrightarrow> ?n = 3"
    by (auto simp: word_unat_eq_iff)
  have z: "take ?n (ring_pending 6 ?r) = [] \<longleftrightarrow> ?n = 0" "length (take ?n (ring_pending 6 ?r)) = ?n"
    using lp n by auto
  note p2 = two_tp_pokes(1) [OF al]
  consider (reset) "t_lastdata s = kSC_Reset \<and> data = 0"
    | (first) "\<not> (t_lastdata s = kSC_Reset \<and> data = 0)" "?n = 0 \<and> data AND 0xc8 \<noteq> 0x80"
    | (fourth) "\<not> (t_lastdata s = kSC_Reset \<and> data = 0)" "?n = 3 \<and> data AND 0xc8 \<noteq> 0xc0"
    | (byte) "\<not> (t_lastdata s = kSC_Reset \<and> data = 0)" "\<not> (?n = 0 \<and> data AND 0xc8 \<noteq> 0x80)" "\<not> (?n = 3 \<and> data AND 0xc8 \<noteq> 0xc0)"
    by blast
  then show ?thesis
  proof cases
    case reset
    then have "interruptOccurred_tp data s = Some (kPS2IR_packetReady,
        s\<lparr>t_ringBuffer := ring_advanceHead 6 (ring_head_write 1 kSC_Reset (ring_head_write 0 0 ?r)), t_packetByteCount := 0\<rparr>)"
      using al p2 by (simp add: interruptOccurred_tp_def pokeTp_Some commitTp_def)
    then show ?thesis using reset commit_mark [OF al, of "s\<lparr>t_ringBuffer := ring_advanceHead 6
        (ring_head_write 1 kSC_Reset (ring_head_write 0 0 ?r)), t_packetByteCount := 0\<rparr>" kSC_Reset 0] by (auto simp: tpStep_def tpState_def)
  next
    case first
    then have "interruptOccurred_tp data s = Some (kPS2IR_packetReady,
        ?s\<lparr>t_ringBuffer := ring_advanceHead 6 (ring_head_write 1 0 (ring_head_write 0 0 ?r))\<rparr>)"
      using al p2 c by (auto simp: interruptOccurred_tp_def pokeTp_Some commitTp_def Let_def)
    then show ?thesis using first c z commit_mark [OF al, of "?s\<lparr>t_ringBuffer := ring_advanceHead 6
        (ring_head_write 1 0 (ring_head_write 0 0 ?r))\<rparr>" 0 0] by (auto simp: tpStep_def tpState_def)
  next
    case fourth
    then have "interruptOccurred_tp data s = Some (kPS2IR_packetReady,
        ?s\<lparr>t_ringBuffer := ring_advanceHead 6 (ring_head_write 1 3 (ring_head_write 0 0 ?r)), t_packetByteCount := 0\<rparr>)"
      using al p2 c by (auto simp: interruptOccurred_tp_def pokeTp_Some commitTp_def Let_def)
    then show ?thesis using fourth c z commit_mark [OF al, of "?s\<lparr>t_ringBuffer := ring_advanceHead 6
        (ring_head_write 1 3 (ring_head_write 0 0 ?r)), t_packetByteCount := 0\<rparr>" 3 0] by (auto simp: tpStep_def tpState_def)
  next
    case byte
    let ?r1 = "ring_head_write ?n data ?r"
    have r1: "ring_aligned 6 ?r1" "ring_N ?r1 = 192" "ring_packets 6 ?r1 = ring_packets 6 ?r" "ring_full 6 ?r1 = ring_full 6 ?r"
      "ring_pending 6 ?r1 = (ring_pending 6 ?r)[?n := data]"
      using al n by (simp_all add: byte_ring.pending_poke byte_ring.packets_poke ring_full_def)
    have suc: "unat (t_packetByteCount s + 1) = Suc ?n" using n by (intro unat_Suc_small) linarith
    have tk: "take (Suc ?n) ((ring_pending 6 ?r)[?n := data]) = take ?n (ring_pending 6 ?r) @ [data]"
      using lp n by (simp add: take_Suc_conv_app_nth)
    have e: "6 = t_packetByteCount s + 1 \<longleftrightarrow> ?n = 5" using suc by (auto simp: word_unat_eq_iff)
    have "interruptOccurred_tp data s = Some (if ?n = 5
        then (kPS2IR_packetReady, ?s\<lparr>t_ringBuffer := ring_advanceHead 6 ?r1, t_packetByteCount := 0\<rparr>)
        else (kPS2IR_packetBuffering, ?s\<lparr>t_ringBuffer := ?r1, t_packetByteCount := t_packetByteCount s + 1\<rparr>))"
      using byte al n c e by (auto simp: interruptOccurred_tp_def pokeTp_Some Let_def commitTp_def)
    moreover have "tpStep data (tpState s) = (if ?n = 5 then (Some (take ?n (ring_pending 6 ?r) @ [data]), data, [])
         else (None, data, take ?n (ring_pending 6 ?r) @ [data]))"
      using byte z by (auto simp: tpStep_def tpState_def)
    ultimately show ?thesis using r1 tk suc n lp
      by (cases "?n = 5") (auto simp: tp_ring_ok_def tpRefines_def tpState_def tpQueue_def
          byte_ring.packets_commit byte_ring.inv_commit word_less_nat_alt)
  qed
qed

lemma ok_ring [simp]:
  "tp_good (s\<lparr>t_ringBuffer := r\<rparr>) = tp_good s" "tp_good (s\<lparr>t_packetByteCount := n\<rparr>) = tp_good s" "tp_good (s\<lparr>t_lastdata := d\<rparr>) = tp_good s"
  by (simp_all add: tp_good_def mode_ok_def momentum_ok_def)

lemma tp_interrupt_good: "interruptOccurred_tp data s = Some r \<Longrightarrow> tp_good (snd r) = tp_good s"
  by (auto simp: interruptOccurred_tp_def pokeTp_def commitTp_def Let_def split: if_splits)

subsection \<open>Parameters\<close>

text \<open>What every assignment of the loop keeps, the loop keeps.\<close>

lemma tpLoadVars_keeps:
  assumes "list_all (\<lambda>(m, set). \<forall>v c. val (getObject d m) = Some v \<longrightarrow> P c \<longrightarrow> P (set v c)) vars" "P c"
  shows "P (tpLoadVars val vars d c)"
  using assms
proof (induction vars arbitrary: c)
  case (Cons x vars)
  obtain m f where x: "x = (m, f)" by fastforce
  have "P (case val (getObject d m) of None \<Rightarrow> c | Some v \<Rightarrow> f v c)" using Cons.prems x by (simp split: option.split)
  from Cons.IH [OF _ this] Cons.prems(1) x show ?case by (simp add: tpLoadVars_def)
qed (simp add: tpLoadVars_def)

lemma int32vars_sane:
  assumes "sane_config d"
  shows "list_all (\<lambda>(m, set). \<forall>v c. map_option ucast (asNumber (getObject d m)) = Some v \<longrightarrow> nearly_sane c \<longrightarrow> nearly_sane (set v c)) tp_int32vars"
  using assms unfolding tp_int32vars_def list.pred_inject prod.case param_def [symmetric] sane_config_def
  by (intro conjI allI impI) (simp_all add: nearly_sane_def)

lemma tpLoadParams_sane: "sane_par c \<Longrightarrow> sane_config d \<Longrightarrow> sane_par (tpLoadParams d c)"
proof -
  assume "sane_par c" "sane_config d"
  then have "nearly_sane (tpLoadVars (\<lambda>x. map_option ucast (asNumber x)) tp_int32vars d c)"
    using tpLoadVars_keeps [where P = nearly_sane, OF int32vars_sane, of d c] by (simp add: sane_par_def nearly_sane_def)
  then show ?thesis by (simp add: tpLoadParams_def sane_par_def nearly_sane_def Let_def)
qed

lemma tpLoadSwitches_sane:
  assumes "sane_sw k" "sane_config d"
  shows "sane_sw (tpLoadSwitches d k)"
proof -
  have 1: "list_all (\<lambda>(m, set). \<forall>v c. lowbit (getObject d m) = Some v \<longrightarrow> sane_sw c \<longrightarrow> sane_sw (set v c)) tp_lowbitvars"
    by (simp add: tp_lowbitvars_def sane_sw_def)
  have 2: "list_all (\<lambda>(m, set). \<forall>v c. asBoolean (getObject d m) = Some v \<longrightarrow> sane_sw c \<longrightarrow> sane_sw (set v c)) tp_boolvars"
    by (simp add: tp_boolvars_def sane_sw_def)
  have 3: "list_all (\<lambda>(m, set). \<forall>v c. asNumber (getObject d m) = Some v \<longrightarrow> sane_sw c \<longrightarrow> sane_sw (set v c)) tp_int64vars"
    using assms(2) by (simp add: tp_int64vars_def sane_sw_def sane_config_def)
  show ?thesis unfolding tpLoadSwitches_def
    using tpLoadVars_keeps [where P = sane_sw, OF 1 tpLoadVars_keeps [where P = sane_sw, OF 2 tpLoadVars_keeps [where P = sane_sw, OF 3 assms(1)]]] .
qed

lemma tp_ok_ok: "tp_ok s' \<longleftrightarrow> ok s' s' \<and> tp_ring_ok s'"
  by (auto simp: tp_ok_def ok_def same_def)

lemma message_tp_ok: "tp_good s \<Longrightarrow> ok s (snd (message_tp m s))"
  by (auto simp: message_tp_def ok_refl split: PS2Message.split option.split)

lemma setTouchpadModeByte_ok [simp]: "ok r (setTouchpadModeByte s) = ok r s"
  by (simp add: setTouchpadModeByte_def setTouchPadModeByte_def Let_def)

lemma good_emit [simp]: "tp_good (emit v s) = tp_good s"
  by (simp add: emit_def)

lemma good_LED [simp]: "tp_good (updateTouchpadLED_tp s) = tp_good s"
  by (simp add: updateTouchpadLED_tp_def Let_def)

lemma good_modeByte [simp]: "tp_good (setTouchpadModeByte s) = tp_good s"
  by (simp add: setTouchpadModeByte_def setTouchPadModeByte_def Let_def)

lemma ring_ops [simp]:
  "t_ringBuffer (emit v s) = t_ringBuffer s" "t_packetByteCount (emit v s) = t_packetByteCount s"
  "t_ringBuffer (updateTouchpadLED_tp s) = t_ringBuffer s" "t_packetByteCount (updateTouchpadLED_tp s) = t_packetByteCount s"
  "t_ringBuffer (setTouchpadModeByte s) = t_ringBuffer s" "t_packetByteCount (setTouchpadModeByte s) = t_packetByteCount s"
  by (simp_all add: emit_def updateTouchpadLED_tp_def setTouchpadModeByte_def setTouchPadModeByte_def Let_def)

lemma ring_reset_ok: "ring_aligned k r \<Longrightarrow> ring_aligned k (ring_reset r)"
  by (auto simp: ring_aligned_def ring_ok_def ring_reset_def ring_N_def)

lemma initTouchPad_tp_ok: "tp_ok s \<Longrightarrow> tp_ok (initTouchPad s)"
  by (simp add: tp_ok_def tp_ring_ok_def initTouchPad_def ring_reset_ok)

lemma goodm_upd [simp]:
  "goodm (s\<lparr>t_touchPadModeByte := v1\<rparr>) = goodm s" "goodm (s\<lparr>t_extendedwmode := v2\<rparr>) = goodm s" "goodm (s\<lparr>t_out := v3\<rparr>) = goodm s"
  "goodm (s\<lparr>t_ringBuffer := v4\<rparr>) = goodm s" "goodm (s\<lparr>t_packetByteCount := v5\<rparr>) = goodm s"
  by (simp_all add: goodm_def tp_good_def mode_ok_def momentum_ok_def)

lemma goodm_modeByte [simp]: "goodm (setTouchpadModeByte s) = goodm s"
  by (simp add: setTouchpadModeByte_def setTouchPadModeByte_def emit_def Let_def)

lemma goodm_params [simp]: "tp_good s \<Longrightarrow> sane_sw k \<Longrightarrow> sane_par c \<Longrightarrow> goodm (s\<lparr>t_sw := k, t_par := c\<rparr>)"
  by (simp add: goodm_def tp_good_def mode_ok_def momentum_ok_def)

lemma goodm_if [simp]: "goodm (if b then x else y) = (if b then goodm x else goodm y)"
  by simp

lemma highRate:
  assumes "tp_good s"
  shows "\<exists>m. (case asBoolean x of None \<Rightarrow> s
    | Some b \<Rightarrow> s\<lparr>t_touchPadModeByte := if b then t_touchPadModeByte s OR 0x40 else t_touchPadModeByte s AND NOT 0x40\<rparr>) = s\<lparr>t_touchPadModeByte := m\<rparr>"
  by (cases "asBoolean x") (auto intro: exI [of _ "t_touchPadModeByte s"])

lemma params_ok:
  assumes "tp_ok s" "sane_config d"
  shows "tp_ok (setParamPropertiesGated_tp (Some d) s)"
proof -
  have s: "tp_good s" "tp_ring_ok s" using assms(1) by (simp_all add: tp_ok_def)
  have p: "sane_sw (tpLoadSwitches d (t_sw s))" "sane_par (tpLoadParams d (t_par s))"
    using s(1) assms(2) tpLoadParams_sane tpLoadSwitches_sane by (simp_all add: tp_good_def)
  obtain m where m: "(case asBoolean (getObject d ''UseHighRate'') of None \<Rightarrow> s
    | Some b \<Rightarrow> s\<lparr>t_touchPadModeByte := if b then t_touchPadModeByte s OR 0x40 else t_touchPadModeByte s AND NOT 0x40\<rparr>) = s\<lparr>t_touchPadModeByte := m\<rparr>"
    using highRate [OF s(1)] by blast
  show ?thesis unfolding setParamPropertiesGated_tp_def option.case m
    using s p by (simp add: tp_ok_def tp_ring_ok_def ring_reset_ok Let_def goodm_def [symmetric])
qed

lemma tp_apply_ok:
  assumes "tp_ok s" "sane_event ev"
  shows "\<exists>s'. tp_apply e ev s = Some s' \<and> tp_ok s'"
proof -
  have g: "tp_good s" using assms(1) by (simp add: tp_ok_def)
  show ?thesis
  proof (cases ev)
    case (TpByte data)
    then show ?thesis using tp_interrupt_step [of s data] tp_interrupt_good [of data s] assms(1) by (auto simp: tp_ok_def)
  next
    case TpWorkLoop
    then show ?thesis using packetReady_tp_ok [OF assms(1), of e] by auto
  next
    case TpButtonTimer
    then show ?thesis using onButtonTimer_tp_ok [OF g, of e] ok_tp_ok [OF assms(1)] by auto
  next
    case TpDragTimer
    then show ?thesis using onDragTimer_ok [OF g, of e] ok_tp_ok [OF assms(1)] by auto
  next
    case TpScrollTimer
    then show ?thesis using onScrollTimer_ok [OF g, of e] ok_tp_ok [OF assms(1)] by auto
  next
    case (TpTell m)
    then show ?thesis using message_tp_ok [OF g, of m] ok_tp_ok [OF assms(1)] by auto
  next
    case (TpParams d)
    then show ?thesis using params_ok [OF assms(1), of d] assms(2) by auto
  next
    case TpWake
    then show ?thesis using initTouchPad_tp_ok [OF assms(1)] by auto
  qed
qed

lemma av_init_ok: "0 < n \<Longrightarrow> n < 2 ^ 31 \<Longrightarrow> avg_ok (av_init n)"
  using av_after_init [of "\<lparr>av_buffer = replicate n 0, av_count = 0, av_sum = 0, av_index = 0\<rparr>"]
  by (auto simp: avg_ok_def av_init_def)

lemma init_tpad_ok: "tp_ok ((init_tpad p)\<lparr>t_buttonTimer := True, t_scrollTimer := True\<rparr>)"
    by (simp add: tp_ok_def tp_good_def tp_ring_ok_def init_tpad_def init_params_def init_switches_def init_filters_def
        sane_par_def sane_sw_def mode_ok_def momentum_ok_def filters_ok_def ring_aligned_def ring_ok_def ring_init_def ring_reset_def
        ring_N_def av_init_ok)

subsection \<open>Packets arrive\<close>

lemma tpFeed_append: "tpFeed (xs @ ys) s = do { s \<leftarrow> tpFeed xs s; tpFeed ys s }"
  by (simp add: tpFeed_def foldM_append)

lemma mark_not_reset: "x AND 0xc8 = 0x80 \<Longrightarrow> x \<noteq> 0 \<and> x \<noteq> kSC_Reset" "x AND 0xc8 = 0xc0 \<Longrightarrow> x \<noteq> 0 \<and> x \<noteq> kSC_Reset" for x :: u8
  by (auto simp: kSC_Reset_def)

lemma tpSteps_packet:
  assumes "tp_packet p"
  shows "tpSteps p (d, []) = ([p], p ! 5, [])"
proof -
  obtain a b c x y z where p: "p = [a, b, c, x, y, z]"
    using assms by (auto simp: tp_packet_def length_Suc_conv numeral_eq_Suc)
  have m: "a AND 0xc8 = 0x80" "x AND 0xc8 = 0xc0" "\<not> (b = kSC_Reset \<and> c = 0)" "\<not> (y = kSC_Reset \<and> z = 0)"
    using assms by (simp_all add: tp_packet_def p)
  then show ?thesis using mark_not_reset(1) [OF m(1)] mark_not_reset(2) [OF m(2)]
    by (auto simp: p tpStep_def)
qed

end
