(* ===== verification/Tpad_Correct.thy ===== *)
theory Tpad_Correct
  imports Tpad_Spec
begin

text \<open>
  What the touchpad driver does: packets arrive whole and in order and are decoded to what the device put into them, a touchpad
  that is off is silent, a double tap in the zone toggles it, a tap is a click, and momentum scrolling ends.
\<close>

subsection \<open>Definitions\<close>

definition demo_tpad :: "unit tpad" where
  "demo_tpad = init_tpad ()"

text \<open>The events the driver sends to the system: everything but requests to the device and the notice of its state.\<close>

definition tpEvents :: "'p tpad \<Rightarrow> tp_out list" where
  "tpEvents s = filter (\<lambda>v. case v of TpPointer _ _ _ _ \<Rightarrow> True | TpScroll _ _ _ _ \<Rightarrow> True | TpMessage _ _ \<Rightarrow> True | _ \<Rightarrow> False) (t_out s)"

text \<open>What the stages before the zones keep of a touchpad that is off.\<close>

definition quiet :: "'p tpad \<Rightarrow> 'p tpad \<Rightarrow> bool" where
  "quiet s s' \<longleftrightarrow> tpEvents s' = tpEvents s \<and> t_ignoreall s' = t_ignoreall s \<and> t_mbuttonstate s' = t_mbuttonstate s
     \<and> t_touchmode s' = t_touchmode s \<and> t_par s' = t_par s \<and> t_sw s' = t_sw s \<and> t_ledpresent s' = t_ledpresent s"

text \<open>A finger in the zone, and a finger that stays there.\<close>

definition zoneDown :: "tp_params \<Rightarrow> touch \<Rightarrow> bool" where
  "zoneDown c l \<longleftrightarrow> c_z_finger c <s l_z l \<and> l_z l <s c_zlimit c \<and> oneFinger l
     \<and> c_diszl c <s l_x l \<and> l_x l <s c_diszr c \<and> c_diszb c <s l_y l \<and> l_y l <s c_diszt c"

definition zoneHeld :: "tp_params \<Rightarrow> touch \<Rightarrow> bool" where
  "zoneHeld c l \<longleftrightarrow> c_z_finger c \<le>s l_z l \<and> c_diszl c <s l_x l \<and> l_x l <s c_diszr c \<and> c_diszb c <s l_y l \<and> l_y l <s c_diszt c"

definition lifted :: "tp_params \<Rightarrow> touch \<Rightarrow> bool" where
  "lifted c l \<longleftrightarrow> l_z l <s c_z_finger c"

text \<open>The distance that is left, in units of one part of the divisor, and what a tick makes of it.\<close>

definition momentumLeft :: "'p tpad \<Rightarrow> int" where
  "momentumLeft s = sint (t_momentumscrollcurrent s) * sint (c_momentumscrolldivisor (t_par s)) + sint (t_momentumscrollrest1 s)"

definition momentum_small :: "'p tpad \<Rightarrow> bool" where
  "momentum_small s \<longleftrightarrow> 0 \<le> sint (t_momentumscrollcurrent s) * sint (t_momentumscrollrest1 s) \<and> \<bar>momentumLeft s\<bar> < 2 ^ 63
     \<and> 0 \<le> sint (c_momentumscrollmultiplier (t_par s)) \<and> sint (c_momentumscrollmultiplier (t_par s)) < sint (c_momentumscrolldivisor (t_par s))"


text \<open>The packet the touchpad sends for a position, a pressure, a width and its buttons.\<close>

definition encodeTouch :: "u32 \<Rightarrow> u32 \<Rightarrow> u8 \<Rightarrow> u32 \<Rightarrow> u8 \<Rightarrow> u8 list" where
  "encodeTouch x y z w buttons =
     [0x80 OR push_bit 2 (ucast w AND 0xc) OR push_bit 2 (ucast (drop_bit 1 w) AND 0x1) OR (buttons AND 0x3),
      ucast (drop_bit 8 x AND 0xf) OR push_bit 4 (ucast (drop_bit 8 y AND 0xf)),
      z,
      0xc0 OR push_bit 2 (ucast w AND 0x1) OR push_bit 4 (ucast (drop_bit 12 x) AND 1) OR push_bit 5 (ucast (drop_bit 12 y) AND 1) OR (buttons AND 0x3),
      ucast x,
      ucast y]"

text \<open>A driver that has started, a clock that stands still, and a few touches.\<close>

definition demo_started :: "unit tpad" where
  "demo_started = demo_tpad\<lparr>t_buttonTimer := True, t_scrollTimer := True, t_ledpresent := True\<rparr>"

definition demo_tp_env :: "unit tp_env" where
  "demo_tp_env = \<lparr>t_clock_get_uptime = (\<lambda>_. (5, ())), t_absolutetime_to_nanoseconds = id\<rparr>"

definition demo_touch :: "u32 \<Rightarrow> u32 \<Rightarrow> u32 \<Rightarrow> u64 \<Rightarrow> touch" where
  "demo_touch x y z t = \<lparr>l_w = 4, l_z = z, l_f = 1, l_xraw = x, l_yraw = y, l_x = x, l_y = y, l_now = t, l_ns = t\<rparr>"









lemma quiet_refl [simp]: "quiet s s"
  by (simp add: quiet_def)

lemma quiet_trans: "quiet a b \<Longrightarrow> quiet b c \<Longrightarrow> quiet a c"
  by (simp add: quiet_def)

lemma quiet_request [simp]: "quiet r (emit (TpRequest q) s) = quiet r s"
  by (simp add: quiet_def emit_def tpEvents_def)

lemma quiet_upd [simp]:
  "quiet r (s\<lparr>t_touchPadModeByte := v1\<rparr>) = quiet r s" "quiet r (s\<lparr>t_extendedwmode := v2\<rparr>) = quiet r s"
  "quiet r (s\<lparr>t_clickbuttons := v3\<rparr>) = quiet r s" "quiet r (s\<lparr>t_thinkpadButtonState := v4\<rparr>) = quiet r s"
  "quiet r (s\<lparr>t_clickedprimary := v5\<rparr>) = quiet r s" "quiet r (s\<lparr>t_lastbuttons := v6\<rparr>) = quiet r s"
  "quiet r (s\<lparr>t_lastx := v7\<rparr>) = quiet r s" "quiet r (s\<lparr>t_lasty := v8\<rparr>) = quiet r s" "quiet r (s\<lparr>t_plat := v9\<rparr>) = quiet r s"
  "quiet r (s\<lparr>t_ignoredeltas := v10\<rparr>) = quiet r s" "quiet r (s\<lparr>t_filters1 := v11\<rparr>) = quiet r s"
  by (simp_all add: quiet_def tpEvents_def)

lemma quiet_click [simp]: "quiet r (setClickButtons b s) = quiet r s"
  by (simp add: setClickButtons_def setModeByte_def Let_def)


lemma quiet_filter_stages [simp]: "quiet r (skipDeltas x y s) = quiet r s" "quiet r (fingerChange f s) = quiet r s"
  by (simp_all add: skipDeltas_def fingerChange_def Let_def)







lemma foldM_snoc: "foldM f (xs @ [x]) s = Option.bind (foldM f xs s) (f x)"
proof (cases "foldM f xs s")
  case (Some t)
  then show ?thesis by (cases "f x t") (simp_all add: foldM_append)
qed (simp add: foldM_append)

lemma foldM_past: "foldM f xs s = Some t \<Longrightarrow> foldM f (xs @ ys) s = foldM f ys t"
  by (simp add: foldM_append)

lemma zone_step:
  "t_touchmode s = MODE_NOTOUCH \<Longrightarrow> zoneDown (t_par s) l \<Longrightarrow> disableZone l s = s\<lparr>t_touchtime := l_ns l, t_touchmode := MODE_WAIT1RELEASE\<rparr>"
  "t_touchmode s = MODE_WAIT1RELEASE \<Longrightarrow> zoneHeld (t_par s) l \<Longrightarrow> disableZone l s = s"
  "t_touchmode s = MODE_WAIT1RELEASE \<Longrightarrow> lifted (t_par s) l \<Longrightarrow> l_ns l - t_touchtime s < k_maxtaptime (t_sw s) \<Longrightarrow>
     disableZone l s = s\<lparr>t_untouchtime := l_ns l, t_touchmode := MODE_WAIT2TAP\<rparr>"
  "t_touchmode s = MODE_WAIT2TAP \<Longrightarrow> lifted (t_par s) l \<Longrightarrow> disableZone l s = s"
  "t_touchmode s = MODE_WAIT2TAP \<Longrightarrow> zoneDown (t_par s) l \<Longrightarrow> l_ns l - t_untouchtime s < k_maxdragtime (t_sw s) \<Longrightarrow>
     disableZone l s = s\<lparr>t_touchtime := l_ns l, t_touchmode := MODE_WAIT2RELEASE\<rparr>"
  "t_touchmode s = MODE_WAIT2RELEASE \<Longrightarrow> zoneHeld (t_par s) l \<Longrightarrow> disableZone l s = s"
  "t_touchmode s = MODE_WAIT2RELEASE \<Longrightarrow> lifted (t_par s) l \<Longrightarrow> l_ns l - t_touchtime s < k_maxtaptime (t_sw s) \<Longrightarrow>
     disableZone l s = (updateTouchpadLED_tp (s\<lparr>t_ignoreall := \<not> t_ignoreall s\<rparr>))\<lparr>t_touchmode := MODE_NOTOUCH\<rparr>"
  by (simp_all add: disableZone_def zoneDown_def zoneHeld_def lifted_def isFingerTouch_def fingerUp_def isInDisableZone_def Let_def
      word_sless_alt word_sle_eq)

text \<open>While the zone waits for the next step, the rest of the handler does not run.\<close>

lemma zone_waits:
  assumes "\<not> k_outzone_wt (t_sw s)" "zoneWatched s" "disableZone l s = s'"
    "t_touchmode s' \<in> {MODE_WAIT1RELEASE, MODE_WAIT2TAP, MODE_WAIT2RELEASE}"
  shows "zoneTouch l b s = Some s'"
  using assms by (auto simp: zoneTouch_def outsideZone_def Let_def)

lemma zone_stays:
  assumes "\<not> k_outzone_wt (t_sw s)" "zoneWatched s" "\<forall>l \<in> set ls. disableZone l s = s"
    "t_touchmode s \<in> {MODE_WAIT1RELEASE, MODE_WAIT2TAP, MODE_WAIT2RELEASE}"
  shows "foldM (\<lambda>l. zoneTouch l b) ls s = Some s"
  using assms(3) by (induction ls) (use zone_waits [OF assms(1,2) _ assms(4)] in \<open>simp_all add: assms(3)\<close>)

lemma LED_quiet:
  "tpEvents (updateTouchpadLED_tp s) = tpEvents s" "t_ignoreall (updateTouchpadLED_tp s) = t_ignoreall s"
  by (simp_all add: updateTouchpadLED_tp_def emit_def tpEvents_def Let_def)

text \<open>
  C16: Two quick taps in the zone toggle the touchpad: a finger goes down in the zone, stays there for any number of packets, goes up in
  time, comes down there again in time, stays, and goes up in time. No event is sent on the way; then the touchpad is off,
  or it is on and the last packet is handled like any other.
\<close>

theorem double_tap_toggles:
  assumes "t_touchmode s = MODE_NOTOUCH" "zoneWatched s" "\<not> k_outzone_wt (t_sw s)"
    and "zoneDown (t_par s) l1" "\<forall>l \<in> set held1. zoneHeld (t_par s) l" "lifted (t_par s) l2" "l_ns l2 - l_ns l1 < k_maxtaptime (t_sw s)"
    and "\<forall>l \<in> set gap. lifted (t_par s) l"
    and "zoneDown (t_par s) l3" "l_ns l3 - l_ns l2 < k_maxdragtime (t_sw s)" "\<forall>l \<in> set held2. zoneHeld (t_par s) l"
    and "lifted (t_par s) l4" "l_ns l4 - l_ns l3 < k_maxtaptime (t_sw s)"
  shows "\<exists>s'. t_ignoreall s' = (\<not> t_ignoreall s) \<and> t_touchmode s' = MODE_NOTOUCH \<and> tpEvents s' = tpEvents s
     \<and> foldM (\<lambda>l. zoneTouch l b) ((l1 # held1 @ [l2]) @ (gap @ [l3]) @ held2 @ [l4]) s
         = (if t_ignoreall s then activeTouch l4 b s' else Some s')"
proof -
  define s1 where "s1 = s\<lparr>t_touchtime := l_ns l1, t_touchmode := MODE_WAIT1RELEASE\<rparr>"
  define s2 where "s2 = s1\<lparr>t_untouchtime := l_ns l2, t_touchmode := MODE_WAIT2TAP\<rparr>"
  define s3 where "s3 = s2\<lparr>t_touchtime := l_ns l3, t_touchmode := MODE_WAIT2RELEASE\<rparr>"
  define s4 where "s4 = (updateTouchpadLED_tp (s3\<lparr>t_ignoreall := \<not> t_ignoreall s3\<rparr>))\<lparr>t_touchmode := MODE_NOTOUCH\<rparr>"
  note d = s1_def s2_def s3_def
  have z: "zoneWatched s1" "zoneWatched s2" "zoneWatched s3" and k: "\<not> k_outzone_wt (t_sw s1)" "\<not> k_outzone_wt (t_sw s2)" "\<not> k_outzone_wt (t_sw s3)"
    using assms(2,3) by (simp_all add: d zoneWatched_def)
  have 1: "foldM (\<lambda>l. zoneTouch l b) (l1 # held1 @ [l2]) s = Some s2"
    using zone_waits [OF assms(3,2) zone_step(1) [OF assms(1,4)], of b] zone_stays [OF k(1) z(1), of held1 b] assms(5)
      zone_waits [OF k(1) z(1) zone_step(3) [of s1 l2], of b] assms(6,7)
    by (simp add: foldM_append s1_def [symmetric]) (simp add: d zone_step(2) foldM_append)
  have 2: "foldM (\<lambda>l. zoneTouch l b) (gap @ [l3]) s2 = Some s3"
    using zone_stays [OF k(2) z(2), of gap b] assms(8-10) zone_waits [OF k(2) z(2) zone_step(5) [of s2 l3], of b]
    by (simp add: foldM_append) (simp add: d zone_step(4))
  have d4: "disableZone l4 s3 = s4" using assms(12,13) by (simp add: zone_step(7) d s4_def)
  have h2: "foldM (\<lambda>l. zoneTouch l b) held2 s3 = Some s3"
    using zone_step(6) [of s3] assms(11) by (intro zone_stays k(3) z(3)) (simp_all add: d)
  have s4: "t_ignoreall s4 = (\<not> t_ignoreall s)" "t_touchmode s4 = MODE_NOTOUCH" by (simp_all add: s4_def d LED_quiet)
  have 3: "foldM (\<lambda>l. zoneTouch l b) (held2 @ [l4]) s3 = (if t_ignoreall s then activeTouch l4 b s4 else Some s4)"
    using h2 z(3) k(3) d4 s4 by (simp add: foldM_snoc zoneTouch_def outsideZone_def)
  show ?thesis
  proof (intro exI [of _ s4] conjI)
    show "foldM (\<lambda>l. zoneTouch l b) ((l1 # held1 @ [l2]) @ (gap @ [l3]) @ held2 @ [l4]) s = (if t_ignoreall s then activeTouch l4 b s4 else Some s4)"
      unfolding foldM_past [OF 1] foldM_past [OF 2] by (rule 3)
    show "tpEvents s4 = tpEvents s" "t_ignoreall s4 = (\<not> t_ignoreall s)"
      using LED_quiet [of "s3\<lparr>t_ignoreall := \<not> t_ignoreall s3\<rparr>"] by (simp_all add: s4_def d tpEvents_def)
  qed (simp add: s4_def)
qed

lemma same_sign: "0 \<le> x * y \<Longrightarrow> 0 \<le> m \<Longrightarrow> \<bar>x * m + y\<bar> = \<bar>x\<bar> * m + \<bar>y\<bar>" for x y m :: int
proof -
  assume xy: "0 \<le> x * y" and m: "0 \<le> m"
  show ?thesis
  proof (cases "0 \<le> x \<and> 0 \<le> y")
    case False
    then have "x \<le> 0" "y \<le> 0" using xy by (auto simp: zero_le_mult_iff)
    moreover have "x * m \<le> 0" using \<open>x \<le> 0\<close> m by (rule mult_nonpos_nonneg)
    ultimately show ?thesis by simp
  qed (use m in simp)
qed

lemma less_left:
  fixes c r m d :: int
  assumes "0 \<le> c * r" "0 \<le> m" "m < d" "c \<noteq> 0"
  shows "\<bar>c * m + r\<bar> < \<bar>c * d + r\<bar>"
proof -
  have "\<bar>c\<bar> * m < \<bar>c\<bar> * d" using assms(3,4) by simp
  then show ?thesis using same_sign [of c r m] same_sign [of c r d] assms by simp
qed

lemma sdiv_smod: "(a sdiv d) * d + a smod d = a" for a d :: int
  by (simp add: sdiv_mult_smod_eq)

lemma sdiv_sign: "0 < d \<Longrightarrow> 0 \<le> (a sdiv d) * (a smod d)" for a d :: int
proof (cases "0 \<le> a")
  case True
  moreover assume "0 < d"
  ultimately show ?thesis by (simp add: signed_divide_int_def signed_modulo_int_def sgn_if minus_div_mult_eq_mod pos_imp_zdiv_nonneg_iff)
next
  case False
  moreover assume d: "0 < d"
  ultimately have "a sdiv d = - (- a div d)" "a smod d = - (- a mod d)"
    by (simp_all add: signed_divide_int_def signed_modulo_int_def sgn_if minus_div_mult_eq_mod [symmetric])
  then show ?thesis using d False by (simp add: pos_imp_zdiv_nonneg_iff)
qed

lemma smod_small: "0 < d \<Longrightarrow> \<bar>a smod d\<bar> \<le> \<bar>a\<bar> \<and> \<bar>a sdiv d\<bar> \<le> \<bar>a\<bar>" for a d :: int
proof -
  assume d: "0 < d"
  have "\<bar>a\<bar> = \<bar>a sdiv d\<bar> * d + \<bar>a smod d\<bar>" using same_sign [OF sdiv_sign [OF d, of a], of d] d sdiv_smod [of a d] by simp
  moreover have "\<bar>a sdiv d\<bar> \<le> \<bar>a sdiv d\<bar> * d" using d by (simp add: mult_le_cancel_left1)
  ultimately show ?thesis by linarith
qed

lemma momentum_values:
  fixes s :: "'p tpad"
  assumes "tp_good s" "t_momentumscrollcurrent s \<noteq> 0" "onScrollTimer e s = Some s'"
  defines "n \<equiv> sint (t_momentumscrollcurrent s * scast (c_momentumscrollmultiplier (t_par s)) + t_momentumscrollrest1 s)"
    and "d \<equiv> sint (c_momentumscrolldivisor (t_par s))"
  shows "t_momentumscrollcurrent s' = 0 \<or> t_momentumscrollcurrent s' = word_of_int (n sdiv d)
     \<and> t_momentumscrollrest1 s' = word_of_int (n smod d) \<and> t_par s' = t_par s"
proof -
  obtain t p where u: "tp_uptime e s = (t, s\<lparr>t_plat := p\<rparr>)" by (auto simp: tp_uptime_def case_prod_beta Let_def)
  have "2 \<le> d" using assms(1) by (simp add: tp_good_def sane_par_def word_sle_eq d_def)
  then have ok: "divides_ok x (scast (c_momentumscrolldivisor (t_par s)) :: u64)" for x
    using divides_pos [of "scast (c_momentumscrolldivisor (t_par s)) :: u64" x] by (simp add: d_def)
  obtain q where "quot (t_momentumscrollcurrent s) (t_momentumscrollinterval s) = Some q"
    using assms(2,3) u by (auto simp: onScrollTimer_def bind_eq_Some_conv Let_def)
  then show ?thesis using assms(2,3) u ok
    by (auto simp: onScrollTimer_def Let_def bind_eq_Some_conv setScrollTimer_def quot_def [of _ "scast _"] rem_def
        tpScroll_def emit_def n_def d_def simp del: of_int_add split: if_splits)
qed

text \<open>A tick either ends the scrolling or leaves less.\<close>

lemma momentum_tick:
  assumes "tp_good s" "momentum_small s" "t_momentumscrollcurrent s \<noteq> 0"
  shows "\<exists>s'. onScrollTimer e s = Some s' \<and> tp_good s' \<and>
    (t_momentumscrollcurrent s' = 0 \<or> momentum_small s' \<and> \<bar>momentumLeft s'\<bar> < \<bar>momentumLeft s\<bar>)"
proof -
  let ?c = "t_momentumscrollcurrent s" and ?r = "t_momentumscrollrest1 s"
  let ?m = "c_momentumscrollmultiplier (t_par s)" and ?d = "c_momentumscrolldivisor (t_par s)"
  let ?n = "sint ?c * sint ?m + sint ?r"
  have d: "2 \<le> sint ?d" using assms(1) by (simp add: tp_good_def sane_par_def word_sle_eq)
  note sm = assms(2) [unfolded momentum_small_def momentumLeft_def]
  have lt: "\<bar>?n\<bar> < \<bar>momentumLeft s\<bar>" unfolding momentumLeft_def using less_left [of "sint ?c" "sint ?r" "sint ?m" "sint ?d"] sm assms(3) signed_eq_0_iff [of ?c] by blast
  then have b: "\<bar>?n\<bar> < 2 ^ 63" using sm by (simp add: momentumLeft_def)
  have "?c * scast ?m + ?r = word_of_int ?n" by simp
  then have n: "sint (?c * scast ?m + ?r) = ?n" using b by (simp only:) (rule sint_word_of_int_64, linarith+)
  obtain s' where s': "onScrollTimer e s = Some s'" "ok s s'" using onScrollTimer_ok [OF assms(1)] by blast
  have "t_momentumscrollcurrent s' = 0 \<or> sint (t_momentumscrollcurrent s') = ?n sdiv sint ?d
      \<and> sint (t_momentumscrollrest1 s') = ?n smod sint ?d \<and> t_par s' = t_par s"
    using momentum_values [OF assms(1,3), of e] s'(1) n smod_small [of "sint ?d" ?n] b d
    by (auto simp: sint_word_of_int_64)
  then show ?thesis
  proof
    assume "sint (t_momentumscrollcurrent s') = ?n sdiv sint ?d \<and> sint (t_momentumscrollrest1 s') = ?n smod sint ?d \<and> t_par s' = t_par s"
    then have "momentumLeft s' = ?n" "momentum_small s'"
      using sdiv_smod [of ?n "sint ?d"] sdiv_sign [of "sint ?d" ?n] d b sm by (simp_all add: momentumLeft_def momentum_small_def)
    then show ?thesis using s' lt by (auto simp: ok_def)
  qed (use s' in \<open>auto simp: ok_def\<close>)
qed

text \<open>
  C17: Scrolling that goes on after the fingers are gone ends: when the multiplier is below the divisor and the distance does not
  overflow, a finite number of ticks of the timer brings it to a halt, at most one for each part of the distance.
\<close>

theorem momentum_scroll_ends:
  assumes "tp_good s" "momentum_small s"
  shows "\<exists>n s'. n \<le> Suc (nat \<bar>momentumLeft s\<bar>) \<and> foldM (tp_apply e) (replicate n TpScrollTimer) s = Some s' \<and> t_momentumscrollcurrent s' = 0"
  using assms
proof (induction "nat \<bar>momentumLeft s\<bar>" arbitrary: s rule: less_induct)
  case less
  show ?case
  proof (cases "t_momentumscrollcurrent s = 0")
    case True
    then show ?thesis by (intro exI [of _ 0] exI [of _ s]) simp
  next
    case False
    obtain s1 where 1: "onScrollTimer e s = Some s1" "tp_good s1"
      "t_momentumscrollcurrent s1 = 0 \<or> momentum_small s1 \<and> \<bar>momentumLeft s1\<bar> < \<bar>momentumLeft s\<bar>"
      using momentum_tick [OF less.prems False] by blast
    show ?thesis
    proof (cases "t_momentumscrollcurrent s1 = 0")
      case True
      then show ?thesis using 1(1) by (intro exI [of _ 1] exI [of _ s1]) simp
    next
      case False
      with 1 obtain n s' where "n \<le> Suc (nat \<bar>momentumLeft s1\<bar>)" "foldM (tp_apply e) (replicate n TpScrollTimer) s1 = Some s'"
        "t_momentumscrollcurrent s' = 0"
        using less.hyps [of s1] by (metis abs_ge_zero nat_mono_iff order_le_less_trans)
      then show ?thesis using 1 False by (intro exI [of _ "Suc n"] exI [of _ s']) auto
    qed
  qed
qed








lemma word32_bits: "(a :: u32) = b \<longleftrightarrow> (\<forall>n \<in> set [0..<32]. bit a n = bit b n)"
  by (auto simp: bit_eq_iff dest: bit_imp_le_length)

lemma word8_bits: "(a :: u8) = b \<longleftrightarrow> (\<forall>n \<in> set [0..<8]. bit a n = bit b n)"
  by (auto simp: bit_eq_iff dest: bit_imp_le_length)

lemma high_bits:
  fixes x :: u32
  shows "x < 0x2000 \<Longrightarrow> 13 \<le> n \<Longrightarrow> \<not> bit x n" "x < 0x10 \<Longrightarrow> 4 \<le> n \<Longrightarrow> \<not> bit x n"
proof -
  show "\<not> bit x n" if "x < 0x2000" "13 \<le> n"
  proof -
    have "take_bit 13 x = x" using that(1) by (simp add: take_bit_eq_mod mod_word_less)
    then show ?thesis using that(2) by (metis bit_take_bit_iff not_le)
  qed
  show "\<not> bit x n" if "x < 0x10" "4 \<le> n"
  proof -
    have "take_bit 4 x = x" using that(1) by (simp add: take_bit_eq_mod mod_word_less)
    then show ?thesis using that(2) by (metis bit_take_bit_iff not_le)
  qed
qed

lemma decode_x: "x < 0x2000 \<Longrightarrow> packetX (encodeTouch x y z w b) = x"
  unfolding word32_bits using high_bits(1) [of x]
  by (simp add: packetX_def encodeTouch_def upt_rec bit_simps) (simp add: numeral_eq_Suc)

lemma decode_y: "y < 0x2000 \<Longrightarrow> packetY (encodeTouch x y z w b) = y"
  unfolding word32_bits using high_bits(1) [of y]
  by (simp add: packetY_def encodeTouch_def upt_rec bit_simps) (simp add: numeral_eq_Suc)

lemma decode_w: "w < 0x10 \<Longrightarrow> packetW (encodeTouch x y z w b) = w"
  unfolding word32_bits using high_bits(2) [of w]
  by (simp add: packetW_def encodeTouch_def upt_rec bit_simps)

lemma encode_marks:
  "encodeTouch x y z w b ! 0 AND 0xc8 = 0x80" "encodeTouch x y z w b ! 3 AND 0xc8 = 0xc0"
  "encodeTouch x y z w b ! 0 AND 0x3 = b AND 0x3" "encodeTouch x y z w b ! 3 AND 0x3 = b AND 0x3"
  unfolding word8_bits by (simp_all add: encodeTouch_def upt_rec bit_simps)

text \<open>
  The driver reads from a packet what the touchpad put into it, for every position of 13 bits, pressure, width of four bits and state of
  the buttons: with equal resolutions and no second finger the decoded touch has this position, pressure and width, and
  the marks of the first and the fourth byte are those the interrupt handler insists on.
\<close>

lemma touch_packet_roundtrip:
  assumes "x < 0x2000" "y < 0x2000" "w < 0x10" "c_xupmm (t_par s) = c_yupmm (t_par s)" "\<not> t_extendedwmode s"
  shows "parseTouch (encodeTouch x y z w b) now ns s =
      Some \<lparr>l_w = w, l_z = ucast z, l_f = fingersOf w (ucast z) s, l_xraw = x, l_yraw = y, l_x = x, l_y = y, l_now = now, l_ns = ns\<rparr>
    \<and> encodeTouch x y z w b ! 0 AND 0xc8 = 0x80 \<and> encodeTouch x y z w b ! 3 AND 0xc8 = 0xc0 \<and> encodeTouch x y z w b ! 0 AND 0x3 = b AND 0x3"
proof -
  have "scaleAxes x y (t_par s) = Some (x, y)" using assms(4) by (simp add: scaleAxes_def)
  moreover have "encodeTouch x y z w b ! 2 = z" by (simp add: encodeTouch_def)
  ultimately show ?thesis using assms encode_marks [of x y z w b]
    by (simp add: parseTouch_def decode_x decode_y decode_w Let_def)
qed

lemma touch_packet_roundtrip_witness:
  "parseTouch (encodeTouch 0x1234 0x0fed 60 4 1) 7 7 demo_tpad =
     Some \<lparr>l_w = 4, l_z = 60, l_f = 1, l_xraw = 0x1234, l_yraw = 0x0fed, l_x = 0x1234, l_y = 0x0fed, l_now = 7, l_ns = 7\<rparr>"
  using touch_packet_roundtrip [of "0x1234" "0x0fed" 4 demo_tpad 60 1 7 7]
  by (simp add: demo_tpad_def init_tpad_def init_params_def fingersOf_def)

lemma demo_good: "tp_good demo_started"
  using init_tpad_ok [of "()"] by (simp add: demo_started_def demo_tpad_def tp_ok_def tp_good_def mode_ok_def momentum_ok_def)

lemmas demo_defs = demo_started_def demo_tpad_def init_tpad_def init_params_def init_switches_def demo_touch_def


theorem double_tap_toggles_witness:
  "\<exists>s'. t_ignoreall s' \<and> foldM (\<lambda>l. zoneTouch l 0) [demo_touch 1000 4500 60 0, demo_touch 1010 4500 60 1, demo_touch 1000 4500 0 2,
     demo_touch 0 0 0 3, demo_touch 1000 4500 60 4, demo_touch 1000 4500 0 5] demo_started = Some s'"
  using double_tap_toggles [of demo_started "demo_touch 1000 4500 60 0" "[demo_touch 1010 4500 60 1]" "demo_touch 1000 4500 0 2"
      "[demo_touch 0 0 0 3]" "demo_touch 1000 4500 60 4" "[]" "demo_touch 1000 4500 0 5" 0]
  by (auto simp: demo_defs zoneDown_def zoneHeld_def lifted_def oneFinger_def zoneWatched_def word_sless_alt simp del: foldM.simps)

theorem momentum_scroll_ends_witness:
  "\<exists>n s'. foldM (tp_apply demo_tp_env) (replicate n TpScrollTimer)
     (demo_started\<lparr>t_momentumscrollcurrent := 5000000, t_momentumscrollinterval := 80000\<rparr>) = Some s' \<and> t_momentumscrollcurrent s' = 0"
proof -
  let ?s = "demo_started\<lparr>t_momentumscrollcurrent := 5000000, t_momentumscrollinterval := 80000\<rparr>"
  have "tp_good ?s" using demo_good by (simp add: tp_good_def mode_ok_def momentum_ok_def) (simp add: demo_defs)
  moreover have "momentum_small ?s" by (simp add: momentum_small_def momentumLeft_def demo_defs)
  ultimately show ?thesis using momentum_scroll_ends [of ?s demo_tp_env] by blast
qed




end
