(* ===== verification/Alps.thy ===== *)
theory Alps
  imports Complex_Main Tpad_Control
begin

text \<open>
  The driver of ALPS touchpads (class \<^verbatim>\<open>ApplePS2ALPSGlidePoint\<close>, VoodooPS2ALPSGlidePoint.cpp). Fields keep the names of the class with
  \<open>a_\<close> in front; what the class does not initialise is zero, as the kernel allocates objects. A C \<^verbatim>\<open>double\<close> is the real number it
  stands for, and each operation on doubles rounds its exact result with the parameter \<open>a_rnd\<close>; a conversion to \<^verbatim>\<open>int\<close> out of range is
  undefined (None).
\<close>

definition kTapEnabled :: u8 where
  "kTapEnabled = 0x01"

definition SCROLL_NONE :: u16 where
  "SCROLL_NONE = 0"

definition SCROLL_HORIZ :: u16 where
  "SCROLL_HORIZ = 1"

definition SCROLL_VERT :: u16 where
  "SCROLL_VERT = 2"

lemmas alps_scroll [simp] = SCROLL_NONE_def SCROLL_HORIZ_def SCROLL_VERT_def

definition alps_packetLengthMax :: nat where
  "alps_packetLengthMax = 6"

lemmas alps_length [simp] = alps_packetLengthMax_def

type_synonym ALPSStatus = "u8 \<times> u8 \<times> u8"

record 'p alps =
  a_device :: bool
  a_interruptHandlerInstalled :: bool
  a_powerControlHandlerInstalled :: bool
  a_ringBuffer :: "u8 ring"
  a_packetByteCount :: u32
  a_resolution :: u32
  a_touchPadVersion :: u16
  a_touchPadModeByte :: u8
  a_dragging :: bool
  a_edgehscroll :: bool
  a_edgevscroll :: bool
  a_edgeaccell :: u32
  a_edgeaccellvalue :: real
  a_draglock :: bool
  a_xpos :: u32
  a_xscrollpos :: u32
  a_ypos :: u32
  a_yscrollpos :: u32
  a_zpos :: u32
  a_zscrollpos :: u32
  a_scrolling :: u16
  a_out :: "tp_out list"
  a_plat :: 'p

record 'p alps_env =
  a_clock_get_uptime :: "'p \<Rightarrow> u64 \<times> 'p"
  a_rnd :: "real \<Rightarrow> real"

definition init_alps :: "'p \<Rightarrow> 'p alps" where
  "init_alps p = \<lparr>a_device = False, a_interruptHandlerInstalled = False, a_powerControlHandlerInstalled = False,
     a_ringBuffer = ring_init (alps_packetLengthMax * 32), a_packetByteCount = 0, a_resolution = push_bit 16 100,
     a_touchPadVersion = 0, a_touchPadModeByte = kTapEnabled, a_dragging = False, a_edgehscroll = False, a_edgevscroll = False,
     a_edgeaccell = 0, a_edgeaccellvalue = 0, a_draglock = False, a_xpos = 0, a_xscrollpos = 0, a_ypos = 0, a_yscrollpos = 0,
     a_zpos = 0, a_zscrollpos = 0, a_scrolling = SCROLL_NONE, a_out = [], a_plat = p\<rparr>"

definition alps_uptime :: "'p alps_env \<Rightarrow> 'p alps \<Rightarrow> u64 \<times> 'p alps" where
  "alps_uptime e s = (let (t, p) = a_clock_get_uptime e (a_plat s) in (t, s\<lparr>a_plat := p\<rparr>))"

definition alpsPointer :: "u32 \<Rightarrow> u32 \<Rightarrow> u32 \<Rightarrow> u64 \<Rightarrow> 'p alps \<Rightarrow> 'p alps" where
  "alpsPointer dx dy buttonState now s = s\<lparr>a_out := a_out s @ [TpPointer dx dy buttonState now]\<rparr>"

definition alpsScroll :: "u32 \<Rightarrow> u32 \<Rightarrow> u64 \<Rightarrow> 'p alps \<Rightarrow> 'p alps" where
  "alpsScroll d1 d2 now s = s\<lparr>a_out := a_out s @ [TpScroll (ucast d1) (ucast d2) 0 now]\<rparr>"

subsection \<open>Interrupt time\<close>

definition pokeAlps :: "nat \<Rightarrow> u8 \<Rightarrow> 'p alps \<Rightarrow> 'p alps option" where
  "pokeAlps i v s =
     (if m_head (a_ringBuffer s) + i < ring_N (a_ringBuffer s)
      then Some (s\<lparr>a_ringBuffer := ring_head_write i v (a_ringBuffer s)\<rparr>) else None)"

definition interruptOccurred_alps :: "u8 \<Rightarrow> 'p alps \<Rightarrow> (PS2InterruptResult \<times> 'p alps) option" where
  "interruptOccurred_alps data s =
     (if a_packetByteCount s = 0 \<and> data AND 0xc8 \<noteq> 0x08 \<and> data AND 0xf8 \<noteq> 0xf8 then Some (kPS2IR_packetBuffering, s)
      else if a_packetByteCount s \<ge> 1 \<and> data = 0x80 then Some (kPS2IR_packetBuffering, s\<lparr>a_packetByteCount := 0\<rparr>)
      else
        do { s \<leftarrow> pokeAlps (unat (a_packetByteCount s)) data s;
             let s = s\<lparr>a_packetByteCount := a_packetByteCount s + 1\<rparr>;
             b0 \<leftarrow> PS2_Loop.at (m_buffer (a_ringBuffer s)) (m_head (a_ringBuffer s));
             if a_packetByteCount s = 6 \<or> a_packetByteCount s = 3 \<and> b0 AND 0xc8 = 0x08 then
               Some (kPS2IR_packetReady,
                 s\<lparr>a_ringBuffer := ring_advanceHead alps_packetLengthMax (a_ringBuffer s), a_packetByteCount := 0\<rparr>)
             else Some (kPS2IR_packetBuffering, s) })"

subsection \<open>Absolute packets\<close>

text \<open>Where the pad scrolls; in the corner the direction that was chosen first wins.\<close>

definition insideScrollArea :: "u32 \<Rightarrow> u32 \<Rightarrow> 'p alps \<Rightarrow> u16 \<times> 'p alps" where
  "insideScrollArea x y s =
     (let area = (if 900 <s x \<and> 650 <s y then (if a_scrolling s = SCROLL_VERT then SCROLL_VERT else SCROLL_HORIZ)
                    else (if 900 <s x then SCROLL_VERT else 0) OR (if 650 <s y then SCROLL_HORIZ else 0))
      in (area, s\<lparr>a_scrolling := area\<rparr>))"

definition alpsX :: "u8 list \<Rightarrow> u32" where
  "alpsX p = ucast (p ! 1 AND 0x7f) OR push_bit 4 (ucast (p ! 2 AND 0x78))"

definition alpsY :: "u8 list \<Rightarrow> u32" where
  "alpsY p = ucast (p ! 4 AND 0x7f) OR push_bit 3 (ucast (p ! 3 AND 0x70))"

definition alpsButtons :: "u8 list \<Rightarrow> u32" where
  "alpsButtons p =
     (let left = (p ! 2 AND 1) OR (p ! 3 AND 1); right = drop_bit 1 (p ! 3) AND 1; middle = 0;
          (left, right, middle) =
            (if p ! 0 \<noteq> 0xff
             then (left OR (p ! 0 AND 1), right OR (drop_bit 1 (p ! 0) AND 1),
                   middle OR (drop_bit 2 (p ! 0) AND 1) OR (drop_bit 2 (p ! 3) AND 1))
             else (left, right, middle))
      in (if left \<noteq> 0 then 0x01 else 0) OR (if right \<noteq> 0 then 0x02 else 0) OR (if middle \<noteq> 0 then 0x04 else 0))"

text \<open>The conversion of a double to an \<^verbatim>\<open>int\<close>: towards zero, undefined out of range.\<close>

definition double_int :: "real \<Rightarrow> u32 option" where
  "double_int v = (if \<bar>v\<bar> < 2 ^ 31 then Some (word_of_int (if v < 0 then - \<lfloor>- v\<rfloor> else \<lfloor>v\<rfloor>)) else None)"

definition accelerate :: "('p alps_env) \<Rightarrow> u32 \<Rightarrow> real \<Rightarrow> u32 option" where
  "accelerate e d v = map_option uminus (double_int (a_rnd e (real_of_int (sint d) * v)))"

text \<open>At the ends of an edge the pad scrolls the other axis.\<close>

definition angleTap :: "('p alps_env) \<Rightarrow> u32 \<Rightarrow> real \<Rightarrow> u32 option" where
  "angleTap e c v = double_int (a_rnd e ((if 950 \<le>s c then 25 else if c \<le>s 100 then - 25 else 0) / max v 1))"

definition alpsScrollEvent :: "'p alps_env \<Rightarrow> u32 \<Rightarrow> u32 \<Rightarrow> u32 \<Rightarrow> u16 \<Rightarrow> bool \<Rightarrow> u64 \<Rightarrow> 'p alps \<Rightarrow> 'p alps option" where
  "alpsScrollEvent e x y z area wasNotScrolling now_abs s =
     do { let s = (if a_zscrollpos s \<le>s 0 \<or> wasNotScrolling then s\<lparr>a_xscrollpos := x, a_yscrollpos := y\<rparr> else s);
          let v = a_edgeaccellvalue s;
          ydiff \<leftarrow> (if area = SCROLL_VERT then accelerate e (y - a_yscrollpos s) v else Some 0);
          xdiff \<leftarrow> (if area = SCROLL_HORIZ then accelerate e (x - a_xscrollpos s) v else Some 0);
          ydiff \<leftarrow> (if ydiff = 0 \<and> area = SCROLL_HORIZ then angleTap e x v else Some ydiff);
          xdiff \<leftarrow> (if xdiff = 0 \<and> area = SCROLL_VERT then angleTap e y v else Some xdiff);
          Some ((alpsScroll ydiff xdiff now_abs s)\<lparr>a_zscrollpos := z\<rparr>) }"

definition dispatchAbsolutePointerEventWithPacket :: "'p alps_env \<Rightarrow> u8 list \<Rightarrow> 'p alps \<Rightarrow> 'p alps option" where
  "dispatchAbsolutePointerEventWithPacket e p s =
     do { _ \<leftarrow> PS2_Loop.at p 5;
          let x = alpsX p; let y = alpsY p; let z = (ucast (p ! 5) :: u32);
          let (now_abs, s) = alps_uptime e s;
          let buttons = alpsButtons p;
          let wasNotScrolling = (a_scrolling s = SCROLL_NONE);
          let (area, s) = insideScrollArea x y s;
          let willScroll = (tst area SCROLL_VERT \<and> a_edgevscroll s \<or> tst area SCROLL_HORIZ \<and> a_edgehscroll s);
          let s = (if z = 0 \<or> 1 \<le>s a_zpos s \<and> z \<noteq> 0 \<and> \<not> willScroll then s\<lparr>a_xpos := x, a_ypos := y\<rparr> else s);
          if willScroll then alpsScrollEvent e x y z area wasNotScrolling now_abs s
          else
            let s = s\<lparr>a_zpos := if z = 0 then a_zpos s + 1 else 0, a_scrolling := SCROLL_NONE\<rparr>;
                xdiff = x - a_xpos s; ydiff = y - a_ypos s
            in Some (alpsPointer xdiff ydiff buttons now_abs (s\<lparr>a_xpos := x, a_ypos := y\<rparr>)) }"

subsection \<open>Relative packets and the work loop\<close>

definition delta256 :: "bool \<Rightarrow> u8 \<Rightarrow> u32" where
  "delta256 negative b = (if negative then ucast b - 256 else ucast b)"

definition dispatchRelative_alps :: "'p alps_env \<Rightarrow> u8 list \<Rightarrow> 'p alps \<Rightarrow> 'p alps option" where
  "dispatchRelative_alps e p s =
     do { b0 \<leftarrow> PS2_Loop.at p 0; b1 \<leftarrow> PS2_Loop.at p 1; b2 \<leftarrow> PS2_Loop.at p 2;
          let (now_abs, s) = alps_uptime e s;
          Some (alpsPointer (delta256 (tst b0 0x10) b1) (delta256 (tst b0 0x20) b2) (ucast (b0 AND 0x7)) now_abs s) }"

definition handleAlpsPacket :: "'p alps_env \<Rightarrow> u8 list \<Rightarrow> 'p alps \<Rightarrow> 'p alps option" where
  "handleAlpsPacket e p s =
     do { b0 \<leftarrow> PS2_Loop.at p 0;
          if b0 AND 0xf8 = 0xf8 then dispatchAbsolutePointerEventWithPacket e p s else dispatchRelative_alps e p s }"

definition packetReady_alps :: "'p alps_env \<Rightarrow> 'p alps \<Rightarrow> 'p alps option" where
  "packetReady_alps e =
     loop (\<lambda>s. alps_packetLengthMax \<le> ring_count (a_ringBuffer s))
       (\<lambda>s. do { s \<leftarrow> handleAlpsPacket e (ring_front alps_packetLengthMax (a_ringBuffer s)) s;
                 Some (s\<lparr>a_ringBuffer := ring_advanceTail alps_packetLengthMax (a_ringBuffer s)\<rparr>) })"

subsection \<open>Requests\<close>

record ('d, 'p) alps_part =
  aget :: "'d \<Rightarrow> 'p alps"
  aput :: "'p alps \<Rightarrow> 'd \<Rightarrow> 'd"

definition alps_of :: "('d, 'p) alps_part \<Rightarrow> ('h, 'd) sys \<Rightarrow> 'p alps" where
  "alps_of L s = aget L (drv s)"

definition upd_alps :: "('d, 'p) alps_part \<Rightarrow> ('p alps \<Rightarrow> 'p alps) \<Rightarrow> ('h, 'd) sys \<Rightarrow> ('h, 'd) sys" where
  "upd_alps L f s = s\<lparr>drv := aput L (f (alps_of L s)) (drv s)\<rparr>"

definition threeBytes :: "nat \<Rightarrow> PS2Request \<Rightarrow> ALPSStatus" where
  "threeBytes i rq = (inOrOut (commands rq ! i), inOrOut (commands rq ! (i + 1)), inOrOut (commands rq ! (i + 2)))"

definition getStatus :: "('h, 'd) env \<Rightarrow> ('h, 'd) sys \<Rightarrow> (ALPSStatus \<times> ('h, 'd) sys) option" where
  "getStatus e s =
     do { (rq, s) \<leftarrow> submitRequestAndBlock e
            (TPS2Request (replicate 3 (toMouseAck kDP_SetDefaultsAndDisable) @ [toMouseAck kDP_GetMouseInformation]
               @ replicate 3 (cmd kPS2C_ReadDataPort 0))) s;
          Some (threeBytes 4 rq, s) }"

text \<open>One report of \<^verbatim>\<open>getModel\<close>: three times a scaling command, then the status bytes.\<close>

definition modelReport :: "('h, 'd) env \<Rightarrow> u8 \<Rightarrow> ('h, 'd) sys \<Rightarrow> (ALPSStatus \<times> ('h, 'd) sys) option" where
  "modelReport e scaling s =
     do { (rq, s) \<leftarrow> submitRequestAndBlock e
            (TPS2Request ([toMouseAck kDP_SetMouseResolution, toMouseAck 0] @ replicate 3 (toMouseAck scaling)
               @ [toMouseAck kDP_GetMouseInformation] @ replicate 3 (cmd kPS2C_ReadDataPort 0))) s;
          Some (threeBytes 6 rq, s) }"

definition getModel :: "('h, 'd) env \<Rightarrow> ('h, 'd) sys \<Rightarrow> (ALPSStatus \<times> ALPSStatus \<times> ('h, 'd) sys) option" where
  "getModel e s =
     do { (E6, s) \<leftarrow> modelReport e kDP_SetMouseScaling1To1 s;
          (E7, s) \<leftarrow> modelReport e kDP_SetMouseScaling2To1 s;
          Some (E6, E7, s) }"

definition setAbsoluteMode :: "('h, 'd) env \<Rightarrow> ('h, 'd) sys \<Rightarrow> ('h, 'd) sys option" where
  "setAbsoluteMode e s =
     do { (_, s) \<leftarrow> submitRequestAndBlock e
            (TPS2Request (replicate 4 (toMouseAck kDP_SetDefaultsAndDisable) @ [toMouseAck kDP_Enable, toMouseAck 0xF0])) s;
          Some s }"

text \<open>Tapping can only be switched on while it is off: a set status bit turns the command into the other one.\<close>

definition setTapEnable :: "('h, 'd) env \<Rightarrow> bool \<Rightarrow> ('h, 'd) sys \<Rightarrow> ('h, 'd) sys option" where
  "setTapEnable e enable s =
     do { ((b0, _, _), s) \<leftarrow> getStatus e s;
          let enable = (enable \<and> \<not> tst b0 0x04);
          (_, s) \<leftarrow> submitRequestAndBlock e
            (TPS2Request ([toMouseAck kDP_GetMouseInformation] @ replicate 3 (cmd kPS2C_ReadDataPort 0)
               @ replicate 2 (toMouseAck kDP_SetDefaultsAndDisable)
               @ [toMouseAck (if enable then kDP_SetMouseSampleRate else kDP_SetMouseResolution),
                  cmd kPS2C_WriteCommandPort kCP_TransmitToMouse, cmd kPS2C_WriteDataPort (if enable then 0x0A else 0x00),
                  cmd kPS2C_ReadDataPortAndCompare kSC_Acknowledge])) s;
          (_, s) \<leftarrow> getStatus e s;
          Some s }"

definition setTouchPadEnable_alps :: "('h, 'd) env \<Rightarrow> bool \<Rightarrow> ('h, 'd) sys \<Rightarrow> ('h, 'd) sys option" where
  "setTouchPadEnable_alps e enable s =
     do { (_, s) \<leftarrow> submitRequestAndBlock e
            (TPS2Request (replicate 4 (toMouseAck kDP_SetDefaultsAndDisable)
               @ [toMouseAck (if enable then kDP_Enable else kDP_SetDefaultsAndDisable)])) s;
          Some s }"

definition resetPackets_alps :: "'p alps \<Rightarrow> 'p alps" where
  "resetPackets_alps a = a\<lparr>a_ringBuffer := ring_reset (a_ringBuffer a), a_packetByteCount := 0\<rparr>"

definition setDevicePowerState_alps ::
  "('h, 'd) env \<Rightarrow> ('d, 'p) alps_part \<Rightarrow> PS2PowerAction \<Rightarrow> ('h, 'd) sys \<Rightarrow> ('h, 'd) sys option" where
  "setDevicePowerState_alps e L whatToDo s =
     (case whatToDo of
        kPS2C_DisableDevice \<Rightarrow> setTouchPadEnable_alps e False s
      | kPS2C_EnableDevice \<Rightarrow>
          do { s \<leftarrow> setTapEnable e (a_touchPadModeByte (alps_of L s) \<noteq> 0) s;
               s \<leftarrow> setAbsoluteMode e s;
               let s = upd_alps L resetPackets_alps s;
               setTouchPadEnable_alps e True s })"

subsection \<open>Parameters\<close>

definition lowBit :: "osobj option \<Rightarrow> bool \<Rightarrow> bool" where
  "lowBit x old = (case asNumber x of None \<Rightarrow> old | Some n \<Rightarrow> tst n 0x1)"

definition edgeAcceleration :: "(real \<Rightarrow> real) \<Rightarrow> u32 \<Rightarrow> real" where
  "edgeAcceleration rnd accell =
     (let v = rnd (rnd (real (unat accell) / rnd (196608 / 100)) / 75) in if v = 0 then rnd (1 / 100) else v)"

text \<open>The parameters that only change the state.\<close>

definition loadParams_alps :: "(real \<Rightarrow> real) \<Rightarrow> dict \<Rightarrow> 'p alps \<Rightarrow> 'p alps" where
  "loadParams_alps rnd d a =
     (let a = a\<lparr>a_dragging := lowBit (getObject d ''Dragging'') (a_dragging a),
                a_draglock := lowBit (getObject d ''DragLock'') (a_draglock a),
                a_edgehscroll := lowBit (getObject d ''TrackpadHorizScroll'') (a_edgehscroll a),
                a_edgevscroll := lowBit (getObject d ''TrackpadScroll'') (a_edgevscroll a)\<rparr>
      in case asNumber (getObject d ''HIDTrackpadScrollAcceleration'') of
           None \<Rightarrow> a
         | Some n \<Rightarrow> a\<lparr>a_edgeaccell := ucast n, a_edgeaccellvalue := edgeAcceleration rnd (ucast n)\<rparr>)"

definition setParamProperties_alps ::
  "('h, 'd) env \<Rightarrow> ('d, 'p) alps_part \<Rightarrow> (real \<Rightarrow> real) \<Rightarrow> dict \<Rightarrow> ('h, 'd) sys \<Rightarrow> ('h, 'd) sys option" where
  "setParamProperties_alps e L rnd d s =
     do { s \<leftarrow> (case asNumber (getObject d ''Clicking'') of
                 None \<Rightarrow> Some s
               | Some n \<Rightarrow>
                   let mode = (if tst n 0x1 then kTapEnabled else 0)
                   in if a_touchPadModeByte (alps_of L s) \<noteq> mode then
                        do { s \<leftarrow> setTapEnable e (mode \<noteq> 0) (upd_alps L (\<lambda>a. a\<lparr>a_touchPadModeByte := mode\<rparr>) s);
                             setAbsoluteMode e s }
                      else Some s);
          Some (upd_alps L (loadParams_alps rnd d) s) }"

subsection \<open>Probe, start and stop\<close>

definition alpsModels :: "ALPSStatus list" where
  "alpsModels = [(0x33, 0x2, 0x0a), (0x53, 0x2, 0x0a), (0x53, 0x2, 0x14), (0x63, 0x2, 0xa), (0x63, 0x2, 0x14), (0x73, 0x2, 0x0a),
     (0x63, 0x2, 0x28), (0x63, 0x2, 0x3c), (0x63, 0x2, 0x50), (0x63, 0x2, 0x64),
     (0x20, 0x2, 0xe), (0x22, 0x2, 0xa), (0x22, 0x2, 0x14)]"

definition IsItALPS :: "ALPSStatus \<Rightarrow> ALPSStatus \<Rightarrow> bool" where
  "IsItALPS E6 E7 \<longleftrightarrow> E7 \<in> set alpsModels"

definition probe_alps ::
  "('h, 'd) env \<Rightarrow> ('d, 'p) alps_part \<Rightarrow> bool \<Rightarrow> dict option \<Rightarrow> ('h, 'd) sys \<Rightarrow> (bool \<times> ('h, 'd) sys) option" where
  "probe_alps e L superProbe config s =
     (if \<not> superProbe \<or> (case config of None \<Rightarrow> False | Some d \<Rightarrow> asBoolean (getObject d ''DisableDevice'') = Some True)
      then Some (False, s)
      else
        do { (E6, E7, s) \<leftarrow> getModel e s;
             let version = push_bit 8 (ucast (snd (snd E7) AND 0x0f)) OR ucast (fst E7);
             Some (IsItALPS E6 E7, upd_alps L (\<lambda>a. a\<lparr>a_touchPadVersion := version, a_device := False\<rparr>) s) })"

definition start_alps ::
  "('h, 'd) env \<Rightarrow> ('d, 'p) alps_part \<Rightarrow> tp_refs \<Rightarrow> bool \<Rightarrow> ('h, 'd) sys \<Rightarrow> (bool \<times> ('h, 'd) sys) option" where
  "start_alps e L f superStart s =
     (if \<not> superStart then Some (False, s)
      else
        do { let s = upd_alps L (\<lambda>a. a\<lparr>a_device := True\<rparr>) s;
             s \<leftarrow> setTapEnable e True s;
             s \<leftarrow> setAbsoluteMode e s;
             s \<leftarrow> setTouchPadEnable_alps e True s;
             s \<leftarrow> installInterruptAction e kDT_Mouse (tref_this f) (tref_interrupt f) (tref_packet f) s;
             let s = upd_alps L (\<lambda>a. a\<lparr>a_interruptHandlerInstalled := True\<rparr>) s;
             let s = installPowerControlAction kDT_Mouse (tref_this f) (tref_power f) s;
             Some (True, upd_alps L (\<lambda>a. a\<lparr>a_powerControlHandlerInstalled := True\<rparr>) s) })"

definition stop_alps :: "('h, 'd) env \<Rightarrow> ('d, 'p) alps_part \<Rightarrow> ('h, 'd) sys \<Rightarrow> ('h, 'd) sys option" where
  "stop_alps e L s =
     do { s \<leftarrow> setTouchPadEnable_alps e False s;
          s \<leftarrow> (if a_interruptHandlerInstalled (alps_of L s) then uninstallInterruptAction e kDT_Mouse s else Some s);
          let s = upd_alps L (\<lambda>a. a\<lparr>a_interruptHandlerInstalled := False\<rparr>) s;
          s \<leftarrow> (if a_powerControlHandlerInstalled (alps_of L s) then uninstallPowerControlAction kDT_Mouse s else Some s);
          Some (upd_alps L (\<lambda>a. a\<lparr>a_powerControlHandlerInstalled := False, a_device := False\<rparr>) s) }"

end
