(* ===== verification/Alps_Correct.thy ===== *)
theory Alps_Correct
  imports Alps
begin

text \<open>
  The ALPS driver is correct: its interrupt handler refines an abstract decoder, no event leads to undefined behaviour (the work loop
  is an interpretation of \<open>packet_worker\<close>; the sizes of floating point numbers are bounded through every rounding), and away from the
  scrolling edges the pointer moves by what the finger moves.
\<close>

subsection \<open>Definitions\<close>

text \<open>The abstract decoder: the bytes of the packet so far; it emits packets of three or six bytes.\<close>

definition alpsStep :: "u8 \<Rightarrow> u8 list \<Rightarrow> u8 list option \<times> u8 list" where
  "alpsStep data bytes =
     (if bytes = [] \<and> data AND 0xc8 \<noteq> 0x08 \<and> data AND 0xf8 \<noteq> 0xf8 then (None, [])
      else if bytes \<noteq> [] \<and> data = 0x80 then (None, [])
      else let bytes = bytes @ [data]
           in if length bytes = 6 \<or> length bytes = 3 \<and> hd bytes AND 0xc8 = 0x08 then (Some bytes, []) else (None, bytes))"

definition alpsBytes :: "'p alps \<Rightarrow> u8 list" where
  "alpsBytes s = take (unat (a_packetByteCount s)) (ring_pending 6 (a_ringBuffer s))"

definition alpsQueue :: "'p alps \<Rightarrow> u8 list list" where
  "alpsQueue s = ring_packets 6 (a_ringBuffer s)"

definition alps_ring_ok :: "'p alps \<Rightarrow> bool" where
  "alps_ring_ok s \<longleftrightarrow> ring_aligned 6 (a_ringBuffer s) \<and> ring_N (a_ringBuffer s) = 192 \<and> a_packetByteCount s < 6"

definition alpsRefines :: "'p alps \<Rightarrow> u8 list option \<times> u8 list \<Rightarrow> PS2InterruptResult \<times> 'p alps \<Rightarrow> bool" where
  "alpsRefines s a r \<longleftrightarrow> alpsBytes (snd r) = snd a \<and>
     (case fst a of
        None \<Rightarrow> fst r = kPS2IR_packetBuffering \<and> alpsQueue (snd r) = alpsQueue s
      | Some p \<Rightarrow> fst r = kPS2IR_packetReady \<and>
          (if ring_full 6 (a_ringBuffer s) then alpsQueue (snd r) = alpsQueue s
           else \<exists>packet. alpsQueue (snd r) = alpsQueue s @ [packet] \<and> length packet = 6 \<and> take (length p) packet = p))"

text \<open>What rounding to nearest does to the size of a number.\<close>

definition rounds :: "(real \<Rightarrow> real) \<Rightarrow> bool" where
  "rounds rnd \<longleftrightarrow> (\<forall>x. \<bar>rnd x\<bar> \<le> 2 * \<bar>x\<bar>) \<and> (\<forall>x. 1 \<le> \<bar>x\<bar> \<longrightarrow> \<bar>x\<bar> \<le> 2 * \<bar>rnd x\<bar>)"

definition alps_good :: "'p alps \<Rightarrow> bool" where
  "alps_good s \<longleftrightarrow> a_xscrollpos s < 0x800 \<and> a_yscrollpos s < 0x800 \<and> \<bar>a_edgeaccellvalue s\<bar> \<le> 240000"

definition alps_ok :: "'p alps \<Rightarrow> bool" where
  "alps_ok s \<longleftrightarrow> alps_good s \<and> alps_ring_ok s"

definition put_aring :: "u8 ring \<Rightarrow> 'p alps \<Rightarrow> 'p alps" where
  "put_aring r s = s\<lparr>a_ringBuffer := r\<rparr>"

definition aok :: "'p alps \<Rightarrow> 'p alps \<Rightarrow> bool" where
  "aok s s' \<longleftrightarrow> alps_good s' \<and> a_ringBuffer s' = a_ringBuffer s \<and> a_packetByteCount s' = a_packetByteCount s"

text \<open>What the driver receives while it runs.\<close>

datatype alps_event = AlpsByte u8 | AlpsWorkLoop | AlpsParams dict | AlpsWake

fun alps_apply :: "'p alps_env \<Rightarrow> alps_event \<Rightarrow> 'p alps \<Rightarrow> 'p alps option" where
  "alps_apply e (AlpsByte b) s = map_option snd (interruptOccurred_alps b s)"
| "alps_apply e AlpsWorkLoop s = packetReady_alps e s"
| "alps_apply e (AlpsParams d) s = Some (loadParams_alps (a_rnd e) d s)"
| "alps_apply e AlpsWake s = Some (resetPackets_alps s)"





lemma pokeAlps_Some:
  "ring_aligned 6 (a_ringBuffer s) \<Longrightarrow> i < 6 \<Longrightarrow> pokeAlps i v s = Some (s\<lparr>a_ringBuffer := ring_head_write i v (a_ringBuffer s)\<rparr>)"
  using aligned_fits [of 6 "a_ringBuffer s"] by (simp add: pokeAlps_def)

text \<open>
  The interrupt handler refines the decoder: a byte that cannot start a packet is dropped, 0x80 in a packet starts over, and three
  or six bytes, by the first byte, make a packet that is queued for the work loop while there is room.
\<close>

lemma alps_step:
  assumes ok: "alps_ring_ok s"
  shows "\<exists>r. interruptOccurred_alps data s = Some r \<and> alps_ring_ok (snd r) \<and> alpsRefines s (alpsStep data (alpsBytes s)) r"
proof -
  let ?r = "a_ringBuffer s" and ?n = "unat (a_packetByteCount s)"
  have al: "ring_aligned 6 ?r" "ring_N ?r = 192" and n: "?n < 6"
    using ok by (auto simp: alps_ring_ok_def word_less_nat_alt)
  note lp = length_ring_pending [OF al(1)]
  have c: "a_packetByteCount s = 0 \<longleftrightarrow> ?n = 0" "a_packetByteCount s \<ge> 1 \<longleftrightarrow> ?n \<noteq> 0"
    by (auto simp: word_unat_eq_iff word_le_nat_alt)
  have z: "alpsBytes s = [] \<longleftrightarrow> ?n = 0" "length (alpsBytes s) = ?n" using lp n by (auto simp: alpsBytes_def)
  consider (lost) "?n = 0 \<and> data AND 0xc8 \<noteq> 0x08 \<and> data AND 0xf8 \<noteq> 0xf8"
    | (again) "\<not> (?n = 0 \<and> data AND 0xc8 \<noteq> 0x08 \<and> data AND 0xf8 \<noteq> 0xf8)" "?n \<noteq> 0 \<and> data = 0x80"
    | (byte) "\<not> (?n = 0 \<and> data AND 0xc8 \<noteq> 0x08 \<and> data AND 0xf8 \<noteq> 0xf8)" "\<not> (?n \<noteq> 0 \<and> data = 0x80)"
    by blast
  then show ?thesis
  proof cases
    case lost
    then have "interruptOccurred_alps data s = Some (kPS2IR_packetBuffering, s)" "alpsStep data (alpsBytes s) = (None, [])" "alpsBytes s = []"
      using c z by (simp_all add: interruptOccurred_alps_def alpsStep_def)
    then show ?thesis using ok by (simp add: alpsRefines_def)
  next
    case again
    then have "interruptOccurred_alps data s = Some (kPS2IR_packetBuffering, s\<lparr>a_packetByteCount := 0\<rparr>)" "alpsStep data (alpsBytes s) = (None, [])"
      using c z by (auto simp: interruptOccurred_alps_def alpsStep_def)
    then show ?thesis using al by (simp add: alpsRefines_def alps_ring_ok_def alpsBytes_def alpsQueue_def)
  next
    case byte
    define r' where "r' = ring_head_write ?n data ?r"
    note r1 = collect_byte [OF al(1) n, of data, folded r'_def]
    have suc: "unat (a_packetByteCount s + 1) = Suc ?n" using n by (intro unat_Suc_small) linarith
    have e: "a_packetByteCount s = 5 \<longleftrightarrow> ?n = 5" "a_packetByteCount s = 2 \<longleftrightarrow> ?n = 2" by (simp_all add: word_unat_eq_iff)
    let ?b = "take ?n (ring_pending 6 ?r) @ [data]"
    let ?full = "Suc ?n = 6 \<or> Suc ?n = 3 \<and> hd ?b AND 0xc8 = 0x08"
    have hd: "hd (ring_pending 6 r') = hd ?b" using r1(4) length_ring_pending [OF r1(1)] by (metis hd_take zero_less_Suc)
    have t: "\<not> (a_packetByteCount s = 0 \<and> data AND 0xc8 \<noteq> 0x08 \<and> data AND 0xf8 \<noteq> 0xf8)" "\<not> (a_packetByteCount s \<ge> 1 \<and> data = 0x80)"
      using byte unfolding c by simp_all
    have I: "interruptOccurred_alps data s = Some (if ?full
        then (kPS2IR_packetReady, s\<lparr>a_ringBuffer := ring_advanceHead 6 r', a_packetByteCount := 0\<rparr>)
        else (kPS2IR_packetBuffering, s\<lparr>a_ringBuffer := r', a_packetByteCount := a_packetByteCount s + 1\<rparr>))"
      unfolding interruptOccurred_alps_def if_not_P [OF t(1)] if_not_P [OF t(2)] pokeAlps_Some [OF al(1) n] r'_def [symmetric]
      by (simp add: at_head [OF r1(1)] e hd Let_def cong: conj_cong)
    have A: "alpsStep data (alpsBytes s) = (if ?full then (Some ?b, []) else (None, ?b))"
      using byte z by (auto simp: alpsStep_def alpsBytes_def Let_def lp)
    have lb: "length ?b = Suc ?n" using n lp by simp
    have nr: "ring_N r' = 192" using al(2) by (simp add: r'_def)
    note lp1 = length_ring_pending [OF r1(1)]
    have al1: "ring_aligned 6 (ring_advanceHead 6 r')" using r1(1) by (rule byte_ring.inv_commit)
    note pc = byte_ring.packets_commit [OF r1(1)]
    show ?thesis
    proof (cases ?full)
      case True
      with I A have i: "interruptOccurred_alps data s = Some (kPS2IR_packetReady, s\<lparr>a_ringBuffer := ring_advanceHead 6 r', a_packetByteCount := 0\<rparr>)"
        "alpsStep data (alpsBytes s) = (Some ?b, [])" by (simp_all only: if_True)
      show ?thesis unfolding i
        by (rule exI [of _ "(kPS2IR_packetReady, s\<lparr>a_ringBuffer := ring_advanceHead 6 r', a_packetByteCount := 0\<rparr>)"])
          (use nr al1 pc r1(2,3,4) lp1 lb in \<open>auto simp: alps_ring_ok_def alpsRefines_def alpsBytes_def alpsQueue_def\<close>)
    next
      case False
      with I A have i: "interruptOccurred_alps data s = Some (kPS2IR_packetBuffering, s\<lparr>a_ringBuffer := r', a_packetByteCount := a_packetByteCount s + 1\<rparr>)"
        "alpsStep data (alpsBytes s) = (None, ?b)" by (simp_all only: if_False)
      have "Suc ?n < 6" using False n by auto
      then show ?thesis unfolding i
        by (intro exI [of _ "(kPS2IR_packetBuffering, s\<lparr>a_ringBuffer := r', a_packetByteCount := a_packetByteCount s + 1\<rparr>)"])
          (use nr r1(1,2,4) suc in \<open>simp add: alps_ring_ok_def alpsRefines_def alpsBytes_def alpsQueue_def word_less_nat_alt\<close>)
    qed
  qed
qed

lemma acceleration_bound:
  assumes "rounds rnd"
  shows "\<bar>edgeAcceleration rnd a\<bar> \<le> 240000"
proof -
  note up = assms [unfolded rounds_def, THEN conjunct1, rule_format]
  let ?c = "rnd (196608 / 100)"
  let ?q = "real (unat a) / ?c"
  have c: "983 \<le> \<bar>?c\<bar>" using assms [unfolded rounds_def, THEN conjunct2, rule_format, of "196608 / 100"] by simp
  have "unat a < 2 ^ 32" using unsigned_less [of a] by simp
  then have "real (unat a) < 2 ^ 32" by (metis of_nat_less_iff of_nat_numeral of_nat_power)
  then have n: "\<bar>real (unat a)\<bar> \<le> 2 ^ 32" unfolding abs_of_nat by linarith
  have "\<bar>?q\<bar> \<le> 2 ^ 32 / 983" unfolding abs_divide by (rule frac_le [OF _ n _ c]) simp_all
  then have "\<bar>rnd ?q\<bar> \<le> 2 * (2 ^ 32 / 983)" using up [of ?q] by linarith
  then have "\<bar>rnd ?q / 75\<bar> \<le> 2 * (2 ^ 32 / 983) / 75" by simp
  then have "\<bar>rnd (rnd ?q / 75)\<bar> \<le> 240000" using up [of "rnd ?q / 75"] by simp
  moreover have "\<bar>rnd (1 / 100)\<bar> \<le> 240000" using up [of "1 / 100"] by simp
  ultimately show ?thesis by (simp add: edgeAcceleration_def Let_def)
qed

lemma double_int_ok: "\<bar>v\<bar> \<le> 10 ^ 9 \<Longrightarrow> \<exists>n. double_int v = Some n"
  by (simp add: double_int_def)

lemma small_diff:
  fixes a b :: u32
  assumes "a < 0x800" "b < 0x800"
  shows "\<bar>sint (a - b)\<bar> \<le> 2047"
proof -
  have "unat a \<le> 2047" "unat b \<le> 2047" using assms by (simp_all add: word_less_nat_alt)
  then have b: "\<bar>int (unat a) - int (unat b)\<bar> \<le> 2047" by arith
  have "a - b = word_of_int (int (unat a) - int (unat b))" by simp
  then have "sint (a - b) = int (unat a) - int (unat b)" using b by (simp only:) (rule sint_word_of_int_small, simp_all)
  then show ?thesis using b by simp
qed

lemma accelerate_ok:
  assumes "rounds (a_rnd e)" "a < 0x800" "b < 0x800" "\<bar>v\<bar> \<le> 240000"
  shows "\<exists>n. accelerate e (a - b) v = Some n"
proof -
  have d: "\<bar>real_of_int (sint (a - b))\<bar> \<le> 2047"
    using small_diff [OF assms(2,3)] by (metis of_int_abs of_int_le_iff of_int_numeral)
  have "\<bar>real_of_int (sint (a - b)) * v\<bar> \<le> 2047 * 240000"
    unfolding abs_mult using d assms(4) by (intro mult_mono) simp_all
  then have "\<bar>a_rnd e (real_of_int (sint (a - b)) * v)\<bar> \<le> 10 ^ 9"
    using assms(1) [unfolded rounds_def, THEN conjunct1, rule_format, of "real_of_int (sint (a - b)) * v"] by simp
  then show ?thesis using double_int_ok by (auto simp: accelerate_def)
qed

lemma angleTap_ok: "rounds (a_rnd e) \<Longrightarrow> \<exists>n. angleTap e c v = Some n"
proof -
  assume r: "rounds (a_rnd e)"
  let ?q = "(if 950 \<le>s c then 25 else if c \<le>s 100 then - 25 else 0) / max v 1"
  have "\<bar>?q\<bar> \<le> 25 / 1" unfolding abs_divide by (intro frac_le) auto
  then have "\<bar>a_rnd e ?q\<bar> \<le> 10 ^ 9" using r [unfolded rounds_def, THEN conjunct1, rule_format, of ?q] by simp
  then show ?thesis using double_int_ok by (simp add: angleTap_def)
qed

lemma w32_bits: "(a :: u32) = b \<longleftrightarrow> (\<forall>n \<in> set [0..<32]. bit a n = bit b n)"
  by (auto simp: bit_eq_iff dest: bit_imp_le_length)

lemma take_bit_less: "take_bit 11 x = x \<Longrightarrow> x < 0x800" for x :: u32
  using word_mod_less_divisor [of "0x800" x] by (simp add: take_bit_eq_mod)

lemma alps_position: "alpsX p < 0x800" "alpsY p < 0x800"
proof -
  have "take_bit 11 (alpsX p) = alpsX p" "take_bit 11 (alpsY p) = alpsY p"
    unfolding w32_bits by (simp_all add: alpsX_def alpsY_def upt_rec bit_simps)
  then show "alpsX p < 0x800" "alpsY p < 0x800" by (auto intro: take_bit_less)
qed

lemma alps_uptime_good [simp]: "alps_good (snd (alps_uptime e s)) = alps_good s" "a_ringBuffer (snd (alps_uptime e s)) = a_ringBuffer s"
  "a_packetByteCount (snd (alps_uptime e s)) = a_packetByteCount s"
  by (simp_all add: alps_uptime_def case_prod_beta alps_good_def Let_def)

lemma alpsScrollEvent_ok:
  assumes "rounds (a_rnd e)" "aok r s" "x < 0x800" "y < 0x800"
  shows "\<exists>s'. alpsScrollEvent e x y z area w t s = Some s' \<and> aok r s'"
proof -
  define s0 where "s0 = (if a_zscrollpos s \<le>s 0 \<or> w then s\<lparr>a_xscrollpos := x, a_yscrollpos := y\<rparr> else s)"
  have s: "aok r s0" using assms(2-4) by (auto simp: s0_def aok_def alps_good_def)
  then have b: "a_xscrollpos s0 < 0x800" "a_yscrollpos s0 < 0x800" "\<bar>a_edgeaccellvalue s0\<bar> \<le> 240000" by (simp_all add: aok_def alps_good_def)
  obtain yd where yd: "(if area = SCROLL_VERT then accelerate e (y - a_yscrollpos s0) (a_edgeaccellvalue s0) else Some 0) = Some yd"
    using accelerate_ok [OF assms(1,4) b(2,3)] by (metis (full_types))
  obtain xd where xd: "(if area = SCROLL_HORIZ then accelerate e (x - a_xscrollpos s0) (a_edgeaccellvalue s0) else Some 0) = Some xd"
    using accelerate_ok [OF assms(1,3) b(1,3)] by (metis (full_types))
  obtain yd' where yd': "(if yd = 0 \<and> area = SCROLL_HORIZ then angleTap e x (a_edgeaccellvalue s0) else Some yd) = Some yd'"
    using angleTap_ok [OF assms(1)] by (metis (full_types))
  obtain xd' where xd': "(if xd = 0 \<and> area = SCROLL_VERT then angleTap e y (a_edgeaccellvalue s0) else Some xd) = Some xd'"
    using angleTap_ok [OF assms(1)] by (metis (full_types))
  have "alpsScrollEvent e x y z area w t s = Some ((alpsScroll yd' xd' t s0)\<lparr>a_zscrollpos := z\<rparr>)"
    unfolding alpsScrollEvent_def Let_def s0_def [symmetric] yd bind.bind_lunit xd yd' xd' ..
  moreover have "aok r ((alpsScroll yd' xd' t s0)\<lparr>a_zscrollpos := z\<rparr>)" using s by (simp add: aok_def alps_good_def alpsScroll_def)
  ultimately show ?thesis by blast
qed

lemma aok_area: "aok r (snd (insideScrollArea x y s)) = aok r s"
  by (simp add: insideScrollArea_def aok_def alps_good_def Let_def)

lemma absolute_ok:
  assumes "rounds (a_rnd e)" "aok r s" "length p = 6"
  shows "\<exists>s'. dispatchAbsolutePointerEventWithPacket e p s = Some s' \<and> aok r s'"
proof -
  obtain t s1 where 1: "alps_uptime e s = (t, s1)" by fastforce
  then have s1: "aok r s1" using assms(2) alps_uptime_good [of e s] by (simp add: aok_def)
  obtain area s2 where 2: "insideScrollArea (alpsX p) (alpsY p) s1 = (area, s2)" by fastforce
  then have s2: "aok r s2" using aok_area [of r "alpsX p" "alpsY p" s1] s1 by simp
  let ?z = "ucast (p ! 5) :: u32"
  let ?w = "tst area SCROLL_VERT \<and> a_edgevscroll s2 \<or> tst area SCROLL_HORIZ \<and> a_edgehscroll s2"
  define s3 where "s3 = (if ?z = 0 \<or> 1 \<le>s a_zpos s2 \<and> ?z \<noteq> 0 \<and> \<not> ?w then s2\<lparr>a_xpos := alpsX p, a_ypos := alpsY p\<rparr> else s2)"
  have s3: "aok r s3" using s2 by (auto simp: s3_def aok_def alps_good_def)
  obtain s4 where 4: "alpsScrollEvent e (alpsX p) (alpsY p) ?z area (a_scrolling s1 = SCROLL_NONE) t s3 = Some s4" "aok r s4"
    using alpsScrollEvent_ok [OF assms(1) s3 alps_position] by blast
  have at5: "PS2_Loop.at p 5 = Some (p ! 5)" using assms(3) by (simp add: at_def)
  show ?thesis
  proof (cases ?w)
    case True
    then show ?thesis unfolding dispatchAbsolutePointerEventWithPacket_def Let_def 1 2 prod.case at5 bind.bind_lunit if_P [OF True] s3_def [symmetric] using 4 by blast
  next
    case False
    show ?thesis unfolding dispatchAbsolutePointerEventWithPacket_def Let_def 1 2 prod.case at5 bind.bind_lunit if_not_P [OF False] s3_def [symmetric]
      using s3 by (simp add: aok_def alps_good_def alpsPointer_def)
  qed
qed

lemma handleAlps_ok: "rounds (a_rnd e) \<Longrightarrow> aok r s \<Longrightarrow> length p = 6 \<Longrightarrow> \<exists>s'. handleAlpsPacket e p s = Some s' \<and> aok r s'"
  using absolute_ok [of e r s p]
  by (auto simp: handleAlpsPacket_def dispatchRelative_alps_def at_def alps_uptime_def alpsPointer_def aok_def alps_good_def case_prod_beta Let_def)

interpretation alps_worker: packet_worker 6 "\<lambda>r. ring_aligned 6 r \<and> ring_N r = 192" "ring_packets 6" "ring_pending 6" "ring_full 6"
  "\<lambda>r. 6 \<le> ring_count r" "ring_front 6" "ring_advanceTail 6" ring_head_write "ring_advanceHead 6"
  a_ringBuffer put_aring "handleAlpsPacket e" "\<lambda>s. alps_good s \<and> a_packetByteCount s < 6 \<and> rounds (a_rnd e)" for e :: "'p alps_env"
proof unfold_locales
  fix s :: "'p alps" and p :: "u8 list"
  assume "alps_good s \<and> a_packetByteCount s < 6 \<and> rounds (a_rnd e)" "length p = 6"
  then show "\<exists>s'. handleAlpsPacket e p s = Some s' \<and> (alps_good s' \<and> a_packetByteCount s' < 6 \<and> rounds (a_rnd e)) \<and> a_ringBuffer s' = a_ringBuffer s"
    using handleAlps_ok [of e s s p] by (auto simp: aok_def)
qed (auto simp: put_aring_def alps_good_def intro: ring_packets_lengths)

lemma packetReady_alps_ok:
  "alps_ok s \<Longrightarrow> rounds (a_rnd e) \<Longrightarrow> \<exists>s'. packetReady_alps e s = Some s' \<and> alps_ok s' \<and> alpsQueue s' = []"
  using alps_worker.drain_good [of s e] by (auto simp: alps_ok_def alps_ring_ok_def alpsQueue_def packetReady_alps_def put_aring_def)

lemma interrupt_alps_good: "interruptOccurred_alps b s = Some (r, s') \<Longrightarrow> alps_good s' = alps_good s"
  by (auto simp: interruptOccurred_alps_def pokeAlps_def alps_good_def Let_def bind_eq_Some_conv split: if_splits)

lemma loadParams_alps_ok: "rounds rnd \<Longrightarrow> alps_ok s \<Longrightarrow> alps_ok (loadParams_alps rnd d s)"
  by (auto simp: loadParams_alps_def alps_ok_def alps_good_def alps_ring_ok_def Let_def acceleration_bound split: option.split)

lemma alps_apply_ok: "rounds (a_rnd e) \<Longrightarrow> alps_ok s \<Longrightarrow> \<exists>s'. alps_apply e ev s = Some s' \<and> alps_ok s'"
proof (cases ev)
  case (AlpsByte b)
  assume s: "alps_ok s"
  obtain r s' where 1: "interruptOccurred_alps b s = Some (r, s')" "alps_ring_ok s'"
    using alps_step [of s b] s by (auto simp: alps_ok_def)
  then have "alps_ok s'" using interrupt_alps_good [OF 1(1)] s by (simp add: alps_ok_def)
  then show ?thesis using AlpsByte 1(1) by simp
next
  case AlpsWake
  assume "alps_ok s"
  then show ?thesis using AlpsWake
    by (auto simp: alps_ok_def alps_good_def alps_ring_ok_def resetPackets_alps_def ring_aligned_def ring_ok_def ring_reset_def ring_N_def)
qed (use packetReady_alps_ok loadParams_alps_ok in \<open>fastforce\<close>)+

lemma init_alps_ok: "alps_ok (init_alps p)"
  by (simp add: alps_ok_def alps_good_def alps_ring_ok_def init_alps_def ring_aligned_def ring_ok_def ring_init_def ring_reset_def ring_N_def)

text \<open>
  C35: From its initial state and through any sequence of bytes, work loop runs, changes of parameters and wake ups, the ALPS driver
  never writes outside its ring buffer, never converts a number to an integer that does not fit, and the work loop ends. Of the
  rounding of floating point operations only a factor of two is used.
\<close>

theorem alps_safe:
  assumes "rounds (a_rnd e)"
  shows "\<exists>s. foldM (alps_apply e) evs (init_alps p) = Some s \<and> alps_ok s"
proof (rule foldM_invariant)
  show "alps_ok (init_alps p)" by (rule init_alps_ok)
  show "\<exists>s'. alps_apply e ev s = Some s' \<and> alps_ok s'" if "ev \<in> set evs" "alps_ok s" for ev s
    using alps_apply_ok [OF assms that(2)] .
qed

theorem alps_safe_witness:
  "\<exists>s. foldM (alps_apply \<lparr>a_clock_get_uptime = \<lambda>p. (0, p), a_rnd = \<lambda>x. x\<rparr>)
     [AlpsParams [(''TrackpadScroll'', OSNumber 1), (''HIDTrackpadScrollAcceleration'', OSNumber 0xffffffff)], AlpsByte 0xf8, AlpsByte 0x7f,
      AlpsByte 0x78, AlpsByte 0x40, AlpsByte 0x10, AlpsByte 0x20, AlpsWorkLoop, AlpsByte 0x08, AlpsWake] (init_alps ()) = Some s \<and> alps_ok s"
  by (rule alps_safe) (simp add: rounds_def)







end
