(* ===== verification/Sentelic.thy ===== *)
theory Sentelic
  imports Tpad_Control Mouse_Input
begin

text \<open>
  The driver of Sentelic touchpads (class \<^verbatim>\<open>ApplePS2SentelicFSP\<close>, VoodooPS2SentelicFSP.cpp). Fields keep the names of the class with
  \<open>f_\<close> in front; what the class does not initialise is zero, as the kernel allocates objects. An \<^verbatim>\<open>int\<close> that holds a register value
  is a word of 32 bits, so that a failed read is -1 as in the code.
\<close>

definition kModeByteValueGesturesEnabled :: u8 where
  "kModeByteValueGesturesEnabled = 0x00"

definition kModeByteValueGesturesDisabled :: u8 where
  "kModeByteValueGesturesDisabled = 0x04"

definition fsp_packetLengthMax :: nat where
  "fsp_packetLengthMax = 4"

definition FSP_REG_DEVICE_ID :: u32 where
  "FSP_REG_DEVICE_ID = 0x00"

definition FSP_REG_VERSION :: u32 where
  "FSP_REG_VERSION = 0x01"

definition FSP_REG_REVISION :: u32 where
  "FSP_REG_REVISION = 0x04"

definition FSP_REG_OPC_QDOWN :: u32 where
  "FSP_REG_OPC_QDOWN = 0x31"

definition FSP_REG_SYSCTL1 :: u32 where
  "FSP_REG_SYSCTL1 = 0x10"

definition FSP_DEVICE_MAGIC :: u32 where
  "FSP_DEVICE_MAGIC = 0x01"

definition FSP_BIT_EN_REG_CLK :: u32 where
  "FSP_BIT_EN_REG_CLK = 0x20"

definition FSP_BIT_EN_OPC_TAG :: u32 where
  "FSP_BIT_EN_OPC_TAG = 0x80"

definition FSP_PKT_TYPE_NORMAL_OPC :: u8 where
  "FSP_PKT_TYPE_NORMAL_OPC = 0x03"

lemmas fsp_constants [simp] = kModeByteValueGesturesEnabled_def kModeByteValueGesturesDisabled_def fsp_packetLengthMax_def
  FSP_REG_DEVICE_ID_def FSP_REG_VERSION_def FSP_REG_REVISION_def FSP_REG_OPC_QDOWN_def FSP_REG_SYSCTL1_def FSP_DEVICE_MAGIC_def
  FSP_BIT_EN_REG_CLK_def FSP_BIT_EN_OPC_TAG_def FSP_PKT_TYPE_NORMAL_OPC_def

record 'p sentelic =
  f_device :: bool
  f_interruptHandlerInstalled :: bool
  f_powerControlHandlerInstalled :: bool
  f_ringBuffer :: "u8 ring"
  f_packetByteCount :: u32
  f_packetSize :: u8
  f_resolution :: u32
  f_touchPadVersion :: u16
  f_touchPadModeByte :: u8
  f_out :: "tp_out list"
  f_plat :: 'p

definition init_fsp :: "'p \<Rightarrow> 'p sentelic" where
  "init_fsp p = \<lparr>f_device = False, f_interruptHandlerInstalled = False, f_powerControlHandlerInstalled = False,
     f_ringBuffer = ring_init (fsp_packetLengthMax * 32), f_packetByteCount = 0, f_packetSize = 0, f_resolution = push_bit 16 100,
     f_touchPadVersion = 0, f_touchPadModeByte = kModeByteValueGesturesDisabled, f_out = [], f_plat = p\<rparr>"

subsection \<open>Registers of the device\<close>

text \<open>
  A byte is sent as a sample rate, so values that the device would take for something else are mangled: the nibbles of the standard
  sample rates are swapped and some commands are complemented. The first byte of the result tells the device which.
\<close>

definition fspSwapped :: "u32 list" where
  "fspSwapped = [10, 20, 40, 60, 80, 100, 200]"

definition fspInverted :: "u32 list" where
  "fspInverted = [0xe9, 0xee, 0xf2, 0xff]"

definition fspMangle :: "u8 \<times> u8 \<times> u8 \<Rightarrow> u32 \<Rightarrow> u8 list" where
  "fspMangle sel reg =
     (case sel of (plain, swapped, inverted) \<Rightarrow>
        if reg \<in> set fspSwapped then [swapped, ucast (drop_bit 4 reg OR push_bit 4 reg)]
        else if reg \<in> set fspInverted then [inverted, ucast (NOT reg)]
        else [plain, ucast reg])"

definition fsp_ps2_command :: "('h, 'd) env \<Rightarrow> u8 \<Rightarrow> ('h, 'd) sys \<Rightarrow> (u32 \<times> ('h, 'd) sys) option" where
  "fsp_ps2_command e c s =
     do { (rq, s) \<leftarrow> submitRequestAndBlock e
            (TPS2Request [cmd kPS2C_WriteCommandPort kCP_TransmitToMouse, cmd kPS2C_WriteDataPort c, cmd kPS2C_ReadDataPort 0]) s;
          Some (if commandsCount rq = 3 then ucast (inOrOut (commands rq ! 2)) else - 1, s) }"

definition fspSend :: "('h, 'd) env \<Rightarrow> u8 list \<Rightarrow> ('h, 'd) sys \<Rightarrow> ('h, 'd) sys option" where
  "fspSend e = foldM (\<lambda>c s. map_option snd (fsp_ps2_command e c s))"

definition fspReadBytes :: "u32 \<Rightarrow> u8 list" where
  "fspReadBytes reg = [0xf3, 0x66, 0x88, 0xf3] @ fspMangle (0x66, 0xcc, 0x68) reg"

definition fspWriteBytes :: "u32 \<Rightarrow> u32 \<Rightarrow> u8 list" where
  "fspWriteBytes reg val = 0xf3 # fspMangle (0x55, 0x77, 0x74) reg @ 0xf3 # fspMangle (0x33, 0x44, 0x47) val"

definition fsp_reg_read :: "('h, 'd) env \<Rightarrow> u32 \<Rightarrow> ('h, 'd) sys \<Rightarrow> (u32 \<times> ('h, 'd) sys) option" where
  "fsp_reg_read e reg s =
     do { s \<leftarrow> fspSend e (fspReadBytes reg) s;
          (rq, s) \<leftarrow> submitRequestAndBlock e (TPS2Request (toMouseAck kDP_GetMouseInformation # replicate 3 (cmd kPS2C_ReadDataPort 0))) s;
          Some (if commandsCount rq = 4 then ucast (inOrOut (commands rq ! 3)) else - 1, s) }"

definition fsp_reg_write :: "('h, 'd) env \<Rightarrow> u32 \<Rightarrow> u32 \<Rightarrow> ('h, 'd) sys \<Rightarrow> ('h, 'd) sys option" where
  "fsp_reg_write e reg val = fspSend e (fspWriteBytes reg val)"

definition fsp_write_enable :: "('h, 'd) env \<Rightarrow> bool \<Rightarrow> ('h, 'd) sys \<Rightarrow> ('h, 'd) sys option" where
  "fsp_write_enable e enable s =
     do { (wen, s) \<leftarrow> fsp_reg_read e FSP_REG_SYSCTL1 s;
          fsp_reg_write e FSP_REG_SYSCTL1 (if enable then wen OR FSP_BIT_EN_REG_CLK else wen AND NOT FSP_BIT_EN_REG_CLK) s }"

definition fsp_opctag_enable :: "('h, 'd) env \<Rightarrow> bool \<Rightarrow> ('h, 'd) sys \<Rightarrow> ('h, 'd) sys option" where
  "fsp_opctag_enable e enable s =
     do { s \<leftarrow> fsp_write_enable e True s;
          (opc, s) \<leftarrow> fsp_reg_read e FSP_REG_OPC_QDOWN s;
          s \<leftarrow> fsp_reg_write e FSP_REG_OPC_QDOWN (if enable then opc OR FSP_BIT_EN_OPC_TAG else opc AND NOT FSP_BIT_EN_OPC_TAG) s;
          fsp_write_enable e False s }"

definition fsp_intellimouse_mode :: "('h, 'd) env \<Rightarrow> ('h, 'd) sys \<Rightarrow> (u8 \<times> ('h, 'd) sys) option" where
  "fsp_intellimouse_mode e s =
     do { (rq, s) \<leftarrow> submitRequestAndBlock e
            (TPS2Request (map toMouseAck [kDP_SetMouseSampleRate, 200, kDP_SetMouseSampleRate, 200, kDP_SetMouseSampleRate, 80, kDP_GetId]
               @ [cmd kPS2C_ReadDataPort 0])) s;
          Some (inOrOut (commands rq ! 7), s) }"

subsection \<open>Interrupt time and the work loop\<close>

definition pokeFsp :: "nat \<Rightarrow> u8 \<Rightarrow> 'p sentelic \<Rightarrow> 'p sentelic option" where
  "pokeFsp i v s =
     (if m_head (f_ringBuffer s) + i < ring_N (f_ringBuffer s)
      then Some (s\<lparr>f_ringBuffer := ring_head_write i v (f_ringBuffer s)\<rparr>) else None)"

definition interruptOccurred_fsp :: "u8 \<Rightarrow> 'p sentelic \<Rightarrow> (PS2InterruptResult \<times> 'p sentelic) option" where
  "interruptOccurred_fsp data s =
     (if f_packetByteCount s = 0 \<and> (data = kSC_Acknowledge \<or> \<not> tst data 0x08) then Some (kPS2IR_packetBuffering, s)
      else
        do { s \<leftarrow> pokeFsp (unat (f_packetByteCount s)) data s;
             let s = s\<lparr>f_packetByteCount := f_packetByteCount s + 1\<rparr>;
             if f_packetByteCount s = ucast (f_packetSize s) then
               Some (kPS2IR_packetReady,
                 s\<lparr>f_ringBuffer := ring_advanceHead fsp_packetLengthMax (f_ringBuffer s), f_packetByteCount := 0\<rparr>)
             else Some (kPS2IR_packetBuffering, s) })"

definition fspButtons :: "u8 \<Rightarrow> u8 \<Rightarrow> u32" where
  "fspButtons mode b0 =
     (if mode = kModeByteValueGesturesEnabled \<or> drop_bit 6 b0 \<noteq> FSP_PKT_TYPE_NORMAL_OPC then ucast (b0 AND 0x7) else 0)"

definition fspWheel :: "u8 \<Rightarrow> u32" where
  "fspWheel b3 = ucast (b3 AND 8) - ucast (b3 AND 7)"

definition dispatchRelative_fsp :: "('p \<Rightarrow> u64 \<times> 'p) \<Rightarrow> u8 list \<Rightarrow> u8 \<Rightarrow> 'p sentelic \<Rightarrow> 'p sentelic option" where
  "dispatchRelative_fsp clock_get_uptime packet packetSize s =
     do { b0 \<leftarrow> at packet 0; b1 \<leftarrow> at packet 1; b2 \<leftarrow> at packet 2;
          let (now_abs, p) = clock_get_uptime (f_plat s);
          let s = s\<lparr>f_plat := p,
                    f_out := f_out s @ [TpPointer (delta9 (tst b0 0x10) b1) (- delta9 (tst b0 0x20) b2)
                                          (fspButtons (f_touchPadModeByte s) b0) now_abs]\<rparr>;
          if packetSize = 4 then
            do { b3 \<leftarrow> at packet 3; Some (s\<lparr>f_out := f_out s @ [TpScroll (ucast (fspWheel b3)) 0 0 now_abs]\<rparr>) }
          else Some s }"

definition packetReady_fsp :: "('p \<Rightarrow> u64 \<times> 'p) \<Rightarrow> 'p sentelic \<Rightarrow> 'p sentelic option" where
  "packetReady_fsp clock_get_uptime =
     loop (\<lambda>s. fsp_packetLengthMax \<le> ring_count (f_ringBuffer s))
       (\<lambda>s. do { s \<leftarrow> dispatchRelative_fsp clock_get_uptime (ring_front fsp_packetLengthMax (f_ringBuffer s)) (f_packetSize s) s;
                 Some (s\<lparr>f_ringBuffer := ring_advanceTail fsp_packetLengthMax (f_ringBuffer s)\<rparr>) })"

subsection \<open>Requests, parameters and life cycle\<close>

record ('d, 'p) fsp_part =
  fget :: "'d \<Rightarrow> 'p sentelic"
  fput :: "'p sentelic \<Rightarrow> 'd \<Rightarrow> 'd"

definition fsp_of :: "('d, 'p) fsp_part \<Rightarrow> ('h, 'd) sys \<Rightarrow> 'p sentelic" where
  "fsp_of L s = fget L (drv s)"

definition upd_fsp :: "('d, 'p) fsp_part \<Rightarrow> ('p sentelic \<Rightarrow> 'p sentelic) \<Rightarrow> ('h, 'd) sys \<Rightarrow> ('h, 'd) sys" where
  "upd_fsp L f s = s\<lparr>drv := fput L (f (fsp_of L s)) (drv s)\<rparr>"

text \<open>The driver's part of the answer to the wheel mouse handshake.\<close>

definition intellimouseReply :: "u8 \<Rightarrow> 'p sentelic \<Rightarrow> 'p sentelic" where
  "intellimouseReply i f = (if i = 4 then f\<lparr>f_packetSize := 4\<rparr> else f)"

definition setTouchPadEnable_fsp :: "('h, 'd) env \<Rightarrow> ('d, 'p) fsp_part \<Rightarrow> bool \<Rightarrow> ('h, 'd) sys \<Rightarrow> ('h, 'd) sys option" where
  "setTouchPadEnable_fsp e L enable s =
     do { (_, s) \<leftarrow> submitRequestAndBlock e (TPS2Request [toMouseAck (if enable then kDP_Enable else kDP_SetDefaultsAndDisable)]) s;
          s \<leftarrow> fsp_opctag_enable e True s;
          (i, s) \<leftarrow> fsp_intellimouse_mode e s;
          Some (upd_fsp L (intellimouseReply i) s) }"

definition fourTimesTwoBits :: "u8 \<Rightarrow> PS2Command list" where
  "fourTimesTwoBits v = map toMouseAck (concat (map (\<lambda>n. [kDP_SetMouseResolution, drop_bit n v AND 0x3]) [6, 4, 2, 0]))"

definition getTouchPadData_fsp :: "('h, 'd) env \<Rightarrow> u8 \<Rightarrow> ('h, 'd) sys \<Rightarrow> (u32 \<times> ('h, 'd) sys) option" where
  "getTouchPadData_fsp e dataSelector s =
     do { (rq, s) \<leftarrow> submitRequestAndBlock e
            (TPS2Request ([toMouseAck kDP_SetDefaultsAndDisable] @ fourTimesTwoBits dataSelector
               @ [toMouseAck kDP_GetMouseInformation] @ replicate 3 (cmd kPS2C_ReadDataPort 0))) s;
          Some (if commandsCount rq = 13
                then push_bit 16 (ucast (inOrOut (commands rq ! 10))) OR push_bit 8 (ucast (inOrOut (commands rq ! 11)))
                  OR ucast (inOrOut (commands rq ! 12))
                else - 1, s) }"

definition setTouchPadModeByte_fsp :: "('h, 'd) env \<Rightarrow> u8 \<Rightarrow> bool \<Rightarrow> ('h, 'd) sys \<Rightarrow> (bool \<times> ('h, 'd) sys) option" where
  "setTouchPadModeByte_fsp e modeByteValue enableStreamMode s =
     do { (rq, s) \<leftarrow> submitRequestAndBlock e
            (TPS2Request ([toMouseAck kDP_SetDefaultsAndDisable] @ fourTimesTwoBits modeByteValue
               @ [toMouseAck kDP_SetMouseSampleRate, toMouseAck 20,
                  toMouseAck (if enableStreamMode then kDP_Enable else kDP_SetMouseScaling1To1)])) s;
          Some (commandsCount rq = 12, s) }"

definition setParamProperties_fsp :: "dict \<Rightarrow> 'p sentelic \<Rightarrow> 'p sentelic" where
  "setParamProperties_fsp d f =
     (case asNumber (getObject d ''Clicking'') of
        None \<Rightarrow> f
      | Some n \<Rightarrow>
          let newModeByteValue = (if tst n 0x1 then kModeByteValueGesturesEnabled else kModeByteValueGesturesDisabled)
          in if f_touchPadModeByte f \<noteq> newModeByteValue then f\<lparr>f_touchPadModeByte := newModeByteValue\<rparr> else f)"

definition resetPackets_fsp :: "'p sentelic \<Rightarrow> 'p sentelic" where
  "resetPackets_fsp f = f\<lparr>f_packetByteCount := 0, f_ringBuffer := ring_reset (f_ringBuffer f)\<rparr>"

definition setDevicePowerState_fsp ::
  "('h, 'd) env \<Rightarrow> ('d, 'p) fsp_part \<Rightarrow> PS2PowerAction \<Rightarrow> ('h, 'd) sys \<Rightarrow> ('h, 'd) sys option" where
  "setDevicePowerState_fsp e L whatToDo s =
     (case whatToDo of
        kPS2C_DisableDevice \<Rightarrow> setTouchPadEnable_fsp e L False s
      | kPS2C_EnableDevice \<Rightarrow> setTouchPadEnable_fsp e L True (upd_fsp L resetPackets_fsp (IOSleep 1000 s)))"

text \<open>C++ leaves open which of the two registers of the version is read first; here it is the one that is written first.\<close>

definition probe_fsp ::
  "('h, 'd) env \<Rightarrow> ('d, 'p) fsp_part \<Rightarrow> bool \<Rightarrow> dict option \<Rightarrow> ('h, 'd) sys \<Rightarrow> (bool \<times> ('h, 'd) sys) option" where
  "probe_fsp e L superProbe config s =
     (if \<not> superProbe \<or> (case config of None \<Rightarrow> False | Some d \<Rightarrow> asBoolean (getObject d ''DisableDevice'') = Some True)
      then Some (False, s)
      else
        do { (magic, s) \<leftarrow> fsp_reg_read e FSP_REG_DEVICE_ID s;
             if magic = FSP_DEVICE_MAGIC then
               do { (version, s) \<leftarrow> fsp_reg_read e FSP_REG_VERSION s;
                    (revision, s) \<leftarrow> fsp_reg_read e FSP_REG_REVISION s;
                    Some (True, upd_fsp L (\<lambda>f. f\<lparr>f_touchPadVersion := ucast (push_bit 8 version OR revision)\<rparr>) s) }
             else Some (False, s) })"

definition start_fsp ::
  "('h, 'd) env \<Rightarrow> ('d, 'p) fsp_part \<Rightarrow> tp_refs \<Rightarrow> bool \<Rightarrow> ('h, 'd) sys \<Rightarrow> (bool \<times> ('h, 'd) sys) option" where
  "start_fsp e L r superStart s =
     (if \<not> superStart then Some (False, s)
      else
        do { let s = upd_fsp L (\<lambda>f. f\<lparr>f_device := True, f_packetSize := 3\<rparr>) s;
             s \<leftarrow> setTouchPadEnable_fsp e L True s;
             s \<leftarrow> installInterruptAction e kDT_Mouse (tref_this r) (tref_interrupt r) (tref_packet r) s;
             let s = upd_fsp L (\<lambda>f. f\<lparr>f_interruptHandlerInstalled := True\<rparr>) s;
             let s = installPowerControlAction kDT_Mouse (tref_this r) (tref_power r) s;
             Some (True, upd_fsp L (\<lambda>f. f\<lparr>f_powerControlHandlerInstalled := True\<rparr>) s) })"

definition stop_fsp :: "('h, 'd) env \<Rightarrow> ('d, 'p) fsp_part \<Rightarrow> ('h, 'd) sys \<Rightarrow> ('h, 'd) sys option" where
  "stop_fsp e L s =
     do { s \<leftarrow> setTouchPadEnable_fsp e L False s;
          s \<leftarrow> (if f_interruptHandlerInstalled (fsp_of L s) then uninstallInterruptAction e kDT_Mouse s else Some s);
          let s = upd_fsp L (\<lambda>f. f\<lparr>f_interruptHandlerInstalled := False\<rparr>) s;
          s \<leftarrow> (if f_powerControlHandlerInstalled (fsp_of L s) then uninstallPowerControlAction kDT_Mouse s else Some s);
          Some (upd_fsp L (\<lambda>f. f\<lparr>f_powerControlHandlerInstalled := False, f_device := False\<rparr>) s) }"

end
