(* ===== verification/Mouse_Correct.thy ===== *)
theory Mouse_Correct
  imports Mouse_Spec Mouse_Config
begin

text \<open>
  What the mouse driver does: safety of any sequence of bytes, work loop runs and timers, the decoder,
  the round trip of a packet, and the simulated middle button.
\<close>

subsection \<open>Definitions\<close>

text \<open>The states that \<^verbatim>\<open>packetReady\<close> and the timer rely on: the button timer exists.\<close>

definition timer_ok :: "'p mouse \<Rightarrow> bool" where
  "timer_ok s \<longleftrightarrow> mouse_ok s \<and> buttonTimer s"

text \<open>What happens to the driver between requests, in any order.\<close>

datatype mouse_event = MouseByte u8 | MouseWorkLoop | ButtonTimer

fun mouse_apply :: "'p mouse_env \<Rightarrow> mouse_event \<Rightarrow> 'p mouse \<Rightarrow> 'p mouse option" where
  "mouse_apply e (MouseByte data) s = map_option snd (interruptOccurred_mouse data s)"
| "mouse_apply e MouseWorkLoop s = packetReady_mouse e s"
| "mouse_apply e ButtonTimer s = onButtonTimer e s"

text \<open>The packet of a five button mouse for a movement, the buttons that are down and the wheel.\<close>

definition mouseHeader :: "u8 \<Rightarrow> bool \<Rightarrow> bool \<Rightarrow> u8" where
  "mouseHeader b x y = (b AND 0x07) OR 0x08 OR (if x then 0x10 else 0) OR (if y then 0x20 else 0)"

definition mouseFourth :: "u8 \<Rightarrow> int \<Rightarrow> u8" where
  "mouseFourth b dz = push_bit 1 (b AND 0x18) OR (word_of_int dz AND 0x0F)"

definition mousePacket :: "int \<Rightarrow> int \<Rightarrow> u8 \<Rightarrow> int \<Rightarrow> u8 list" where
  "mousePacket dx dy b dz = [mouseHeader b (dx < 0) (dy < 0), word_of_int dx, word_of_int dy, mouseFourth b dz]"

text \<open>The reports for a sequence of samples of the buttons, each with its time.\<close>

fun middleRun :: "'p mouse_env \<Rightarrow> (u32 \<times> u64) list \<Rightarrow> 'p mouse \<Rightarrow> (u32 list \<times> 'p mouse) option" where
  "middleRun e [] s = Some ([], s)"
| "middleRun e ((b, t) # xs) s =
     do { (r, s) \<leftarrow> middleButton e b t fromMouse s; (rs, s) \<leftarrow> middleRun e xs s; Some (r # rs, s) }"

definition simulating :: "'p mouse \<Rightarrow> bool" where
  "simulating s \<longleftrightarrow> fakemiddlebutton s \<and> sint (buttonCount s) > 2 \<and> \<not> ignoreall s \<and> buttonTimer s"

text \<open>Samples of the same buttons, all of them soon after the given time.\<close>

definition soon :: "'p mouse_env \<Rightarrow> u64 \<Rightarrow> u64 \<Rightarrow> 'p mouse \<Rightarrow> bool" where
  "soon e t0 t s \<longleftrightarrow> m_absolutetime_to_nanoseconds e t - m_absolutetime_to_nanoseconds e t0 \<le> maxmiddleclicktime s"

definition single :: "u32 \<Rightarrow> bool" where
  "single b \<longleftrightarrow> b = 1 \<or> b = 2"

text \<open>A clock that counts its readings, and a five button mouse with the simulation of the middle button.\<close>

definition demo_menv :: "nat mouse_env" where
  "demo_menv = \<lparr>m_clock_get_uptime = (\<lambda>n. (word_of_nat n, Suc n)), m_absolutetime_to_nanoseconds = (\<lambda>t. t)\<rparr>"

definition demo_mouse :: "nat mouse" where
  "demo_mouse = (init_mouse 7)\<lparr>buttonTimer := True, mtype := kMouseTypeIntellimouseExplorer, packetLength := 4, buttonCount := 5\<rparr>"

subsection \<open>Safety\<close>

lemma timer_ok_cong:
  "m_ringBuffer s' = m_ringBuffer s \<Longrightarrow> packetByteCount s' = packetByteCount s \<Longrightarrow> packetLength s' = packetLength s
     \<Longrightarrow> buttonTimer s' = buttonTimer s \<Longrightarrow> timer_ok s' \<longleftrightarrow> timer_ok s"
  by (simp add: timer_ok_def mouse_ok_def)

lemma middleSwitch_ok:
  assumes "timer_ok s"
  shows "\<exists>s'. middleSwitch b t n to fr s = Some s' \<and> timer_ok s'"
proof -
  have "buttonTimer s" using assms by (simp add: timer_ok_def)
  then have "\<exists>s'. middleSwitch b t n to fr s = Some s' \<and> m_ringBuffer s' = m_ringBuffer s \<and> packetByteCount s' = packetByteCount s
      \<and> packetLength s' = packetLength s \<and> buttonTimer s' = buttonTimer s"
    by (cases "mbuttonstate s")
      (auto simp: middleSwitch_def setButtonTimer_def cancelButtonTimer_def dispatchRelativePointerEventX_def Let_def)
  then show ?thesis using assms timer_ok_cong by blast
qed

lemma middleButton_ok:
  assumes "timer_ok s"
  shows "\<exists>b' s'. middleButton e b t fr s = Some (b', s') \<and> timer_ok s'"
proof -
  let ?n = "m_absolutetime_to_nanoseconds e t"
  obtain s' where "middleSwitch b t ?n (fr = fromTimer \<or> ?n - buttontime s > maxmiddleclicktime s) fr s = Some s'" "timer_ok s'"
    using middleSwitch_ok [OF assms] by blast
  then show ?thesis using assms by (auto simp: middleButton_def Let_def)
qed

lemma timer_ok_ops [simp]:
  "timer_ok (snd (uptime e s)) = timer_ok s" "timer_ok (snd (maskTyping n b s)) = timer_ok s"
  "timer_ok (s\<lparr>lastbuttons := x\<rparr>) = timer_ok s"
  "timer_ok (dispatchRelativePointerEventX dx dy b t s) = timer_ok s" "timer_ok (dispatchScrollWheelEventX z t s) = timer_ok s"
  by (rule timer_ok_cong; simp add: uptime_def case_prod_beta maskTyping_def Let_def dispatchRelativePointerEventX_def dispatchScrollWheelEventX_def)+

lemma timer_ok_movement [simp]: "timer_ok (dispatchMovement dx dy dz b t n s) = timer_ok s"
  by (simp add: dispatchMovement_def Let_def case_prod_beta)

lemma dispatch_mouse_ok:
  assumes "timer_ok s" "length p = 4"
  shows "\<exists>s'. dispatchRelativePointerEventWithPacket e p n s = Some s' \<and> timer_ok s'"
proof -
  obtain t s1 where t: "uptime e s = (t, s1)" by fastforce
  then have s1: "timer_ok s1" using timer_ok_ops(1) [of e s] assms(1) by simp
  have "\<exists>x. fourthByte p n (ucast (p ! 0 AND 7)) s1 = Some x" using assms(2) by (simp add: fourthByte_def)
  then obtain b dz where f: "fourthByte p n (ucast (p ! 0 AND 7)) s1 = Some (b, dz)" by auto
  obtain b' s2 where m: "middleButton e b t fromMouse s1 = Some (b', s2)" "timer_ok s2" using middleButton_ok [OF s1] by blast
  then show ?thesis
    using assms(2) t f by (simp add: dispatchRelativePointerEventWithPacket_def Let_def)
qed

lemma handleMousePacket_ok: "timer_ok s \<Longrightarrow> length p = 4 \<Longrightarrow> \<exists>s'. handleMousePacket e p s = Some s' \<and> timer_ok s'"
  using dispatch_mouse_ok [of s p e "packetLength s"] by (simp add: handleMousePacket_def)

lemma queuedMouse_lengths: "mouse_ok s \<Longrightarrow> \<forall>p \<in> set (queuedMouse s). length p = 4"
  using ring_packets_lengths [of 4 "m_ringBuffer s"] by (simp add: queuedMouse_def mouse_ok_def)

lemma packetReady_mouse_step:
  assumes "timer_ok s"
  shows "\<exists>r s'. foldM (handleMousePacket e) (queuedMouse s) s = Some s' \<and> packetReady_mouse e s = Some (put_mring r s')
    \<and> queuedMouse (put_mring r s') = [] \<and> timer_ok (put_mring r s')"
proof -
  have ok: "mouse_ok s" using assms by (simp add: timer_ok_def)
  obtain s' where s': "foldM (handleMousePacket e) (queuedMouse s) s = Some s'" "timer_ok s'"
    using foldM_invariant [of "queuedMouse s" timer_ok "handleMousePacket e" s] handleMousePacket_ok queuedMouse_lengths [OF ok] assms by blast
  have c: "ring_aligned 4 (m_ringBuffer s) \<and> ring_N (m_ringBuffer s) = 128" using ok by (simp add: mouse_ok_def)
  obtain r where r: "loop (\<lambda>s. 4 \<le> ring_count (m_ringBuffer s))
      (\<lambda>s. do { s' \<leftarrow> handleMousePacket e (ring_front 4 (m_ringBuffer s)) s; Some (put_mring (ring_advanceTail 4 (m_ringBuffer s')) s') }) s
      = map_option (put_mring r) (foldM (handleMousePacket e) (ring_packets 4 (m_ringBuffer s)) s)" "ring_aligned 4 r \<and> ring_N r = 128" "ring_packets 4 r = []"
    using mouse_client.drain_all [OF c] by blast
  then have "packetReady_mouse e s = Some (put_mring r s')"
    using s' by (simp add: packetReady_mouse_def queuedMouse_def put_mring_def)
  moreover have "timer_ok (put_mring r s')" using s'(2) r(2) by (simp add: timer_ok_def mouse_ok_def put_mring_def)
  ultimately show ?thesis using s' r(3) by (intro exI [of _ r] exI [of _ s']) (simp add: queuedMouse_def)
qed

lemma onButtonTimer_ok:
  assumes "timer_ok s"
  shows "\<exists>s'. onButtonTimer e s = Some s' \<and> timer_ok s'"
proof -
  obtain t s1 where t: "uptime e s = (t, s1)" by fastforce
  then have "timer_ok s1" using timer_ok_ops(1) [of e s] assms by simp
  from middleButton_ok [OF this, of e "lastbuttons s1" t fromTimer] show ?thesis using t by (auto simp: onButtonTimer_def Let_def)
qed

lemma interrupt_keeps_timer: "interruptOccurred_mouse data s = Some r \<Longrightarrow> buttonTimer (snd r) = buttonTimer s"
  by (auto simp: interruptOccurred_mouse_def pokePacket_def commitPacket_def Let_def split: if_splits)

lemma mouse_apply_ok:
  assumes "timer_ok s"
  shows "\<exists>s'. mouse_apply e ev s = Some s' \<and> timer_ok s'"
proof (cases ev)
  case (MouseByte data)
  then show ?thesis using interruptOccurred_mouse_step [of s data] assms interrupt_keeps_timer [of data s] by (auto simp: timer_ok_def)
next
  case MouseWorkLoop
  then show ?thesis using packetReady_mouse_step [OF assms, of e] by auto
qed (use onButtonTimer_ok [OF assms] in auto)

text \<open>
  C19: From the state a reset leaves, through whatever sequence of bytes, work loop runs and button timers,
  the mouse driver never writes beyond its ring buffer or uses a timer it does not have, every loop
  ends, and the packet under construction stays shorter than a packet. The button timer must exist:
  the driver does not test for it.
\<close>

theorem mouse_safe:
  assumes "ring_N (m_ringBuffer s) = kPacketLengthMax * 32" "ring_aligned kPacketLengthMax (m_ringBuffer s)" "buttonTimer s"
  shows "\<exists>s'. foldM (mouse_apply e) evs (resetPackets (setMouseType t s)) = Some s' \<and> timer_ok s'"
proof -
  have "timer_ok (resetPackets (setMouseType t s))"
    using assms by (auto simp: timer_ok_def mouse_ok_def resetPackets_def setMouseType_def Let_def ring_aligned_def ring_ok_def
        ring_reset_def ring_N_def)
  then show ?thesis using foldM_invariant [of evs timer_ok "mouse_apply e"] mouse_apply_ok by blast
qed

subsection \<open>Decoding\<close>

lemma bit_nine: "- 256 \<le> k \<Longrightarrow> k < 256 \<Longrightarrow> 8 \<le> n \<Longrightarrow> bit k n \<longleftrightarrow> k < (0 :: int)"
proof -
  assume k: "- 256 \<le> k" "k < 256" and n: "8 \<le> n"
  then have s: "signed_take_bit 8 k = k" by (simp add: signed_take_bit_int_eq_self)
  have "bit k n = bit (signed_take_bit 8 k) n" using s by simp
  also have "\<dots> = bit k 8" using n by (simp add: bit_signed_take_bit_iff min_def)
  also have "\<dots> = (k < 0)" using signed_take_bit_negative_iff [of 8 k] s by simp
  finally show ?thesis .
qed

lemma delta9_eq:
  assumes "- 256 \<le> k" "k < 256"
  shows "delta9 (k < 0) (word_of_int k) = word_of_int k"
proof (rule bit_word_eqI)
  fix n assume n: "n < LENGTH(32)"
  have h: "(0xffffff00 :: u32) = NOT (mask 8)" by (simp add: mask_eq_exp_minus_1 not_eq_complement)
  have "bit (0xffffff00 :: u32) n \<longleftrightarrow> 8 \<le> n" unfolding h using n by (auto simp: bit_simps)
  then show "bit (delta9 (k < 0) (word_of_int k)) n = bit (word_of_int k :: u32) n"
    using n bit_nine [OF assms, of n] by (auto simp: delta9_def bit_simps)
qed

lemma header_bits:
  "\<forall>b \<in> set (map word_of_nat [0..<32]). \<forall>x. \<forall>y. tst (mouseHeader b x y) 0x10 = x \<and> tst (mouseHeader b x y) 0x20 = y
     \<and> mouseHeader b x y AND 7 = b AND 7 \<and> mouseHeader b x y \<noteq> 0"
  by code_simp

lemma fourth_bits:
  "\<forall>b \<in> set (map word_of_nat [0..<32]). \<forall>z \<in> set [-8..7]. drop_bit 1 (mouseFourth b z AND 0x30) = b AND 0x18
     \<and> (delta4 (mouseFourth b z) = 0 \<longleftrightarrow> z = 0) \<and> (scast (delta4 (mouseFourth b z)) :: u32) = word_of_int z
     \<and> (b AND 7) OR (b AND 0x18) = b"
  by code_simp

lemma small_byte: "b < 32 \<Longrightarrow> b \<in> set (map word_of_nat [0..<32])" for b :: u8
proof -
  assume "b < 32"
  then have "unat b < 32" by (simp add: word_less_nat_alt)
  then show ?thesis by (auto intro!: image_eqI [of _ _ "unat b"])
qed

text \<open>
  The packet of a five button mouse for a movement by dx and dy of nine bits, a set of buttons and a
  movement of the wheel of four bits produces the event with exactly this movement, with the axes
  inverted as configured, these buttons, and the wheel event unless the wheel did not move.
\<close>

lemma mouse_packet_roundtrip:
  assumes "- 256 \<le> dx" "dx < 256" "- 256 \<le> dy" "dy < 256" "b < 32" "- 8 \<le> dz" "dz \<le> 7"
    and "mtype s = kMouseTypeIntellimouseExplorer" "packetLength s = kPacketLengthIntellimouse" "\<not> actliketrackpad s \<or> scroll s"
    and "\<not> fakemiddlebutton s" "\<not> palm_wt s" "\<not> outzone_wt s" "\<not> ignoreall s"
    and "m_clock_get_uptime e (m_plat s) = (now, p')"
  shows "\<exists>s'. handleMousePacket e (mousePacket dx dy b dz) s = Some s' \<and> m_out s' = m_out s @
    RelativePointer (word_of_int dx) (mouseyinverter s * word_of_int (- dy)) (ucast b) now
    # (if dz = 0 then [] else [ScrollWheel (ucast (- scrollyinverter s * word_of_int dz)) now])"
proof -
  let ?h = "mouseHeader b (dx < 0) (dy < 0)" and ?f = "mouseFourth b dz"
  note b = small_byte [OF assms(5)]
  note h = bspec [OF header_bits b, THEN spec, THEN spec, of "dx < 0" "dy < 0"]
  have "dz \<in> set [-8..7]" using assms(6,7) by (simp only: set_upto atLeastAtMost_iff simp_thms)
  note f = bspec [OF bspec [OF fourth_bits b] this]
  have u: "ucast (b AND 7) OR ucast (b AND 0x18) = (ucast b :: u32)"
    using f by (metis unsigned_or_eq)
  have at: "at (mousePacket dx dy b dz) 0 = Some ?h" "at (mousePacket dx dy b dz) (Suc 0) = Some (word_of_int dx)"
    "at (mousePacket dx dy b dz) 2 = Some (word_of_int dy)" "at (mousePacket dx dy b dz) 3 = Some ?f"
    by (simp_all add: mousePacket_def)
  show ?thesis
    using assms(8-) at h f u delta9_eq [OF assms(1,2)] delta9_eq [OF assms(3,4)]
    by (simp add: handleMousePacket_def dispatchRelativePointerEventWithPacket_def uptime_def fourthByte_def middleButton_def
        dispatchMovement_def maskTyping_def dispatchRelativePointerEventX_def dispatchScrollWheelEventX_def Let_def)
qed

subsection \<open>The simulated middle button\<close>

lemma single_facts: "single b \<Longrightarrow> b \<noteq> 0 \<and> b \<noteq> 3 \<and> \<not> tst b 4 \<and> b AND 3 \<noteq> 3 \<and> b AND NOT 3 = 0"
  by (auto simp: single_def tst_def)

lemma middleRun_append:
  "middleRun e (xs @ ys) s = do { (rs, s) \<leftarrow> middleRun e xs s; (rs', s) \<leftarrow> middleRun e ys s; Some (rs @ rs', s) }"
proof (induction xs arbitrary: s)
  case (Cons x xs)
  obtain b t where x: "x = (b, t)" by fastforce
  show ?case unfolding x using Cons by (cases "middleButton e b t fromMouse s") (auto simp: case_prod_beta bind_eq_None_conv)
qed (simp add: case_prod_beta)

lemma middleRun_same:
  assumes "\<forall>x \<in> set xs. middleButton e (fst x) (snd x) fromMouse s = Some (r, s)"
  shows "middleRun e xs s = Some (replicate (length xs) r, s)"
  using assms by (induction xs) auto

text \<open>
  C20: At interrupt time the driver refines an abstract decoder: it waits for a first byte with the mark of
  a packet, collects the bytes of a packet, asks at most five times in a row for a reset when it loses
  track, recognises a spontaneous reset, and queues what the decoder emits unless the buffer is full.
\<close>

theorem mouse_interrupt_refines:
  assumes "mouse_ok s"
  shows "\<exists>r. interruptOccurred_mouse data s = Some r \<and> mouse_ok (snd r)
    \<and> mouseRefines s (mouseStep (unat (packetLength s)) data (mouseState s)) r"
  using assms by (rule interruptOccurred_mouse_step)

lemma middle_wait:
  assumes "simulating s" "single b" "pendingbuttons s = b" "mbuttonstate s = STATE_WAIT4TWO \<or> mbuttonstate s = STATE_WAIT4NONE"
    and "m_absolutetime_to_nanoseconds e t - buttontime s \<le> maxmiddleclicktime s"
  shows "middleButton e b t fromMouse s = Some (0, s)"
  using assms single_facts [OF assms(2)]
  by (auto simp: middleButton_def simulating_def middleSwitch_def middleReport_def Let_def)

lemma middle_press:
  assumes "simulating s" "single b" "mbuttonstate s = STATE_NOBUTTONS"
  shows "middleButton e b t fromMouse s = Some (0, s\<lparr>pendingbuttons := b, buttontime := m_absolutetime_to_nanoseconds e t,
    buttonTimeout := Some (maxmiddleclicktime s), mbuttonstate := STATE_WAIT4TWO\<rparr>)"
  using assms single_facts [OF assms(2)]
  by (auto simp: middleButton_def simulating_def middleSwitch_def middleReport_def setButtonTimer_def Let_def)

lemma middle_both:
  assumes "simulating s" "mbuttonstate s = STATE_WAIT4TWO" "m_absolutetime_to_nanoseconds e t - buttontime s \<le> maxmiddleclicktime s"
  shows "middleButton e 3 t fromMouse s = Some (4, s\<lparr>pendingbuttons := 0, buttonTimeout := None, mbuttonstate := STATE_MIDDLE\<rparr>)"
  using assms by (auto simp: middleButton_def simulating_def middleSwitch_def middleReport_def cancelButtonTimer_def Let_def)

lemma middle_hold:
  assumes "simulating s" "mbuttonstate s = STATE_MIDDLE"
  shows "middleButton e 3 t fromMouse s = Some (4, s)"
  using assms by (auto simp: middleButton_def simulating_def middleSwitch_def middleReport_def Let_def)

lemma middle_one_up:
  assumes "simulating s" "single b" "mbuttonstate s = STATE_MIDDLE"
  shows "middleButton e b t fromMouse s = Some (0, s\<lparr>pendingbuttons := b, buttontime := m_absolutetime_to_nanoseconds e t,
    buttonTimeout := Some (maxmiddleclicktime s), mbuttonstate := STATE_WAIT4NONE\<rparr>)"
  using assms single_facts [OF assms(2)]
  by (auto simp: middleButton_def simulating_def middleSwitch_def middleReport_def setButtonTimer_def Let_def)

lemma middle_both_up:
  assumes "simulating s" "mbuttonstate s = STATE_WAIT4NONE" "m_absolutetime_to_nanoseconds e t - buttontime s \<le> maxmiddleclicktime s"
  shows "middleButton e 0 t fromMouse s = Some (0, s\<lparr>pendingbuttons := 0, buttonTimeout := None, mbuttonstate := STATE_NOBUTTONS\<rparr>)"
  using assms by (auto simp: middleButton_def simulating_def middleSwitch_def middleReport_def cancelButtonTimer_def Let_def)

lemma middleRun_Cons: "middleButton e b t fromMouse s = Some (r, s') \<Longrightarrow>
    middleRun e ((b, t) # xs) s = map_option (map_prod (Cons r) id) (middleRun e xs s')"
  by (cases "middleRun e xs s'") (auto simp: case_prod_beta)

lemma middleRun_skip:
  assumes "\<forall>x \<in> set xs. middleButton e (fst x) (snd x) fromMouse s = Some (r, s)"
  shows "middleRun e (xs @ ys) s = map_option (map_prod (append (replicate (length xs) r)) id) (middleRun e ys s)"
  unfolding middleRun_append middleRun_same [OF assms] by (cases "middleRun e ys s") (auto simp: case_prod_beta)

text \<open>
  Pressing left and right within the click time is reported as the middle button from then on, and
  releasing them within the click time as no button, whatever the number of samples in between;
  neither of the two buttons is ever reported, and the simulation ends where it began.
\<close>

lemma middle_chord:
  assumes "simulating s" "mbuttonstate s = STATE_NOBUTTONS" "single b" "single b'"
    and "\<forall>x \<in> set xs. fst x = b \<and> soon e t0 (snd x) s" "soon e t0 t1 s" "\<forall>y \<in> set ys. fst y = 3"
    and "\<forall>z \<in> set zs. fst z = b' \<and> soon e t2 (snd z) s" "soon e t2 t3 s"
  shows "\<exists>s'. middleRun e ((b, t0) # xs @ (3, t1) # ys @ (b', t2) # zs @ [(0, t3)]) s
      = Some (0 # replicate (length xs) 0 @ 4 # replicate (length ys) 4 @ 0 # replicate (length zs) 0 @ [0], s')
    \<and> m_out s' = m_out s \<and> mbuttonstate s' = STATE_NOBUTTONS \<and> pendingbuttons s' = 0 \<and> buttonTimeout s' = None"
proof -
  let ?ns = "m_absolutetime_to_nanoseconds e"
  define s1 where "s1 = s\<lparr>pendingbuttons := b, buttontime := ?ns t0, buttonTimeout := Some (maxmiddleclicktime s), mbuttonstate := STATE_WAIT4TWO\<rparr>"
  define s2 where "s2 = s1\<lparr>pendingbuttons := 0, buttonTimeout := None, mbuttonstate := STATE_MIDDLE\<rparr>"
  define s3 where "s3 = s2\<lparr>pendingbuttons := b', buttontime := ?ns t2, buttonTimeout := Some (maxmiddleclicktime s), mbuttonstate := STATE_WAIT4NONE\<rparr>"
  define s4 where "s4 = s3\<lparr>pendingbuttons := 0, buttonTimeout := None, mbuttonstate := STATE_NOBUTTONS\<rparr>"
  have sim: "simulating s1" "simulating s2" "simulating s3"
    using assms(1) by (simp_all add: s1_def s2_def s3_def simulating_def)
  have 1: "middleButton e b t0 fromMouse s = Some (0, s1)" unfolding s1_def by (rule middle_press [OF assms(1,3,2)])
  have xs: "\<forall>x \<in> set xs. middleButton e (fst x) (snd x) fromMouse s1 = Some (0, s1)"
    using assms(5) middle_wait [OF sim(1) assms(3)] by (auto simp: s1_def soon_def)
  have 2: "middleButton e 3 t1 fromMouse s1 = Some (4, s2)"
    unfolding s2_def using assms(6) middle_both [OF sim(1)] by (simp add: s1_def soon_def)
  have ys: "\<forall>y \<in> set ys. middleButton e (fst y) (snd y) fromMouse s2 = Some (4, s2)"
    using assms(7) middle_hold [OF sim(2)] by (auto simp: s2_def)
  have 3: "middleButton e b' t2 fromMouse s2 = Some (0, s3)"
    unfolding s3_def using middle_one_up [OF sim(2) assms(4)] by (simp add: s2_def s1_def)
  have zs: "\<forall>z \<in> set zs. middleButton e (fst z) (snd z) fromMouse s3 = Some (0, s3)"
    using assms(8) middle_wait [OF sim(3) assms(4)] by (auto simp: s3_def s2_def s1_def soon_def)
  have 4: "middleButton e 0 t3 fromMouse s3 = Some (0, s4)"
    unfolding s4_def using assms(9) middle_both_up [OF sim(3)] by (simp add: s3_def s2_def s1_def soon_def)
  have "middleRun e ((b, t0) # xs @ (3, t1) # ys @ (b', t2) # zs @ [(0, t3)]) s
      = Some (0 # replicate (length xs) 0 @ 4 # replicate (length ys) 4 @ 0 # replicate (length zs) 0 @ [0], s4)"
    by (simp only: middleRun_Cons [OF 1] middleRun_Cons [OF 2] middleRun_Cons [OF 3] middleRun_Cons [OF 4]
        middleRun_skip [OF xs] middleRun_skip [OF ys] middleRun_skip [OF zs] middleRun.simps(1) option.map map_prod_simp id_apply)
  then show ?thesis by (auto simp: s4_def s3_def s2_def s1_def)
qed

text \<open>
  A single button that is pressed is not reported at once, but a timer is armed, and when it fires
  the press is sent: no press is lost.
\<close>

lemma delayed_press_sent:
  assumes "simulating s" "mbuttonstate s = STATE_NOBUTTONS" "single b" "m_clock_get_uptime e (m_plat s) = (now, p')"
  shows "\<exists>s1 s2. middleButton e b t fromMouse s = Some (0, s1) \<and> buttonTimeout s1 = Some (maxmiddleclicktime s)
    \<and> onButtonTimer e (s1\<lparr>lastbuttons := 0\<rparr>) = Some s2 \<and> m_out s2 = m_out s @ [RelativePointer 0 0 b now]
    \<and> pendingbuttons s2 = 0 \<and> buttonTimeout s2 = None"
  using assms middle_press [OF assms(1,3,2), of e t]
  by (auto simp: simulating_def onButtonTimer_def uptime_def middleButton_def middleSwitch_def cancelButtonTimer_def
      dispatchRelativePointerEventX_def Let_def)

text \<open>After that the button, though still held, is reported as released again.\<close>

lemma held_button_released:
  assumes "simulating s" "mbuttonstate s = STATE_NOBUTTONS" "single b" "middleButton e b t fromMouse s = Some (r, s1)"
    and "onButtonTimer e (s1\<lparr>lastbuttons := r\<rparr>) = Some s2"
  shows "\<exists>s3. middleButton e b t' fromMouse s2 = Some (0, s3)"
proof -
  have r: "r = 0" "s1 = s\<lparr>pendingbuttons := b, buttontime := m_absolutetime_to_nanoseconds e t,
    buttonTimeout := Some (maxmiddleclicktime s), mbuttonstate := STATE_WAIT4TWO\<rparr>"
    using assms(4) middle_press [OF assms(1,3,2), of e t] by simp_all
  have "simulating s2" "mbuttonstate s2 = STATE_NOBUTTONS" using assms(1,5) unfolding r
    by (auto simp: simulating_def onButtonTimer_def uptime_def middleButton_def middleSwitch_def cancelButtonTimer_def
        dispatchRelativePointerEventX_def Let_def case_prod_beta)
  then show ?thesis using middle_press [OF _ assms(3), of s2 e t'] by simp
qed

subsection \<open>A concrete mouse\<close>

lemma demo_mouse_fields:
  "m_ringBuffer demo_mouse = ring_init 128" "buttonTimer demo_mouse" "packetLength demo_mouse = 4" "packetByteCount demo_mouse = 0"
  "mtype demo_mouse = kMouseTypeIntellimouseExplorer" "m_out demo_mouse = []" "m_plat demo_mouse = 7" "scroll demo_mouse"
  "\<not> fakemiddlebutton demo_mouse" "\<not> palm_wt demo_mouse" "\<not> outzone_wt demo_mouse" "\<not> ignoreall demo_mouse"
  "mouseyinverter demo_mouse = 1" "scrollyinverter demo_mouse = 1" "mbuttonstate demo_mouse = STATE_NOBUTTONS"
  "m_lastdata demo_mouse = 0" "mouseResetCount demo_mouse = 0" "maxmiddleclicktime demo_mouse = 100000000" "buttonCount demo_mouse = 5"
  by (simp_all add: demo_mouse_def init_mouse_def)

lemma demo_mring: "ring_N (ring_init 128 :: u8 ring) = 128" "ring_aligned 4 (ring_init 128 :: u8 ring)"
  by (simp_all add: ring_aligned_def ring_ok_def ring_init_def ring_reset_def ring_N_def)

lemma demo_mouse_ok: "mouse_ok demo_mouse"
  by (simp add: mouse_ok_def demo_mouse_fields demo_mring)

lemma demo_simulating: "simulating (demo_mouse\<lparr>fakemiddlebutton := True\<rparr>)"
  by (simp add: simulating_def demo_mouse_fields)

theorem mouse_safe_witness:
  "\<exists>s'. foldM (mouse_apply demo_menv) [MouseByte 0x09, MouseByte 1, MouseByte 2, MouseWorkLoop, ButtonTimer]
     (resetPackets (setMouseType kMouseTypeStandard demo_mouse)) = Some s' \<and> timer_ok s'"
  by (rule mouse_safe) (simp_all add: demo_mouse_fields demo_mring)

theorem mouse_interrupt_refines_witness:
  "\<exists>s'. interruptOccurred_mouse 0x09 demo_mouse = Some (kPS2IR_packetBuffering, s') \<and> mouseState s' = (0x09, 0, [0x09])"
proof -
  have "mouseStep (unat (packetLength demo_mouse)) 0x09 (mouseState demo_mouse) = (None, 0x09, 0, [0x09])"
    by (simp add: mouseStep_def mouseState_def demo_mouse_fields ps2_const tst_def)
  then show ?thesis using mouse_interrupt_refines [OF demo_mouse_ok, of "0x09"] by (auto simp: mouseRefines_def)
qed

lemma mouse_packet_roundtrip_witness:
  "\<exists>s'. handleMousePacket demo_menv (mousePacket (-3) 5 0x11 (-1)) demo_mouse = Some s'
     \<and> m_out s' = [RelativePointer (-3) (-5) 0x11 7, ScrollWheel 1 7]"
  using mouse_packet_roundtrip [of "-3" 5 "0x11" "-1" demo_mouse demo_menv 7 8]
  by (simp add: demo_mouse_fields demo_menv_def)

lemma middle_chord_witness:
  "\<exists>s'. middleRun demo_menv [(1, 10), (1, 20), (3, 30), (3, 10 ^ 12), (2, 2 * 10 ^ 12), (0, 2 * 10 ^ 12 + 5)] (demo_mouse\<lparr>fakemiddlebutton := True\<rparr>)
     = Some ([0, 0, 4, 4, 0, 0], s') \<and> m_out s' = []"
  using middle_chord [OF demo_simulating, of 1 2 "[(1, 20)]" demo_menv 10 30 "[(3, 10 ^ 12)]" "[]" "2 * 10 ^ 12" "2 * 10 ^ 12 + 5"]
  by (simp add: demo_mouse_fields demo_menv_def single_def soon_def del: middleRun.simps) blast

lemma delayed_press_sent_witness:
  "\<exists>s1 s2. middleButton demo_menv 2 5 fromMouse (demo_mouse\<lparr>fakemiddlebutton := True\<rparr>) = Some (0, s1)
     \<and> onButtonTimer demo_menv (s1\<lparr>lastbuttons := 0\<rparr>) = Some s2 \<and> m_out s2 = [RelativePointer 0 0 2 7]"
  using delayed_press_sent [OF demo_simulating, of 2 demo_menv 7 8 5]
  by (simp add: demo_mouse_fields demo_menv_def single_def) blast

end
