(* ===== verification/Sentelic_Correct.thy ===== *)
theory Sentelic_Correct
  imports Sentelic Mouse_Correct
begin

text \<open>
  The Sentelic driver is correct: the device gets every register and value that the driver writes, the buffer between interrupt time and
  the work loop (an interpretation of \<open>packet_client\<close>) delivers packets whole and in order, and no event leads to an access out of bounds.
\<close>

subsection \<open>Definitions\<close>




definition fspPacket :: "u8 \<Rightarrow> int \<Rightarrow> int \<Rightarrow> u8 \<Rightarrow> int \<Rightarrow> u8 list" where
  "fspPacket kind dx dy b dz = [push_bit 6 kind OR mouseHeader b (dx < 0) (dy < 0), word_of_int dx, word_of_int dy, word_of_int dz AND 0xf]"

definition fsp_ok :: "'p sentelic \<Rightarrow> bool" where
  "fsp_ok s \<longleftrightarrow> ring_aligned 4 (f_ringBuffer s) \<and> ring_N (f_ringBuffer s) = 128 \<and> f_packetSize s \<in> {3, 4}
     \<and> f_packetByteCount s < ucast (f_packetSize s)"

definition put_fring :: "u8 ring \<Rightarrow> 'p sentelic \<Rightarrow> 'p sentelic" where
  "put_fring r s = s\<lparr>f_ringBuffer := r\<rparr>"

definition handleFsp :: "('p \<Rightarrow> u64 \<times> 'p) \<Rightarrow> u8 list \<Rightarrow> 'p sentelic \<Rightarrow> 'p sentelic option" where
  "handleFsp clock p s = dispatchRelative_fsp clock p (f_packetSize s) s"




datatype fsp_event = FspByte u8 | FspWorkLoop | FspParams dict | FspWake | FspReply u8

fun fsp_apply :: "('p \<Rightarrow> u64 \<times> 'p) \<Rightarrow> fsp_event \<Rightarrow> 'p sentelic \<Rightarrow> 'p sentelic option" where
  "fsp_apply clock (FspByte b) s = map_option snd (interruptOccurred_fsp b s)"
| "fsp_apply clock FspWorkLoop s = packetReady_fsp clock s"
| "fsp_apply clock (FspParams d) s = Some (setParamProperties_fsp d s)"
| "fsp_apply clock FspWake s = Some (resetPackets_fsp s)"
| "fsp_apply clock (FspReply i) s = Some (intellimouseReply i s)"

subsection \<open>Registers\<close>








text \<open>
  A read that fails has the value -1, which is not mangled, and its last byte is the command to reset the device.
\<close>

lemma failed_read_resets: "last (fspWriteBytes reg (- 1 OR FSP_BIT_EN_REG_CLK)) = kDP_Reset"
proof -
  have "(ucast (- 1 :: u32) :: u8) = 0xff" by code_simp
  then show ?thesis by (simp add: fspWriteBytes_def fspMangle_def fspSwapped_def fspInverted_def kDP_Reset_def)
qed

subsection \<open>Packets\<close>

lemma cast_int: "(ucast (word_of_int k :: u32) :: u16) = word_of_int k"
  by (rule bit_word_eqI) (simp add: bit_simps)

lemma byte_below: "unat b < n \<Longrightarrow> b \<in> set (map word_of_nat [0..<n])" for b :: u8
  by (auto intro!: image_eqI [where x = "unat b"])

lemma fsp_header:
  "\<forall>k \<in> set [0, 1, 2, 3]. \<forall>b \<in> set (map word_of_nat [0..<8]). \<forall>x. \<forall>y. tst (push_bit 6 k OR mouseHeader b x y) 0x10 = x
     \<and> tst (push_bit 6 k OR mouseHeader b x y) 0x20 = y \<and> (push_bit 6 k OR mouseHeader b x y) AND 7 = b
     \<and> drop_bit 6 (push_bit 6 k OR mouseHeader b x y) = k"
  by code_simp

lemma fsp_wheel: "\<forall>z \<in> set [-8..7]. fspWheel (word_of_int z AND 0xf) = word_of_int (- z)"
  by code_simp

text \<open>
  The packet of a movement by dx and dy of nine bits, a set of buttons and a movement of the wheel of four bits produces the events
  with this movement, these buttons and this wheel movement; the button of a tap on the pad (packets of kind 3) counts only when
  gestures are switched on.
\<close>

lemma fsp_packet_roundtrip:
  assumes "- 256 \<le> dx" "dx < 256" "- 256 \<le> dy" "dy < 256" "b < 8" "- 8 \<le> dz" "dz \<le> 7" "kind < 4"
    and "clock (f_plat s) = (now, p')"
  shows "dispatchRelative_fsp clock (fspPacket kind dx dy b dz) 4 s = Some (s\<lparr>f_plat := p', f_out := f_out s @
    [TpPointer (word_of_int dx) (word_of_int (- dy))
       (if kind = FSP_PKT_TYPE_NORMAL_OPC \<and> f_touchPadModeByte s \<noteq> kModeByteValueGesturesEnabled then 0 else ucast b) now,
     TpScroll (word_of_int (- dz)) 0 0 now]\<rparr>)"
proof -
  define h0 where "h0 = push_bit 6 kind OR mouseHeader b (dx < 0) (dy < 0)"
  have "unat kind < 4" "unat b < 8" using assms(5,8) by (simp_all add: word_less_nat_alt)
  then have "kind \<in> set (map word_of_nat [0..<4])" "b \<in> set (map word_of_nat [0..<8])"
    by (simp_all only: byte_below)
  then have kb: "kind \<in> set [0, 1, 2, 3]" "b \<in> set (map word_of_nat [0..<8])" by (simp_all add: upt_rec)
  note h = bspec [OF bspec [OF fsp_header kb(1)] kb(2), THEN spec, THEN spec, of "dx < 0" "dy < 0", folded h0_def]
  have "dz \<in> set [-8..7]" using assms(6,7) by (simp only: set_upto atLeastAtMost_iff simp_thms)
  note w = bspec [OF fsp_wheel this]
  note c = cast_int [of "- dz"]
  have at: "at (fspPacket kind dx dy b dz) 0 = Some h0" "at (fspPacket kind dx dy b dz) 1 = Some (word_of_int dx)"
    "at (fspPacket kind dx dy b dz) 2 = Some (word_of_int dy)" "at (fspPacket kind dx dy b dz) 3 = Some (word_of_int dz AND 0xf)"
    by (simp_all add: fspPacket_def h0_def)
  have bt: "fspButtons (f_touchPadModeByte s) h0
    = (if kind = FSP_PKT_TYPE_NORMAL_OPC \<and> f_touchPadModeByte s \<noteq> kModeByteValueGesturesEnabled then 0 else ucast b)"
    using h by (auto simp: fspButtons_def)
  show ?thesis
    unfolding dispatchRelative_fsp_def at bind.bind_lunit assms(9) Let_def prod.case w c bt
    using h delta9_eq [OF assms(1,2)] delta9_eq [OF assms(3,4)] by simp
qed

lemma fsp_packet_roundtrip_witness:
  "dispatchRelative_fsp (\<lambda>p. (5, p)) (fspPacket 3 (- 7) 9 1 (- 2)) 4 (init_fsp ()) = Some ((init_fsp ())\<lparr>f_out :=
    [TpPointer (- 7) (- 9) 0 5, TpScroll 2 0 0 5]\<rparr>)"
  using fsp_packet_roundtrip [of "- 7" 9 1 "- 2" 3 "\<lambda>p. (5, p)" "init_fsp ()" 5 "()"] by (simp add: init_fsp_def)

subsection \<open>The byte stream and the work loop\<close>

lemma handleFsp_put: "handleFsp clock p (put_fring r s) = map_option (put_fring r) (handleFsp clock p s)"
  by (cases "at p 0"; cases "at p 1"; cases "at p 2"; cases "at p 3")
    (simp_all add: handleFsp_def dispatchRelative_fsp_def put_fring_def Let_def case_prod_beta)

interpretation fsp_client: packet_client 4 "\<lambda>r. ring_aligned 4 r \<and> ring_N r = 128" "ring_packets 4" "ring_pending 4" "ring_full 4"
  "\<lambda>r. 4 \<le> ring_count r" "ring_front 4" "ring_advanceTail 4" ring_head_write "ring_advanceHead 4"
  f_ringBuffer put_fring "handleFsp clock" for clock :: "'p \<Rightarrow> u64 \<times> 'p"
  by unfold_locales (simp_all add: handleFsp_put, simp_all add: put_fring_def)

lemma packetReady_fsp_all:
  assumes "fsp_ok s"
  shows "\<exists>r. packetReady_fsp clock s = map_option (put_fring r) (foldM (handleFsp clock) (ring_packets 4 (f_ringBuffer s)) s)
    \<and> (ring_aligned 4 r \<and> ring_N r = 128) \<and> ring_packets 4 r = []"
  using fsp_client.drain_all [of s clock] assms
  by (simp add: fsp_ok_def packetReady_fsp_def handleFsp_def put_fring_def)

lemma byte_cast_unat: "unat (ucast b :: u32) = unat b" for b :: u8
proof -
  have "unat b < 2 ^ 32" using unsigned_less [of b, where ?'a = nat] by simp
  then show ?thesis by (simp add: unsigned_ucast_eq take_bit_nat_eq_self)
qed



text \<open>One byte that is not dropped.\<close>

lemma fsp_byte:
  assumes ok: "fsp_ok s" and keep: "\<not> (f_packetByteCount s = 0 \<and> (data = kSC_Acknowledge \<or> \<not> tst data 0x08))"
  defines "r' \<equiv> ring_head_write (unat (f_packetByteCount s)) data (f_ringBuffer s)"
  shows "interruptOccurred_fsp data s = Some (if Suc (unat (f_packetByteCount s)) = unat (f_packetSize s)
      then (kPS2IR_packetReady, s\<lparr>f_ringBuffer := ring_advanceHead 4 r', f_packetByteCount := 0\<rparr>)
      else (kPS2IR_packetBuffering, s\<lparr>f_ringBuffer := r', f_packetByteCount := f_packetByteCount s + 1\<rparr>))"
proof -
  let ?n = "unat (f_packetByteCount s)"
  have al: "ring_aligned 4 (f_ringBuffer s)" and sz: "f_packetSize s \<in> {3, 4}" and n: "?n < unat (f_packetSize s)" "unat (f_packetSize s) \<le> 4"
    using ok by (auto simp: fsp_ok_def word_less_nat_alt)
  have suc: "unat (f_packetByteCount s + 1) = Suc ?n" using n by (intro unat_Suc_small) linarith
  have "f_packetByteCount s + 1 = ucast (f_packetSize s) \<longleftrightarrow> Suc ?n = unat (f_packetSize s)"
    using byte_cast_unat [of "f_packetSize s"] suc by (metis word_unat_eq_iff)
  moreover have "pokeFsp ?n data s = Some (s\<lparr>f_ringBuffer := r'\<rparr>)"
    using aligned_fits [OF al] n by (simp add: pokeFsp_def r'_def)
  ultimately show ?thesis unfolding interruptOccurred_fsp_def if_not_P [OF keep] by (simp add: Let_def)
qed



lemma fsp_ok_put: "fsp_ok (put_fring r s) \<longleftrightarrow> ring_aligned 4 r \<and> ring_N r = 128 \<and> f_packetSize s \<in> {3, 4} \<and> f_packetByteCount s < ucast (f_packetSize s)"
  by (simp add: fsp_ok_def put_fring_def)

lemma put_fring_fields [simp]: "f_packetByteCount (put_fring r s) = f_packetByteCount s" "f_packetSize (put_fring r s) = f_packetSize s"
  "f_ringBuffer (put_fring r s) = r" "put_fring r (put_fring r' s) = put_fring r s" "put_fring (f_ringBuffer s) s = s"
  by (simp_all add: put_fring_def)





lemma fsp_byte_ok:
  assumes "fsp_ok s"
  shows "\<exists>s'. map_option snd (interruptOccurred_fsp b s) = Some s' \<and> fsp_ok s'"
proof (cases "f_packetByteCount s = 0 \<and> (b = kSC_Acknowledge \<or> \<not> tst b 0x08)")
  case True
  then show ?thesis using assms by (simp add: interruptOccurred_fsp_def)
next
  case False
  let ?n = "unat (f_packetByteCount s)" and ?r = "ring_head_write (unat (f_packetByteCount s)) b (f_ringBuffer s)"
  have n: "?n < unat (f_packetSize s)" "unat (f_packetSize s) \<in> {3, 4}" "ring_aligned 4 (f_ringBuffer s)" "ring_N (f_ringBuffer s) = 128"
    "f_packetSize s \<in> {3, 4}"
    using assms by (auto simp: fsp_ok_def word_less_nat_alt)
  have r: "ring_aligned 4 ?r" "ring_N ?r = 128" using collect_byte(1) [OF n(3), of ?n b] n by auto
  have suc: "unat (f_packetByteCount s + 1) = Suc ?n" using n(1,2) by (intro unat_Suc_small) auto
  have pos: "0 < (ucast (f_packetSize s) :: u32)" using n(5) by auto
  have "Suc ?n \<noteq> unat (f_packetSize s) \<Longrightarrow> f_packetByteCount s + 1 < ucast (f_packetSize s)"
    using n(1) suc by (simp add: word_less_nat_alt byte_cast_unat)
  then show ?thesis using r pos n(5) byte_ring.inv_commit [OF r(1)]
    unfolding fsp_byte [OF assms False] by (auto simp: fsp_ok_def)
qed

lemma handleFsp_total:
  assumes "f_packetSize s \<in> {3, 4}" "length q = 4"
  shows "\<exists>s'. handleFsp clock q s = Some s' \<and> f_packetSize s' = f_packetSize s \<and> f_packetByteCount s' = f_packetByteCount s"
  using assms by (auto simp: handleFsp_def dispatchRelative_fsp_def at_def Let_def case_prod_beta)

lemma foldM_handleFsp:
  assumes "f_packetSize s \<in> {3, 4}" "\<forall>q \<in> set qs. length q = 4"
  shows "\<exists>s'. foldM (handleFsp clock) qs s = Some s' \<and> f_packetSize s' = f_packetSize s \<and> f_packetByteCount s' = f_packetByteCount s"
  using assms
proof (induction qs arbitrary: s)
  case (Cons q qs)
  then obtain s1 where "handleFsp clock q s = Some s1" "f_packetSize s1 = f_packetSize s" "f_packetByteCount s1 = f_packetByteCount s"
    using handleFsp_total [of s q clock] by auto
  then show ?case using Cons.IH [of s1] Cons.prems by simp
qed simp

lemma packetReady_fsp_ok:
  assumes "fsp_ok s"
  shows "\<exists>s'. packetReady_fsp clock s = Some s' \<and> fsp_ok s'"
proof -
  let ?qs = "ring_packets 4 (f_ringBuffer s)"
  have "\<forall>q \<in> set ?qs. length q = 4" using assms ring_packets_lengths [of 4 "f_ringBuffer s"] by (auto simp: fsp_ok_def)
  then obtain s1 where s1: "foldM (handleFsp clock) ?qs s = Some s1" "f_packetSize s1 = f_packetSize s" "f_packetByteCount s1 = f_packetByteCount s"
    using foldM_handleFsp [of s ?qs clock] assms by (auto simp: fsp_ok_def)
  obtain r where "packetReady_fsp clock s = map_option (put_fring r) (foldM (handleFsp clock) ?qs s)" "ring_aligned 4 r" "ring_N r = 128"
    using packetReady_fsp_all [OF assms, of clock] by auto
  then show ?thesis using s1 assms by (auto simp: fsp_ok_put) (auto simp: fsp_ok_def)
qed

lemma fsp_apply_ok: "fsp_ok s \<Longrightarrow> \<exists>s'. fsp_apply clock ev s = Some s' \<and> fsp_ok s'"
proof (cases ev)
  case (FspParams d)
  assume "fsp_ok s"
  then show ?thesis using FspParams by (auto simp: setParamProperties_fsp_def fsp_ok_def Let_def split: option.split)
next
  case FspWake
  assume "fsp_ok s"
  then show ?thesis using FspWake
    by (auto simp: resetPackets_fsp_def fsp_ok_def ring_aligned_def ring_ok_def ring_reset_def ring_N_def)
next
  case (FspReply i)
  assume s: "fsp_ok s"
  then have "f_packetByteCount s < 4" by (auto simp: fsp_ok_def word_less_nat_alt)
  then show ?thesis using FspReply s by (auto simp: intellimouseReply_def fsp_ok_def)
next
  case (FspByte b)
  assume "fsp_ok s"
  then show ?thesis unfolding FspByte fsp_apply.simps by (rule fsp_byte_ok)
next
  case FspWorkLoop
  assume "fsp_ok s"
  then show ?thesis unfolding FspWorkLoop fsp_apply.simps by (rule packetReady_fsp_ok)
qed

lemma started_fsp_ok: "fsp_ok ((init_fsp p)\<lparr>f_packetSize := 3\<rparr>)"
  by (simp add: fsp_ok_def init_fsp_def ring_aligned_def ring_ok_def ring_init_def ring_reset_def ring_N_def)

text \<open>
  C37: Once start has set the size of a packet, the driver keeps its invariant through any sequence of bytes, work loop runs, changes of
  parameters, wake ups and answers to the wheel mouse handshake: it never writes outside its ring buffer, never collects more bytes than a
  packet has, and its work loop ends.
\<close>

theorem fsp_safe: "\<exists>s. foldM (fsp_apply clock) evs ((init_fsp p)\<lparr>f_packetSize := 3\<rparr>) = Some s \<and> fsp_ok s"
  by (rule foldM_invariant) (simp_all add: started_fsp_ok fsp_apply_ok)


end
