(* ===== verification/Daemon.thy ===== *)
theory Daemon
  imports PS2_Loop
begin

text \<open>
  The user space daemon (VoodooPS2Daemon/main.cpp): it watches USB mice come and go and tells the driver how many there are. The calls of the
  operating system are parameters: what the registry holds, and whether a call succeeds. Delays and log output are left out.
\<close>

text \<open>A USB interface with its registry properties, and whether memory and the interest notification for it can be had.\<close>

datatype cf_value = CFNumber u64 | CFOther

record usb_interface =
  us_id :: nat
  us_property :: "string \<Rightarrow> cf_value option"
  us_malloc :: bool
  us_interest :: bool

record daemon =
  g_MouseCount :: int \<comment> \<open>counts connected devices, far from the bounds of an \<^verbatim>\<open>int\<close>\<close>
  g_ioservice :: "string option" \<comment> \<open>the class of the driver it talks to\<close>
  g_startupDelay :: int
  g_notificationDelay :: int
  g_interests :: "nat list" \<comment> \<open>the interfaces whose \<^verbatim>\<open>NotificationData\<close> is allocated and registered\<close>
  g_sent :: "int list" \<comment> \<open>the values set as property MouseCount\<close>

definition init_daemon :: daemon where
  "init_daemon = \<lparr>g_MouseCount = 0, g_ioservice = None, g_startupDelay = 1000000, g_notificationDelay = 20000, g_interests = [], g_sent = []\<rparr>"

definition SendMouseCount :: "int \<Rightarrow> daemon \<Rightarrow> daemon" where
  "SendMouseCount nCount d = (if g_ioservice d \<noteq> None then d\<lparr>g_sent := g_sent d @ [nCount]\<rparr> else d)"

text \<open>Data that is not allocated any more must not be passed to the routine.\<close>

definition DeviceNotification :: "nat \<Rightarrow> bool \<Rightarrow> daemon \<Rightarrow> daemon option" where
  "DeviceNotification refCon terminated d =
     (if terminated then
        if refCon \<in> set (g_interests d) then
          let d = (if g_MouseCount d \<noteq> 0 then d\<lparr>g_MouseCount := g_MouseCount d - 1\<rparr> else d);
              d = d\<lparr>g_interests := remove1 refCon (g_interests d)\<rparr>
          in Some (SendMouseCount (g_MouseCount d) d)
        else None
      else Some d)"

definition GetNumericProperty :: "usb_interface \<Rightarrow> string \<Rightarrow> u64" where
  "GetNumericProperty service name = (case us_property service name of Some (CFNumber v) \<Rightarrow> v | _ \<Rightarrow> 0)"

definition isMouse :: "usb_interface \<Rightarrow> bool" where
  "isMouse service \<longleftrightarrow> GetNumericProperty service ''bInterfaceClass'' = 3 \<and> GetNumericProperty service ''bInterfaceSubClass'' = 1
     \<and> GetNumericProperty service ''bInterfaceProtocol'' = 2"

definition CheckForMouseAndRegisterInterest :: "usb_interface \<Rightarrow> daemon \<Rightarrow> daemon" where
  "CheckForMouseAndRegisterInterest service d =
     (if isMouse service then
        if us_malloc service then
          if \<not> us_interest service then d
          else d\<lparr>g_interests := g_interests d @ [us_id service], g_MouseCount := g_MouseCount d + 1\<rparr>
        else d
      else d)"

definition InterfaceAdded :: "usb_interface list \<Rightarrow> daemon \<Rightarrow> daemon" where
  "InterfaceAdded iter1 d =
     (let oldMouseCount = g_MouseCount d; d = fold CheckForMouseAndRegisterInterest iter1 d
      in if oldMouseCount \<noteq> g_MouseCount d then SendMouseCount (g_MouseCount d) d else d)"

definition SignalHandler1 :: "daemon \<Rightarrow> daemon" where
  "SignalHandler1 d = (SendMouseCount (- 1) (SendMouseCount 0 d))\<lparr>g_ioservice := None\<rparr>"

text \<open>\<^verbatim>\<open>atoi\<close>: blanks, a sign, digits; a value that is no \<^verbatim>\<open>int\<close> is undefined.\<close>

fun digitsValue :: "int \<Rightarrow> string \<Rightarrow> int" where
  "digitsValue v [] = v"
| "digitsValue v (c # cs) =
     (if of_char c \<in> {48 .. 57 :: int} then digitsValue (10 * v + (of_char c - 48)) cs else v)"

definition atoi :: "string \<Rightarrow> int option" where
  "atoi cs =
     (let cs = dropWhile (\<lambda>c. of_char c = (32 :: int) \<or> of_char c \<in> {9 .. 13 :: int}) cs;
          v = (case cs of c # r \<Rightarrow> if c = CHR ''-'' then - digitsValue 0 r else if c = CHR ''+'' then digitsValue 0 r else digitsValue 0 cs
               | [] \<Rightarrow> 0)
      in if - (2 ^ 31) \<le> v \<and> v < 2 ^ 31 then Some v else None)"

text \<open>
  The loop over the arguments from index i: behind the last argument there is a null pointer, which is compared like a string after a last
  argument --startupDelay.
\<close>

definition delayArg :: "(int \<Rightarrow> daemon \<Rightarrow> daemon) \<Rightarrow> string list \<Rightarrow> nat \<Rightarrow> daemon \<Rightarrow> (nat \<times> daemon) option" where
  "delayArg upd argv i d =
     (if i + 1 < length argv then do { v \<leftarrow> atoi (argv ! (i + 1)); Some (i + 1, upd v d) } else Some (i + 1, d))"

definition argStep :: "string list \<Rightarrow> nat \<Rightarrow> daemon \<Rightarrow> (nat \<times> daemon) option" where
  "argStep argv i d =
     do { (i, d) \<leftarrow> (if argv ! i = ''--startupDelay'' then delayArg (\<lambda>v d. d\<lparr>g_startupDelay := v\<rparr>) argv i d else Some (i, d));
          arg \<leftarrow> at argv i;
          if arg = ''--notificationDelay'' then delayArg (\<lambda>v d. d\<lparr>g_notificationDelay := v\<rparr>) argv i d else Some (i, d) }"

function parseArgs :: "string list \<Rightarrow> nat \<Rightarrow> daemon \<Rightarrow> daemon option" where
  "parseArgs argv i d =
     (if i < length argv then do { (i, d) \<leftarrow> argStep argv i d; parseArgs argv (i + 1) d } else Some d)"
  by pat_completeness auto
termination
  by (relation "measure (\<lambda>(argv, i, d). length argv - i)") (auto simp: argStep_def delayArg_def bind_eq_Some_conv split: if_splits)

declare parseArgs.simps [simp del]

text \<open>What \<^verbatim>\<open>main\<close> finds: the drivers in the registry, the results of the calls, the interfaces that are already there.\<close>

record daemon_env =
  de_touchpad :: bool
  de_mouse :: bool
  de_matchingDict :: bool
  de_notification :: bool
  de_present :: "usb_interface list"

text \<open>\<^verbatim>\<open>main\<close> up to the run loop (Inr), or its exit code (Inl).\<close>

definition main_daemon :: "daemon_env \<Rightarrow> string list \<Rightarrow> (int + daemon) option" where
  "main_daemon e argv =
     do { d \<leftarrow> parseArgs argv 1 init_daemon;
          let d = d\<lparr>g_ioservice := if de_touchpad e then Some ''ApplePS2SynapticsTouchPad'' else if de_mouse e then Some ''ApplePS2Mouse'' else None\<rparr>;
          if g_ioservice d = None then Some (Inl (- 1))
          else if \<not> de_matchingDict e then Some (Inl (- 1))
          else if \<not> de_notification e then Some (Inl (- 1))
          else Some (Inr (InterfaceAdded (de_present e) d)) }"

end
