(* ===== verification/Daemon_Correct.thy ===== *)
theory Daemon_Correct
  imports Daemon
begin

text \<open>
  The daemon counts the USB mice that it watches, and the driver always has the current count.
\<close>

subsection \<open>Definitions\<close>

text \<open>What the kernel may report: interfaces that appear, and the end of an interface that the daemon has asked about.\<close>

datatype usb_event = Appeared "usb_interface list" | Terminated nat | OtherMessage nat

fun daemon_apply :: "usb_event \<Rightarrow> daemon \<Rightarrow> daemon option" where
  "daemon_apply (Appeared is) d = Some (InterfaceAdded is d)"
| "daemon_apply (Terminated i) d = DeviceNotification i True d"
| "daemon_apply (OtherMessage i) d = DeviceNotification i False d"

text \<open>The connected mice, by what happened on the bus; an interface counts when the daemon got to watch it.\<close>

definition watchedMice :: "usb_interface list \<Rightarrow> nat list" where
  "watchedMice is = map us_id (filter (\<lambda>i. isMouse i \<and> us_malloc i \<and> us_interest i) is)"

fun connected :: "nat list \<Rightarrow> usb_event list \<Rightarrow> nat list" where
  "connected ms [] = ms"
| "connected ms (Appeared is # evs) = connected (ms @ watchedMice is) evs"
| "connected ms (Terminated i # evs) = connected (remove1 i ms) evs"
| "connected ms (OtherMessage i # evs) = connected ms evs"

fun possible :: "nat list \<Rightarrow> usb_event list \<Rightarrow> bool" where
  "possible ms [] \<longleftrightarrow> True"
| "possible ms (Appeared is # evs) \<longleftrightarrow> possible (ms @ watchedMice is) evs"
| "possible ms (Terminated i # evs) \<longleftrightarrow> i \<in> set ms \<and> possible (remove1 i ms) evs"
| "possible ms (OtherMessage i # evs) \<longleftrightarrow> possible ms evs"

definition known :: "daemon \<Rightarrow> bool" where
  "known d \<longleftrightarrow> g_MouseCount d = int (length (g_interests d)) \<and> g_ioservice d \<noteq> None
     \<and> (if g_sent d = [] then g_MouseCount d = 0 else last (g_sent d) = g_MouseCount d)"

definition demo_usb_mouse :: usb_interface where
  "demo_usb_mouse = \<lparr>us_id = 3, us_property = [''bInterfaceClass'' \<mapsto> CFNumber 3, ''bInterfaceSubClass'' \<mapsto> CFNumber 1,
     ''bInterfaceProtocol'' \<mapsto> CFNumber 2], us_malloc = True, us_interest = True\<rparr>"

definition demo_denv :: daemon_env where
  "demo_denv = \<lparr>de_touchpad = True, de_mouse = False, de_matchingDict = True, de_notification = True, de_present = []\<rparr>"

lemma check_fold:
  "g_interests (fold CheckForMouseAndRegisterInterest is d) = g_interests d @ watchedMice is \<and>
   g_MouseCount (fold CheckForMouseAndRegisterInterest is d) = g_MouseCount d + int (length (watchedMice is)) \<and>
   g_ioservice (fold CheckForMouseAndRegisterInterest is d) = g_ioservice d \<and> g_sent (fold CheckForMouseAndRegisterInterest is d) = g_sent d"
  by (induction "is" arbitrary: d) (auto simp: CheckForMouseAndRegisterInterest_def watchedMice_def)

lemma added_known: "known d \<Longrightarrow> known (InterfaceAdded is d) \<and> g_interests (InterfaceAdded is d) = g_interests d @ watchedMice is"
  using check_fold [of "is" d] by (auto simp: known_def InterfaceAdded_def SendMouseCount_def Let_def)

lemma terminated_known:
  assumes "known d" "i \<in> set (g_interests d)"
  shows "\<exists>d'. DeviceNotification i True d = Some d' \<and> known d' \<and> g_interests d' = remove1 i (g_interests d)"
proof -
  have "0 < length (g_interests d)" using assms(2) by (cases "g_interests d") auto
  then show ?thesis using assms
    by (auto simp: DeviceNotification_def known_def SendMouseCount_def Let_def length_remove1 of_nat_diff Suc_leI)
qed

lemma run_known:
  "known d \<Longrightarrow> possible (g_interests d) evs \<Longrightarrow>
     \<exists>d'. foldM daemon_apply evs d = Some d' \<and> known d' \<and> g_interests d' = connected (g_interests d) evs"
proof (induction evs arbitrary: d)
  case (Cons ev evs)
  show ?case
  proof (cases ev)
    case (Appeared "is")
    then show ?thesis using Cons.IH [of "InterfaceAdded is d"] added_known [OF Cons.prems(1), of "is"] Cons.prems(2) by simp
  next
    case (Terminated i)
    then obtain d1 where "DeviceNotification i True d = Some d1" "known d1" "g_interests d1 = remove1 i (g_interests d)"
      using terminated_known [OF Cons.prems(1)] Cons.prems(2) by auto
    then show ?thesis using Terminated Cons.IH [of d1] Cons.prems(2) by simp
  next
    case (OtherMessage i)
    then show ?thesis using Cons.IH [of d] Cons.prems by (simp add: DeviceNotification_def)
  qed
qed simp

lemma delayArg_frame:
  assumes "delayArg upd argv i d = Some (i', d')" "\<And>v. P (upd v d) = P d"
  shows "P d' = P d"
  using assms by (auto simp: delayArg_def bind_eq_Some_conv split: if_splits)

lemma argStep_frame:
  assumes "argStep argv i d = Some (i', d')"
  shows "(g_MouseCount d', g_interests d', g_sent d') = (g_MouseCount d, g_interests d, g_sent d)"
proof -
  let ?P = "\<lambda>d. (g_MouseCount d, g_interests d, g_sent d)"
  obtain i1 d1 where "(if argv ! i = ''--startupDelay'' then delayArg (\<lambda>v d. d\<lparr>g_startupDelay := v\<rparr>) argv i d else Some (i, d)) = Some (i1, d1)"
    "(if argv ! i1 = ''--notificationDelay'' then delayArg (\<lambda>v d. d\<lparr>g_notificationDelay := v\<rparr>) argv i1 d1 else Some (i1, d1)) = Some (i', d')"
    using assms by (auto simp: argStep_def bind_eq_Some_conv at_def split: if_splits)
  then have "?P d1 = ?P d" "?P d' = ?P d1"
    using delayArg_frame [of "\<lambda>v d. d\<lparr>g_startupDelay := v\<rparr>" argv i d i1 d1 ?P]
      delayArg_frame [of "\<lambda>v d. d\<lparr>g_notificationDelay := v\<rparr>" argv i1 d1 i' d' ?P] by (simp_all split: if_splits)
  then show ?thesis by simp
qed

lemma parseArgs_frame:
  "parseArgs argv i d = Some d' \<Longrightarrow> (g_MouseCount d', g_interests d', g_sent d') = (g_MouseCount d, g_interests d, g_sent d)"
proof (induction argv i d rule: parseArgs.induct)
  case (1 argv i d)
  show ?case
  proof (cases "i < length argv")
    case True
    then obtain i1 d1 where "argStep argv i d = Some (i1, d1)" "parseArgs argv (i1 + 1) d1 = Some d'"
      using "1.prems" by (subst (asm) parseArgs.simps) (auto simp: bind_eq_Some_conv)
    then show ?thesis using "1.IH" [OF True, of "(i1, d1)" i1 d1] argStep_frame [of argv i d i1 d1] by simp
  next
    case False
    then show ?thesis using "1.prems" by (simp add: parseArgs.simps)
  qed
qed

lemma main_known: "main_daemon e argv = Some (Inr d) \<Longrightarrow> known d \<and> g_interests d = watchedMice (de_present e)"
proof -
  assume "main_daemon e argv = Some (Inr d)"
  then obtain d0 s where d0: "parseArgs argv 1 init_daemon = Some d0" "d = InterfaceAdded (de_present e) (d0\<lparr>g_ioservice := Some s\<rparr>)"
    by (auto simp: main_daemon_def bind_eq_Some_conv Let_def split: if_splits)
  then have "known (d0\<lparr>g_ioservice := Some s\<rparr>)" "g_interests (d0\<lparr>g_ioservice := Some s\<rparr>) = []"
    using parseArgs_frame [OF d0(1)] by (simp_all add: known_def init_daemon_def)
  then show ?thesis using added_known d0(2) by simp
qed

text \<open>
  C13: Once the daemon runs, every possible sequence of notifications leaves its count equal to the number of connected mice that it watches,
  the last count that it sent to the driver is this number, and it never uses notification data that it has freed.
\<close>

theorem mouse_count_tracked:
  assumes "main_daemon e argv = Some (Inr d)" "possible (watchedMice (de_present e)) evs"
  shows "\<exists>d'. foldM daemon_apply evs d = Some d' \<and> g_MouseCount d' = int (length (connected (watchedMice (de_present e)) evs))
    \<and> (if g_sent d' = [] then connected (watchedMice (de_present e)) evs = [] else last (g_sent d') = g_MouseCount d')"
  using run_known [of d evs] main_known [OF assms(1)] assms(2) by (fastforce simp: known_def)

text \<open>With the option --startupDelay as the last argument the loop compares a null pointer.\<close>

lemma startupDelay_last_undefined: "parseArgs [prog, ''--startupDelay''] 1 d = None"
  by (simp add: parseArgs.simps argStep_def delayArg_def at_def)

lemma demo_watched: "watchedMice [demo_usb_mouse] = [3]"
  by (simp add: watchedMice_def isMouse_def GetNumericProperty_def demo_usb_mouse_def)

theorem mouse_count_tracked_witness:
  "\<exists>d d'. main_daemon demo_denv [''d'', ''--notificationDelay'', ''5''] = Some (Inr d)
     \<and> foldM daemon_apply [Appeared [demo_usb_mouse], OtherMessage 3, Terminated 3, Appeared [demo_usb_mouse]] d = Some d' \<and> g_MouseCount d' = 1"
proof -
  have "atoi ''5'' = Some 5" by code_simp
  then obtain d where d: "main_daemon demo_denv [''d'', ''--notificationDelay'', ''5''] = Some (Inr d)"
    by (simp add: main_daemon_def demo_denv_def parseArgs.simps argStep_def delayArg_def at_def Let_def)
  have "watchedMice (de_present demo_denv) = []" by (simp add: demo_denv_def watchedMice_def)
  then show ?thesis
    using mouse_count_tracked [OF d, of "[Appeared [demo_usb_mouse], OtherMessage 3, Terminated 3, Appeared [demo_usb_mouse]]"] d
    by (auto simp: demo_watched simp del: foldM.simps)
qed

end
